(* ===== verification/Churn_Prelude.thy ===== *)
theory Churn_Prelude
  imports
    Complex_Main
    "HOL-Library.List_Lexorder"
    "HOL-Library.Char_ord"
    "HOL-Library.Product_Lexorder"
    "HOL-Library.Multiset"
begin

text \<open>
  Shared vocabulary of the churn development: the types that name the columns of the
  SQLite tables built by \<^verbatim>\<open>src/bd/criar_banco_sqlite.py\<close>, the collection of
  evaluation rules that the component theories extend, and generic lemmas on lists
  (counting by a predicate, partitioning by a key) that every aggregation proof uses.
  Text values are \<open>string\<close> and compare with the lexicographic order of
  \<^verbatim>\<open>HOL-Library.List_Lexorder\<close> over the byte order of \<^verbatim>\<open>Char_ord\<close>, which is SQLite's
  default BINARY collation for ASCII text.
\<close>

named_theorems churn_simps "evaluation rules of the churn model, used by witnesses"

type_synonym cliente_id = int
type_synonym cartao_id = int
type_synonym texto = string

section \<open>Counting by a predicate\<close>

lemma length_filter_three_way:
  assumes "\<And>x. x \<in> set xs \<Longrightarrow> (P x \<and> \<not> Q x \<and> \<not> R x) \<or> (\<not> P x \<and> Q x \<and> \<not> R x) \<or> (\<not> P x \<and> \<not> Q x \<and> R x)"
  shows "length (filter P xs) + length (filter Q xs) + length (filter R xs) = length xs"
  using assms by (induction xs) auto

lemma length_filter_mono_pred:
  assumes "\<And>x. x \<in> set xs \<Longrightarrow> P x \<Longrightarrow> Q x"
  shows "length (filter P xs) \<le> length (filter Q xs)"
  using assms by (induction xs) auto

lemma filter_filter_comm: "filter P (filter Q xs) = filter Q (filter P xs)"
  by (induction xs) auto

lemma length_filter_mem_distinct:
  assumes "distinct xs" and "distinct ys" and "set ys \<subseteq> set xs"
  shows "length (filter (\<lambda>x. x \<in> set ys) xs) = length ys"
proof -
  have "set (filter (\<lambda>x. x \<in> set ys) xs) = set ys" using assms(3) by auto
  then show ?thesis
    using assms(1,2) by (metis distinct_card distinct_filter)
qed

lemma length_filter_subset_distinct:
  assumes "distinct xs" and "distinct ys" and "set xs \<subseteq> set ys"
  shows "length (filter P xs) \<le> length (filter P ys)"
proof -
  have "card (set (filter P xs)) \<le> card (set (filter P ys))"
    using assms(3) by (intro card_mono) auto
  then show ?thesis using assms(1,2) by (simp add: distinct_card [symmetric])
qed

lemma sum_list_indicador: "(\<Sum>x\<leftarrow>xs. if P x then 0 else 1) = length (filter (\<lambda>x. \<not> P x) xs)"
  by (induction xs) simp_all

lemma count_list_distinct_mem: "distinct xs \<Longrightarrow> x \<in> set xs \<Longrightarrow> count_list xs x = 1"
  by (induction xs) auto

section \<open>Partitioning by a key\<close>

text \<open>
  Grouping a list by a key and summing the sizes of the groups gives the length of
  the list back, for any duplicate-free enumeration of the keys that covers the list:
  every element is counted in exactly one group.
\<close>

lemma sum_list_group_sizes:
  assumes "distinct ks" and "set (map f xs) \<subseteq> set ks"
  shows "(\<Sum>k\<leftarrow>ks. length (filter (\<lambda>x. f x = k) xs)) = length xs"
  using assms(2)
proof (induction xs)
  case Nil
  then show ?case by simp
next
  case (Cons x xs)
  have split: "(\<Sum>k\<leftarrow>ks. length (filter (\<lambda>y. f y = k) (x # xs)))
      = (\<Sum>k\<leftarrow>ks. (if f x = k then 1 else 0)) + (\<Sum>k\<leftarrow>ks. length (filter (\<lambda>y. f y = k) xs))"
    by (induction ks) auto
  have one: "(\<Sum>k\<leftarrow>ks. (if f x = k then 1 else 0 :: nat)) = 1"
    using assms(1) Cons.prems
    by (simp add: sum_list_distinct_conv_sum_set)
  from Cons show ?case
    by (simp only: split one) simp
qed

corollary sum_list_group_sizes_remdups:
  "(\<Sum>k\<leftarrow>remdups (map f xs). length (filter (\<lambda>x. f x = k) xs)) = length xs"
  by (rule sum_list_group_sizes) auto

lemma sum_list_map_perm:
  fixes f :: "'a \<Rightarrow> 'b::comm_monoid_add"
  assumes "mset xs = mset ys"
  shows "(\<Sum>x\<leftarrow>xs. f x) = (\<Sum>x\<leftarrow>ys. f x)"
proof -
  have "sum_mset (mset (map f xs)) = sum_mset (mset (map f ys))"
    using assms by simp
  then show ?thesis by (simp only: sum_mset_sum_list)
qed

section \<open>Counting multiples\<close>

text \<open>Stepping the numerator of \<open>(a + k) div (k + 1)\<close> by one adds one exactly when
  \<open>a\<close> is a multiple of \<open>k + 1\<close>: the count of multiples below a bound.\<close>

lemma Suc_div_step: "Suc (a + k) div Suc k = (a + k) div Suc k + (if Suc k dvd a then 1 else 0)"
proof -
  have e: "Suc (a + k) = a + Suc k" by simp
  have "(a + Suc k) div Suc k = a div Suc k + 1" by (rule div_add_self2) simp
  then have l: "Suc (a + k) div Suc k = a div Suc k + 1" by (simp only: e)
  have r: "(a + k) div Suc k = a div Suc k + (if Suc k dvd a then 0 else 1)"
  proof -
    have "(a + k) div Suc k = a div Suc k + (a mod Suc k + k) div Suc k"
      by (metis div_mult_mod_eq add.assoc div_mult_self1 nat.discI add.commute)
    moreover have "(a mod Suc k + k) div Suc k = (if Suc k dvd a then 0 else 1)"
    proof (cases "Suc k dvd a")
      case True
      then show ?thesis by simp
    next
      case False
      then have p: "0 < a mod Suc k" by (simp add: dvd_eq_mod_eq_0)
      have m: "a mod Suc k < Suc (Suc k)" by (rule less_SucI) simp
      have "(a mod Suc k + k) div Suc k = 1"
        by (rule div_nat_eqI) (use p m in simp_all)
      then show ?thesis using False by simp
    qed
    ultimately show ?thesis by simp
  qed
  show ?thesis using l r by simp
qed

section \<open>Lexicographic order of texts\<close>

text \<open>
  Two texts whose first parts have the same length compare on the first parts, and on
  the rest where the first parts agree; a proper prefix is smaller than the text.
\<close>

lemma append_less_append_same_length:
  fixes xs xs' ys ys' :: "'a::linorder list"
  assumes "length xs = length xs'"
  shows "xs @ ys < xs' @ ys' \<longleftrightarrow> xs < xs' \<or> xs = xs' \<and> ys < ys'"
  using assms
proof (induction xs arbitrary: xs')
  case Nil
  then show ?case by simp
next
  case (Cons x xs)
  then obtain x' zs where "xs' = x' # zs" and "length xs = length zs"
    by (cases xs') auto
  with Cons.IH show ?case by auto
qed

lemma less_append_Cons: "(xs::'a::linorder list) < xs @ z # zs"
  by (induction xs) auto

lemma fst_mono_lex: "(a::'a::linorder \<times> 'b::linorder) \<le> b \<Longrightarrow> fst a \<le> fst b"
  by (cases a, cases b) (auto simp: less_eq_prod_def)

section \<open>Maximum of a list, with an empty list as absent value\<close>

lemma Max_set_gt_iff:
  fixes xs :: "'a::linorder list"
  assumes "xs \<noteq> []"
  shows "c < Max (set xs) \<longleftrightarrow> (\<exists>x\<in>set xs. c < x)"
  using assms by (simp add: Max_gr_iff)

lemma Max_set_ge_iff:
  fixes xs :: "'a::linorder list"
  assumes "xs \<noteq> []"
  shows "c \<le> Max (set xs) \<longleftrightarrow> (\<exists>x\<in>set xs. c \<le> x)"
  using assms by (simp add: Max_ge_iff)

lemma sum_list_sort_key [simp]:
  fixes f :: "'a \<Rightarrow> 'b::comm_monoid_add"
  shows "(\<Sum>x\<leftarrow>sort_key k xs. f x) = (\<Sum>x\<leftarrow>xs. f x)"
  using sum_list_map_perm [of "sort_key k xs" xs f] by simp

lemma length_remdups_map_le: "length (remdups (map f xs)) \<le> length (remdups xs)"
  by (simp add: length_remdups_card_conv card_image_le)

end
