(* ===== verification/Sql_Semantics.thy ===== *)
theory Sql_Semantics
  imports Churn_Prelude
begin

text \<open>
  The fragment of SQLite that the churn queries of the repository use, as list
  functions: a table is a list of rows, \<^verbatim>\<open>LEFT JOIN\<close> pairs each row with its
  matches (or with \<open>None\<close>, SQL's NULL row), \<^verbatim>\<open>COUNT(CASE WHEN c THEN 1 END)\<close> counts
  the rows where \<open>c\<close> holds, \<^verbatim>\<open>GROUP BY\<close> collects the rows of each key, \<^verbatim>\<open>MAX\<close> of an
  empty group is NULL, a comparison with NULL is NULL and \<^verbatim>\<open>CASE WHEN\<close> takes the
  \<^verbatim>\<open>ELSE\<close> branch on NULL, and \<^verbatim>\<open>ROUND(x, 2)\<close> rounds half away from zero.
  Row order inside a result is not specified by SQL; the lemmas below are stated so
  that they do not depend on it (counts, sums and sets).
\<close>

section \<open>Joins, counts and groups\<close>

definition left_join :: "('a \<Rightarrow> 'k) \<Rightarrow> 'a list \<Rightarrow> 'k list \<Rightarrow> ('a \<times> 'k option) list" where
  "left_join key rows ks =
     concat (map (\<lambda>r. case filter (\<lambda>k. k = key r) ks of
                        [] \<Rightarrow> [(r, None)]
                      | ms \<Rightarrow> map (\<lambda>m. (r, Some m)) ms) rows)"

definition count_when :: "('a \<Rightarrow> bool) \<Rightarrow> 'a list \<Rightarrow> nat" where
  "count_when c rows = length (filter c rows)"

definition group_by :: "('a \<Rightarrow> 'k) \<Rightarrow> 'a list \<Rightarrow> ('k \<times> 'a list) list" where
  "group_by key rows = map (\<lambda>k. (k, filter (\<lambda>r. key r = k) rows)) (remdups (map key rows))"

section \<open>NULL, MAX and ROUND\<close>

fun sql_max :: "'a::linorder list \<Rightarrow> 'a option" where
  "sql_max [] = None"
| "sql_max (x # xs) = Some (fold max xs x)"

definition sql_less :: "'a::ord option \<Rightarrow> 'a option \<Rightarrow> bool option" where
  "sql_less a b = (case (a, b) of (Some x, Some y) \<Rightarrow> Some (x < y) | _ \<Rightarrow> None)"

definition sql_case_when :: "bool option \<Rightarrow> 'b \<Rightarrow> 'b \<Rightarrow> 'b" where
  "sql_case_when c t e = (case c of Some True \<Rightarrow> t | _ \<Rightarrow> e)"

definition sql_round2 :: "real \<Rightarrow> real" where
  "sql_round2 x =
     (if x < 0 then - (of_int \<lfloor>- x * 100 + 1 / 2\<rfloor> / 100)
      else of_int \<lfloor>x * 100 + 1 / 2\<rfloor> / 100)"

text \<open>
  The other comparisons of the queries: \<^verbatim>\<open><=\<close>, \<^verbatim>\<open>=\<close> and \<^verbatim>\<open>x BETWEEN a AND b\<close>
  (that is \<^verbatim>\<open>a <= x AND x <= b\<close>), NULL when an operand is NULL;
  \<^verbatim>\<open>COALESCE(x, d)\<close>; and \<^verbatim>\<open>ROUND(x)\<close> with no digits, which also rounds half away
  from zero and returns a REAL.
\<close>

definition sql_le :: "'a::ord option \<Rightarrow> 'a option \<Rightarrow> bool option" where
  "sql_le a b = (case (a, b) of (Some x, Some y) \<Rightarrow> Some (x \<le> y) | _ \<Rightarrow> None)"

definition sql_eq :: "'a option \<Rightarrow> 'a option \<Rightarrow> bool option" where
  "sql_eq a b = (case (a, b) of (Some x, Some y) \<Rightarrow> Some (x = y) | _ \<Rightarrow> None)"

definition sql_between :: "'a::ord option \<Rightarrow> 'a option \<Rightarrow> 'a option \<Rightarrow> bool option" where
  "sql_between x a b =
     (case (x, a, b) of (Some v, Some l, Some h) \<Rightarrow> Some (l \<le> v \<and> v \<le> h) | _ \<Rightarrow> None)"

definition sql_coalesce :: "'a option \<Rightarrow> 'a \<Rightarrow> 'a" where
  "sql_coalesce x d = (case x of Some v \<Rightarrow> v | None \<Rightarrow> d)"

definition sql_round0 :: "real \<Rightarrow> real" where
  "sql_round0 x = (if x < 0 then - of_int \<lfloor>- x + 1 / 2\<rfloor> else of_int \<lfloor>x + 1 / 2\<rfloor>)"

text \<open>\<^verbatim>\<open>a LEFT JOIN b ON p\<close> for an arbitrary join condition, and \<^verbatim>\<open>AVG\<close>, which
  skips NULLs and is NULL on a group without values.\<close>

definition left_join_por :: "('a \<Rightarrow> 'b \<Rightarrow> bool) \<Rightarrow> 'a list \<Rightarrow> 'b list \<Rightarrow> ('a \<times> 'b option) list" where
  "left_join_por p xs ys =
     concat (map (\<lambda>x. case filter (p x) ys of [] \<Rightarrow> [(x, None)] | ms \<Rightarrow> map (\<lambda>m. (x, Some m)) ms) xs)"

definition sql_avg :: "real option list \<Rightarrow> real option" where
  "sql_avg xs = (let vs = List.map_filter id xs in if vs = [] then None else Some (sum_list vs / real (length vs)))"

text \<open>\<^verbatim>\<open>a INNER JOIN b ON p\<close>: every pair of rows that satisfies the condition.\<close>

definition inner_join :: "('a \<Rightarrow> 'b \<Rightarrow> bool) \<Rightarrow> 'a list \<Rightarrow> 'b list \<Rightarrow> ('a \<times> 'b) list" where
  "inner_join p xs ys = concat (map (\<lambda>x. map (\<lambda>y. (x, y)) (filter (p x) ys)) xs)"

declare count_when_def [churn_simps] group_by_def [churn_simps]
  sql_less_def [churn_simps] sql_case_when_def [churn_simps] sql_round2_def [churn_simps]
  sql_le_def [churn_simps] sql_eq_def [churn_simps] sql_between_def [churn_simps]
  sql_coalesce_def [churn_simps] sql_round0_def [churn_simps] inner_join_def [churn_simps]
  left_join_por_def [churn_simps] sql_avg_def [churn_simps]

section \<open>Properties of the operators\<close>

text \<open>A LEFT JOIN against a duplicate-free key list keeps every row exactly once.\<close>

lemma left_join_distinct:
  assumes "distinct ks"
  shows "left_join key rows ks = map (\<lambda>r. (r, if key r \<in> set ks then Some (key r) else None)) rows"
proof -
  have one: "filter (\<lambda>k. k = key r) ks = (if key r \<in> set ks then [key r] else [])" for r
    using assms by (induction ks) (auto simp: filter_empty_conv)
  show ?thesis
    unfolding left_join_def by (induction rows) (simp_all add: one)
qed

lemma length_left_join_distinct:
  "distinct ks \<Longrightarrow> length (left_join key rows ks) = length rows"
  by (simp add: left_join_distinct)

text \<open>A LEFT JOIN against a list with repeated keys repeats the row once per match.\<close>

lemma length_filter_eq_count_list: "length (filter (\<lambda>k. k = x) ks) = count_list ks x"
  by (induction ks) auto

lemma left_join_Some_count:
  "length (filter (\<lambda>x. snd x \<noteq> None) (left_join key rows ks)) = (\<Sum>r\<leftarrow>rows. count_list ks (key r))"
proof (induction rows)
  case Nil
  then show ?case by (simp add: left_join_def)
next
  case (Cons r rows)
  have "length (filter (\<lambda>x. snd x \<noteq> None)
      (case filter (\<lambda>k. k = key r) ks of [] \<Rightarrow> [(r, None)] | ms \<Rightarrow> map (\<lambda>m. (r, Some m)) ms))
      = count_list ks (key r)"
    by (cases "filter (\<lambda>k. k = key r) ks") (simp_all add: length_filter_eq_count_list [symmetric] comp_def)
  with Cons show ?case by (simp add: left_join_def)
qed

lemma left_join_None_count:
  "length (filter (\<lambda>x. snd x = None) (left_join key rows ks)) = length (filter (\<lambda>r. key r \<notin> set ks) rows)"
proof (induction rows)
  case Nil
  then show ?case by (simp add: left_join_def)
next
  case (Cons r rows)
  have "length (filter (\<lambda>x. snd x = None)
      (case filter (\<lambda>k. k = key r) ks of [] \<Rightarrow> [(r, None)] | ms \<Rightarrow> map (\<lambda>m. (r, Some m)) ms))
      = (if key r \<in> set ks then 0 else 1)"
  proof -
    have e: "filter (\<lambda>k. k = key r) ks = [] \<longleftrightarrow> key r \<notin> set ks" by (auto simp: filter_empty_conv)
    show ?thesis by (cases "filter (\<lambda>k. k = key r) ks") (use e in \<open>auto simp: comp_def\<close>)
  qed
  with Cons show ?case by (simp add: left_join_def)
qed

lemma count_when_le: "count_when c rows \<le> length rows"
  by (simp add: count_when_def)

lemma group_by_keys_distinct: "distinct (map fst (group_by key rows))"
  by (simp add: group_by_def comp_def)

lemma group_by_nonempty: "(k, g) \<in> set (group_by key rows) \<Longrightarrow> g \<noteq> []"
  by (auto simp: group_by_def filter_empty_conv)

lemma group_by_member:
  "(k, g) \<in> set (group_by key rows) \<Longrightarrow> r \<in> set g \<longleftrightarrow> r \<in> set rows \<and> key r = k"
  by (auto simp: group_by_def)

lemma group_by_sizes: "(\<Sum>(k, g)\<leftarrow>group_by key rows. length g) = length rows"
proof -
  have "(\<Sum>(k, g)\<leftarrow>group_by key rows. length g)
      = (\<Sum>k\<leftarrow>remdups (map key rows). length (filter (\<lambda>r. key r = k) rows))"
    by (simp add: group_by_def comp_def)
  also have "\<dots> = length rows"
    by (rule sum_list_group_sizes_remdups)
  finally show ?thesis .
qed

lemma group_by_sum_filter:
  "(\<Sum>(k, g)\<leftarrow>group_by key rows. length (filter P g)) = length (filter P rows)"
proof -
  have "(\<Sum>(k, g)\<leftarrow>group_by key rows. length (filter P g))
      = (\<Sum>k\<leftarrow>remdups (map key rows). length (filter P (filter (\<lambda>r. key r = k) rows)))"
    by (simp only: group_by_def map_map comp_def prod.case)
  also have "\<dots> = (\<Sum>k\<leftarrow>remdups (map key rows). length (filter (\<lambda>r. key r = k) (filter P rows)))"
    by (intro arg_cong [where f = sum_list] map_cong refl) (rule arg_cong [where f = length], rule filter_filter_comm)
  also have "\<dots> = length (filter P rows)"
    by (rule sum_list_group_sizes) auto
  finally show ?thesis .
qed

lemma sql_max_None: "sql_max xs = None \<longleftrightarrow> xs = []"
  by (cases xs) auto

lemma sql_max_Max: "xs \<noteq> [] \<Longrightarrow> sql_max xs = Some (Max (set xs))"
proof (cases xs)
  case (Cons a l)
  then show ?thesis by (simp only: sql_max.simps Max.set_eq_fold)
qed simp

lemma sql_max_less_iff:
  "sql_max xs = Some m \<Longrightarrow> c < m \<longleftrightarrow> (\<exists>x\<in>set xs. c < x)"
  by (cases "xs = []") (auto simp: sql_max_None sql_max_Max Max_set_gt_iff)

text \<open>Evaluation of the three-valued operators on present and absent values.\<close>

lemma sql_case_when_simps [simp]:
  "sql_case_when (Some b) t e = (if b then t else e)"
  "sql_case_when None t e = e"
  by (simp_all add: sql_case_when_def)

lemma sql_compare_simps [simp]:
  fixes x y v l h :: "'a::ord" and a b :: "'a option"
  shows "sql_less (Some x) (Some y) = Some (x < y)" "sql_less None b = None" "sql_less a None = None"
  "sql_le (Some x) (Some y) = Some (x \<le> y)" "sql_le None b = None" "sql_le a None = None"
  "sql_eq (Some x) (Some y) = Some (x = y)" "sql_eq None b = None" "sql_eq a None = None"
  "sql_between (Some v) (Some l) (Some h) = Some (l \<le> v \<and> v \<le> h)" "sql_between None a b = None"
  by (simp_all add: sql_less_def sql_le_def sql_eq_def sql_between_def split: option.splits)

lemma set_inner_join: "set (inner_join p xs ys) = {(x, y). x \<in> set xs \<and> y \<in> set ys \<and> p x y}"
  by (auto simp: inner_join_def)

lemma sql_round0_bounds: "x - 1 / 2 \<le> sql_round0 x \<and> sql_round0 x \<le> x + 1 / 2"
proof (cases "x < 0")
  case True
  have "of_int \<lfloor>- x + 1 / 2\<rfloor> \<le> - x + 1 / 2" and "- x + 1 / 2 < of_int \<lfloor>- x + 1 / 2\<rfloor> + 1"
    by linarith+
  moreover have "sql_round0 x = - of_int \<lfloor>- x + 1 / 2\<rfloor>"
    by (simp only: sql_round0_def if_P [OF True])
  ultimately show ?thesis by linarith
next
  case False
  have "of_int \<lfloor>x + 1 / 2\<rfloor> \<le> x + 1 / 2" and "x + 1 / 2 < of_int \<lfloor>x + 1 / 2\<rfloor> + 1"
    by linarith+
  moreover have "sql_round0 x = of_int \<lfloor>x + 1 / 2\<rfloor>"
    by (simp only: sql_round0_def if_not_P [OF False])
  ultimately show ?thesis by linarith
qed

text \<open>The values that \<^verbatim>\<open>ROUND\<close> sends to \<open>-1\<close>: a half-open interval, closed on the side
  of zero because halves round away from it.\<close>

lemma sql_round0_minus_one: "sql_round0 x = -1 \<longleftrightarrow> - 3 / 2 < x \<and> x \<le> - 1 / 2"
proof (cases "x < 0")
  case True
  have "sql_round0 x = -1 \<longleftrightarrow> \<lfloor>- x + 1 / 2\<rfloor> = 1"
    using True by (simp add: sql_round0_def)
  also have "\<dots> \<longleftrightarrow> 1 \<le> - x + 1 / 2 \<and> - x + 1 / 2 < 2"
    by (simp add: floor_eq_iff)
  finally show ?thesis by linarith
next
  case False
  have "0 \<le> real_of_int \<lfloor>x + 1 / 2\<rfloor>" using False by simp
  moreover have "sql_round0 x = of_int \<lfloor>x + 1 / 2\<rfloor>"
    by (simp only: sql_round0_def if_not_P [OF False])
  ultimately have "sql_round0 x \<noteq> -1" by linarith
  with False show ?thesis by simp
qed

text \<open>\<^verbatim>\<open>MAX\<close> commutes with a map that preserves the order of the values.\<close>

lemma sql_max_map_mono:
  assumes "\<forall>x\<in>set xs. \<forall>y\<in>set xs. f x \<le> f y \<longleftrightarrow> x \<le> y"
  shows "sql_max (map f xs) = map_option f (sql_max xs)"
proof (cases "xs = []")
  case True
  then show ?thesis by simp
next
  case False
  let ?m = "Max (set xs)"
  have m: "?m \<in> set xs" using False by simp
  have "Max (set (map f xs)) = f ?m"
  proof (rule Max_eqI)
    show "finite (set (map f xs))" by simp
    show "f ?m \<in> set (map f xs)" using m by simp
    fix y assume "y \<in> set (map f xs)"
    then obtain x where x: "x \<in> set xs" and y: "y = f x" by auto
    have "x \<le> ?m" using x by simp
    then show "y \<le> f ?m" using assms x m y by blast
  qed
  then show ?thesis using False by (simp add: sql_max_Max)
qed

lemma sql_round2_nonneg: "0 \<le> x \<Longrightarrow> 0 \<le> sql_round2 x"
  by (simp add: sql_round2_def)

lemma sql_round2_error: "\<bar>sql_round2 x - x\<bar> \<le> 1 / 200"
proof (cases "x < 0")
  case True
  define f where "f = \<lfloor>- x * 100 + 1 / 2\<rfloor>"
  have "of_int f \<le> - x * 100 + 1 / 2" and "- x * 100 + 1 / 2 < of_int f + 1"
    unfolding f_def by linarith+
  moreover have "sql_round2 x = - (of_int f / 100)"
    using True by (simp add: sql_round2_def f_def)
  ultimately show ?thesis unfolding abs_le_iff by linarith
next
  case False
  define f where "f = \<lfloor>x * 100 + 1 / 2\<rfloor>"
  have "of_int f \<le> x * 100 + 1 / 2" and "x * 100 + 1 / 2 < of_int f + 1"
    unfolding f_def by linarith+
  moreover have "sql_round2 x = of_int f / 100"
    using False by (simp add: sql_round2_def f_def)
  ultimately show ?thesis unfolding abs_le_iff by linarith
qed

lemma sql_round2_cents: "\<exists>k. sql_round2 x = of_int k / 100"
proof (cases "x < 0")
  case True
  then have "sql_round2 x = of_int (- \<lfloor>- x * 100 + 1 / 2\<rfloor>) / 100"
    by (simp add: sql_round2_def)
  then show ?thesis by blast
next
  case False
  then show ?thesis by (auto simp: sql_round2_def)
qed

lemma sql_round2_le_100: "x \<le> 100 \<Longrightarrow> sql_round2 x \<le> 100"
proof (cases "x < 0")
  case True
  define f where "f = \<lfloor>- x * 100 + 1 / 2\<rfloor>"
  have "0 \<le> f" using True by (simp add: f_def)
  then have "0 \<le> real_of_int f" by simp
  moreover have "sql_round2 x = - (real_of_int f / 100)"
    using True by (simp add: sql_round2_def f_def)
  ultimately show ?thesis by simp
next
  case False
  assume "x \<le> 100"
  then have "\<lfloor>x * 100 + 1 / 2\<rfloor> \<le> 10000" by (simp add: floor_le_iff)
  then have "real_of_int \<lfloor>x * 100 + 1 / 2\<rfloor> \<le> 10000" by linarith
  then show ?thesis using False by (simp add: sql_round2_def)
qed

text \<open>Rounding a sum differs from the sum of the roundings by at most one cent.\<close>

lemma sql_round2_add:
  "\<bar>sql_round2 (a + b) - (sql_round2 a + sql_round2 b)\<bar> \<le> 1 / 100"
proof -
  obtain k1 k2 k3 where k: "sql_round2 (a + b) = of_int k1 / 100" "sql_round2 a = of_int k2 / 100"
    "sql_round2 b = of_int k3 / 100"
    using sql_round2_cents by metis
  have e: "\<bar>sql_round2 (a + b) - (a + b)\<bar> \<le> 1 / 200" "\<bar>sql_round2 a - a\<bar> \<le> 1 / 200"
    "\<bar>sql_round2 b - b\<bar> \<le> 1 / 200"
    by (rule sql_round2_error)+
  have "\<bar>real_of_int (k1 - k2 - k3)\<bar> \<le> 3 / 2"
    using e unfolding k abs_le_iff by simp
  then have "\<bar>k1 - k2 - k3\<bar> \<le> 1"
    by (simp only: of_int_abs [symmetric])
  then have "\<bar>real_of_int (k1 - k2 - k3)\<bar> \<le> 1"
    by (simp only: of_int_abs [symmetric])
  then show ?thesis unfolding k by (simp add: abs_le_iff field_simps)
qed


lemma group_by_chave: "(k, g) \<in> set (group_by key rows) \<Longrightarrow> \<exists>r\<in>set rows. key r = k"
  by (auto simp: group_by_def)

lemma length_group_by: "length (group_by key rows) = card (key ` set rows)"
  by (simp add: group_by_def length_remdups_card_conv)

lemma fst_left_join_por: "fst ` set (left_join_por p xs ys) = set xs"
proof (induction xs)
  case Nil
  then show ?case by (simp add: left_join_por_def)
next
  case (Cons x xs)
  have "fst ` set (case filter (p x) ys of [] \<Rightarrow> [(x, None)] | ms \<Rightarrow> map (\<lambda>m. (x, Some m)) ms) = {x}"
    by (cases "filter (p x) ys") auto
  with Cons show ?case by (simp add: left_join_por_def image_Un)
qed

lemma fst_set_group_by: "fst ` set (group_by key rows) = key ` set rows"
  by (force simp: group_by_def)

lemma sum_list_group_lengths: "(\<Sum>x\<leftarrow>group_by key rows. length (snd x)) = length rows"
  using group_by_sizes [of key rows] by (simp add: split_def)

end
