(* ===== verification/Datas_Texto.thy ===== *)
theory Datas_Texto
  imports Churn_Prelude
begin

text \<open>
  Dates as the SQLite database of the repository stores them. \<^verbatim>\<open>criar_banco_sqlite.py\<close>
  converts the CSV columns with \<^verbatim>\<open>pd.to_datetime\<close> and writes them with
  \<^verbatim>\<open>DataFrame.to_sql\<close>, which stores a timestamp as the TEXT
  \<^verbatim>\<open>'YYYY-MM-DD HH:MM:SS'\<close>; the queries compare such a column with
  \<^verbatim>\<open>DATE('2024-12-30', '-90 days')\<close>, a TEXT \<^verbatim>\<open>'YYYY-MM-DD'\<close>, by SQLite's BINARY
  collation, i.e. byte by byte. A calendar date is a triple (year, month, day) ordered
  lexicographically, a timestamp a pair of a date and a time of day. The theory proves
  that the text comparison the queries make is the calendar comparison, including
  the case where the date text is a prefix of the timestamp text, and models the day
  arithmetic of \<^verbatim>\<open>DATE(d, '-N days')\<close> by stepping back one calendar day at a time.
\<close>

type_synonym data_civil = "nat \<times> nat \<times> nat"
type_synonym hora_dia = "nat \<times> nat \<times> nat"
type_synonym carimbo = "data_civil \<times> hora_dia"

section \<open>Rendering as text\<close>

definition digito :: "nat \<Rightarrow> char" where
  "digito n = char_of (48 + n)"

fun digitos :: "nat \<Rightarrow> nat \<Rightarrow> string" where
  "digitos 0 n = []"
| "digitos (Suc k) n = digitos k (n div 10) @ [digito (n mod 10)]"

definition texto_data :: "data_civil \<Rightarrow> string" where
  "texto_data dt = (case dt of (a, m, d) \<Rightarrow> digitos 4 a @ ''-'' @ digitos 2 m @ ''-'' @ digitos 2 d)"

definition texto_carimbo :: "carimbo \<Rightarrow> string" where
  "texto_carimbo c = (case c of (dt, (h, mi, s)) \<Rightarrow>
     texto_data dt @ '' '' @ digitos 2 h @ '':'' @ digitos 2 mi @ '':'' @ digitos 2 s)"

definition data_textual :: "data_civil \<Rightarrow> bool" where
  "data_textual dt = (case dt of (a, m, d) \<Rightarrow> a < 10000 \<and> m < 100 \<and> d < 100)"

section \<open>Calendar arithmetic\<close>

definition bissexto :: "nat \<Rightarrow> bool" where
  "bissexto a = (4 dvd a \<and> (\<not> 100 dvd a \<or> 400 dvd a))"

definition dias_no_mes :: "nat \<Rightarrow> nat \<Rightarrow> nat" where
  "dias_no_mes a m =
     (if m = 2 then (if bissexto a then 29 else 28)
      else if m = 4 \<or> m = 6 \<or> m = 9 \<or> m = 11 then 30 else 31)"

definition data_valida :: "data_civil \<Rightarrow> bool" where
  "data_valida dt = (case dt of (a, m, d) \<Rightarrow>
     a \<le> 9999 \<and> 1 \<le> m \<and> m \<le> 12 \<and> 1 \<le> d \<and> d \<le> dias_no_mes a m)"

definition dia_anterior :: "data_civil \<Rightarrow> data_civil option" where
  "dia_anterior dt = (case dt of (a, m, d) \<Rightarrow>
     if 1 < d then Some (a, m, d - 1)
     else if 1 < m then Some (a, m - 1, dias_no_mes a (m - 1))
     else if 0 < a then Some (a - 1, 12, 31)
     else None)"

fun date_menos_dias :: "data_civil \<Rightarrow> nat \<Rightarrow> data_civil option" where
  "date_menos_dias dt 0 = Some dt"
| "date_menos_dias dt (Suc n) =
     (case dia_anterior dt of None \<Rightarrow> None | Some dt' \<Rightarrow> date_menos_dias dt' n)"

definition carimbo_textual :: "carimbo \<Rightarrow> bool" where
  "carimbo_textual c = (case c of (dt, (h, mi, s)) \<Rightarrow> data_textual dt \<and> h < 100 \<and> mi < 100 \<and> s < 100)"

section \<open>Julian day numbers\<close>

text \<open>
  \<^verbatim>\<open>JULIANDAY(x)\<close> is a day count with the time of day as a fraction. Only
  differences of two such values occur in the source, so the count may start at any
  fixed day: here it counts the days of the years before \<open>a\<close> (the leap years of the
  Gregorian rule, year 0 included), of the months before \<open>m\<close>, and \<open>d\<close>.
\<close>

definition dias_antes_ano :: "nat \<Rightarrow> int" where
  "dias_antes_ano a =
     365 * int a + int ((a + 3) div 4) - int ((a + 99) div 100) + int ((a + 399) div 400)"

definition dias_antes_mes :: "nat \<Rightarrow> nat \<Rightarrow> int" where
  "dias_antes_mes a m = int (sum_list (map (dias_no_mes a) [1..<m]))"

definition dia_numero :: "data_civil \<Rightarrow> int" where
  "dia_numero dt = (case dt of (a, m, d) \<Rightarrow> dias_antes_ano a + dias_antes_mes a m + int d)"

definition juliano :: "carimbo \<Rightarrow> real" where
  "juliano c = (case c of (dt, (h, mi, s)) \<Rightarrow>
     real_of_int (dia_numero dt) + real (h * 3600 + mi * 60 + s) / 86400)"

definition juliano_data :: "data_civil \<Rightarrow> real" where
  "juliano_data dt = juliano (dt, (0, 0, 0))"

lemma digitos_numeral [churn_simps]:
  "digitos (numeral k) n = digitos (pred_numeral k) (n div 10) @ [digito (n mod 10)]"
  by (simp only: numeral_eq_Suc digitos.simps)

lemma date_menos_dias_numeral [churn_simps]:
  "date_menos_dias dt (numeral k) =
     (case dia_anterior dt of None \<Rightarrow> None | Some dt' \<Rightarrow> date_menos_dias dt' (pred_numeral k))"
  by (simp only: numeral_eq_Suc date_menos_dias.simps)

declare texto_data_def [churn_simps] texto_carimbo_def [churn_simps] digito_def [churn_simps]
  char_of_def [churn_simps] bit_0 [churn_simps] carimbo_textual_def [churn_simps]
  dias_antes_ano_def [churn_simps] dias_antes_mes_def [churn_simps] dia_numero_def [churn_simps]
  juliano_def [churn_simps] juliano_data_def [churn_simps]
  dia_anterior_def [churn_simps] dias_no_mes_def [churn_simps] bissexto_def [churn_simps]
  data_valida_def [churn_simps] data_textual_def [churn_simps]

section \<open>Text order is calendar order\<close>

lemma digito_less_iff: "a < 10 \<Longrightarrow> b < 10 \<Longrightarrow> digito a < digito b \<longleftrightarrow> a < b"
  by (simp add: digito_def less_char_def of_char_of)

lemma length_digitos [simp]: "length (digitos k n) = k"
  by (induction k arbitrary: n) auto

lemma less_by_quot_rem:
  fixes q1 q2 r1 r2 :: nat
  assumes "r1 < 10" and "r2 < 10"
  shows "10 * q1 + r1 < 10 * q2 + r2 \<longleftrightarrow> q1 < q2 \<or> q1 = q2 \<and> r1 < r2"
proof (cases q1 q2 rule: linorder_cases)
  case less
  then have "10 * q1 + 10 \<le> 10 * q2" by simp
  with assms show ?thesis using less by linarith
next
  case equal
  then show ?thesis by simp
next
  case greater
  then have "10 * q2 + 10 \<le> 10 * q1" by simp
  with assms show ?thesis using greater by linarith
qed

lemma nat_less_by_digits:
  "(n::nat) < m \<longleftrightarrow> n div 10 < m div 10 \<or> n div 10 = m div 10 \<and> n mod 10 < m mod 10"
  using less_by_quot_rem [of "n mod 10" "m mod 10" "n div 10" "m div 10"] by simp

lemma linorder_eq_by_less:
  fixes f :: "'a::linorder \<Rightarrow> 'b::linorder"
  assumes "f x < f y \<longleftrightarrow> x < y" and "f y < f x \<longleftrightarrow> y < x"
  shows "f x = f y \<longleftrightarrow> x = y"
  using assms by (metis less_irrefl linorder_neqE)

lemma digitos_less_iff:
  "n < 10 ^ k \<Longrightarrow> m < 10 ^ k \<Longrightarrow> digitos k n < digitos k m \<longleftrightarrow> n < m"
proof (induction k arbitrary: n m)
  case 0
  then show ?case by simp
next
  case (Suc k)
  have bn: "n div 10 < 10 ^ k" and bm: "m div 10 < 10 ^ k"
    using Suc.prems by (simp_all add: less_mult_imp_div_less mult.commute)
  have eq: "digitos k (n div 10) = digitos k (m div 10) \<longleftrightarrow> n div 10 = m div 10"
    by (rule linorder_eq_by_less) (simp_all add: Suc.IH bn bm)
  show ?case
    by (simp add: append_less_append_same_length Suc.IH bn bm eq digito_less_iff
        nat_less_by_digits [of n m])
qed

lemma digitos_eq_iff: "n < 10 ^ k \<Longrightarrow> m < 10 ^ k \<Longrightarrow> digitos k n = digitos k m \<longleftrightarrow> n = m"
  by (rule linorder_eq_by_less) (simp_all add: digitos_less_iff)

lemma length_texto_data [simp]: "length (texto_data dt) = 10"
  by (simp add: texto_data_def split: prod.splits)

theorem texto_data_less_iff:
  assumes "data_textual d1" and "data_textual d2"
  shows "texto_data d1 < texto_data d2 \<longleftrightarrow> d1 < d2"
proof -
  obtain a1 m1 x1 a2 m2 x2 where d1: "d1 = (a1, m1, x1)" and d2: "d2 = (a2, m2, x2)"
    by (cases d1, cases d2) auto
  have b: "a1 < 10 ^ 4" "a2 < 10 ^ 4" "m1 < 10 ^ 2" "m2 < 10 ^ 2" "x1 < 10 ^ 2" "x2 < 10 ^ 2"
    using assms by (simp_all add: d1 d2 data_textual_def)
  have "texto_data d1 < texto_data d2 \<longleftrightarrow>
      digitos 4 a1 < digitos 4 a2 \<or> digitos 4 a1 = digitos 4 a2 \<and>
      (digitos 2 m1 < digitos 2 m2 \<or> digitos 2 m1 = digitos 2 m2 \<and> digitos 2 x1 < digitos 2 x2)"
    by (simp add: d1 d2 texto_data_def append_less_append_same_length)
  also have "\<dots> \<longleftrightarrow> d1 < d2"
    by (simp only: digitos_less_iff digitos_eq_iff b) (auto simp: d1 d2)
  finally show ?thesis .
qed

lemma texto_data_eq_iff:
  "data_textual d1 \<Longrightarrow> data_textual d2 \<Longrightarrow> texto_data d1 = texto_data d2 \<longleftrightarrow> d1 = d2"
  by (rule linorder_eq_by_less) (simp_all add: texto_data_less_iff)

lemma texto_carimbo_split:
  "\<exists>rest. texto_carimbo c = texto_data (fst c) @ CHR '' '' # rest \<and> length rest = 8"
  by (simp add: texto_carimbo_def split: prod.splits)

text \<open>
  The comparison \<^verbatim>\<open>Data > DATE(...)\<close> of the queries: the date text is a prefix
  of the text of a timestamp on the same day, hence smaller, so a transaction at any
  time of the cut-off day itself compares greater than the cut-off.
\<close>

theorem texto_data_less_carimbo:
  assumes "data_textual dt" and "data_textual (fst c)"
  shows "texto_data dt < texto_carimbo c \<longleftrightarrow> dt \<le> fst c"
proof -
  obtain rest where c: "texto_carimbo c = texto_data (fst c) @ CHR '' '' # rest"
    using texto_carimbo_split by blast
  have "texto_data dt < texto_data (fst c) @ CHR '' '' # rest
      \<longleftrightarrow> texto_data dt < texto_data (fst c) \<or> texto_data dt = texto_data (fst c)"
    using append_less_append_same_length [of "texto_data dt" "texto_data (fst c)" "[]"]
    by simp
  then show ?thesis
    using assms by (simp add: c texto_data_less_iff texto_data_eq_iff order_le_less)
qed

theorem carimbo_less_texto_data:
  assumes "data_textual dt" and "data_textual (fst c)"
  shows "texto_carimbo c < texto_data dt \<longleftrightarrow> fst c < dt"
proof -
  have ne: "texto_carimbo c \<noteq> texto_data dt"
    using texto_carimbo_split [of c] by (metis length_texto_data length_append length_Cons
        add_Suc_right nat.distinct(1) add_cancel_left_right)
  have "texto_carimbo c < texto_data dt \<longleftrightarrow> \<not> texto_data dt < texto_carimbo c"
    using ne by auto
  with assms show ?thesis by (simp add: texto_data_less_carimbo not_le)
qed

text \<open>Two timestamp texts compare as the timestamps do, so a comparison of two
  columns of timestamps (\<^verbatim>\<open>cart.Data_Emissao >= c.Data_Criacao_Conta\<close>) is the
  calendar comparison.\<close>

theorem texto_carimbo_less_iff:
  assumes "carimbo_textual c1" and "carimbo_textual c2"
  shows "texto_carimbo c1 < texto_carimbo c2 \<longleftrightarrow> c1 < c2"
proof -
  obtain d1 h1 i1 s1 d2 h2 i2 s2 where c1: "c1 = (d1, (h1, i1, s1))" and c2: "c2 = (d2, (h2, i2, s2))"
    by (cases c1, cases c2) auto
  have t: "data_textual d1" "data_textual d2"
    using assms by (simp_all add: c1 c2 carimbo_textual_def)
  have b: "h1 < 10 ^ 2" "h2 < 10 ^ 2" "i1 < 10 ^ 2" "i2 < 10 ^ 2" "s1 < 10 ^ 2" "s2 < 10 ^ 2"
    using assms by (simp_all add: c1 c2 carimbo_textual_def)
  have "texto_carimbo c1 < texto_carimbo c2 \<longleftrightarrow>
      texto_data d1 < texto_data d2 \<or> texto_data d1 = texto_data d2 \<and>
      (digitos 2 h1 < digitos 2 h2 \<or> digitos 2 h1 = digitos 2 h2 \<and>
       (digitos 2 i1 < digitos 2 i2 \<or> digitos 2 i1 = digitos 2 i2 \<and> digitos 2 s1 < digitos 2 s2))"
    by (simp add: c1 c2 texto_carimbo_def append_less_append_same_length)
  also have "\<dots> \<longleftrightarrow> c1 < c2"
    by (simp only: texto_data_less_iff texto_data_eq_iff t digitos_less_iff digitos_eq_iff b)
      (auto simp: c1 c2)
  finally show ?thesis .
qed

lemma texto_carimbo_le_iff:
  "carimbo_textual c1 \<Longrightarrow> carimbo_textual c2 \<Longrightarrow> texto_carimbo c1 \<le> texto_carimbo c2 \<longleftrightarrow> c1 \<le> c2"
  by (metis texto_carimbo_less_iff linorder_not_less)

lemma texto_data_le_carimbo:
  "data_textual dt \<Longrightarrow> data_textual (fst c) \<Longrightarrow> texto_data dt \<le> texto_carimbo c \<longleftrightarrow> dt \<le> fst c"
  by (metis texto_data_less_carimbo carimbo_less_texto_data linorder_not_less)

section \<open>Day arithmetic\<close>

lemma dia_anterior_less: "dia_anterior dt = Some dt' \<Longrightarrow> dt' < dt"
  by (auto simp: dia_anterior_def split: prod.splits if_splits)

lemma dias_no_mes_bounds: "28 \<le> dias_no_mes a m" "dias_no_mes a m \<le> 31"
  by (simp_all add: dias_no_mes_def)

lemma dia_anterior_valida:
  assumes "data_valida dt" and "dia_anterior dt = Some dt'"
  shows "data_valida dt'"
proof -
  obtain a m d where dt: "dt = (a, m, d)" by (cases dt) auto
  have v: "a \<le> 9999" "1 \<le> m" "m \<le> 12" "d \<le> dias_no_mes a m"
    using assms(1) by (simp_all add: dt data_valida_def)
  consider (dia) "1 < d" | (mes) "\<not> 1 < d" "1 < m" | (ano) "\<not> 1 < d" "\<not> 1 < m" "0 < a"
    using assms(2) by (cases "1 < d"; cases "1 < m"; cases "0 < a") (simp_all add: dt dia_anterior_def)
  then show ?thesis
  proof cases
    case dia
    then have "dt' = (a, m, d - 1)" using assms(2) by (simp add: dt dia_anterior_def)
    then show ?thesis using dia v by (simp add: data_valida_def) linarith
  next
    case mes
    then have "dt' = (a, m - 1, dias_no_mes a (m - 1))"
      using assms(2) by (simp add: dt dia_anterior_def)
    then show ?thesis using mes v dias_no_mes_bounds [of a "m - 1"] by (simp add: data_valida_def) linarith
  next
    case ano
    then have "dt' = (a - 1, 12, 31)" using assms(2) by (simp add: dt dia_anterior_def)
    then show ?thesis using v by (simp add: data_valida_def dias_no_mes_def)
  qed
qed

lemma data_valida_textual: "data_valida dt \<Longrightarrow> data_textual dt"
  using dias_no_mes_bounds [of "fst dt" "fst (snd dt)"]
  by (cases dt) (simp add: data_valida_def data_textual_def)

lemma date_menos_dias_add:
  "date_menos_dias dt (n + k) = Option.bind (date_menos_dias dt n) (\<lambda>c. date_menos_dias c k)"
  by (induction n arbitrary: dt) (auto split: option.splits)

lemma date_menos_dias_le: "date_menos_dias dt n = Some c \<Longrightarrow> c \<le> dt"
proof (induction n arbitrary: dt)
  case 0
  then show ?case by simp
next
  case (Suc n)
  then obtain dt' where "dia_anterior dt = Some dt'" and "date_menos_dias dt' n = Some c"
    by (auto split: option.splits)
  with Suc.IH show ?case by (meson dia_anterior_less order.strict_implies_order order_trans)
qed

lemma date_menos_dias_valida:
  "data_valida dt \<Longrightarrow> date_menos_dias dt n = Some c \<Longrightarrow> data_valida c"
proof (induction n arbitrary: dt)
  case 0
  then show ?case by simp
next
  case (Suc n)
  then obtain dt' where "dia_anterior dt = Some dt'" and "date_menos_dias dt' n = Some c"
    by (auto split: option.splits)
  with Suc show ?case by (blast intro: dia_anterior_valida)
qed

theorem date_menos_dias_antitone:
  assumes "n \<le> n'" and "date_menos_dias dt n = Some c" and "date_menos_dias dt n' = Some c'"
  shows "c' \<le> c"
proof -
  obtain k where "n' = n + k" using assms(1) le_Suc_ex by blast
  with assms(2,3) have "date_menos_dias c k = Some c'"
    by (simp add: date_menos_dias_add)
  then show ?thesis by (rule date_menos_dias_le)
qed

lemma date_menos_dias_Suc_less:
  "date_menos_dias dt n = Some c \<Longrightarrow> date_menos_dias dt (Suc n) = Some c' \<Longrightarrow> c' < c"
  using date_menos_dias_add [of dt n 1]
  by (auto split: option.splits dest: dia_anterior_less)

lemma dias_antes_ano_Suc:
  "dias_antes_ano (Suc a) = dias_antes_ano a + (if bissexto a then 366 else 365)"
proof -
  have q4: "(a + 4) div 4 = (a + 3) div 4 + (if 4 dvd a then 1 else 0)"
    using Suc_div_step [of a 3] by simp
  have q100: "(a + 100) div 100 = (a + 99) div 100 + (if 100 dvd a then 1 else 0)"
    using Suc_div_step [of a 99] by simp
  have q400: "(a + 400) div 400 = (a + 399) div 400 + (if 400 dvd a then 1 else 0)"
    using Suc_div_step [of a 399] by simp
  have d100: "100 dvd a \<Longrightarrow> 4 dvd a" and d400: "400 dvd a \<Longrightarrow> 100 dvd a"
    by (auto elim: dvd_trans [rotated])
  have e: "dias_antes_ano (Suc a) =
      365 * int a + 365 + int ((a + 4) div 4) - int ((a + 100) div 100) + int ((a + 400) div 400)"
    by (simp add: dias_antes_ano_def add.commute)
  have e0: "dias_antes_ano a =
      365 * int a + int ((a + 3) div 4) - int ((a + 99) div 100) + int ((a + 399) div 400)"
    by (simp add: dias_antes_ano_def)
  show ?thesis
  proof (cases "400 dvd a")
    case True
    then show ?thesis using d400 d100 by (simp add: e e0 q4 q100 q400 bissexto_def)
  next
    case n400: False
    show ?thesis
    proof (cases "100 dvd a")
      case True
      then show ?thesis using n400 d100 by (simp add: e e0 q4 q100 q400 bissexto_def)
    next
      case False
      then show ?thesis using n400 by (simp add: e e0 q4 q100 q400 bissexto_def)
    qed
  qed
qed
lemma dias_antes_mes_Suc:
  "1 \<le> m \<Longrightarrow> dias_antes_mes a (Suc m) = dias_antes_mes a m + int (dias_no_mes a m)"
  by (simp add: dias_antes_mes_def)

lemma dias_antes_mes_12: "dias_antes_mes a 12 = (if bissexto a then 335 else 334)"
  by (simp add: dias_antes_mes_def dias_no_mes_def upt_rec)

lemma dias_antes_mes_1: "dias_antes_mes a (Suc 0) = 0"
  by (simp add: dias_antes_mes_def)

lemma dia_anterior_dia_numero:
  assumes "data_valida dt" and "dia_anterior dt = Some dt'"
  shows "dia_numero dt' + 1 = dia_numero dt"
proof -
  obtain a m d where dt: "dt = (a, m, d)" by (cases dt) auto
  have v: "1 \<le> m" "1 \<le> d"
    using assms(1) by (simp_all add: dt data_valida_def)
  consider (dia) "1 < d" | (mes) "d = 1" "1 < m" | (ano) "d = 1" "m = 1" "0 < a"
    using assms(2) v by (cases "1 < d"; cases "1 < m"; cases "0 < a") (simp_all add: dt dia_anterior_def)
  then show ?thesis
  proof cases
    case dia
    then have "dt' = (a, m, d - 1)" using assms(2) by (simp add: dt dia_anterior_def)
    then show ?thesis using dia by (simp add: dt dia_numero_def)
  next
    case mes
    then have "dt' = (a, m - 1, dias_no_mes a (m - 1))"
      using assms(2) by (simp add: dt dia_anterior_def)
    moreover have "dias_antes_mes a m = dias_antes_mes a (m - 1) + int (dias_no_mes a (m - 1))"
      using dias_antes_mes_Suc [of "m - 1" a] mes by simp
    ultimately show ?thesis using mes by (simp add: dt dia_numero_def)
  next
    case ano
    then have "dt' = (a - 1, 12, 31)" using assms(2) by (simp add: dt dia_anterior_def)
    moreover have "dias_antes_ano a = dias_antes_ano (a - 1) + (if bissexto (a - 1) then 366 else 365)"
      using dias_antes_ano_Suc [of "a - 1"] ano by simp
    ultimately show ?thesis
      using ano by (simp add: dt dia_numero_def dias_antes_mes_12 dias_antes_mes_1)
  qed
qed

text \<open>C14: stepping back \<open>n\<close> days from a valid date with \<^verbatim>\<open>DATE(ref, '-n days')\<close>
  lands on the date whose day number is \<open>n\<close> smaller: the day-by-day model of the date
  modifier agrees with the day count behind \<^verbatim>\<open>JULIANDAY\<close>.\<close>

theorem date_menos_dias_dia_numero:
  "data_valida ref \<Longrightarrow> date_menos_dias ref n = Some c \<Longrightarrow> dia_numero c + int n = dia_numero ref"
proof (induction n arbitrary: ref)
  case 0
  then show ?case by simp
next
  case (Suc n)
  then obtain dt' where d: "dia_anterior ref = Some dt'" and r: "date_menos_dias dt' n = Some c"
    by (auto split: option.splits)
  have "dia_numero c + int n = dia_numero dt'"
    using Suc.IH [OF dia_anterior_valida [OF Suc.prems(1) d] r] .
  moreover have "dia_numero dt' + 1 = dia_numero ref"
    by (rule dia_anterior_dia_numero [OF Suc.prems(1) d])
  ultimately show ?case by simp
qed


theorem date_menos_dias_dia_numero_witness:
  "data_valida (2024, 12, 30) \<and> date_menos_dias (2024, 12, 30) 90 = Some (2024, 10, 1) \<and>
   dia_numero (2024, 10, 1) + int 90 = dia_numero (2024, 12, 30)"
proof -
  have v: "data_valida (2024, 12, 30)" and d: "date_menos_dias (2024, 12, 30) 90 = Some (2024, 10, 1)"
    by (simp_all add: churn_simps data_valida_def dias_no_mes_def dia_anterior_def)
  show ?thesis using v d date_menos_dias_dia_numero [OF v d] by simp
qed

lemma dia_anterior_None:
  assumes "data_valida dt"
  shows "dia_anterior dt = None \<longleftrightarrow> dt = (0, 1, 1)"
proof -
  obtain a m d where dt: "dt = (a, m, d)" by (cases dt) auto
  show ?thesis using assms by (auto simp: dt dia_anterior_def data_valida_def)
qed

lemma dia_numero_inicio: "dia_numero (0, 1, 1) = 1"
  by (simp add: dia_numero_def dias_antes_ano_def dias_antes_mes_def)

text \<open>C15: \<^verbatim>\<open>DATE(ref, '-n days')\<close> is defined (the stepping returns a date) for every
  \<open>n\<close> below the day number of a valid reference date; the model returns NULL only
  when the count would pass the first day of year 0.\<close>

theorem date_menos_dias_definida:
  "data_valida ref \<Longrightarrow> int n < dia_numero ref \<Longrightarrow> \<exists>c. date_menos_dias ref n = Some c"
proof (induction n arbitrary: ref)
  case 0
  show ?case by (intro exI) simp
next
  case (Suc n)
  have "ref \<noteq> (0, 1, 1)"
  proof
    assume "ref = (0, 1, 1)"
    then have "dia_numero ref = 1" by (simp only: dia_numero_inicio)
    with Suc.prems(2) show False by simp
  qed
  then obtain dt' where d: "dia_anterior ref = Some dt'"
    using dia_anterior_None [OF Suc.prems(1)] by (cases "dia_anterior ref") auto
  have "dia_numero dt' + 1 = dia_numero ref"
    by (rule dia_anterior_dia_numero [OF Suc.prems(1) d])
  then have "int n < dia_numero dt'" using Suc.prems(2) by simp
  then obtain c where "date_menos_dias dt' n = Some c"
    using Suc.IH [OF dia_anterior_valida [OF Suc.prems(1) d]] by blast
  then have "date_menos_dias ref (Suc n) = Some c" using d by simp
  then show ?case by blast
qed

theorem date_menos_dias_definida_witness:
  "data_valida (2024, 12, 30) \<and> int 90 < dia_numero (2024, 12, 30) \<and>
   (\<exists>c. date_menos_dias (2024, 12, 30) 90 = Some c)"
proof -
  have v: "data_valida (2024, 12, 30)" and n: "int 90 < dia_numero (2024, 12, 30)"
    by (simp_all add: churn_simps data_valida_def dias_no_mes_def bissexto_def upt_rec)
  show ?thesis using v n date_menos_dias_definida [OF v n] by simp
qed

end
