(* ===== verification/Tabelas.thy ===== *)
theory Tabelas
  imports Datas_Texto
begin

text \<open>
  The three tables of \<^verbatim>\<open>priceless_bank.db\<close> as \<^verbatim>\<open>src/bd/criar_banco_sqlite.py\<close> writes
  them with \<^verbatim>\<open>DataFrame.to_sql(..., if_exists='replace')\<close>: one record per row, with
  the columns the churn queries read. A column that may hold NULL (a CSV cell that
  pandas reads as NaN, or a date that \<^verbatim>\<open>pd.to_datetime\<close> turns into NaT) is an
  \<open>option\<close>; \<^verbatim>\<open>Idade\<close> is not, because \<^verbatim>\<open>astype(int)\<close> raises on a missing
  birth date, so a table that was written has an age in every row. Timestamps are kept as calendar values; the
  text that SQLite stores and compares is \<^const>\<open>texto_carimbo\<close> of the value.
\<close>

record cliente =
  cli_id :: cliente_id
  cli_idade :: int
  cli_renda :: "real option"
  cli_criacao_conta :: "carimbo option"
  cli_estado :: texto
  cli_conta_adicional :: "texto option"

record cartao =
  car_id :: cartao_id
  car_produto :: "texto option"
  car_tipo :: "texto option"
  car_emissao :: "carimbo option"
  car_limite :: "real option"

record transacao =
  tx_cliente :: cliente_id
  tx_cartao :: cartao_id
  tx_data :: carimbo

text \<open>
  \<^verbatim>\<open>Idade\<close> is computed once, when the database is built, as
  \<^verbatim>\<open>((data_referencia - Data_Nascimento).dt.days / 365.25).astype(int)\<close>: a
  float division followed by a conversion that truncates towards zero.
\<close>

definition idade_de_dias :: "int \<Rightarrow> int" where
  "idade_de_dias d =
     (if 0 \<le> d then \<lfloor>real_of_int d / 365.25\<rfloor> else - \<lfloor>real_of_int (- d) / 365.25\<rfloor>)"

text \<open>The text SQLite holds in the column \<^verbatim>\<open>Data\<close> of a transaction.\<close>

definition data_sql :: "transacao \<Rightarrow> texto" where
  "data_sql t = texto_carimbo (tx_data t)"

text \<open>
  \<^verbatim>\<open>Tempo_Conta_Meses\<close> and \<^verbatim>\<open>Tempo_Cartao_Meses\<close>:
  \<^verbatim>\<open>((data_referencia - x).dt.days / 30.44).round(2)\<close>. \<^verbatim>\<open>.dt.days\<close> of a time
  difference is its whole number of days, rounded down, and \<^verbatim>\<open>Series.round\<close> rounds
  half to even. A NaT date gives NaN, stored as NULL.
\<close>

definition arredonda_par :: "real \<Rightarrow> real" where
  "arredonda_par x =
     (let k = \<lfloor>x\<rfloor>
      in if x - of_int k < 1 / 2 then of_int k
         else if 1 / 2 < x - of_int k then of_int k + 1
         else if even k then of_int k else of_int k + 1)"

definition pd_round2 :: "real \<Rightarrow> real" where
  "pd_round2 x = arredonda_par (x * 100) / 100"

definition dias_entre :: "data_civil \<Rightarrow> carimbo \<Rightarrow> int" where
  "dias_entre ref c = \<lfloor>juliano_data ref - juliano c\<rfloor>"

definition tempo_meses :: "data_civil \<Rightarrow> carimbo option \<Rightarrow> real option" where
  "tempo_meses ref x = map_option (\<lambda>c. pd_round2 (real_of_int (dias_entre ref c) / 30.44)) x"

declare data_sql_def [churn_simps] idade_de_dias_def [churn_simps] arredonda_par_def [churn_simps]
  pd_round2_def [churn_simps] dias_entre_def [churn_simps] tempo_meses_def [churn_simps]

lemma idade_de_dias_nonneg: "0 \<le> d \<Longrightarrow> 0 \<le> idade_de_dias d"
  by (simp add: idade_de_dias_def)

lemma idade_de_dias_mono:
  assumes "0 \<le> d" and "d \<le> d'"
  shows "idade_de_dias d \<le> idade_de_dias d'"
proof -
  have "real_of_int d / 365.25 \<le> real_of_int d' / 365.25"
    using assms(2) by (simp add: divide_right_mono)
  then show ?thesis using assms by (simp add: idade_de_dias_def floor_mono)
qed

end
