(* ===== verification/Churn_Classificacao.thy ===== *)
theory Churn_Classificacao
  imports Sql_Semantics Tabelas
begin

text \<open>
  The activity classification that every query of
  \<^verbatim>\<open>src/novaAbordagem/analise_churn_completa_2024.py\<close> repeats (lines 288--295 and
  305--315 for the age dimension, the same text for the other six): two common table
  expressions over \<^verbatim>\<open>transacoes\<close>,
  \<^verbatim>\<open>clientes_com_transacoes\<close> (every customer id that occurs in a transaction) and
  \<^verbatim>\<open>clientes_ativos_2024\<close> (the ids with a transaction whose \<^verbatim>\<open>Data\<close> text is greater
  than \<^verbatim>\<open>DATE('2024-12-30', '-90 days')\<close>), two LEFT JOINs of the customer rows against
  them, and three \<^verbatim>\<open>COUNT(CASE WHEN ...)\<close> predicates on the joined row: never
  activated (no match in the first), inactive (a match in the first, none in the
  second), active (a match in the second). The reference date and the window are
  parameters (\<open>ref\<close> and \<open>dias\<close>), as in the 60-day script and the 30/60/90-day
  comparison.

  The abstract contract of spec.md, section 4.1, is \<open>status_spec\<close>: a customer with
  no transaction is never activated, one whose last transaction is before the day
  \<open>dias\<close> days before the reference date is inactive, any other is active.
\<close>

section \<open>The two common table expressions\<close>

definition clientes_com_transacoes :: "transacao list \<Rightarrow> cliente_id list" where
  "clientes_com_transacoes ts = remdups (map tx_cliente ts)"

definition data_corte :: "data_civil \<Rightarrow> nat \<Rightarrow> texto option" where
  "data_corte ref dias = map_option texto_data (date_menos_dias ref dias)"

definition clientes_ativos :: "texto option \<Rightarrow> transacao list \<Rightarrow> cliente_id list" where
  "clientes_ativos corte ts =
     remdups (map tx_cliente (filter (\<lambda>t. sql_less corte (Some (data_sql t)) = Some True) ts))"

section \<open>The joined row and the three counted predicates\<close>

type_synonym 'r linha_juncao = "('r \<times> cliente_id option) \<times> cliente_id option"

definition juntar_status ::
  "('r \<Rightarrow> cliente_id) \<Rightarrow> 'r list \<Rightarrow> cliente_id list \<Rightarrow> cliente_id list \<Rightarrow> 'r linha_juncao list" where
  "juntar_status key rows cct ca = left_join (key \<circ> fst) (left_join key rows cct) ca"

definition conta_nunca :: "'r linha_juncao \<Rightarrow> bool" where
  "conta_nunca x \<longleftrightarrow> snd (fst x) = None"

definition conta_inativo :: "'r linha_juncao \<Rightarrow> bool" where
  "conta_inativo x \<longleftrightarrow> snd (fst x) \<noteq> None \<and> snd x = None"

definition conta_ativo :: "'r linha_juncao \<Rightarrow> bool" where
  "conta_ativo x \<longleftrightarrow> snd x \<noteq> None"

definition juntar_churn ::
  "('r \<Rightarrow> cliente_id) \<Rightarrow> data_civil \<Rightarrow> nat \<Rightarrow> transacao list \<Rightarrow> 'r list \<Rightarrow> 'r linha_juncao list" where
  "juntar_churn key ref dias ts rows =
     juntar_status key rows (clientes_com_transacoes ts) (clientes_ativos (data_corte ref dias) ts)"

declare clientes_com_transacoes_def [churn_simps] data_corte_def [churn_simps]
  clientes_ativos_def [churn_simps] juntar_status_def [churn_simps] left_join_def [churn_simps]
  conta_nunca_def [churn_simps] conta_inativo_def [churn_simps] conta_ativo_def [churn_simps]
  juntar_churn_def [churn_simps]

section \<open>The contract\<close>

datatype status_cliente = Nunca_Ativou | Inativo | Ativo

definition ultima_transacao :: "transacao list \<Rightarrow> cliente_id \<Rightarrow> carimbo option" where
  "ultima_transacao ts c = sql_max (map tx_data (filter (\<lambda>t. tx_cliente t = c) ts))"

fun status_spec :: "data_civil \<Rightarrow> carimbo option \<Rightarrow> status_cliente" where
  "status_spec corte None = Nunca_Ativou"
| "status_spec corte (Some u) = (if fst u < corte then Inativo else Ativo)"

definition carimbos_textuais :: "transacao list \<Rightarrow> bool" where
  "carimbos_textuais ts \<longleftrightarrow> (\<forall>t\<in>set ts. data_textual (fst (tx_data t)))"

declare ultima_transacao_def [churn_simps] carimbos_textuais_def [churn_simps]

section \<open>Shape of the join\<close>

lemma distinct_clientes_com_transacoes: "distinct (clientes_com_transacoes ts)"
  by (simp add: clientes_com_transacoes_def)

lemma distinct_clientes_ativos: "distinct (clientes_ativos corte ts)"
  by (simp add: clientes_ativos_def)

lemma juntar_status_distinct:
  assumes "distinct cct" and "distinct ca"
  shows "juntar_status key rows cct ca =
    map (\<lambda>r. ((r, if key r \<in> set cct then Some (key r) else None),
              if key r \<in> set ca then Some (key r) else None)) rows"
  using assms by (simp add: juntar_status_def left_join_distinct comp_def)

lemma juntar_churn_eq:
  "juntar_churn key ref dias ts rows =
    map (\<lambda>r. ((r, if key r \<in> set (clientes_com_transacoes ts) then Some (key r) else None),
              if key r \<in> set (clientes_ativos (data_corte ref dias) ts) then Some (key r) else None)) rows"
  by (simp add: juntar_churn_def juntar_status_distinct distinct_clientes_com_transacoes
      distinct_clientes_ativos)

lemma length_juntar_churn [simp]: "length (juntar_churn key ref dias ts rows) = length rows"
  by (simp add: juntar_churn_eq)

lemma clientes_ativos_subset: "set (clientes_ativos corte ts) \<subseteq> set (clientes_com_transacoes ts)"
  by (auto simp: clientes_ativos_def clientes_com_transacoes_def)

lemma mem_clientes_com_transacoes:
  "c \<in> set (clientes_com_transacoes ts) \<longleftrightarrow> (\<exists>t\<in>set ts. tx_cliente t = c)"
  by (auto simp: clientes_com_transacoes_def)

lemma mem_clientes_ativos:
  "c \<in> set (clientes_ativos (Some k) ts) \<longleftrightarrow> (\<exists>t\<in>set ts. tx_cliente t = c \<and> k < data_sql t)"
  by (auto simp: clientes_ativos_def sql_less_def)

lemma clientes_ativos_None: "clientes_ativos None ts = []"
  by (simp add: clientes_ativos_def sql_less_def)

section \<open>The classification refines the contract\<close>

lemma data_corte_Some:
  assumes "data_valida ref" and "date_menos_dias ref dias = Some c0"
  shows "data_corte ref dias = Some (texto_data c0)" and "data_textual c0"
  using assms by (simp_all add: data_corte_def data_valida_textual date_menos_dias_valida)

lemma ativo_iff_dia:
  assumes "data_valida ref" and "date_menos_dias ref dias = Some c0" and "carimbos_textuais ts"
  shows "c \<in> set (clientes_ativos (data_corte ref dias) ts) \<longleftrightarrow>
    (\<exists>t\<in>set ts. tx_cliente t = c \<and> c0 \<le> fst (tx_data t))"
proof -
  have "texto_data c0 < data_sql t \<longleftrightarrow> c0 \<le> fst (tx_data t)" if "t \<in> set ts" for t
    using that assms data_corte_Some [OF assms(1,2)]
    by (simp add: data_sql_def carimbos_textuais_def texto_data_less_carimbo)
  then show ?thesis
    using data_corte_Some [OF assms(1,2)] by (auto simp: mem_clientes_ativos)
qed

lemma ultima_transacao_None:
  "ultima_transacao ts c = None \<longleftrightarrow> c \<notin> set (clientes_com_transacoes ts)"
  by (auto simp: ultima_transacao_def sql_max_None mem_clientes_com_transacoes filter_empty_conv)

lemma ultima_transacao_ge:
  assumes "ultima_transacao ts c = Some u"
  shows "c0 \<le> fst u \<longleftrightarrow> (\<exists>t\<in>set ts. tx_cliente t = c \<and> c0 \<le> fst (tx_data t))"
proof -
  let ?xs = "map tx_data (filter (\<lambda>t. tx_cliente t = c) ts)"
  have ne: "?xs \<noteq> []"
    using assms sql_max_None [of ?xs] by (auto simp: ultima_transacao_def)
  have u: "u = Max (set ?xs)"
    using assms sql_max_Max [OF ne] by (simp add: ultima_transacao_def)
  have "u \<in> set ?xs" unfolding u using ne by (intro Max_in) (auto simp: filter_empty_conv)
  then obtain t0 where t0: "t0 \<in> set ts" "tx_cliente t0 = c" "tx_data t0 = u" by auto
  have bound: "fst (tx_data t) \<le> fst u" if "t \<in> set ts" "tx_cliente t = c" for t
    using that u by (simp add: fst_mono_lex)
  show ?thesis
  proof
    assume "c0 \<le> fst u"
    then show "\<exists>t\<in>set ts. tx_cliente t = c \<and> c0 \<le> fst (tx_data t)" using t0 by auto
  next
    assume "\<exists>t\<in>set ts. tx_cliente t = c \<and> c0 \<le> fst (tx_data t)"
    then obtain t where t: "t \<in> set ts" "tx_cliente t = c" and le: "c0 \<le> fst (tx_data t)"
      by blast
    have "fst (tx_data t) \<le> fst u" by (rule bound [OF t])
    with le show "c0 \<le> fst u" by (rule order_trans)
  qed
qed

text \<open>C2: on every joined row, each of the three counted predicates of the query
  (never activated, inactive, active) holds exactly when the contract of spec.md puts the
  row's customer in that state, for the cut-off day \<open>c0\<close> that is \<open>dias\<close> days
  before the reference date.\<close>

theorem juntar_churn_refina_status_spec:
  assumes "data_valida ref" and "date_menos_dias ref dias = Some c0" and "carimbos_textuais ts"
    and "x \<in> set (juntar_churn key ref dias ts rows)"
  shows "(conta_nunca x \<longleftrightarrow> status_spec c0 (ultima_transacao ts (key (fst (fst x)))) = Nunca_Ativou) \<and>
         (conta_inativo x \<longleftrightarrow> status_spec c0 (ultima_transacao ts (key (fst (fst x)))) = Inativo) \<and>
         (conta_ativo x \<longleftrightarrow> status_spec c0 (ultima_transacao ts (key (fst (fst x)))) = Ativo)"
proof -
  obtain r where r: "r \<in> set rows" and x: "x = ((r, if key r \<in> set (clientes_com_transacoes ts) then Some (key r) else None),
      if key r \<in> set (clientes_ativos (data_corte ref dias) ts) then Some (key r) else None)"
    using assms(4) by (auto simp: juntar_churn_eq)
  have sub: "key r \<in> set (clientes_ativos (data_corte ref dias) ts) \<Longrightarrow> key r \<in> set (clientes_com_transacoes ts)"
    using clientes_ativos_subset by blast
  show ?thesis
  proof (cases "ultima_transacao ts (key r)")
    case None
    then have "key r \<notin> set (clientes_com_transacoes ts)" by (simp add: ultima_transacao_None)
    with sub show ?thesis by (auto simp: x None conta_nunca_def conta_inativo_def conta_ativo_def)
  next
    case (Some u)
    then have "key r \<in> set (clientes_com_transacoes ts)"
      using ultima_transacao_None [of ts "key r"] by simp
    moreover have "key r \<in> set (clientes_ativos (data_corte ref dias) ts) \<longleftrightarrow> c0 \<le> fst u"
      by (simp add: ativo_iff_dia [OF assms(1-3)] ultima_transacao_ge [OF Some])
    ultimately show ?thesis
      by (auto simp: x Some conta_nunca_def conta_inativo_def conta_ativo_def not_less)
  qed
qed

section \<open>The window, its boundary and its edge cases\<close>

text \<open>C5: the filter \<^verbatim>\<open>WHERE Data > DATE(ref, '-N days')\<close> of the CTE
  \<^verbatim>\<open>clientes_ativos_2024\<close>, evaluated by SQLite on the stored texts, keeps exactly the
  transactions whose calendar day is on or after the cut-off day: although written as a
  strict comparison, it includes the cut-off day itself, at any time of day.\<close>

theorem filtro_data_corte:
  assumes "data_valida ref" and "date_menos_dias ref dias = Some c0"
    and "data_textual (fst (tx_data t))"
  shows "sql_less (data_corte ref dias) (Some (data_sql t)) = Some True \<longleftrightarrow> c0 \<le> fst (tx_data t)"
  using assms data_corte_Some [OF assms(1,2)]
  by (simp add: sql_less_def data_sql_def texto_data_less_carimbo)

theorem filtro_data_corte_witness:
  "data_valida (2024, 12, 30) \<and> date_menos_dias (2024, 12, 30) 90 = Some (2024, 10, 1) \<and>
   data_textual (fst (tx_data \<lparr>tx_cliente = 7, tx_cartao = 70, tx_data = ((2024, 10, 1), (0, 0, 0))\<rparr>)) \<and>
   (sql_less (data_corte (2024, 12, 30) 90)
      (Some (data_sql \<lparr>tx_cliente = 7, tx_cartao = 70, tx_data = ((2024, 10, 1), (0, 0, 0))\<rparr>)) = Some True
    \<longleftrightarrow> (2024, 10, 1) \<le> fst (tx_data \<lparr>tx_cliente = 7, tx_cartao = 70, tx_data = ((2024::nat, 10::nat, 1::nat), (0::nat, 0::nat, 0::nat))\<rparr>))"
proof -
  have v: "data_valida (2024, 12, 30)" and d: "date_menos_dias (2024, 12, 30) 90 = Some (2024, 10, 1)"
    and t: "data_textual (fst (tx_data \<lparr>tx_cliente = 7, tx_cartao = 70, tx_data = ((2024, 10, 1), (0, 0, 0))\<rparr>))"
    by (simp_all add: churn_simps)
  show ?thesis using filtro_data_corte [OF v d t] v d t by simp
qed

lemma date_menos_dias_defined_mono:
  assumes "n \<le> n'" and "date_menos_dias dt n' \<noteq> None"
  shows "date_menos_dias dt n \<noteq> None"
proof -
  obtain k where "n' = n + k" using assms(1) le_Suc_ex by blast
  with assms(2) show ?thesis by (cases "date_menos_dias dt n") (auto simp: date_menos_dias_add)
qed

lemma data_corte_antitona:
  assumes "dias \<le> dias'" and "data_valida ref" and "date_menos_dias ref dias' \<noteq> None"
  obtains c0 c1 where "data_corte ref dias = Some (texto_data c0)" and "data_corte ref dias' = Some (texto_data c1)"
    and "texto_data c1 \<le> texto_data c0"
proof -
  obtain c0 where c0: "date_menos_dias ref dias = Some c0"
    using date_menos_dias_defined_mono [OF assms(1,3)] by blast
  obtain c1 where c1: "date_menos_dias ref dias' = Some c1"
    using assms(3) by blast
  have t0: "data_textual c0" and t1: "data_textual c1"
    using data_corte_Some [OF assms(2) c0] data_corte_Some [OF assms(2) c1] by simp_all
  have "c1 \<le> c0" by (rule date_menos_dias_antitone [OF assms(1) c0 c1])
  then have "texto_data c1 \<le> texto_data c0"
    using t0 t1 by (auto simp: order_le_less texto_data_less_iff)
  then show ?thesis using that by (simp add: data_corte_def c0 c1)
qed

text \<open>A longer window has an earlier cut-off: what is after the cut-off of the shorter
  window is after that of the longer one, and what is before the cut-off of the longer
  window is before that of the shorter one.\<close>

lemma sql_less_data_corte_antitona:
  assumes "dias \<le> dias'" and "data_valida ref" and "date_menos_dias ref dias' \<noteq> None"
  shows "sql_less (data_corte ref dias) x = Some True \<Longrightarrow> sql_less (data_corte ref dias') x = Some True"
    and "sql_less x (data_corte ref dias') = Some True \<Longrightarrow> sql_less x (data_corte ref dias) = Some True"
  by (rule data_corte_antitona [OF assms]; cases x; auto simp: sql_less_def)+

text \<open>Widening the window never removes a customer from the active set.\<close>

theorem clientes_ativos_mono_janela:
  assumes "dias \<le> dias'" and "data_valida ref" and "date_menos_dias ref dias' \<noteq> None"
  shows "set (clientes_ativos (data_corte ref dias) ts) \<subseteq> set (clientes_ativos (data_corte ref dias') ts)"
  using sql_less_data_corte_antitona(1) [OF assms] by (auto simp: clientes_ativos_def)

text \<open>The boundary of the window. A customer whose only transaction falls on the
  cut-off day (\<open>dias\<close> days before the reference date), at any time, is active; one
  whose only transaction falls on the day before it is not.\<close>

theorem fronteira_janela:
  assumes "data_valida ref" and "date_menos_dias ref dias = Some c0"
    and "date_menos_dias ref (Suc dias) = Some c1"
  shows "c \<in> set (clientes_ativos (data_corte ref dias) [\<lparr>tx_cliente = c, tx_cartao = k, tx_data = (c0, h)\<rparr>]) \<and>
         c \<notin> set (clientes_ativos (data_corte ref dias) [\<lparr>tx_cliente = c, tx_cartao = k, tx_data = (c1, h)\<rparr>])"
proof -
  have t0: "data_textual c0" and t1: "data_textual c1"
    using data_corte_Some [OF assms(1,2)] data_corte_Some [OF assms(1,3)] by simp_all
  have "c1 < c0" by (rule date_menos_dias_Suc_less [OF assms(2,3)])
  then show ?thesis
    using ativo_iff_dia [OF assms(1,2), of "[\<lparr>tx_cliente = c, tx_cartao = k, tx_data = (c0, h)\<rparr>]" c]
      ativo_iff_dia [OF assms(1,2), of "[\<lparr>tx_cliente = c, tx_cartao = k, tx_data = (c1, h)\<rparr>]" c]
      t0 t1 by (auto simp: carimbos_textuais_def)
qed

theorem fronteira_janela_witness:
  "data_valida (2024, 12, 30) \<and> date_menos_dias (2024, 12, 30) 90 = Some (2024, 10, 1) \<and>
   date_menos_dias (2024, 12, 30) (Suc 90) = Some (2024, 9, 30) \<and>
   5 \<in> set (clientes_ativos (data_corte (2024, 12, 30) 90)
     [\<lparr>tx_cliente = 5, tx_cartao = 50, tx_data = ((2024, 10, 1), (23, 59, 59))\<rparr>]) \<and>
   5 \<notin> set (clientes_ativos (data_corte (2024, 12, 30) 90)
     [\<lparr>tx_cliente = 5, tx_cartao = 50, tx_data = ((2024, 9, 30), (23, 59, 59))\<rparr>])"
proof -
  have v: "data_valida (2024, 12, 30)" and d0: "date_menos_dias (2024, 12, 30) 90 = Some (2024, 10, 1)"
    and d1: "date_menos_dias (2024, 12, 30) (Suc 90) = Some (2024, 9, 30)"
    by (simp_all add: churn_simps)
  show ?thesis using fronteira_janela [OF v d0 d1, of 5 50 "(23, 59, 59)"] v d0 d1 by simp
qed

text \<open>C7: a customer with no transaction is counted as never activated, and not as
  inactive or active, whatever the reference date and the window.\<close>

theorem sem_transacoes_nunca_ativou:
  assumes "x \<in> set (juntar_churn key ref dias ts rows)"
    and "\<forall>t\<in>set ts. tx_cliente t \<noteq> key (fst (fst x))"
  shows "conta_nunca x \<and> \<not> conta_inativo x \<and> \<not> conta_ativo x"
proof -
  obtain r where x: "x = ((r, if key r \<in> set (clientes_com_transacoes ts) then Some (key r) else None),
      if key r \<in> set (clientes_ativos (data_corte ref dias) ts) then Some (key r) else None)"
    using assms(1) by (auto simp: juntar_churn_eq)
  have "key r \<notin> set (clientes_com_transacoes ts)"
    using assms(2) by (simp add: x mem_clientes_com_transacoes)
  moreover then have "key r \<notin> set (clientes_ativos (data_corte ref dias) ts)"
    using clientes_ativos_subset by blast
  ultimately show ?thesis by (simp add: x conta_nunca_def conta_inativo_def conta_ativo_def)
qed

theorem sem_transacoes_nunca_ativou_witness:
  "(((1::int, ()), None), None) \<in> set (juntar_churn fst (2024, 12, 30) 30
      [\<lparr>tx_cliente = 2, tx_cartao = 20, tx_data = ((2024, 12, 1), (10, 0, 0))\<rparr>] [(1, ()), (2, ())]) \<and>
   tx_cliente \<lparr>tx_cliente = 2, tx_cartao = 20, tx_data = ((2024::nat, 12::nat, 1::nat), (10::nat, 0::nat, 0::nat))\<rparr> \<noteq> 1 \<and>
   conta_nunca (((1::int, ()), None::int option), None::int option) \<and>
   \<not> conta_inativo (((1::int, ()), None::int option), None::int option) \<and>
   \<not> conta_ativo (((1::int, ()), None::int option), None::int option)"
proof -
  have m: "(((1::int, ()), None), None) \<in> set (juntar_churn fst (2024, 12, 30) 30
      [\<lparr>tx_cliente = 2, tx_cartao = 20, tx_data = ((2024, 12, 1), (10, 0, 0))\<rparr>] [(1, ()), (2, ())])"
    using clientes_ativos_subset by (force simp: juntar_churn_eq mem_clientes_com_transacoes)
  have n: "\<forall>t\<in>set [\<lparr>tx_cliente = 2, tx_cartao = 20, tx_data = ((2024, 12, 1), (10, 0, 0))\<rparr>].
      tx_cliente t \<noteq> fst (fst (fst (((1::int, ()), None::int option), None::int option)))"
    by simp
  show ?thesis using sem_transacoes_nunca_ativou [OF m n] m n by simp
qed

text \<open>C8: the queries do not exclude transactions dated after the reference date
  (spec.md, section 4.1, asks for a documented policy): such a transaction makes its
  customer active, for every window.\<close>

theorem transacao_futura_ativa:
  assumes "data_valida ref" and "date_menos_dias ref dias = Some c0"
    and "t \<in> set ts" and "ref < fst (tx_data t)" and "data_textual (fst (tx_data t))"
  shows "tx_cliente t \<in> set (clientes_ativos (data_corte ref dias) ts)"
proof -
  have "c0 \<le> ref" by (rule date_menos_dias_le [OF assms(2)])
  with assms(4) have "c0 \<le> fst (tx_data t)" by simp
  then have "texto_data c0 < data_sql t"
    using assms(5) data_corte_Some [OF assms(1,2)] by (simp add: data_sql_def texto_data_less_carimbo)
  with assms(3) show ?thesis
    using data_corte_Some [OF assms(1,2)] by (auto simp: mem_clientes_ativos)
qed

theorem transacao_futura_ativa_witness:
  "data_valida (2024, 12, 30) \<and> date_menos_dias (2024, 12, 30) 90 = Some (2024, 10, 1) \<and>
   \<lparr>tx_cliente = 9, tx_cartao = 90, tx_data = ((2025, 3, 1), (8, 0, 0))\<rparr>
     \<in> set [\<lparr>tx_cliente = 9, tx_cartao = 90, tx_data = ((2025, 3, 1), (8, 0, 0))\<rparr>] \<and>
   (2024, 12, 30) < fst (tx_data \<lparr>tx_cliente = 9, tx_cartao = 90, tx_data = ((2025::nat, 3::nat, 1::nat), (8::nat, 0::nat, 0::nat))\<rparr>) \<and>
   data_textual (fst (tx_data \<lparr>tx_cliente = 9, tx_cartao = 90, tx_data = ((2025, 3, 1), (8, 0, 0))\<rparr>)) \<and>
   9 \<in> set (clientes_ativos (data_corte (2024, 12, 30) 90)
     [\<lparr>tx_cliente = 9, tx_cartao = 90, tx_data = ((2025, 3, 1), (8, 0, 0))\<rparr>])"
proof -
  have v: "data_valida (2024, 12, 30)" and d: "date_menos_dias (2024, 12, 30) 90 = Some (2024, 10, 1)"
    by (simp_all add: churn_simps)
  have m: "\<lparr>tx_cliente = 9, tx_cartao = 90, tx_data = ((2025, 3, 1), (8, 0, 0))\<rparr>
     \<in> set [\<lparr>tx_cliente = 9, tx_cartao = 90, tx_data = ((2025::nat, 3::nat, 1::nat), (8::nat, 0::nat, 0::nat))\<rparr>]"
    by simp
  have l: "(2024, 12, 30) < fst (tx_data \<lparr>tx_cliente = 9, tx_cartao = 90, tx_data = ((2025::nat, 3::nat, 1::nat), (8::nat, 0::nat, 0::nat))\<rparr>)"
    and t: "data_textual (fst (tx_data \<lparr>tx_cliente = 9, tx_cartao = 90, tx_data = ((2025, 3, 1), (8, 0, 0))\<rparr>))"
    by (simp_all add: churn_simps)
  show ?thesis using transacao_futura_ativa [OF v d m l t] v d m l t by simp
qed

end
