(* ===== verification/Agregacao_Coorte.thy ===== *)
theory Agregacao_Coorte
  imports Churn_Classificacao
begin

text \<open>
  The aggregation of \<^verbatim>\<open>src/novaAbordagem/analise_churn_completa_2024.py\<close>: the joined
  rows of \<open>Churn_Classificacao\<close> are grouped by a category (\<^verbatim>\<open>GROUP BY 1\<close>), each group
  becomes one result row with the three state counts, \<^verbatim>\<open>COUNT(*)\<close>, and the
  percentages \<^verbatim>\<open>ROUND(x * 100.0 / COUNT(*), 2)\<close> of never activated, inactive, and of
  their sum (\<^verbatim>\<open>impacto_total\<close>), and the result is ordered by \<^verbatim>\<open>impacto_total\<close>
  descending (\<^verbatim>\<open>ORDER BY 8 DESC\<close>). The category is any function of the customer row
  (an age band, an income band, a card type); \<open>Faixas\<close> gives the bands of the source.
  The same file opens with \<^verbatim>\<open>analise_base_completa\<close>, a population summary whose three
  counts are taken from different tables; it is \<open>resumo_base\<close> below.
\<close>

section \<open>One result row per group\<close>

record 'k linha_churn =
  categoria :: 'k
  nunca_ativaram :: nat
  inativos :: nat
  ativos :: nat
  total :: nat
  perc_nunca_ativaram :: real
  perc_inativos :: real
  impacto_total :: real

definition percentual :: "nat \<Rightarrow> nat \<Rightarrow> real" where
  "percentual x n = sql_round2 (real x * 100 / real n)"

text \<open>\<^verbatim>\<open>ROUND(x * 100.0 / n, 2)\<close> where \<open>n\<close> may be 0: SQLite divides to NULL.\<close>

definition percentual_sql :: "nat \<Rightarrow> nat \<Rightarrow> real option" where
  "percentual_sql x n = (if n = 0 then None else Some (percentual x n))"

definition linha_de_grupo :: "'k \<times> 'r linha_juncao list \<Rightarrow> 'k linha_churn" where
  "linha_de_grupo g = (case g of (k, xs) \<Rightarrow>
     \<lparr>categoria = k,
      nunca_ativaram = count_when conta_nunca xs,
      inativos = count_when conta_inativo xs,
      ativos = count_when conta_ativo xs,
      total = length xs,
      perc_nunca_ativaram = percentual (count_when conta_nunca xs) (length xs),
      perc_inativos = percentual (count_when conta_inativo xs) (length xs),
      impacto_total = percentual (count_when conta_nunca xs + count_when conta_inativo xs) (length xs)\<rparr>)"

definition ordena_impacto :: "'k linha_churn list \<Rightarrow> 'k linha_churn list" where
  "ordena_impacto ls = sort_key (\<lambda>l. - impacto_total l) ls"

definition consulta_churn ::
  "('r \<Rightarrow> cliente_id) \<Rightarrow> ('r \<Rightarrow> 'k) \<Rightarrow> data_civil \<Rightarrow> nat \<Rightarrow> transacao list \<Rightarrow> 'r list \<Rightarrow> 'k linha_churn list" where
  "consulta_churn key rotulo ref dias ts rows =
     ordena_impacto (map linha_de_grupo
       (group_by (\<lambda>x. rotulo (fst (fst x))) (juntar_churn key ref dias ts rows)))"

text \<open>\<^verbatim>\<open>SELECT DISTINCT c.cliente_id, c.<attribute> FROM clientes c\<close>: the customer rows
  that the dimension queries on customer attributes join.\<close>

definition todos_clientes :: "(cliente \<Rightarrow> 'a) \<Rightarrow> cliente list \<Rightarrow> (cliente_id \<times> 'a) list" where
  "todos_clientes atributo cs = remdups (map (\<lambda>c. (cli_id c, atributo c)) cs)"

declare percentual_def [churn_simps] linha_de_grupo_def [churn_simps] ordena_impacto_def [churn_simps]
  consulta_churn_def [churn_simps] todos_clientes_def [churn_simps]

section \<open>The population summary\<close>

record resumo =
  total_clientes :: nat
  cadastrados_2023 :: nat
  cadastrados_2024 :: nat
  resumo_nunca :: nat
  resumo_inativos :: nat
  resumo_ativos :: nat
  total_com_problemas :: nat

text \<open>\<^verbatim>\<open>strftime('%Y', Data_Criacao_Conta)\<close>: the year as four digits, NULL for a NULL date.\<close>

definition ano_criacao :: "carimbo option \<Rightarrow> texto option" where
  "ano_criacao x = map_option (\<lambda>c. digitos 4 (fst (fst c))) x"

text \<open>The counts of the \<^verbatim>\<open>UNION ALL\<close> rows (the separator rows count 0 and the
  \<^verbatim>\<open>detalhes\<close> texts are not kept).\<close>

definition resumo_base :: "data_civil \<Rightarrow> nat \<Rightarrow> cliente list \<Rightarrow> transacao list \<Rightarrow> resumo" where
  "resumo_base ref dias cs ts =
     (let tc = remdups (map (\<lambda>c. (cli_id c, cli_criacao_conta c)) cs);
          cct = clientes_com_transacoes ts;
          ca = clientes_ativos (data_corte ref dias) ts;
          nunca = length (filter (\<lambda>r. fst r \<notin> set cct) tc);
          inat = length (filter (\<lambda>c. c \<notin> set ca) cct)
      in \<lparr>total_clientes = length tc,
          cadastrados_2023 = length (filter (\<lambda>r. ano_criacao (snd r) = Some ''2023'') tc),
          cadastrados_2024 = length (filter (\<lambda>r. ano_criacao (snd r) = Some ''2024'') tc),
          resumo_nunca = nunca, resumo_inativos = inat,
          resumo_ativos = length ca, total_com_problemas = nunca + inat\<rparr>)"

declare resumo_base_def [churn_simps]

section \<open>Counting lemmas\<close>

lemma juntar_churn_exclusivo:
  assumes "x \<in> set (juntar_churn key ref dias ts rows)"
  shows "(conta_nunca x \<and> \<not> conta_inativo x \<and> \<not> conta_ativo x) \<or>
         (\<not> conta_nunca x \<and> conta_inativo x \<and> \<not> conta_ativo x) \<or>
         (\<not> conta_nunca x \<and> \<not> conta_inativo x \<and> conta_ativo x)"
proof -
  obtain r where x: "x = ((r, if key r \<in> set (clientes_com_transacoes ts) then Some (key r) else None),
      if key r \<in> set (clientes_ativos (data_corte ref dias) ts) then Some (key r) else None)"
    using assms by (auto simp: juntar_churn_eq)
  have "key r \<in> set (clientes_ativos (data_corte ref dias) ts) \<Longrightarrow> key r \<in> set (clientes_com_transacoes ts)"
    using clientes_ativos_subset by blast
  then show ?thesis by (auto simp: x conta_nunca_def conta_inativo_def conta_ativo_def)
qed

lemma grupos_juntar_churn_subset:
  "(k, g) \<in> set (group_by f (juntar_churn key ref dias ts rows)) \<Longrightarrow>
   x \<in> set g \<Longrightarrow> x \<in> set (juntar_churn key ref dias ts rows)"
  by (simp add: group_by_member)

lemma linha_de_grupo_particao:
  assumes "\<And>x. x \<in> set g \<Longrightarrow> x \<in> set (juntar_churn key ref dias ts rows)"
  shows "nunca_ativaram (linha_de_grupo (k, g)) + inativos (linha_de_grupo (k, g))
           + ativos (linha_de_grupo (k, g)) = total (linha_de_grupo (k, g))"
proof -
  have "length (filter conta_nunca g) + length (filter conta_inativo g) + length (filter conta_ativo g)
      = length g"
    by (rule length_filter_three_way) (rule juntar_churn_exclusivo [OF assms])
  then show ?thesis by (simp add: linha_de_grupo_def count_when_def)
qed

lemma mset_consulta_churn:
  "mset (consulta_churn key rotulo ref dias ts rows) =
   mset (map linha_de_grupo (group_by (\<lambda>x. rotulo (fst (fst x))) (juntar_churn key ref dias ts rows)))"
  by (simp add: consulta_churn_def ordena_impacto_def)

lemma soma_campo_consulta:
  fixes f :: "'k linha_churn \<Rightarrow> nat"
  assumes "\<And>k g. f (linha_de_grupo (k, g)) = length (filter P g)"
  shows "(\<Sum>l\<leftarrow>consulta_churn key rotulo ref dias ts rows. f l)
       = length (filter P (juntar_churn key ref dias ts rows))"
proof -
  let ?J = "juntar_churn key ref dias ts rows" and ?k = "\<lambda>x. rotulo (fst (fst x))"
  have "(\<Sum>l\<leftarrow>consulta_churn key rotulo ref dias ts rows. f l)
      = (\<Sum>l\<leftarrow>map linha_de_grupo (group_by ?k ?J). f l)"
    by (rule sum_list_map_perm [OF mset_consulta_churn])
  also have "\<dots> = (\<Sum>(k, g)\<leftarrow>group_by ?k ?J. length (filter P g))"
    by (simp only: map_map comp_def)
      (intro arg_cong [where f = sum_list] map_cong refl, simp add: assms split: prod.splits)
  also have "\<dots> = length (filter P ?J)"
    by (rule group_by_sum_filter)
  finally show ?thesis .
qed

lemma set_consulta_churn:
  "l \<in> set (consulta_churn key rotulo ref dias ts rows) \<Longrightarrow>
   \<exists>k g. (k, g) \<in> set (group_by (\<lambda>x. rotulo (fst (fst x))) (juntar_churn key ref dias ts rows))
         \<and> l = linha_de_grupo (k, g)"
  by (auto simp: consulta_churn_def ordena_impacto_def)

lemma filter_juntar_churn:
  "length (filter P (juntar_churn key ref dias ts rows)) =
   length (filter (\<lambda>r. P ((r, if key r \<in> set (clientes_com_transacoes ts) then Some (key r) else None),
      if key r \<in> set (clientes_ativos (data_corte ref dias) ts) then Some (key r) else None)) rows)"
  by (simp add: juntar_churn_eq filter_map comp_def)

lemma soma_estados_consulta:
  "(\<Sum>l\<leftarrow>consulta_churn key rotulo ref dias ts rows. nunca_ativaram l)
     = length (filter (\<lambda>r. key r \<notin> set (clientes_com_transacoes ts)) rows)"
  "(\<Sum>l\<leftarrow>consulta_churn key rotulo ref dias ts rows. inativos l)
     = length (filter (\<lambda>r. key r \<in> set (clientes_com_transacoes ts) \<and>
                           key r \<notin> set (clientes_ativos (data_corte ref dias) ts)) rows)"
  "(\<Sum>l\<leftarrow>consulta_churn key rotulo ref dias ts rows. ativos l)
     = length (filter (\<lambda>r. key r \<in> set (clientes_ativos (data_corte ref dias) ts)) rows)"
  by (simp_all add: soma_campo_consulta [where P = conta_nunca] soma_campo_consulta [where P = conta_inativo]
      soma_campo_consulta [where P = conta_ativo] linha_de_grupo_def count_when_def filter_juntar_churn
      conta_nunca_def conta_inativo_def conta_ativo_def)
    (intro arg_cong [where f = length] filter_cong refl, blast)

lemma soma_total_consulta:
  "(\<Sum>l\<leftarrow>consulta_churn key rotulo ref dias ts rows. total l) = length rows"
  using soma_campo_consulta [where f = total and P = "\<lambda>_. True"]
  by (simp add: linha_de_grupo_def)

section \<open>The rows of one category\<close>

text \<open>A result row is the group of the joined rows whose category is the row's own;
  when every customer row of a category has transacted, the row counts no
  never-activated customer, and when none has, it counts only never-activated ones.\<close>

lemma linha_consulta_churn:
  assumes "l \<in> set (consulta_churn key rotulo ref dias ts rows)"
  obtains g where "l = linha_de_grupo (categoria l, g)"
    and "\<And>x. x \<in> set g \<longleftrightarrow> x \<in> set (juntar_churn key ref dias ts rows) \<and> rotulo (fst (fst x)) = categoria l"
    and "g \<noteq> []"
proof -
  obtain k g where kg: "(k, g) \<in> set (group_by (\<lambda>x. rotulo (fst (fst x))) (juntar_churn key ref dias ts rows))"
    and l: "l = linha_de_grupo (k, g)"
    using set_consulta_churn [OF assms] by blast
  have k: "categoria l = k" by (simp add: l linha_de_grupo_def)
  show thesis
  proof (rule that)
    show "l = linha_de_grupo (categoria l, g)" using l k by simp
    show "x \<in> set g \<longleftrightarrow> x \<in> set (juntar_churn key ref dias ts rows) \<and> rotulo (fst (fst x)) = categoria l" for x
      using group_by_member [OF kg] k by simp
    show "g \<noteq> []" using group_by_nonempty [OF kg] .
  qed
qed

lemma categoria_consulta_churn:
  assumes "l \<in> set (consulta_churn key rotulo ref dias ts rows)"
  shows "\<exists>r\<in>set rows. rotulo r = categoria l"
proof -
  obtain g where g: "\<And>x. x \<in> set g \<longleftrightarrow> x \<in> set (juntar_churn key ref dias ts rows) \<and> rotulo (fst (fst x)) = categoria l"
    and ne: "g \<noteq> []"
    using linha_consulta_churn [OF assms] by metis
  obtain x where "x \<in> set g" using ne by (cases g) auto
  then show ?thesis using g by (auto simp: juntar_churn_eq)
qed

lemma consulta_churn_nunca_zero:
  assumes "l \<in> set (consulta_churn key rotulo ref dias ts rows)"
    and "\<And>r. r \<in> set rows \<Longrightarrow> rotulo r = categoria l \<Longrightarrow> key r \<in> set (clientes_com_transacoes ts)"
  shows "nunca_ativaram l = 0"
proof -
  obtain g where l: "l = linha_de_grupo (categoria l, g)"
    and g: "\<And>x. x \<in> set g \<longleftrightarrow> x \<in> set (juntar_churn key ref dias ts rows) \<and> rotulo (fst (fst x)) = categoria l"
    using linha_consulta_churn [OF assms(1)] by metis
  have "filter conta_nunca g = []"
    using g assms(2) by (auto simp: filter_empty_conv juntar_churn_eq conta_nunca_def)
  then have "nunca_ativaram (linha_de_grupo (categoria l, g)) = 0"
    by (simp add: linha_de_grupo_def count_when_def)
  then show ?thesis using l by metis
qed

lemma consulta_churn_so_nunca:
  assumes "l \<in> set (consulta_churn key rotulo ref dias ts rows)"
    and "\<And>r. r \<in> set rows \<Longrightarrow> rotulo r = categoria l \<Longrightarrow> key r \<notin> set (clientes_com_transacoes ts)"
  shows "nunca_ativaram l = total l \<and> inativos l = 0 \<and> ativos l = 0"
proof -
  obtain g where l: "l = linha_de_grupo (categoria l, g)"
    and g: "\<And>x. x \<in> set g \<longleftrightarrow> x \<in> set (juntar_churn key ref dias ts rows) \<and> rotulo (fst (fst x)) = categoria l"
    using linha_consulta_churn [OF assms(1)] by metis
  have nunca: "conta_nunca x \<and> \<not> conta_inativo x \<and> \<not> conta_ativo x" if "x \<in> set g" for x
  proof -
    have xj: "x \<in> set (juntar_churn key ref dias ts rows)" and xr: "rotulo (fst (fst x)) = categoria l"
      using that g by auto
    from xj obtain r where r0: "r \<in> set rows"
      and x: "x = ((r, if key r \<in> set (clientes_com_transacoes ts) then Some (key r) else None),
                 if key r \<in> set (clientes_ativos (data_corte ref dias) ts) then Some (key r) else None)"
      by (auto simp: juntar_churn_eq)
    have r: "r \<in> set rows" "rotulo r = categoria l" using r0 xr x by simp_all
    have "key r \<notin> set (clientes_com_transacoes ts)" by (rule assms(2) [OF r])
    moreover then have "key r \<notin> set (clientes_ativos (data_corte ref dias) ts)"
      using clientes_ativos_subset by blast
    ultimately show ?thesis by (simp add: x conta_nunca_def conta_inativo_def conta_ativo_def)
  qed
  then have "filter conta_nunca g = g" "filter conta_inativo g = []" "filter conta_ativo g = []"
    by (auto simp: filter_id_conv filter_empty_conv)
  then have "nunca_ativaram (linha_de_grupo (categoria l, g)) = total (linha_de_grupo (categoria l, g)) \<and>
      inativos (linha_de_grupo (categoria l, g)) = 0 \<and> ativos (linha_de_grupo (categoria l, g)) = 0"
    by (simp add: linha_de_grupo_def count_when_def)
  then show ?thesis using l by metis
qed

section \<open>Properties of the grouped result\<close>

text \<open>C1: in every row of the result, the never-activated, inactive and active counts
  add up to the row's \<^verbatim>\<open>COUNT(*)\<close>: the three predicates partition each group.\<close>

theorem consulta_churn_particao:
  "\<forall>l\<in>set (consulta_churn key rotulo ref dias ts rows).
     nunca_ativaram l + inativos l + ativos l = total l"
proof
  fix l
  assume "l \<in> set (consulta_churn key rotulo ref dias ts rows)"
  then obtain k g where kg: "(k, g) \<in> set (group_by (\<lambda>x. rotulo (fst (fst x))) (juntar_churn key ref dias ts rows))"
    and l: "l = linha_de_grupo (k, g)"
    by (blast dest: set_consulta_churn)
  show "nunca_ativaram l + inativos l + ativos l = total l"
    unfolding l by (rule linha_de_grupo_particao) (rule grupos_juntar_churn_subset [OF kg])
qed

text \<open>C3: over the whole result, the never-activated, inactive and active counts add
  up to the number of customer rows joined, and so do the group totals: no row is
  dropped and none is counted twice, whatever the category.\<close>

theorem consulta_churn_soma_total:
  "(\<Sum>l\<leftarrow>consulta_churn key rotulo ref dias ts rows. nunca_ativaram l)
     + (\<Sum>l\<leftarrow>consulta_churn key rotulo ref dias ts rows. inativos l)
     + (\<Sum>l\<leftarrow>consulta_churn key rotulo ref dias ts rows. ativos l) = length rows \<and>
   (\<Sum>l\<leftarrow>consulta_churn key rotulo ref dias ts rows. total l) = length rows"
proof
  show "(\<Sum>l\<leftarrow>consulta_churn key rotulo ref dias ts rows. nunca_ativaram l)
     + (\<Sum>l\<leftarrow>consulta_churn key rotulo ref dias ts rows. inativos l)
     + (\<Sum>l\<leftarrow>consulta_churn key rotulo ref dias ts rows. ativos l) = length rows"
    unfolding soma_estados_consulta
    by (rule length_filter_three_way) (use clientes_ativos_subset in blast)
  show "(\<Sum>l\<leftarrow>consulta_churn key rotulo ref dias ts rows. total l) = length rows"
    by (rule soma_total_consulta)
qed

text \<open>C4: widening the inactivity window (more days) never lowers the number of active
  customers, never raises the number of inactive ones, and leaves the never-activated
  count unchanged, over the whole result.\<close>

theorem consulta_churn_mono_janela:
  assumes "dias \<le> dias'" and "data_valida ref" and "date_menos_dias ref dias' \<noteq> None"
  shows "(\<Sum>l\<leftarrow>consulta_churn key rotulo ref dias ts rows. ativos l)
           \<le> (\<Sum>l\<leftarrow>consulta_churn key rotulo ref dias' ts rows. ativos l) \<and>
         (\<Sum>l\<leftarrow>consulta_churn key rotulo ref dias' ts rows. inativos l)
           \<le> (\<Sum>l\<leftarrow>consulta_churn key rotulo ref dias ts rows. inativos l) \<and>
         (\<Sum>l\<leftarrow>consulta_churn key rotulo ref dias' ts rows. nunca_ativaram l)
           = (\<Sum>l\<leftarrow>consulta_churn key rotulo ref dias ts rows. nunca_ativaram l)"
proof -
  have sub: "set (clientes_ativos (data_corte ref dias) ts) \<subseteq> set (clientes_ativos (data_corte ref dias') ts)"
    by (rule clientes_ativos_mono_janela [OF assms])
  show ?thesis
    unfolding soma_estados_consulta
    by (intro conjI length_filter_mono_pred refl) (use sub in auto)
qed

lemma percentual_bounds: "x \<le> n \<Longrightarrow> 0 \<le> percentual x n \<and> percentual x n \<le> 100"
proof (cases "n = 0")
  case True
  then show "x \<le> n \<Longrightarrow> ?thesis" by (simp add: percentual_def sql_round2_def)
next
  case False
  assume "x \<le> n"
  then have "real x * 100 / real n \<le> 100"
    using False by (simp add: divide_le_eq)
  then show ?thesis
    by (simp add: percentual_def sql_round2_nonneg sql_round2_le_100)
qed

lemma percentual_add:
  "\<bar>percentual (a + b) n - (percentual a n + percentual b n)\<bar> \<le> 1 / 100"
proof -
  have "real (a + b) * 100 / real n = real a * 100 / real n + real b * 100 / real n"
    by (simp add: add_divide_distrib distrib_right)
  then show ?thesis
    unfolding percentual_def using sql_round2_add [of "real a * 100 / real n" "real b * 100 / real n"]
    by (simp only:)
qed

text \<open>C9: every percentage of the result lies between 0 and 100 (\<^verbatim>\<open>COUNT(*)\<close> of a
  group is never 0, so no division by zero occurs), and the rounded
  \<^verbatim>\<open>impacto_total\<close> differs from the sum of the two rounded percentages it combines
  by at most one hundredth.\<close>

theorem consulta_churn_percentuais:
  "\<forall>l\<in>set (consulta_churn key rotulo ref dias ts rows).
     0 \<le> perc_nunca_ativaram l \<and> perc_nunca_ativaram l \<le> 100 \<and>
     0 \<le> perc_inativos l \<and> perc_inativos l \<le> 100 \<and>
     0 \<le> impacto_total l \<and> impacto_total l \<le> 100 \<and>
     \<bar>impacto_total l - (perc_nunca_ativaram l + perc_inativos l)\<bar> \<le> 1 / 100"
proof
  fix l
  assume "l \<in> set (consulta_churn key rotulo ref dias ts rows)"
  then obtain k g where kg: "(k, g) \<in> set (group_by (\<lambda>x. rotulo (fst (fst x))) (juntar_churn key ref dias ts rows))"
    and l: "l = linha_de_grupo (k, g)"
    by (blast dest: set_consulta_churn)
  have p: "nunca_ativaram l + inativos l + ativos l = total l"
    unfolding l by (rule linha_de_grupo_particao) (rule grupos_juntar_churn_subset [OF kg])
  let ?n = "count_when conta_nunca g" and ?i = "count_when conta_inativo g" and ?t = "length g"
  have "?n \<le> ?t" "?i \<le> ?t" "?n + ?i \<le> ?t"
    using p by (simp_all add: l linha_de_grupo_def)
  then show "0 \<le> perc_nunca_ativaram l \<and> perc_nunca_ativaram l \<le> 100 \<and>
     0 \<le> perc_inativos l \<and> perc_inativos l \<le> 100 \<and>
     0 \<le> impacto_total l \<and> impacto_total l \<le> 100 \<and>
     \<bar>impacto_total l - (perc_nunca_ativaram l + perc_inativos l)\<bar> \<le> 1 / 100"
    using percentual_bounds percentual_add by (simp add: l linha_de_grupo_def)
qed

section \<open>The population summary\<close>

lemma inativos_mais_ativos:
  "length (filter (\<lambda>c. c \<notin> set (clientes_ativos corte ts)) (clientes_com_transacoes ts))
     + length (clientes_ativos corte ts) = length (clientes_com_transacoes ts)"
  using sum_length_filter_compl [of "\<lambda>c. c \<notin> set (clientes_ativos corte ts)" "clientes_com_transacoes ts"]
    length_filter_mem_distinct [OF distinct_clientes_com_transacoes distinct_clientes_ativos clientes_ativos_subset]
  by simp

lemma length_filter_mem_card: "distinct xs \<Longrightarrow> length (filter (\<lambda>x. x \<in> A) xs) = card (set xs \<inter> A)"
  by (simp add: distinct_card [symmetric] Int_def)

lemma resumo_base_distinto:
  assumes "distinct (map cli_id cs)"
  shows "total_clientes (resumo_base ref dias cs ts) = length cs \<and>
         resumo_nunca (resumo_base ref dias cs ts) = length (filter (\<lambda>i. i \<notin> set (clientes_com_transacoes ts)) (map cli_id cs)) \<and>
         resumo_inativos (resumo_base ref dias cs ts) + resumo_ativos (resumo_base ref dias cs ts) = length (clientes_com_transacoes ts)"
proof -
  have tc: "remdups (map (\<lambda>c. (cli_id c, cli_criacao_conta c)) cs) = map (\<lambda>c. (cli_id c, cli_criacao_conta c)) cs"
    using assms by (simp add: distinct_map inj_on_def)
  show ?thesis
    using inativos_mais_ativos [of "data_corte ref dias" ts]
    by (simp add: resumo_base_def Let_def tc filter_map comp_def)
qed

text \<open>C11: when customer ids are unique in \<^verbatim>\<open>clientes\<close> and every transaction
  belongs to a registered customer, the three counts of \<^verbatim>\<open>analise_base_completa\<close> add
  up to the number of registered customers, and the problem total is never activated
  plus inactive.\<close>

theorem resumo_base_particao:
  assumes "distinct (map cli_id cs)" and "set (map tx_cliente ts) \<subseteq> set (map cli_id cs)"
  shows "resumo_nunca (resumo_base ref dias cs ts) + resumo_inativos (resumo_base ref dias cs ts)
           + resumo_ativos (resumo_base ref dias cs ts) = total_clientes (resumo_base ref dias cs ts) \<and>
         total_com_problemas (resumo_base ref dias cs ts)
           = resumo_nunca (resumo_base ref dias cs ts) + resumo_inativos (resumo_base ref dias cs ts)"
proof -
  let ?ids = "map cli_id cs" and ?cct = "clientes_com_transacoes ts"
  have cct_sub: "set ?cct \<subseteq> set ?ids"
    using assms(2) by (auto simp: clientes_com_transacoes_def)
  have ids: "length (filter (\<lambda>i. i \<notin> set ?cct) ?ids) + length ?cct = length ?ids"
    using sum_length_filter_compl [of "\<lambda>i. i \<notin> set ?cct" ?ids]
      length_filter_mem_distinct [OF assms(1) distinct_clientes_com_transacoes cct_sub]
    by simp
  have p: "total_com_problemas (resumo_base ref dias cs ts)
            = resumo_nunca (resumo_base ref dias cs ts) + resumo_inativos (resumo_base ref dias cs ts)"
    by (simp add: resumo_base_def Let_def)
  show ?thesis
    using resumo_base_distinto [OF assms(1), of ref dias ts] ids p by simp
qed

text \<open>C12: \<^verbatim>\<open>analise_base_completa\<close> takes the never-activated count from the registered
  customers but the inactive and active counts from the transactions alone: with unique
  customer ids its three states add up to the registered customers plus the customer ids
  of the transactions that \<^verbatim>\<open>clientes\<close> does not hold, each counted inactive or active.\<close>

theorem resumo_base_transacoes_orfas:
  assumes "distinct (map cli_id cs)"
  shows "resumo_nunca (resumo_base ref dias cs ts) + resumo_inativos (resumo_base ref dias cs ts)
           + resumo_ativos (resumo_base ref dias cs ts)
         = total_clientes (resumo_base ref dias cs ts)
           + length (filter (\<lambda>c. c \<notin> set (map cli_id cs)) (clientes_com_transacoes ts))"
proof -
  let ?ids = "map cli_id cs" and ?cct = "clientes_com_transacoes ts"
  have a: "length (filter (\<lambda>i. i \<notin> set ?cct) ?ids) + length (filter (\<lambda>i. i \<in> set ?cct) ?ids) = length ?ids"
    using sum_length_filter_compl [of "\<lambda>i. i \<notin> set ?cct" ?ids] by simp
  have b: "length (filter (\<lambda>c. c \<in> set ?ids) ?cct) + length (filter (\<lambda>c. c \<notin> set ?ids) ?cct) = length ?cct"
    using sum_length_filter_compl [of "\<lambda>c. c \<in> set ?ids" ?cct] by simp
  have c: "length (filter (\<lambda>i. i \<in> set ?cct) ?ids) = length (filter (\<lambda>c. c \<in> set ?ids) ?cct)"
    using length_filter_mem_card [OF assms(1), of "set ?cct"]
      length_filter_mem_card [OF distinct_clientes_com_transacoes, of "set ?ids" ts]
    by (simp add: Int_commute)
  show ?thesis
    using resumo_base_distinto [OF assms(1), of ref dias ts] a b c by simp
qed

end
