(* ===== verification/Faixas.thy ===== *)
theory Faixas
  imports Agregacao_Coorte
begin

text \<open>
  The seven dimension queries of \<^verbatim>\<open>src/novaAbordagem/analise_churn_completa_2024.py\<close>
  (\<^verbatim>\<open>analise_1_idade_completa\<close> to \<^verbatim>\<open>analise_7_limite_cartao_completa\<close>). Each is the
  query \<open>consulta_churn\<close> of \<open>Agregacao_Coorte\<close> over its own rows and its own category:
  \<^item> queries 1 to 3 read one row per customer (\<open>todos_clientes\<close>) and put it in a band of
    age, income or months since the account was created;
  \<^item> queries 4 to 7 read one row per customer and card attribute, through
    \<^verbatim>\<open>transacoes INNER JOIN cartoes\<close>, united with one row carrying a sentinel for each
    customer without transactions (\<open>clientes_por_cartao\<close>), and group by card type,
    product, months since issue, or limit band.
  The bands are the \<^verbatim>\<open>CASE WHEN\<close> chains of the source with SQL's NULL semantics: a NULL
  operand makes every comparison NULL and the chain falls through to its \<^verbatim>\<open>ELSE\<close>.
  A band label is a constructor of a datatype with one constructor per label of the
  source; grouping by the constructor groups as the distinct label texts do.
\<close>

section \<open>Months elapsed\<close>

text \<open>\<^verbatim>\<open>'2024-12-30'\<close>, the reference date written into every query of the file.\<close>

definition data_referencia :: data_civil where
  "data_referencia = (2024, 12, 30)"

text \<open>\<^verbatim>\<open>ROUND((JULIANDAY('2024-12-30') - JULIANDAY(x)) / 30.44)\<close>, NULL when \<open>x\<close> is.\<close>

definition meses_desde :: "data_civil \<Rightarrow> carimbo option \<Rightarrow> real option" where
  "meses_desde ref x = map_option (\<lambda>c. sql_round0 ((juliano_data ref - juliano c) / 30.44)) x"

section \<open>The bands\<close>

datatype rotulo_idade =
  Idade_18_25 | Idade_26_35 | Idade_36_45 | Idade_46_55 | Idade_55_mais | Idade_nao_informada

definition faixa_etaria :: "int \<Rightarrow> rotulo_idade" where
  "faixa_etaria i =
     (if 18 \<le> i \<and> i \<le> 25 then Idade_18_25
      else if 26 \<le> i \<and> i \<le> 35 then Idade_26_35
      else if 36 \<le> i \<and> i \<le> 45 then Idade_36_45
      else if 46 \<le> i \<and> i \<le> 55 then Idade_46_55
      else if 55 < i then Idade_55_mais
      else Idade_nao_informada)"

datatype rotulo_renda =
  Renda_ate_50000 | Renda_50000_80000 | Renda_80000_120000 | Renda_acima_120000
  | Renda_nao_informada

definition faixa_renda :: "real option \<Rightarrow> rotulo_renda" where
  "faixa_renda r =
     sql_case_when (sql_less r (Some 50000)) Renda_ate_50000
      (sql_case_when (sql_between r (Some 50000) (Some 80000)) Renda_50000_80000
       (sql_case_when (sql_between r (Some 80000) (Some 120000)) Renda_80000_120000
        (sql_case_when (sql_less (Some 120000) r) Renda_acima_120000 Renda_nao_informada)))"

datatype rotulo_tempo = Meses_0_6 | Meses_7_12 | Meses_13_24 | Meses_25_36 | Mais_de_36_meses

definition tempo_conta :: "real option \<Rightarrow> rotulo_tempo" where
  "tempo_conta m =
     sql_case_when (sql_le m (Some 6)) Meses_0_6
      (sql_case_when (sql_le m (Some 12)) Meses_7_12
       (sql_case_when (sql_le m (Some 24)) Meses_13_24
        (sql_case_when (sql_le m (Some 36)) Meses_25_36 Mais_de_36_meses)))"

text \<open>The card-age bands are the account-age bands behind a first test for the
  sentinel \<open>-1\<close> of customers without a card.\<close>

datatype rotulo_tempo_cartao = Sem_cartao_ativo | Tempo_cartao rotulo_tempo

definition tempo_cartao :: "real option \<Rightarrow> rotulo_tempo_cartao" where
  "tempo_cartao m = sql_case_when (sql_eq m (Some (- 1))) Sem_cartao_ativo (Tempo_cartao (tempo_conta m))"

datatype rotulo_limite =
  Sem_limite_definido | Limite_zero | Limite_ate_1000 | Limite_1000_2500 | Limite_2500_5000
  | Limite_5000_10000 | Limite_acima_10000 | Limite_outros

definition faixa_limite :: "real option \<Rightarrow> rotulo_limite" where
  "faixa_limite l =
     sql_case_when (sql_eq l (Some (- 1))) Sem_limite_definido
      (sql_case_when (sql_eq l (Some 0)) Limite_zero
       (sql_case_when (sql_less l (Some 1000)) Limite_ate_1000
        (sql_case_when (sql_between l (Some 1000) (Some 2500)) Limite_1000_2500
         (sql_case_when (sql_between l (Some 2500) (Some 5000)) Limite_2500_5000
          (sql_case_when (sql_between l (Some 5000) (Some 10000)) Limite_5000_10000
           (sql_case_when (sql_less (Some 10000) l) Limite_acima_10000 Limite_outros))))))"

section \<open>Rows through the cards\<close>

text \<open>The sentinel texts of queries 4 and 5, as the UTF-8 bytes SQLite stores
  (the letter a with a tilde is the two bytes 195 and 163).\<close>

definition texto_sem_cartao_ativo :: texto where
  "texto_sem_cartao_ativo = ''Sem Cart'' @ [char_of (195::nat), char_of (163::nat)] @ ''o Ativo''"

definition texto_nao_identificado :: texto where
  "texto_nao_identificado = ''N'' @ [char_of (195::nat), char_of (163::nat)] @ ''o Identificado''"

definition texto_sem_produto_ativo :: texto where
  "texto_sem_produto_ativo = ''Sem Produto Ativo''"

text \<open>
  The common row set of queries 4 to 7:
  \<^verbatim>\<open>SELECT DISTINCT t.Cliente_ID, <attribute of cart> FROM transacoes t INNER JOIN cartoes
  cart ON t.ID_Cartao = cart.ID_Cartao [WHERE <filter>] UNION SELECT DISTINCT
  c.Cliente_ID, <sentinel> FROM clientes c WHERE c.Cliente_ID NOT IN (SELECT DISTINCT
  Cliente_ID FROM transacoes)\<close>. \<^verbatim>\<open>UNION\<close> removes duplicates across both parts.
\<close>

definition clientes_por_cartao ::
  "(cartao \<Rightarrow> bool) \<Rightarrow> (cartao \<Rightarrow> 'a) \<Rightarrow> 'a \<Rightarrow> transacao list \<Rightarrow> cartao list \<Rightarrow> cliente list
   \<Rightarrow> (cliente_id \<times> 'a) list" where
  "clientes_por_cartao filtro atributo sentinela ts cards cs =
     remdups (map (\<lambda>(t, k). (tx_cliente t, atributo k))
                (filter (\<lambda>(t, k). filtro k) (inner_join (\<lambda>t k. tx_cartao t = car_id k) ts cards))
              @ map (\<lambda>c. (cli_id c, sentinela))
                  (filter (\<lambda>c. cli_id c \<notin> set (clientes_com_transacoes ts)) cs))"

section \<open>The seven queries\<close>

definition analise_1_idade :: "cliente list \<Rightarrow> transacao list \<Rightarrow> rotulo_idade linha_churn list" where
  "analise_1_idade cs ts =
     consulta_churn fst (\<lambda>r. faixa_etaria (snd r)) data_referencia 90 ts (todos_clientes cli_idade cs)"

definition analise_2_renda :: "cliente list \<Rightarrow> transacao list \<Rightarrow> rotulo_renda linha_churn list" where
  "analise_2_renda cs ts =
     consulta_churn fst (\<lambda>r. faixa_renda (snd r)) data_referencia 90 ts (todos_clientes cli_renda cs)"

definition analise_3_tempo_conta :: "cliente list \<Rightarrow> transacao list \<Rightarrow> rotulo_tempo linha_churn list" where
  "analise_3_tempo_conta cs ts =
     consulta_churn fst (\<lambda>r. tempo_conta (snd r)) data_referencia 90 ts
       (todos_clientes (\<lambda>c. meses_desde data_referencia (cli_criacao_conta c)) cs)"

definition analise_4_tipo_cartao ::
  "cliente list \<Rightarrow> cartao list \<Rightarrow> transacao list \<Rightarrow> texto option linha_churn list" where
  "analise_4_tipo_cartao cs cards ts =
     consulta_churn fst snd data_referencia 90 ts
       (clientes_por_cartao (\<lambda>k. True) car_tipo (Some texto_sem_cartao_ativo) ts cards cs)"

definition analise_5_produto :: "cliente list \<Rightarrow> cartao list \<Rightarrow> transacao list \<Rightarrow> texto linha_churn list" where
  "analise_5_produto cs cards ts =
     consulta_churn fst snd data_referencia 90 ts
       (clientes_por_cartao (\<lambda>k. True) (\<lambda>k. sql_coalesce (car_produto k) texto_nao_identificado)
          texto_sem_produto_ativo ts cards cs)"

definition analise_6_tempo_cartao ::
  "cliente list \<Rightarrow> cartao list \<Rightarrow> transacao list \<Rightarrow> rotulo_tempo_cartao linha_churn list" where
  "analise_6_tempo_cartao cs cards ts =
     consulta_churn fst (\<lambda>r. tempo_cartao (snd r)) data_referencia 90 ts
       (clientes_por_cartao (\<lambda>k. True) (\<lambda>k. meses_desde data_referencia (car_emissao k)) (Some (- 1))
          ts cards cs)"

definition analise_7_limite ::
  "cliente list \<Rightarrow> cartao list \<Rightarrow> transacao list \<Rightarrow> rotulo_limite linha_churn list" where
  "analise_7_limite cs cards ts =
     consulta_churn fst (\<lambda>r. faixa_limite (snd r)) data_referencia 90 ts
       (clientes_por_cartao (\<lambda>k. car_limite k \<noteq> None) car_limite (Some (- 1)) ts cards cs)"

declare data_referencia_def [churn_simps] meses_desde_def [churn_simps] faixa_etaria_def [churn_simps]
  faixa_renda_def [churn_simps] tempo_conta_def [churn_simps] tempo_cartao_def [churn_simps]
  faixa_limite_def [churn_simps] texto_sem_cartao_ativo_def [churn_simps]
  texto_nao_identificado_def [churn_simps] texto_sem_produto_ativo_def [churn_simps]
  clientes_por_cartao_def [churn_simps] analise_1_idade_def [churn_simps]
  analise_2_renda_def [churn_simps] analise_3_tempo_conta_def [churn_simps]
  analise_4_tipo_cartao_def [churn_simps] analise_5_produto_def [churn_simps]
  analise_6_tempo_cartao_def [churn_simps] analise_7_limite_def [churn_simps]


section \<open>The bands\<close>

text \<open>C16: the age band "not informed" of query 1 (\<^verbatim>\<open>Idade_nao_informada\<close>) holds exactly the customers
  younger than 18: \<^verbatim>\<open>Idade\<close> is never NULL, and the \<^verbatim>\<open>ELSE\<close> branch catches the ages
  below the first band, which are informed ages.\<close>

theorem faixa_etaria_nao_informada: "faixa_etaria i = Idade_nao_informada \<longleftrightarrow> i < 18"
  by (simp add: faixa_etaria_def)

text \<open>Every present income falls in one of the four income bands of query 2;
  only a NULL income reaches the \<^verbatim>\<open>ELSE\<close> band (\<^verbatim>\<open>Renda_nao_informada\<close>).\<close>

theorem faixa_renda_nao_informada: "faixa_renda r = Renda_nao_informada \<longleftrightarrow> r = None"
  by (cases r) (auto simp: faixa_renda_def)

text \<open>C18: the last account-age band of query 3, \<^verbatim>\<open>'Mais de 36 meses'\<close>, holds the
  accounts older than 36 months and also every account whose creation date is NULL:
  the NULL month count fails every \<^verbatim>\<open><=\<close> test and falls through to the \<^verbatim>\<open>ELSE\<close>.\<close>

theorem tempo_conta_mais_de_36: "tempo_conta m = Mais_de_36_meses \<longleftrightarrow> (case m of None \<Rightarrow> True | Some v \<Rightarrow> 36 < v)"
  by (cases m) (auto simp: tempo_conta_def)

text \<open>C19: in query 6, a card is put in the band of the sentinel \<^verbatim>\<open>-1\<close> (the row
  meant for customers without a card) exactly when it was issued between 15.22 and
  45.66 days after the reference date, since \<^verbatim>\<open>ROUND\<close> then gives \<^verbatim>\<open>-1\<close> months.\<close>

theorem tempo_cartao_sentinela:
  "tempo_cartao (meses_desde ref (Some e)) = Sem_cartao_ativo \<longleftrightarrow>
     - 45.66 < juliano_data ref - juliano e \<and> juliano_data ref - juliano e \<le> - 15.22"
proof -
  have "tempo_cartao (meses_desde ref (Some e)) = Sem_cartao_ativo \<longleftrightarrow>
      sql_round0 ((juliano_data ref - juliano e) / 30.44) = - 1"
    by (simp add: tempo_cartao_def meses_desde_def)
  also have "\<dots> \<longleftrightarrow> - 3 / 2 < (juliano_data ref - juliano e) / 30.44 \<and> (juliano_data ref - juliano e) / 30.44 \<le> - 1 / 2"
    by (rule sql_round0_minus_one)
  also have "\<dots> \<longleftrightarrow> - 45.66 < juliano_data ref - juliano e \<and> juliano_data ref - juliano e \<le> - 15.22"
    by (simp add: field_simps)
  finally show ?thesis .
qed

lemma faixa_limite_outros: "faixa_limite l = Limite_outros \<longleftrightarrow> l = None"
  by (cases l) (auto simp: faixa_limite_def)

section \<open>The rows through the cards\<close>

lemma mem_clientes_por_cartao:
  "(c, a) \<in> set (clientes_por_cartao filtro f s ts cards cs) \<longleftrightarrow>
     (\<exists>t\<in>set ts. \<exists>k\<in>set cards. tx_cartao t = car_id k \<and> filtro k \<and> c = tx_cliente t \<and> a = f k) \<or>
     (a = s \<and> (\<exists>x\<in>set cs. cli_id x = c) \<and> c \<notin> set (clientes_com_transacoes ts))"
  by (auto simp: clientes_por_cartao_def set_inner_join image_iff)

text \<open>C20: the customers that queries 4 to 7 count are exactly those with a transaction
  on a card of \<^verbatim>\<open>cartoes\<close> that passes the query's filter, and the registered
  customers without any transaction. A customer who transacted only on cards missing
  from \<^verbatim>\<open>cartoes\<close> (or, in query 7, only on cards without a limit) is in no row.\<close>

theorem clientes_por_cartao_cobertura:
  "c \<in> fst ` set (clientes_por_cartao filtro f s ts cards cs) \<longleftrightarrow>
     (\<exists>t\<in>set ts. tx_cliente t = c \<and> (\<exists>k\<in>set cards. tx_cartao t = car_id k \<and> filtro k)) \<or>
     ((\<exists>x\<in>set cs. cli_id x = c) \<and> (\<forall>t\<in>set ts. tx_cliente t \<noteq> c))"
proof -
  have "c \<in> fst ` set (clientes_por_cartao filtro f s ts cards cs) \<longleftrightarrow>
      (\<exists>a. (c, a) \<in> set (clientes_por_cartao filtro f s ts cards cs))"
    by force
  then show ?thesis by (auto simp: mem_clientes_por_cartao mem_clientes_com_transacoes)
qed

text \<open>C21: in the card-type query, a row other than the sentinel \<^verbatim>\<open>texto_sem_cartao_ativo\<close> ("no active card")
  counts no never-activated customer, and, when no card has that text as its type, the
  sentinel row counts only never-activated customers.\<close>

theorem analise_4_nunca_so_sem_cartao:
  assumes "l \<in> set (analise_4_tipo_cartao cs cards ts)"
  shows "(categoria l \<noteq> Some texto_sem_cartao_ativo \<longrightarrow> nunca_ativaram l = 0) \<and>
         ((\<forall>k\<in>set cards. car_tipo k \<noteq> Some texto_sem_cartao_ativo) \<longrightarrow>
          categoria l = Some texto_sem_cartao_ativo \<longrightarrow>
          nunca_ativaram l = total l \<and> inativos l = 0 \<and> ativos l = 0)"
proof -
  let ?rows = "clientes_por_cartao (\<lambda>k. True) car_tipo (Some texto_sem_cartao_ativo) ts cards cs"
  have l: "l \<in> set (consulta_churn fst snd data_referencia 90 ts ?rows)"
    using assms by (simp add: analise_4_tipo_cartao_def)
  have tipo: "categoria l \<noteq> Some texto_sem_cartao_ativo \<longrightarrow> nunca_ativaram l = 0"
  proof
    assume cat: "categoria l \<noteq> Some texto_sem_cartao_ativo"
    show "nunca_ativaram l = 0"
    proof (rule consulta_churn_nunca_zero [OF l])
      fix r assume "r \<in> set ?rows" and "snd r = categoria l"
      moreover obtain c a where "r = (c, a)" by fastforce
      ultimately show "fst r \<in> set (clientes_com_transacoes ts)"
        using cat by (auto simp: mem_clientes_por_cartao mem_clientes_com_transacoes)
    qed
  qed
  have sentinela: "(\<forall>k\<in>set cards. car_tipo k \<noteq> Some texto_sem_cartao_ativo) \<longrightarrow>
      categoria l = Some texto_sem_cartao_ativo \<longrightarrow>
      nunca_ativaram l = total l \<and> inativos l = 0 \<and> ativos l = 0"
  proof (intro impI)
    assume tipos: "\<forall>k\<in>set cards. car_tipo k \<noteq> Some texto_sem_cartao_ativo"
      and cat: "categoria l = Some texto_sem_cartao_ativo"
    show "nunca_ativaram l = total l \<and> inativos l = 0 \<and> ativos l = 0"
    proof (rule consulta_churn_so_nunca [OF l])
      fix r assume "r \<in> set ?rows" and "snd r = categoria l"
      moreover obtain c a where "r = (c, a)" by fastforce
      ultimately show "fst r \<notin> set (clientes_com_transacoes ts)"
        using cat tipos by (auto simp: mem_clientes_por_cartao)
    qed
  qed
  from tipo sentinela show ?thesis by blast
qed

lemma distinct_clientes_por_cartao: "distinct (clientes_por_cartao filtro f s ts cards cs)"
  by (simp add: clientes_por_cartao_def)

text \<open>C22: a customer seen with two different card types is counted in two rows
  of the card-type query, so the row totals add up to more than the number of
  distinct customers the query covers.\<close>

theorem analise_4_dupla_contagem:
  assumes "(c, a1) \<in> set (clientes_por_cartao (\<lambda>k. True) car_tipo (Some texto_sem_cartao_ativo) ts cards cs)"
    and "(c, a2) \<in> set (clientes_por_cartao (\<lambda>k. True) car_tipo (Some texto_sem_cartao_ativo) ts cards cs)"
    and "a1 \<noteq> a2"
  shows "card (fst ` set (clientes_por_cartao (\<lambda>k. True) car_tipo (Some texto_sem_cartao_ativo) ts cards cs))
           < (\<Sum>l\<leftarrow>analise_4_tipo_cartao cs cards ts. total l)"
proof -
  let ?rows = "clientes_por_cartao (\<lambda>k. True) car_tipo (Some texto_sem_cartao_ativo) ts cards cs"
  have "\<not> inj_on fst (set ?rows)"
  proof
    assume "inj_on fst (set ?rows)"
    then have "(c, a1) = (c, a2)" by (rule inj_onD) (simp_all add: assms(1,2))
    with assms(3) show False by simp
  qed
  then have "card (fst ` set ?rows) \<noteq> card (set ?rows)"
    by (simp add: inj_on_iff_eq_card)
  then have "card (fst ` set ?rows) < card (set ?rows)"
    using card_image_le [of "set ?rows" fst] by simp
  also have "\<dots> = length ?rows"
    by (rule distinct_card [OF distinct_clientes_por_cartao])
  also have "\<dots> = (\<Sum>l\<leftarrow>analise_4_tipo_cartao cs cards ts. total l)"
    by (simp add: analise_4_tipo_cartao_def soma_total_consulta)
  finally show ?thesis .
qed

text \<open>The band \<^verbatim>\<open>'Outros'\<close> of query 7 is never produced: the rows are read
  with \<^verbatim>\<open>Limite_Cartao IS NOT NULL\<close> or carry the sentinel, and every present limit
  falls in one of the other bands.\<close>

theorem analise_7_sem_outros:
  "l \<in> set (analise_7_limite cs cards ts) \<Longrightarrow> categoria l \<noteq> Limite_outros"
proof -
  let ?rows = "clientes_por_cartao (\<lambda>k. car_limite k \<noteq> None) car_limite (Some (- 1)) ts cards cs"
  assume "l \<in> set (analise_7_limite cs cards ts)"
  then have "l \<in> set (consulta_churn fst (\<lambda>r. faixa_limite (snd r)) data_referencia 90 ts ?rows)"
    by (simp add: analise_7_limite_def)
  then obtain r where r: "r \<in> set ?rows" and cat: "faixa_limite (snd r) = categoria l"
    by (blast dest: categoria_consulta_churn)
  obtain c a where "r = (c, a)" by fastforce
  then have "snd r \<noteq> None" using r by (auto simp: mem_clientes_por_cartao)
  then have "faixa_limite (snd r) \<noteq> Limite_outros"
    by (simp add: faixa_limite_outros)
  then show ?thesis using cat by simp
qed

lemma length_todos_clientes:
  "distinct (map cli_id cs) \<Longrightarrow> length (todos_clientes f cs) = length cs"
proof -
  assume d: "distinct (map cli_id cs)"
  then have "distinct (map (\<lambda>c. (cli_id c, f c)) cs)"
    by (induction cs) auto
  then show ?thesis by (simp add: todos_clientes_def distinct_remdups_id)
qed

text \<open>C24: in queries 1 to 3, which read one row per customer, the group totals add up
  to the number of customers when customer identifiers are unique.\<close>

theorem analises_clientes_soma_total:
  assumes "distinct (map cli_id cs)"
  shows "(\<Sum>l\<leftarrow>analise_1_idade cs ts. total l) = length cs \<and>
         (\<Sum>l\<leftarrow>analise_2_renda cs ts. total l) = length cs \<and>
         (\<Sum>l\<leftarrow>analise_3_tempo_conta cs ts. total l) = length cs"
  using assms
  by (simp add: analise_1_idade_def analise_2_renda_def analise_3_tempo_conta_def
      soma_total_consulta length_todos_clientes)

end
