(* ===== verification/Banco_Esquema.thy ===== *)
theory Banco_Esquema
  imports Tabelas
begin

text \<open>
  The schema that \<^verbatim>\<open>src/bd/criar_banco_sqlite.py\<close> builds, as a state machine over
  the catalogue of the SQLite file. The script removes the old file, runs three
  \<^verbatim>\<open>CREATE TABLE\<close> statements with primary and foreign keys, then writes every table
  with \<^verbatim>\<open>DataFrame.to_sql(name, conn, if_exists='replace', index=False)\<close>, which drops
  the table it finds and creates a new one with the columns of the DataFrame and no key,
  then creates four views and six indices. An operation returns the new catalogue or the
  error SQLite raises; the script is the sequence of its operations, and the first error
  ends it. Names of tables, views, indices and columns are compared without regard to
  ASCII case, as SQLite does, and all schema objects share one namespace. The declared
  column types are not modelled: no query of the repository depends on them.
\<close>

section \<open>Names\<close>

definition minuscula :: "char \<Rightarrow> char" where
  "minuscula c = (if CHR ''A'' \<le> c \<and> c \<le> CHR ''Z'' then char_of (of_char c + (32::nat)) else c)"

definition chave_nome :: "texto \<Rightarrow> texto" where
  "chave_nome n = map minuscula n"

section \<open>The catalogue\<close>

record coluna_sql =
  col_nome :: texto
  col_chave_primaria :: bool

record tabela_sql =
  tab_colunas :: "coluna_sql list"
  tab_chaves_estrangeiras :: "(texto \<times> texto \<times> texto) list"

record banco_sql =
  tabelas :: "texto \<Rightarrow> tabela_sql option"
  visoes :: "texto list"
  indices :: "(texto \<times> texto \<times> texto) list"

definition banco_vazio :: banco_sql where
  "banco_vazio = \<lparr>tabelas = Map.empty, visoes = [], indices = []\<rparr>"

datatype erro_sql = Ja_Existe texto | Tabela_Inexistente texto | Coluna_Inexistente texto texto

datatype operacao_banco =
    Criar_Tabela texto tabela_sql
  | Inserir_Substituindo texto "texto list"
  | Criar_Visao texto
  | Criar_Indice texto texto texto

definition nome_ocupado :: "banco_sql \<Rightarrow> texto \<Rightarrow> bool" where
  "nome_ocupado db n \<longleftrightarrow>
     tabelas db (chave_nome n) \<noteq> None \<or> chave_nome n \<in> set (visoes db) \<or> chave_nome n \<in> fst ` set (indices db)"

definition tem_coluna :: "tabela_sql \<Rightarrow> texto \<Rightarrow> bool" where
  "tem_coluna t c \<longleftrightarrow> chave_nome c \<in> set (map (\<lambda>k. chave_nome (col_nome k)) (tab_colunas t))"

text \<open>The table \<^verbatim>\<open>to_sql\<close> creates: one column per column of the DataFrame, no primary
  key and no foreign key.\<close>

definition tabela_de_dataframe :: "texto list \<Rightarrow> tabela_sql" where
  "tabela_de_dataframe cs =
     \<lparr>tab_colunas = map (\<lambda>c. \<lparr>col_nome = c, col_chave_primaria = False\<rparr>) cs, tab_chaves_estrangeiras = []\<rparr>"

text \<open>One statement. \<^verbatim>\<open>CREATE TABLE\<close>, \<^verbatim>\<open>CREATE VIEW\<close> and \<^verbatim>\<open>CREATE INDEX\<close> fail on a
  name already in use; \<^verbatim>\<open>CREATE INDEX\<close> fails on a missing table or column;
  \<^verbatim>\<open>to_sql(..., if_exists='replace')\<close> drops the table of that name, with its indices,
  and creates the new one.\<close>

fun passo_banco :: "operacao_banco \<Rightarrow> banco_sql \<Rightarrow> erro_sql + banco_sql" where
  "passo_banco (Criar_Tabela n t) db =
     (if nome_ocupado db n then Inl (Ja_Existe n)
      else Inr (db\<lparr>tabelas := (tabelas db)(chave_nome n \<mapsto> t)\<rparr>))"
| "passo_banco (Inserir_Substituindo n cs) db =
     (if chave_nome n \<in> set (visoes db) \<or> chave_nome n \<in> fst ` set (indices db) then Inl (Ja_Existe n)
      else Inr (db\<lparr>tabelas := (tabelas db)(chave_nome n \<mapsto> tabela_de_dataframe cs),
                   indices := filter (\<lambda>i. fst (snd i) \<noteq> chave_nome n) (indices db)\<rparr>))"
| "passo_banco (Criar_Visao n) db =
     (if nome_ocupado db n then Inl (Ja_Existe n) else Inr (db\<lparr>visoes := visoes db @ [chave_nome n]\<rparr>))"
| "passo_banco (Criar_Indice i n c) db =
     (if nome_ocupado db i then Inl (Ja_Existe i)
      else case tabelas db (chave_nome n) of
             None \<Rightarrow> Inl (Tabela_Inexistente n)
           | Some t \<Rightarrow> if tem_coluna t c then Inr (db\<lparr>indices := indices db @ [(chave_nome i, chave_nome n, chave_nome c)]\<rparr>)
                       else Inl (Coluna_Inexistente n c))"

fun executa_banco :: "operacao_banco list \<Rightarrow> banco_sql \<Rightarrow> erro_sql + banco_sql" where
  "executa_banco [] db = Inr db"
| "executa_banco (op # ops) db = (case passo_banco op db of Inl e \<Rightarrow> Inl e | Inr db' \<Rightarrow> executa_banco ops db')"

section \<open>The statements of the builder\<close>

definition coluna_chave :: "texto \<Rightarrow> coluna_sql" where
  "coluna_chave c = \<lparr>col_nome = c, col_chave_primaria = True\<rparr>"

definition coluna_simples :: "texto \<Rightarrow> coluna_sql" where
  "coluna_simples c = \<lparr>col_nome = c, col_chave_primaria = False\<rparr>"

definition tabela_clientes_sql :: tabela_sql where
  "tabela_clientes_sql =
     \<lparr>tab_colunas = coluna_chave ''cliente_id'' # map coluna_simples
        [''data_nascimento'', ''renda_anual'', ''data_criacao_conta'', ''numero_cartoes'', ''cidade'', ''estado'',
         ''possui_conta_adicional'', ''idade'', ''tempo_conta_meses''],
      tab_chaves_estrangeiras = []\<rparr>"

definition tabela_cartoes_sql :: tabela_sql where
  "tabela_cartoes_sql =
     \<lparr>tab_colunas = coluna_chave ''id_cartao'' # map coluna_simples
        [''produto_mastercard'', ''tipo_cartao'', ''data_emissao'', ''data_ativacao'', ''data_validade'',
         ''limite_cartao'', ''tempo_cartao_meses'', ''cartao_recente''],
      tab_chaves_estrangeiras = []\<rparr>"

definition tabela_transacoes_sql :: tabela_sql where
  "tabela_transacoes_sql =
     \<lparr>tab_colunas = coluna_chave ''id_transacao'' # map coluna_simples
        [''data'', ''valor_compra'', ''industria'', ''tipo_compra'', ''qtd_parcelas'', ''wallet'', ''cliente_id'',
         ''id_cartao'', ''input_mode'', ''input_mode_code'', ''crossborder'', ''contactless'', ''ano'', ''mes'',
         ''dia_semana'', ''trimestre'', ''faixa_valor'', ''pagamento_digital'', ''paypass''],
      tab_chaves_estrangeiras = [(''cliente_id'', ''clientes'', ''cliente_id''), (''id_cartao'', ''cartoes'', ''id_cartao'')]\<rparr>"

text \<open>\<^verbatim>\<open>df[c] = ...\<close>: an existing column (same name, case included) is overwritten in
  place, a new one is appended at the end.\<close>

definition acrescenta_coluna :: "texto list \<Rightarrow> texto \<Rightarrow> texto list" where
  "acrescenta_coluna cs c = (if c \<in> set cs then cs else cs @ [c])"

text \<open>The columns of \<^verbatim>\<open>df_clientes_sql\<close>, \<^verbatim>\<open>df_cartoes_sql\<close> and
  \<^verbatim>\<open>df_transacoes_sql\<close> from the header of each CSV file.\<close>

definition colunas_clientes_df :: "texto list \<Rightarrow> texto list" where
  "colunas_clientes_df h =
     foldl acrescenta_coluna h [''Data_Nascimento'', ''Data_Criacao_Conta'', ''Idade'', ''Tempo_Conta_Meses'']"

definition colunas_cartoes_df :: "texto list \<Rightarrow> texto list" where
  "colunas_cartoes_df h =
     foldl acrescenta_coluna h [''Data_Emissao'', ''Data_Ativacao'', ''Data_Validade'', ''Tempo_Cartao_Meses'', ''Cartao_Recente'']"

definition colunas_transacoes_df :: "texto list \<Rightarrow> texto list" where
  "colunas_transacoes_df h =
     foldl acrescenta_coluna h [''Data'', ''Ano'', ''Mes'', ''Dia_Semana'', ''Trimestre'', ''Faixa_Valor'',
                                ''Pagamento_Digital'', ''PayPass'']"

definition indices_banco :: "(texto \<times> texto \<times> texto) list" where
  "indices_banco =
     [(''idx_cliente_id'', ''transacoes'', ''cliente_id''), (''idx_cartao_id'', ''transacoes'', ''id_cartao''),
      (''idx_data_transacao'', ''transacoes'', ''data''), (''idx_estado_cliente'', ''clientes'', ''estado''),
      (''idx_produto_cartao'', ''cartoes'', ''produto_mastercard''), (''idx_cartao_recente'', ''cartoes'', ''cartao_recente'')]"

text \<open>The whole script from the removal of the old file, given the headers of
  \<^verbatim>\<open>Base_clientes.csv\<close>, \<^verbatim>\<open>Base_cartoes.csv\<close> and \<^verbatim>\<open>Base_transacoes.csv\<close>.\<close>

definition script_criar_banco :: "texto list \<Rightarrow> texto list \<Rightarrow> texto list \<Rightarrow> operacao_banco list" where
  "script_criar_banco hc hk ht =
     [Criar_Tabela ''clientes'' tabela_clientes_sql, Criar_Tabela ''cartoes'' tabela_cartoes_sql,
      Criar_Tabela ''transacoes'' tabela_transacoes_sql,
      Inserir_Substituindo ''clientes'' (colunas_clientes_df hc),
      Inserir_Substituindo ''cartoes'' (colunas_cartoes_df hk),
      Inserir_Substituindo ''transacoes'' (colunas_transacoes_df ht),
      Criar_Visao ''vw_analise_churn'', Criar_Visao ''vw_analise_cartoes'',
      Criar_Visao ''vw_transacoes_completas'', Criar_Visao ''vw_resumo_cliente'']
     @ map (\<lambda>(i, n, c). Criar_Indice i n c) indices_banco"

definition criar_banco :: "texto list \<Rightarrow> texto list \<Rightarrow> texto list \<Rightarrow> erro_sql + banco_sql" where
  "criar_banco hc hk ht = executa_banco (script_criar_banco hc hk ht) banco_vazio"

text \<open>The catalogue once the three tables are written and the four views created.\<close>

definition banco_carregado :: "texto list \<Rightarrow> texto list \<Rightarrow> texto list \<Rightarrow> banco_sql" where
  "banco_carregado hc hk ht =
     \<lparr>tabelas = [''clientes'' \<mapsto> tabela_de_dataframe (colunas_clientes_df hc),
                ''cartoes'' \<mapsto> tabela_de_dataframe (colunas_cartoes_df hk),
                ''transacoes'' \<mapsto> tabela_de_dataframe (colunas_transacoes_df ht)],
      visoes = [''vw_analise_churn'', ''vw_analise_cartoes'', ''vw_transacoes_completas'', ''vw_resumo_cliente''],
      indices = []\<rparr>"

section \<open>The invariant of the catalogue\<close>

text \<open>Every index names an existing table and one of its columns.\<close>

definition indice_valido :: "(texto \<Rightarrow> tabela_sql option) \<Rightarrow> texto \<times> texto \<times> texto \<Rightarrow> bool" where
  "indice_valido tab x = (case tab (fst (snd x)) of None \<Rightarrow> False | Some t \<Rightarrow> tem_coluna t (snd (snd x)))"

definition indices_validos :: "banco_sql \<Rightarrow> bool" where
  "indices_validos db \<longleftrightarrow> list_all (indice_valido (tabelas db)) (indices db)"

declare minuscula_def [churn_simps] chave_nome_def [churn_simps] banco_vazio_def [churn_simps]
  nome_ocupado_def [churn_simps] tem_coluna_def [churn_simps] tabela_de_dataframe_def [churn_simps]
  coluna_chave_def [churn_simps] coluna_simples_def [churn_simps] tabela_clientes_sql_def [churn_simps]
  tabela_cartoes_sql_def [churn_simps] tabela_transacoes_sql_def [churn_simps] acrescenta_coluna_def [churn_simps]
  colunas_clientes_df_def [churn_simps] colunas_cartoes_df_def [churn_simps] colunas_transacoes_df_def [churn_simps]
  indices_banco_def [churn_simps] script_criar_banco_def [churn_simps] criar_banco_def [churn_simps]
  indice_valido_def [churn_simps] indices_validos_def [churn_simps]

section \<open>Names and the catalogue\<close>

lemma minuscula_idem [simp]: "minuscula (minuscula c) = minuscula c"
  by (simp add: minuscula_def less_eq_char_def)

lemma chave_nome_idem [simp]: "chave_nome (chave_nome n) = chave_nome n"
  by (simp add: chave_nome_def)

lemma tem_coluna_chave [simp]: "tem_coluna t (chave_nome c) = tem_coluna t c"
  by (simp add: tem_coluna_def)

lemma indice_valido_upd:
  "fst (snd x) \<noteq> k \<Longrightarrow> indice_valido (tab(k \<mapsto> t)) x = indice_valido tab x"
  by (simp add: indice_valido_def)

lemma indice_valido_livre:
  "indice_valido tab x \<Longrightarrow> tab k = None \<Longrightarrow> fst (snd x) \<noteq> k"
  by (auto simp: indice_valido_def)

text \<open>Every statement that succeeds keeps every index on an existing table and column.\<close>

theorem passo_banco_indices_validos:
  assumes "indices_validos db" and "passo_banco op db = Inr db'"
  shows "indices_validos db'"
proof (cases op)
  case (Criar_Tabela n t)
  with assms(2) have livre: "tabelas db (chave_nome n) = None"
    and db': "db' = db\<lparr>tabelas := (tabelas db)(chave_nome n \<mapsto> t)\<rparr>"
    by (simp_all add: nome_ocupado_def split: if_splits)
  have "list_all (indice_valido ((tabelas db)(chave_nome n \<mapsto> t))) (indices db)"
    using assms(1) unfolding indices_validos_def
    by (rule list.pred_mono_strong) (simp add: indice_valido_upd indice_valido_livre [where tab = "tabelas db" and k = "chave_nome n", OF _ livre])
  then show ?thesis by (simp add: db' indices_validos_def)
next
  case (Inserir_Substituindo n cs)
  with assms(2) have db': "db' = db\<lparr>tabelas := (tabelas db)(chave_nome n \<mapsto> tabela_de_dataframe cs),
                           indices := filter (\<lambda>i. fst (snd i) \<noteq> chave_nome n) (indices db)\<rparr>"
    by (simp split: if_splits)
  have "list_all (indice_valido ((tabelas db)(chave_nome n \<mapsto> tabela_de_dataframe cs)))
          (filter (\<lambda>i. fst (snd i) \<noteq> chave_nome n) (indices db))"
    using assms(1) unfolding indices_validos_def list_all_iff by (simp add: indice_valido_upd)
  then show ?thesis by (simp add: db' indices_validos_def)
next
  case (Criar_Visao n)
  with assms(2) have "db' = db\<lparr>visoes := visoes db @ [chave_nome n]\<rparr>" by (simp split: if_splits)
  then show ?thesis using assms(1) by (simp add: indices_validos_def)
next
  case (Criar_Indice i n c)
  with assms(2) obtain t where t: "tabelas db (chave_nome n) = Some t" and c: "tem_coluna t c"
    and db': "db' = db\<lparr>indices := indices db @ [(chave_nome i, chave_nome n, chave_nome c)]\<rparr>"
    by (auto split: if_splits option.splits)
  show ?thesis using assms(1) t c by (simp add: db' indices_validos_def indice_valido_def)
qed

theorem executa_banco_indices_validos:
  "indices_validos db \<Longrightarrow> executa_banco ops db = Inr db' \<Longrightarrow> indices_validos db'"
proof (induction ops arbitrary: db)
  case Nil
  then show ?case by simp
next
  case (Cons op ops)
  then obtain db1 where "passo_banco op db = Inr db1" and "executa_banco ops db1 = Inr db'"
    by (auto split: sum.splits)
  with Cons show ?case using passo_banco_indices_validos by blast
qed


section \<open>The tables the builder leaves\<close>

lemma executa_banco_append:
  "executa_banco (xs @ ys) db = (case executa_banco xs db of Inl e \<Rightarrow> Inl e | Inr db' \<Rightarrow> executa_banco ys db')"
  by (induction xs arbitrary: db) (simp_all split: sum.splits)

lemma set_foldl_acrescenta_coluna: "set (foldl acrescenta_coluna h xs) = set h \<union> set xs"
  by (induction xs arbitrary: h) (auto simp: acrescenta_coluna_def)

lemma tem_coluna_dataframe: "tem_coluna (tabela_de_dataframe cs) c \<longleftrightarrow> chave_nome c \<in> chave_nome ` set cs"
  by (auto simp: tem_coluna_def tabela_de_dataframe_def)

lemma criar_banco_carregado:
  "criar_banco hc hk ht = executa_banco (map (\<lambda>(i, n, c). Criar_Indice i n c) indices_banco) (banco_carregado hc hk ht)"
  unfolding criar_banco_def script_criar_banco_def
  apply (simp only: append_Cons executa_banco.simps)
  apply (simp add: banco_carregado_def nome_ocupado_def chave_nome_def minuscula_def banco_vazio_def less_eq_char_def fun_upd_twist)
  done



lemma chave_nome_minusculas: "list_all (\<lambda>c. \<not> (CHR ''A'' \<le> c \<and> c \<le> CHR ''Z'')) n \<Longrightarrow> chave_nome n = n"
  by (induction n) (auto simp: chave_nome_def minuscula_def)

lemma chave_nome_literais:
  "chave_nome ''clientes'' = ''clientes''" "chave_nome ''cartoes'' = ''cartoes''"
  "chave_nome ''transacoes'' = ''transacoes''"
  "chave_nome ''idx_cliente_id'' = ''idx_cliente_id''" "chave_nome ''idx_cartao_id'' = ''idx_cartao_id''"
  "chave_nome ''idx_data_transacao'' = ''idx_data_transacao''" "chave_nome ''idx_estado_cliente'' = ''idx_estado_cliente''"
  "chave_nome ''idx_produto_cartao'' = ''idx_produto_cartao''" "chave_nome ''idx_cartao_recente'' = ''idx_cartao_recente''"
  "chave_nome ''cliente_id'' = ''cliente_id''" "chave_nome ''id_cartao'' = ''id_cartao''" "chave_nome ''data'' = ''data''"
  "chave_nome ''estado'' = ''estado''" "chave_nome ''produto_mastercard'' = ''produto_mastercard''"
  "chave_nome ''cartao_recente'' = ''cartao_recente''"
  "chave_nome ''Data'' = ''data''" "chave_nome ''Cartao_Recente'' = ''cartao_recente''"
  "chave_nome ''Data_Nascimento'' = ''data_nascimento''"
  "chave_nome ''Data_Criacao_Conta'' = ''data_criacao_conta''"
  "chave_nome ''Idade'' = ''idade''"
  "chave_nome ''Tempo_Conta_Meses'' = ''tempo_conta_meses''"
  "chave_nome ''Data_Emissao'' = ''data_emissao''"
  "chave_nome ''Data_Ativacao'' = ''data_ativacao''"
  "chave_nome ''Data_Validade'' = ''data_validade''"
  "chave_nome ''Tempo_Cartao_Meses'' = ''tempo_cartao_meses''"
  "chave_nome ''Ano'' = ''ano''"
  "chave_nome ''Mes'' = ''mes''"
  "chave_nome ''Dia_Semana'' = ''dia_semana''"
  "chave_nome ''Trimestre'' = ''trimestre''"
  "chave_nome ''Faixa_Valor'' = ''faixa_valor''"
  "chave_nome ''Pagamento_Digital'' = ''pagamento_digital''"
  "chave_nome ''PayPass'' = ''paypass''"
  by (simp_all add: chave_nome_minusculas chave_nome_def minuscula_def less_eq_char_def char_of_def bit_0)


lemma set_colunas_df:
  "set (colunas_clientes_df hc) = set hc \<union> {''Data_Nascimento'', ''Data_Criacao_Conta'', ''Idade'', ''Tempo_Conta_Meses''}"
  "set (colunas_cartoes_df hk) =
     set hk \<union> {''Data_Emissao'', ''Data_Ativacao'', ''Data_Validade'', ''Tempo_Cartao_Meses'', ''Cartao_Recente''}"
  "set (colunas_transacoes_df ht) =
     set ht \<union> {''Data'', ''Ano'', ''Mes'', ''Dia_Semana'', ''Trimestre'', ''Faixa_Valor'', ''Pagamento_Digital'', ''PayPass''}"
  unfolding colunas_clientes_df_def colunas_cartoes_df_def colunas_transacoes_df_def set_foldl_acrescenta_coluna
  by simp_all

lemma executa_indices_tabelas:
  "executa_banco (map (\<lambda>(i, n, c). Criar_Indice i n c) is) db = Inr db' \<Longrightarrow> tabelas db' = tabelas db"
proof (induction "is" arbitrary: db)
  case Nil
  then show ?case by simp
next
  case (Cons x "is")
  obtain i n c where x: "x = (i, n, c)" by (cases x) auto
  from Cons.prems obtain db1 where p: "passo_banco (Criar_Indice i n c) db = Inr db1"
    and r: "executa_banco (map (\<lambda>(i, n, c). Criar_Indice i n c) is) db1 = Inr db'"
    by (auto simp: x split: sum.splits)
  from p have "tabelas db1 = tabelas db" by (auto split: if_splits option.splits)
  with Cons.IH [OF r] show ?case by simp
qed

lemma tabela_de_dataframe_sem_chaves:
  "\<not> list_ex col_chave_primaria (tab_colunas (tabela_de_dataframe cs)) \<and> tab_chaves_estrangeiras (tabela_de_dataframe cs) = []"
  by (simp add: tabela_de_dataframe_def list_ex_iff)

text \<open>C17: when the builder runs to the end, each of its three tables is the table
  \<^verbatim>\<open>to_sql\<close> created from the DataFrame, with no primary key and no foreign key: the
  keys of the \<^verbatim>\<open>CREATE TABLE\<close> statements are dropped with the tables they belonged to,
  so the database does not enforce unique customer and card ids, nor that a transaction
  refers to an existing customer and card.\<close>

theorem criar_banco_sem_chaves:
  assumes "criar_banco hc hk ht = Inr db"
  shows "tabelas db ''clientes'' = Some (tabela_de_dataframe (colunas_clientes_df hc)) \<and>
         tabelas db ''cartoes'' = Some (tabela_de_dataframe (colunas_cartoes_df hk)) \<and>
         tabelas db ''transacoes'' = Some (tabela_de_dataframe (colunas_transacoes_df ht)) \<and>
         list_all (\<lambda>n. case tabelas db n of None \<Rightarrow> False
                        | Some t \<Rightarrow> \<not> list_ex col_chave_primaria (tab_colunas t) \<and> tab_chaves_estrangeiras t = [])
           [''clientes'', ''cartoes'', ''transacoes'']"
proof -
  have "tabelas db = tabelas (banco_carregado hc hk ht)"
    using executa_indices_tabelas assms unfolding criar_banco_carregado by blast
  then show ?thesis by (simp add: banco_carregado_def tabela_de_dataframe_sem_chaves)
qed

text \<open>The builder runs to the end exactly when the CSV headers name, in any case, the
  columns its indices need: \<^verbatim>\<open>cliente_id\<close> and \<^verbatim>\<open>id_cartao\<close> of the transactions,
  \<^verbatim>\<open>estado\<close> of the customers and \<^verbatim>\<open>produto_mastercard\<close> of the cards
  (\<^verbatim>\<open>data\<close> and \<^verbatim>\<open>cartao_recente\<close> are always there); otherwise \<^verbatim>\<open>CREATE INDEX\<close>
  raises and the script stops before the sample queries and the checks.\<close>

theorem criar_banco_Inr_iff:
  "(\<exists>db. criar_banco hc hk ht = Inr db) \<longleftrightarrow>
     ''cliente_id'' \<in> chave_nome ` set ht \<and> ''id_cartao'' \<in> chave_nome ` set ht \<and>
     ''estado'' \<in> chave_nome ` set hc \<and> ''produto_mastercard'' \<in> chave_nome ` set hk"
  unfolding criar_banco_carregado
  by (simp add: indices_banco_def banco_carregado_def nome_ocupado_def chave_nome_literais tem_coluna_dataframe
      set_colunas_df)
end
