(* ===== verification/Churn_60_Dias.thy ===== *)
theory Churn_60_Dias
  imports Faixas Banco_Esquema
begin

text \<open>
  The two-state churn queries of \<^verbatim>\<open>src/analise_churn_2024_60dias_corrigida.py\<close>. Only
  customers with at least one transaction are read (\<^verbatim>\<open>todos_clientes\<close>), and a customer
  is in churn when no transaction is later than \<^verbatim>\<open>DATE('2024-12-30', '-60 days')\<close>.
  The CTE \<^verbatim>\<open>clientes_churn\<close> is \<^verbatim>\<open>SELECT cliente_id FROM todos_clientes WHERE ...\<close>,
  without \<^verbatim>\<open>DISTINCT\<close>, and is then joined back to \<^verbatim>\<open>todos_clientes\<close> by a
  \<^verbatim>\<open>LEFT JOIN\<close>. Each result row has the churn count, the active count, \<^verbatim>\<open>COUNT(*)\<close>
  and the rounded churn rate. Queries 6 to 9 read customers through their cards, kept
  only when the card was issued on or after 2023-01-01 and not before the account was
  created (the validity filter of spec.md, section 4.2).
\<close>

section \<open>The common table expressions and the result row\<close>

definition clientes_churn ::
  "('r \<Rightarrow> cliente_id) \<Rightarrow> texto option \<Rightarrow> transacao list \<Rightarrow> 'r list \<Rightarrow> cliente_id list" where
  "clientes_churn key corte ts tc = map key (filter (\<lambda>r. key r \<notin> set (clientes_ativos corte ts)) tc)"

record 'k linha_taxa =
  categoria_taxa :: 'k
  n_churn :: nat
  n_ativos :: nat
  total_clientes_taxa :: nat
  taxa_churn :: real

definition linha_taxa_de_grupo :: "'k \<times> ('r \<times> cliente_id option) list \<Rightarrow> 'k linha_taxa" where
  "linha_taxa_de_grupo g = (case g of (k, xs) \<Rightarrow>
     \<lparr>categoria_taxa = k,
      n_churn = count_when (\<lambda>x. snd x \<noteq> None) xs,
      n_ativos = count_when (\<lambda>x. snd x = None) xs,
      total_clientes_taxa = length xs,
      taxa_churn = percentual (count_when (\<lambda>x. snd x \<noteq> None) xs) (length xs)\<rparr>)"

text \<open>\<^verbatim>\<open>SELECT <category>, ... FROM todos_clientes tc LEFT JOIN clientes_churn cc ON
  tc.cliente_id = cc.cliente_id GROUP BY <category>\<close>, before \<^verbatim>\<open>ORDER BY\<close>.\<close>

definition consulta_taxa ::
  "('r \<Rightarrow> cliente_id) \<Rightarrow> ('r \<Rightarrow> 'k) \<Rightarrow> texto option \<Rightarrow> transacao list \<Rightarrow> 'r list \<Rightarrow> 'k linha_taxa list" where
  "consulta_taxa key rotulo corte ts tc =
     map linha_taxa_de_grupo
       (group_by (\<lambda>x. rotulo (fst x)) (left_join key tc (clientes_churn key corte ts tc)))"

text \<open>\<^verbatim>\<open>ORDER BY n DESC\<close> on a numeric column.\<close>

definition ordena_desc :: "('a \<Rightarrow> real) \<Rightarrow> 'a list \<Rightarrow> 'a list" where
  "ordena_desc f ls = sort_key (\<lambda>l. - f l) ls"

definition corte_60 :: "texto option" where
  "corte_60 = data_corte data_referencia 60"

section \<open>The customer rows\<close>

text \<open>\<^verbatim>\<open>SELECT DISTINCT c.cliente_id, c.<attribute> FROM clientes c WHERE c.cliente_id IN
  (SELECT DISTINCT Cliente_ID FROM transacoes)\<close>.\<close>

definition clientes_transacionaram :: "(cliente \<Rightarrow> 'a) \<Rightarrow> cliente list \<Rightarrow> transacao list \<Rightarrow> (cliente_id \<times> 'a) list" where
  "clientes_transacionaram atributo cs ts =
     remdups (map (\<lambda>c. (cli_id c, atributo c)) (filter (\<lambda>c. cli_id c \<in> set (clientes_com_transacoes ts)) cs))"

text \<open>The validity filter \<^verbatim>\<open>cart.Data_Emissao >= '2023-01-01' AND cart.Data_Emissao >=
  c.Data_Criacao_Conta\<close> on the stored texts; a NULL date makes the condition NULL and
  the row is not kept.\<close>

definition cartao_valido :: "cliente \<Rightarrow> cartao \<Rightarrow> bool" where
  "cartao_valido c k \<longleftrightarrow>
     sql_le (Some (texto_data (2023, 1, 1))) (map_option texto_carimbo (car_emissao k)) = Some True \<and>
     sql_le (map_option texto_carimbo (cli_criacao_conta c)) (map_option texto_carimbo (car_emissao k)) = Some True"

text \<open>\<^verbatim>\<open>SELECT DISTINCT t.Cliente_ID, <attribute of cart> FROM transacoes t INNER JOIN
  cartoes cart ON t.ID_Cartao = cart.ID_Cartao INNER JOIN clientes c ON t.Cliente_ID =
  c.cliente_id WHERE <validity> [AND <filter>]\<close>.\<close>

definition associacao_valida ::
  "(cartao \<Rightarrow> bool) \<Rightarrow> (cartao \<Rightarrow> 'a) \<Rightarrow> transacao list \<Rightarrow> cartao list \<Rightarrow> cliente list \<Rightarrow> (cliente_id \<times> 'a) list" where
  "associacao_valida filtro atributo ts cards cs =
     remdups (map (\<lambda>((t, k), c). (tx_cliente t, atributo k))
       (filter (\<lambda>((t, k), c). cartao_valido c k \<and> filtro k)
         (inner_join (\<lambda>(t, k) c. tx_cliente t = cli_id c)
           (inner_join (\<lambda>t k. tx_cartao t = car_id k) ts cards) cs)))"

section \<open>The bands that differ from the 90-day file\<close>

datatype rotulo_renda_60 =
  Renda_ate_3000 | Renda_3000_6000 | Renda_6000_10000 | Renda_10000_20000 | Renda_acima_20000
  | Renda_60_nao_informada

definition faixa_renda_60 :: "real option \<Rightarrow> rotulo_renda_60" where
  "faixa_renda_60 r =
     sql_case_when (sql_less r (Some 3000)) Renda_ate_3000
      (sql_case_when (sql_between r (Some 3000) (Some 6000)) Renda_3000_6000
       (sql_case_when (sql_between r (Some 6000) (Some 10000)) Renda_6000_10000
        (sql_case_when (sql_between r (Some 10000) (Some 20000)) Renda_10000_20000
         (sql_case_when (sql_less (Some 20000) r) Renda_acima_20000 Renda_60_nao_informada))))"

datatype rotulo_conta_adicional = Com_conta_adicional | Sem_conta_adicional

definition status_conta_adicional :: "texto option \<Rightarrow> rotulo_conta_adicional" where
  "status_conta_adicional x = sql_case_when (sql_eq x (Some ''Sim'')) Com_conta_adicional Sem_conta_adicional"

datatype rotulo_limite_60 =
  Limite_60_ate_1000 | Limite_60_1000_2500 | Limite_60_2500_5000 | Limite_60_5000_10000
  | Limite_60_acima_10000 | Limite_60_nao_informado

definition faixa_limite_60 :: "real option \<Rightarrow> rotulo_limite_60" where
  "faixa_limite_60 l =
     sql_case_when (sql_less l (Some 1000)) Limite_60_ate_1000
      (sql_case_when (sql_between l (Some 1000) (Some 2500)) Limite_60_1000_2500
       (sql_case_when (sql_between l (Some 2500) (Some 5000)) Limite_60_2500_5000
        (sql_case_when (sql_between l (Some 5000) (Some 10000)) Limite_60_5000_10000
         (sql_case_when (sql_less (Some 10000) l) Limite_60_acima_10000 Limite_60_nao_informado))))"

section \<open>The nine queries\<close>

definition analise_60_1_idade :: "cliente list \<Rightarrow> transacao list \<Rightarrow> rotulo_idade linha_taxa list" where
  "analise_60_1_idade cs ts =
     ordena_desc taxa_churn
       (consulta_taxa fst (\<lambda>r. faixa_etaria (snd r)) corte_60 ts (clientes_transacionaram cli_idade cs ts))"

text \<open>Queries 2 and 4 read \<^verbatim>\<open>c.Renda\<close> and \<^verbatim>\<open>c.Conta_Adicional\<close>. SQLite resolves the
  columns of \<^verbatim>\<open>clientes\<close> when it prepares the statement, by name without case, and
  raises \<^verbatim>\<open>sqlite3.OperationalError: no such column\<close> for a name the table does not
  have. A column of that name, where the table has one, is read as the income and as the
  additional-account flag. The columns the other queries read (\<^verbatim>\<open>Idade\<close>,
  \<^verbatim>\<open>Data_Criacao_Conta\<close>, \<^verbatim>\<open>Estado\<close> and those of \<^verbatim>\<open>cartoes\<close>) are columns of
  the builder's tables.\<close>

definition le_coluna :: "banco_sql \<Rightarrow> texto \<Rightarrow> texto \<Rightarrow> erro_sql + unit" where
  "le_coluna db n c =
     (case tabelas db (chave_nome n) of
        None \<Rightarrow> Inl (Tabela_Inexistente n)
      | Some t \<Rightarrow> if tem_coluna t c then Inr () else Inl (Coluna_Inexistente n c))"

definition analise_60_2_renda ::
  "banco_sql \<Rightarrow> cliente list \<Rightarrow> transacao list \<Rightarrow> erro_sql + rotulo_renda_60 linha_taxa list" where
  "analise_60_2_renda db cs ts =
     map_sum id (\<lambda>_. ordena_desc taxa_churn
                       (consulta_taxa fst (\<lambda>r. faixa_renda_60 (snd r)) corte_60 ts (clientes_transacionaram cli_renda cs ts)))
       (le_coluna db ''clientes'' ''Renda'')"

definition analise_60_3_tempo_conta :: "cliente list \<Rightarrow> transacao list \<Rightarrow> rotulo_tempo linha_taxa list" where
  "analise_60_3_tempo_conta cs ts =
     ordena_desc taxa_churn
       (consulta_taxa fst (\<lambda>r. tempo_conta (snd r)) corte_60 ts
         (clientes_transacionaram (\<lambda>c. meses_desde data_referencia (cli_criacao_conta c)) cs ts))"

definition analise_60_4_conta_adicional ::
  "banco_sql \<Rightarrow> cliente list \<Rightarrow> transacao list \<Rightarrow> erro_sql + rotulo_conta_adicional linha_taxa list" where
  "analise_60_4_conta_adicional db cs ts =
     map_sum id (\<lambda>_. ordena_desc (\<lambda>l. real (n_churn l))
                       (consulta_taxa fst (\<lambda>r. status_conta_adicional (snd r)) corte_60 ts
                         (clientes_transacionaram cli_conta_adicional cs ts)))
       (le_coluna db ''clientes'' ''Conta_Adicional'')"

text \<open>\<^verbatim>\<open>GROUP BY tc.Estado HAVING COUNT(*) >= 18\<close>.\<close>

definition analise_60_5_estado :: "cliente list \<Rightarrow> transacao list \<Rightarrow> texto linha_taxa list" where
  "analise_60_5_estado cs ts =
     ordena_desc taxa_churn
       (filter (\<lambda>l. 18 \<le> total_clientes_taxa l)
         (consulta_taxa fst snd corte_60 ts (clientes_transacionaram cli_estado cs ts)))"

definition analise_60_6_tipo_cartao ::
  "cliente list \<Rightarrow> cartao list \<Rightarrow> transacao list \<Rightarrow> texto option linha_taxa list" where
  "analise_60_6_tipo_cartao cs cards ts =
     ordena_desc taxa_churn
       (consulta_taxa fst snd corte_60 ts (associacao_valida (\<lambda>k. True) car_tipo ts cards cs))"

definition analise_60_7_produto ::
  "cliente list \<Rightarrow> cartao list \<Rightarrow> transacao list \<Rightarrow> texto option linha_taxa list" where
  "analise_60_7_produto cs cards ts =
     ordena_desc taxa_churn
       (consulta_taxa fst snd corte_60 ts (associacao_valida (\<lambda>k. True) car_produto ts cards cs))"

definition analise_60_8_tempo_cartao ::
  "cliente list \<Rightarrow> cartao list \<Rightarrow> transacao list \<Rightarrow> rotulo_tempo linha_taxa list" where
  "analise_60_8_tempo_cartao cs cards ts =
     ordena_desc taxa_churn
       (consulta_taxa fst (\<lambda>r. tempo_conta (snd r)) corte_60 ts
         (associacao_valida (\<lambda>k. True) (\<lambda>k. meses_desde data_referencia (car_emissao k)) ts cards cs))"

definition analise_60_9_limite ::
  "cliente list \<Rightarrow> cartao list \<Rightarrow> transacao list \<Rightarrow> rotulo_limite_60 linha_taxa list" where
  "analise_60_9_limite cs cards ts =
     ordena_desc taxa_churn
       (consulta_taxa fst (\<lambda>r. faixa_limite_60 (snd r)) corte_60 ts
         (associacao_valida (\<lambda>k. car_limite k \<noteq> None) car_limite ts cards cs))"

section \<open>The executive summary\<close>

record resumo_60 =
  total_historico :: nat
  total_churn :: nat
  ainda_ativos :: nat
  taxa_churn_geral :: "real option"

text \<open>\<^verbatim>\<open>query_geral\<close> of \<^verbatim>\<open>resumo_executivo_churn\<close>: here \<^verbatim>\<open>todos_clientes\<close> is the
  set of distinct customer ids of the transactions.\<close>

definition resumo_geral_60 :: "transacao list \<Rightarrow> resumo_60" where
  "resumo_geral_60 ts =
     (let tc = clientes_com_transacoes ts;
          cc = filter (\<lambda>c. c \<notin> set (clientes_ativos corte_60 ts)) tc
      in \<lparr>total_historico = length tc, total_churn = length cc,
          ainda_ativos = length tc - length cc, taxa_churn_geral = percentual_sql (length cc) (length tc)\<rparr>)"

datatype periodo_criacao = Conta_criada_2024 | Conta_criada_antes_2024

text \<open>\<^verbatim>\<open>CASE WHEN strftime('%Y', tc.Data_Criacao_Conta) = '2024' THEN ... ELSE ... END\<close>;
  \<^verbatim>\<open>strftime\<close> of NULL is NULL.\<close>

definition periodo_de_criacao :: "carimbo option \<Rightarrow> periodo_criacao" where
  "periodo_de_criacao x =
     sql_case_when (sql_eq (map_option (\<lambda>c. digitos 4 (fst (fst c))) x) (Some ''2024''))
       Conta_criada_2024 Conta_criada_antes_2024"

definition resumo_temporal_60 :: "cliente list \<Rightarrow> transacao list \<Rightarrow> periodo_criacao linha_taxa list" where
  "resumo_temporal_60 cs ts =
     consulta_taxa fst (\<lambda>r. periodo_de_criacao (snd r)) corte_60 ts
       (clientes_transacionaram cli_criacao_conta cs ts)"

section \<open>The main function\<close>

record execucao_60 =
  ex60_idade :: "rotulo_idade linha_taxa list"
  ex60_renda :: "rotulo_renda_60 linha_taxa list option"
  ex60_tempo_conta :: "rotulo_tempo linha_taxa list option"
  ex60_conta_adicional :: "rotulo_conta_adicional linha_taxa list option"
  ex60_estado :: "texto linha_taxa list option"
  ex60_tipo_cartao :: "texto option linha_taxa list option"
  ex60_produto :: "texto option linha_taxa list option"
  ex60_tempo_cartao :: "rotulo_tempo linha_taxa list option"
  ex60_limite :: "rotulo_limite_60 linha_taxa list option"
  ex60_resumo :: "(resumo_60 \<times> periodo_criacao linha_taxa list) option"
  ex60_erro :: "erro_sql option"

text \<open>\<^verbatim>\<open>main\<close> runs the nine analyses and the executive summary in order inside one
  \<^verbatim>\<open>try\<close>: the first exception is printed and every later step is skipped.\<close>

definition main_60 :: "banco_sql \<Rightarrow> cliente list \<Rightarrow> cartao list \<Rightarrow> transacao list \<Rightarrow> execucao_60" where
  "main_60 db cs cards ts =
     (let q1 = analise_60_1_idade cs ts;
          parado = \<lparr>ex60_idade = q1, ex60_renda = None, ex60_tempo_conta = None, ex60_conta_adicional = None,
                    ex60_estado = None, ex60_tipo_cartao = None, ex60_produto = None, ex60_tempo_cartao = None,
                    ex60_limite = None, ex60_resumo = None, ex60_erro = None\<rparr>
      in case analise_60_2_renda db cs ts of
           Inl e \<Rightarrow> parado\<lparr>ex60_erro := Some e\<rparr>
         | Inr q2 \<Rightarrow>
             (let q3 = analise_60_3_tempo_conta cs ts
              in case analise_60_4_conta_adicional db cs ts of
                   Inl e \<Rightarrow> parado\<lparr>ex60_renda := Some q2, ex60_tempo_conta := Some q3, ex60_erro := Some e\<rparr>
                 | Inr q4 \<Rightarrow>
                     parado\<lparr>ex60_renda := Some q2, ex60_tempo_conta := Some q3, ex60_conta_adicional := Some q4,
                            ex60_estado := Some (analise_60_5_estado cs ts),
                            ex60_tipo_cartao := Some (analise_60_6_tipo_cartao cs cards ts),
                            ex60_produto := Some (analise_60_7_produto cs cards ts),
                            ex60_tempo_cartao := Some (analise_60_8_tempo_cartao cs cards ts),
                            ex60_limite := Some (analise_60_9_limite cs cards ts),
                            ex60_resumo := Some (resumo_geral_60 ts, resumo_temporal_60 cs ts)\<rparr>))"

declare clientes_churn_def [churn_simps] linha_taxa_de_grupo_def [churn_simps] consulta_taxa_def [churn_simps]
  ordena_desc_def [churn_simps] corte_60_def [churn_simps] clientes_transacionaram_def [churn_simps]
  cartao_valido_def [churn_simps] associacao_valida_def [churn_simps] faixa_renda_60_def [churn_simps]
  status_conta_adicional_def [churn_simps] faixa_limite_60_def [churn_simps]
  analise_60_1_idade_def [churn_simps] analise_60_2_renda_def [churn_simps]
  analise_60_3_tempo_conta_def [churn_simps] analise_60_4_conta_adicional_def [churn_simps]
  analise_60_5_estado_def [churn_simps] analise_60_6_tipo_cartao_def [churn_simps]
  analise_60_7_produto_def [churn_simps] analise_60_8_tempo_cartao_def [churn_simps]
  analise_60_9_limite_def [churn_simps] resumo_geral_60_def [churn_simps]
  periodo_de_criacao_def [churn_simps] resumo_temporal_60_def [churn_simps]


section \<open>Counting lemmas\<close>

lemma count_list_clientes_churn:
  "count_list (clientes_churn key corte ts tc) c =
     (if c \<in> set (clientes_ativos corte ts) then 0 else count_list (map key tc) c)"
  by (induction tc) (auto simp: clientes_churn_def)

lemma soma_campo_taxa:
  fixes f :: "'k linha_taxa \<Rightarrow> nat"
  assumes "\<And>k g. f (linha_taxa_de_grupo (k, g)) = length (filter P g)"
  shows "(\<Sum>l\<leftarrow>consulta_taxa key rotulo corte ts tc. f l)
       = length (filter P (left_join key tc (clientes_churn key corte ts tc)))"
proof -
  let ?J = "left_join key tc (clientes_churn key corte ts tc)"
  have "(\<Sum>l\<leftarrow>consulta_taxa key rotulo corte ts tc. f l) = (\<Sum>(k, g)\<leftarrow>group_by (\<lambda>x. rotulo (fst x)) ?J. length (filter P g))"
    by (simp only: consulta_taxa_def map_map comp_def)
      (intro arg_cong [where f = sum_list] map_cong refl, simp add: assms split: prod.splits)
  also have "\<dots> = length (filter P ?J)"
    by (rule group_by_sum_filter)
  finally show ?thesis .
qed

lemma soma_ordena_desc:
  fixes g :: "'a \<Rightarrow> 'b::comm_monoid_add"
  shows "(\<Sum>l\<leftarrow>ordena_desc f ls. g l) = (\<Sum>l\<leftarrow>ls. g l)"
  by (rule sum_list_map_perm) (simp add: ordena_desc_def)

lemma clientes_transacionaram_distinct:
  assumes "distinct (map cli_id cs)"
  shows "clientes_transacionaram atributo cs ts =
           map (\<lambda>c. (cli_id c, atributo c)) (filter (\<lambda>c. cli_id c \<in> set (clientes_com_transacoes ts)) cs)"
proof -
  have "distinct (map cli_id (filter (\<lambda>c. cli_id c \<in> set (clientes_com_transacoes ts)) cs))"
    using assms by (simp add: distinct_map_filter)
  then have "distinct (map (\<lambda>c. (cli_id c, atributo c)) (filter (\<lambda>c. cli_id c \<in> set (clientes_com_transacoes ts)) cs))"
    by (induction cs) auto
  then show ?thesis by (simp add: clientes_transacionaram_def)
qed

lemma cartao_valido_iff:
  assumes "\<forall>e. car_emissao k = Some e \<longrightarrow> carimbo_textual e"
    and "\<forall>e. cli_criacao_conta c = Some e \<longrightarrow> carimbo_textual e"
  shows "cartao_valido c k \<longleftrightarrow>
           (\<exists>e cr. car_emissao k = Some e \<and> cli_criacao_conta c = Some cr \<and> (2023, 1, 1) \<le> fst e \<and> cr \<le> e)"
proof (cases "car_emissao k")
  case None
  then show ?thesis by (simp add: cartao_valido_def)
next
  case (Some e)
  have te: "carimbo_textual e" using assms(1) Some by simp
  then have de: "data_textual (fst e)" by (cases e) (simp add: carimbo_textual_def)
  have d0: "data_textual (2023, 1, 1)" by (simp add: data_textual_def)
  show ?thesis
  proof (cases "cli_criacao_conta c")
    case None
    then show ?thesis by (simp add: cartao_valido_def)
  next
    case (Some cr)
    then have "carimbo_textual cr" using assms(2) by simp
    with te de d0 Some \<open>car_emissao k = Some e\<close> show ?thesis
      by (simp add: cartao_valido_def texto_data_le_carimbo texto_carimbo_le_iff)
  qed
qed

lemma mem_associacao_valida:
  "(i, a) \<in> set (associacao_valida filtro f ts cards cs) \<longleftrightarrow>
     (\<exists>t\<in>set ts. \<exists>k\<in>set cards. \<exists>c\<in>set cs. tx_cartao t = car_id k \<and> tx_cliente t = cli_id c \<and>
        cartao_valido c k \<and> filtro k \<and> i = cli_id c \<and> a = f k)"
  by (auto simp: associacao_valida_def set_inner_join image_iff) force+

section \<open>Properties of the queries\<close>

lemma soma_churn_consulta_taxa:
  "(\<Sum>l\<leftarrow>consulta_taxa key rotulo corte ts tc. n_churn l) =
     (\<Sum>r\<leftarrow>tc. if key r \<in> set (clientes_ativos corte ts) then 0 else count_list (map key tc) (key r))"
proof -
  have "(\<Sum>l\<leftarrow>consulta_taxa key rotulo corte ts tc. n_churn l)
      = length (filter (\<lambda>x. snd x \<noteq> None) (left_join key tc (clientes_churn key corte ts tc)))"
    by (rule soma_campo_taxa) (simp add: linha_taxa_de_grupo_def count_when_def)
  also have "\<dots> = (\<Sum>r\<leftarrow>tc. count_list (clientes_churn key corte ts tc) (key r))"
    by (rule left_join_Some_count)
  finally show ?thesis by (simp add: count_list_clientes_churn)
qed

text \<open>C25: the churn count of the result adds up, over the rows read, to the number of
  rows of the same customer for each churned row: \<^verbatim>\<open>clientes_churn\<close> keeps one entry per
  row of \<^verbatim>\<open>todos_clientes\<close>, so a churned customer with \<open>m\<close> rows is joined \<open>m\<close> times
  per row and counted \<open>m * m\<close> times. In the card queries (6 to 9) a customer has one
  row per card attribute, and churned customers are over-counted.\<close>

theorem consulta_taxa_churn_multiplicado:
  "(\<Sum>l\<leftarrow>consulta_taxa key rotulo corte ts tc. n_churn l) =
     (\<Sum>r\<leftarrow>tc. if key r \<in> set (clientes_ativos corte ts) then 0 else count_list (map key tc) (key r))"
  by (rule soma_churn_consulta_taxa)

lemma consulta_taxa_ativos:
  "(\<Sum>l\<leftarrow>consulta_taxa key rotulo corte ts tc. n_ativos l) =
     length (filter (\<lambda>r. key r \<in> set (clientes_ativos corte ts)) tc)"
proof -
  have "(\<Sum>l\<leftarrow>consulta_taxa key rotulo corte ts tc. n_ativos l) =
      length (filter (\<lambda>r. key r \<notin> set (clientes_churn key corte ts tc)) tc)"
    by (simp add: soma_campo_taxa [where P = "\<lambda>x. snd x = None"] linha_taxa_de_grupo_def count_when_def
        left_join_None_count)
  also have "\<dots> = length (filter (\<lambda>r. key r \<in> set (clientes_ativos corte ts)) tc)"
    by (intro arg_cong [where f = length] filter_cong refl) (auto simp: clientes_churn_def)
  finally show ?thesis .
qed

text \<open>C27: when customer ids are unique, the queries on customer attributes (1 to 5
  and the temporal summary) count as churned exactly the customers with a transaction
  and none after \<^verbatim>\<open>DATE('2024-12-30', '-60 days')\<close>.\<close>

theorem consulta_taxa_clientes_distintos:
  assumes "distinct (map cli_id cs)"
  shows "(\<Sum>l\<leftarrow>consulta_taxa fst rotulo corte ts (clientes_transacionaram atributo cs ts). n_churn l) =
           length (filter (\<lambda>c. cli_id c \<in> set (clientes_com_transacoes ts) \<and>
                                cli_id c \<notin> set (clientes_ativos corte ts)) cs)"
proof -
  let ?tc = "clientes_transacionaram atributo cs ts"
  have d: "distinct (map fst ?tc)"
    using assms by (simp add: clientes_transacionaram_distinct comp_def distinct_map_filter)
  have "(\<Sum>l\<leftarrow>consulta_taxa fst rotulo corte ts ?tc. n_churn l) =
      (\<Sum>r\<leftarrow>?tc. if fst r \<in> set (clientes_ativos corte ts) then 0 else 1)"
    unfolding soma_churn_consulta_taxa
    by (intro arg_cong [where f = sum_list] map_cong refl) (simp add: count_list_distinct_mem [OF d])
  also have "\<dots> = length (filter (\<lambda>r. fst r \<notin> set (clientes_ativos corte ts)) ?tc)"
    by (rule sum_list_indicador)
  finally show ?thesis
    using assms by (simp add: clientes_transacionaram_distinct filter_map comp_def filter_filter conj_commute)
qed

text \<open>C28: the card rows of queries 6 to 9 are exactly the (customer, card attribute)
  pairs of a transaction whose card was issued on or after 2023-01-01 and not before
  the customer's account was created (both dates present): a card issued before the
  account never appears (spec.md, section 4.2). A customer with no such card is in no
  row, where the specification puts it in an explicit no-active-card group.\<close>

theorem associacao_valida_filtro:
  assumes "\<forall>k\<in>set cards. \<forall>e. car_emissao k = Some e \<longrightarrow> carimbo_textual e"
    and "\<forall>c\<in>set cs. \<forall>e. cli_criacao_conta c = Some e \<longrightarrow> carimbo_textual e"
  shows "(i, a) \<in> set (associacao_valida filtro f ts cards cs) \<longleftrightarrow>
     (\<exists>t\<in>set ts. \<exists>k\<in>set cards. \<exists>c\<in>set cs. tx_cartao t = car_id k \<and> tx_cliente t = cli_id c \<and>
        filtro k \<and> i = cli_id c \<and> a = f k \<and>
        (\<exists>e cr. car_emissao k = Some e \<and> cli_criacao_conta c = Some cr \<and> (2023, 1, 1) \<le> fst e \<and> cr \<le> e))"
proof -
  have v: "cartao_valido c k \<longleftrightarrow>
      (\<exists>e cr. car_emissao k = Some e \<and> cli_criacao_conta c = Some cr \<and> (2023, 1, 1) \<le> fst e \<and> cr \<le> e)"
    if "k \<in> set cards" and "c \<in> set cs" for k c
    using assms that by (intro cartao_valido_iff) auto
  show ?thesis
    unfolding mem_associacao_valida
    by (intro bex_cong refl) (auto simp: v)
qed

text \<open>C29: in the executive summary of the 60-day script, churned and still-active
  customers add up to the customers with transactions, and the still-active count is
  the number of customers with a transaction after the cut-off.\<close>

theorem resumo_geral_60_contagens:
  "total_churn (resumo_geral_60 ts) + ainda_ativos (resumo_geral_60 ts) = total_historico (resumo_geral_60 ts) \<and>
   ainda_ativos (resumo_geral_60 ts) = length (clientes_ativos corte_60 ts)"
proof -
  let ?tc = "clientes_com_transacoes ts" and ?ca = "clientes_ativos corte_60 ts"
  have le: "length (filter (\<lambda>c. c \<notin> set ?ca) ?tc) \<le> length ?tc" by simp
  have "length (filter (\<lambda>c. c \<in> set ?ca) ?tc) = length ?ca"
    by (rule length_filter_mem_distinct)
      (simp_all add: distinct_clientes_com_transacoes distinct_clientes_ativos clientes_ativos_subset)
  moreover have "length (filter (\<lambda>c. c \<in> set ?ca) ?tc) + length (filter (\<lambda>c. c \<notin> set ?ca) ?tc) = length ?tc"
    by (rule sum_length_filter_compl)
  ultimately show ?thesis using le by (simp add: resumo_geral_60_def Let_def)
qed

lemma set_ordena_desc [simp]: "set (ordena_desc f xs) = set xs"
  by (simp add: ordena_desc_def)

lemma sum_list_ordena_desc [simp]:
  fixes f :: "'a \<Rightarrow> 'b::comm_monoid_add"
  shows "(\<Sum>x\<leftarrow>ordena_desc g xs. f x) = (\<Sum>x\<leftarrow>xs. f x)"
  by (simp add: ordena_desc_def)

lemma sum_list_filter_ordena_desc:
  fixes f :: "'a \<Rightarrow> 'b::comm_monoid_add"
  shows "(\<Sum>x\<leftarrow>filter P (ordena_desc g xs). f x) = (\<Sum>x\<leftarrow>filter P xs. f x)"
  by (rule sum_list_map_perm) (simp add: ordena_desc_def)

lemma filter_ordena_desc_single:
  assumes a: "filter P xs = [a]"
  shows "filter P (ordena_desc g xs) = [a]"
proof -
  have "mset (filter P (ordena_desc g xs)) = {#a#}"
    using arg_cong [OF a, of mset] by (simp add: ordena_desc_def)
  then show ?thesis by (simp only: mset_single_iff)
qed

section \<open>The main function on the builder's database\<close>

lemma chave_nome_colunas_60:
  "chave_nome ''Renda'' = ''renda''" "chave_nome ''Conta_Adicional'' = ''conta_adicional''"
  by (simp_all add: chave_nome_def minuscula_def less_eq_char_def char_of_def bit_0)

lemma le_coluna_clientes_df:
  assumes "tabelas db ''clientes'' = Some (tabela_de_dataframe (colunas_clientes_df hc))"
  shows "le_coluna db ''clientes'' c =
           (if chave_nome c \<in> chave_nome ` (set hc \<union> {''Data_Nascimento'', ''Data_Criacao_Conta'', ''Idade'', ''Tempo_Conta_Meses''})
            then Inr () else Inl (Coluna_Inexistente ''clientes'' c))"
  using assms by (simp add: le_coluna_def chave_nome_literais tem_coluna_dataframe set_colunas_df)

text \<open>C37: on the database the builder writes, whose table \<^verbatim>\<open>clientes\<close> has the columns
  of \<^verbatim>\<open>Base_clientes.csv\<close> and the four derived ones, a header without a column named
  \<^verbatim>\<open>Renda\<close> (in any case) makes query 2 raise: \<^verbatim>\<open>main\<close> keeps the result of query 1,
  reports the missing column and runs none of queries 3 to 9 nor the executive summary.\<close>

theorem main_60_para_sem_renda:
  assumes "tabelas db ''clientes'' = Some (tabela_de_dataframe (colunas_clientes_df hc))"
    and "chave_nome ''Renda'' \<notin> chave_nome ` set hc"
  shows "ex60_erro (main_60 db cs cards ts) = Some (Coluna_Inexistente ''clientes'' ''Renda'') \<and>
         ex60_renda (main_60 db cs cards ts) = None \<and> ex60_tempo_conta (main_60 db cs cards ts) = None \<and>
         ex60_conta_adicional (main_60 db cs cards ts) = None \<and> ex60_estado (main_60 db cs cards ts) = None \<and>
         ex60_tipo_cartao (main_60 db cs cards ts) = None \<and> ex60_produto (main_60 db cs cards ts) = None \<and>
         ex60_tempo_cartao (main_60 db cs cards ts) = None \<and> ex60_limite (main_60 db cs cards ts) = None \<and>
         ex60_resumo (main_60 db cs cards ts) = None"
proof -
  have "le_coluna db ''clientes'' ''Renda'' = Inl (Coluna_Inexistente ''clientes'' ''Renda'')"
    using assms(2) by (simp add: le_coluna_clientes_df [OF assms(1)] chave_nome_colunas_60 chave_nome_literais)
  then have "analise_60_2_renda db cs ts = Inl (Coluna_Inexistente ''clientes'' ''Renda'')"
    by (simp add: analise_60_2_renda_def)
  then show ?thesis
    by (simp add: main_60_def Let_def)
qed

end
