(* ===== verification/Churn_SQL90.thy ===== *)
theory Churn_SQL90
  imports Churn_60_Dias "HOL-Library.Option_ord"
begin

text \<open>
  The nine queries of \<^verbatim>\<open>src/churn2024SQL90/analise_churn_2024_completa.py\<close>. They
  classify by the last transaction: the CTE \<^verbatim>\<open>ultima_transacao_por_cliente\<close> holds
  \<^verbatim>\<open>MAX(data)\<close> per customer (the largest text), and a customer is in churn when that
  text is smaller than \<^verbatim>\<open>DATE('2024-12-30', '-90 days')\<close>. Queries 1 to 5 read the
  customers whose account was created in 2024 (a text range on
  \<^verbatim>\<open>Data_Criacao_Conta\<close>) and who have a last transaction; queries 6 to 9 read the
  customers through the cards issued in 2024. Each row has \<^verbatim>\<open>COUNT\<close> of customers,
  \<^verbatim>\<open>SUM\<close> of the churn indicator and \<^verbatim>\<open>ROUND(AVG(indicator) * 100, 2)\<close>. The
  customer and card columns \<^verbatim>\<open>tempo_conta_meses\<close> and \<^verbatim>\<open>tempo_cartao_meses\<close> are the
  values the database builder stores (\<open>tempo_meses\<close>). NULL sorts first in
  \<^verbatim>\<open>ORDER BY ... ASC\<close>, as in the order of \<^verbatim>\<open>HOL-Library.Option_ord\<close>.
\<close>

section \<open>The last transaction and the period filters\<close>

definition ultima_data :: "transacao list \<Rightarrow> cliente_id \<Rightarrow> texto" where
  "ultima_data ts c = the (sql_max (map data_sql (filter (\<lambda>t. tx_cliente t = c) ts)))"

definition ultima_transacao_por_cliente :: "transacao list \<Rightarrow> (cliente_id \<times> texto) list" where
  "ultima_transacao_por_cliente ts = map (\<lambda>c. (c, ultima_data ts c)) (remdups (map tx_cliente ts))"

definition corte_90 :: "texto option" where
  "corte_90 = data_corte data_referencia 90"

text \<open>\<^verbatim>\<open>x >= '2024-01-01' AND x <= '2024-12-31'\<close> on a stored timestamp text.\<close>

definition periodo_2024 :: "carimbo option \<Rightarrow> bool" where
  "periodo_2024 x \<longleftrightarrow>
     sql_le (Some (texto_data (2024, 1, 1))) (map_option texto_carimbo x) = Some True \<and>
     sql_le (map_option texto_carimbo x) (Some (texto_data (2024, 12, 31))) = Some True"

text \<open>\<^verbatim>\<open>CASE WHEN ut.ultima_transacao < DATE('2024-12-30', '-90 days') THEN 1 ELSE 0 END\<close>.\<close>

definition indicador_churn :: "(cliente_id \<times> texto) option \<Rightarrow> nat" where
  "indicador_churn u = sql_case_when (sql_less (map_option snd u) corte_90) 1 0"

section \<open>The result row\<close>

record 'k linha_sql90 =
  categoria_90 :: 'k
  total_90 :: nat
  churn_90 :: nat
  taxa_churn_pct :: real

text \<open>One group: the total is \<^verbatim>\<open>COUNT(c.cliente_id)\<close> for customer rows and
  \<^verbatim>\<open>COUNT(DISTINCT c24.cliente_id)\<close> for card rows, given as \<open>contagem\<close>.\<close>

definition linha_sql90_de_grupo ::
  "(('r \<times> (cliente_id \<times> texto) option) list \<Rightarrow> nat) \<Rightarrow> 'k \<times> ('r \<times> (cliente_id \<times> texto) option) list
   \<Rightarrow> 'k linha_sql90" where
  "linha_sql90_de_grupo contagem g = (case g of (k, xs) \<Rightarrow>
     \<lparr>categoria_90 = k,
      total_90 = contagem xs,
      churn_90 = sum_list (map (\<lambda>x. indicador_churn (snd x)) xs),
      taxa_churn_pct = sql_round2 (the (sql_avg (map (\<lambda>x. Some (real (indicador_churn (snd x)))) xs)) * 100)\<rparr>)"

section \<open>The customer rows and the bands\<close>

text \<open>\<^verbatim>\<open>FROM clientes c LEFT JOIN ultima_transacao_por_cliente ut ON c.cliente_id =
  ut.cliente_id WHERE <account created in 2024> AND ut.ultima_transacao IS NOT NULL\<close>.\<close>

definition clientes_2024 :: "cliente list \<Rightarrow> transacao list \<Rightarrow> (cliente \<times> (cliente_id \<times> texto) option) list" where
  "clientes_2024 cs ts =
     filter (\<lambda>x. periodo_2024 (cli_criacao_conta (fst x)) \<and> snd x \<noteq> None)
       (left_join_por (\<lambda>c u. cli_id c = fst u) cs (ultima_transacao_por_cliente ts))"

datatype rotulo_idade_90 = Idade_18_24 | Idade_25_34 | Idade_35_44 | Idade_45_54 | Idade_55_ou_mais
  | Idade_90_nula

definition faixa_etaria_90 :: "int \<Rightarrow> rotulo_idade_90" where
  "faixa_etaria_90 i =
     (if i < 25 then Idade_18_24
      else if 25 \<le> i \<and> i \<le> 34 then Idade_25_34
      else if 35 \<le> i \<and> i \<le> 44 then Idade_35_44
      else if 45 \<le> i \<and> i \<le> 54 then Idade_45_54
      else if 55 \<le> i then Idade_55_ou_mais
      else Idade_90_nula)"

datatype rotulo_renda_90 =
  Renda_ate_30k | Renda_30_50k | Renda_50_75k | Renda_75_100k | Renda_100_150k | Renda_150k_mais

definition faixa_renda_90 :: "real option \<Rightarrow> rotulo_renda_90" where
  "faixa_renda_90 r =
     sql_case_when (sql_less r (Some 30000)) Renda_ate_30k
      (sql_case_when (sql_between r (Some 30000) (Some 50000)) Renda_30_50k
       (sql_case_when (sql_between r (Some 50001) (Some 75000)) Renda_50_75k
        (sql_case_when (sql_between r (Some 75001) (Some 100000)) Renda_75_100k
         (sql_case_when (sql_between r (Some 100001) (Some 150000)) Renda_100_150k Renda_150k_mais))))"

datatype rotulo_periodo = Periodo_0_6 | Periodo_7_12 | Periodo_13_18 | Periodo_19_24 | Periodo_24_mais

text \<open>The same \<^verbatim>\<open>CASE\<close> classifies \<^verbatim>\<open>tempo_conta_meses\<close> (query 3) and
  \<^verbatim>\<open>tempo_cartao_meses\<close> (query 8).\<close>

definition periodo_meses :: "real option \<Rightarrow> rotulo_periodo" where
  "periodo_meses m =
     sql_case_when (sql_le m (Some 6)) Periodo_0_6
      (sql_case_when (sql_between m (Some 7) (Some 12)) Periodo_7_12
       (sql_case_when (sql_between m (Some 13) (Some 18)) Periodo_13_18
        (sql_case_when (sql_between m (Some 19) (Some 24)) Periodo_19_24 Periodo_24_mais)))"

datatype rotulo_limite_90 =
  Limite_ate_1k | Limite_1_3k | Limite_3_5k | Limite_5_10k | Limite_10_20k | Limite_20k_mais

definition faixa_limite_90 :: "real option \<Rightarrow> rotulo_limite_90" where
  "faixa_limite_90 l =
     sql_case_when (sql_le l (Some 1000)) Limite_ate_1k
      (sql_case_when (sql_between l (Some 1001) (Some 3000)) Limite_1_3k
       (sql_case_when (sql_between l (Some 3001) (Some 5000)) Limite_3_5k
        (sql_case_when (sql_between l (Some 5001) (Some 10000)) Limite_5_10k
         (sql_case_when (sql_between l (Some 10001) (Some 20000)) Limite_10_20k Limite_20k_mais))))"

section \<open>The queries on customers\<close>

text \<open>\<^verbatim>\<open>GROUP BY <band> ORDER BY AVG(<attribute>)\<close>: the groups in ascending order of
  the mean of the attribute they were banded by.\<close>

definition consulta_sql90_clientes ::
  "(cliente \<Rightarrow> 'k) \<Rightarrow> (cliente \<Rightarrow> real option) \<Rightarrow> cliente list \<Rightarrow> transacao list \<Rightarrow> 'k linha_sql90 list" where
  "consulta_sql90_clientes banda atributo cs ts =
     map (linha_sql90_de_grupo length)
       (sort_key (\<lambda>g. sql_avg (map (\<lambda>x. atributo (fst x)) (snd g)))
         (group_by (\<lambda>x. banda (fst x)) (clientes_2024 cs ts)))"

definition sql90_1_idade :: "cliente list \<Rightarrow> transacao list \<Rightarrow> rotulo_idade_90 linha_sql90 list" where
  "sql90_1_idade cs ts =
     consulta_sql90_clientes (\<lambda>c. faixa_etaria_90 (cli_idade c)) (\<lambda>c. Some (real_of_int (cli_idade c))) cs ts"

definition sql90_2_renda :: "cliente list \<Rightarrow> transacao list \<Rightarrow> rotulo_renda_90 linha_sql90 list" where
  "sql90_2_renda cs ts = consulta_sql90_clientes (\<lambda>c. faixa_renda_90 (cli_renda c)) cli_renda cs ts"

definition sql90_3_tempo_conta :: "cliente list \<Rightarrow> transacao list \<Rightarrow> rotulo_periodo linha_sql90 list" where
  "sql90_3_tempo_conta cs ts =
     consulta_sql90_clientes (\<lambda>c. periodo_meses (tempo_meses data_referencia (cli_criacao_conta c)))
       (\<lambda>c. tempo_meses data_referencia (cli_criacao_conta c)) cs ts"

definition sql90_4_conta_adicional :: "cliente list \<Rightarrow> transacao list \<Rightarrow> texto option linha_sql90 list" where
  "sql90_4_conta_adicional cs ts =
     ordena_desc taxa_churn_pct
       (map (linha_sql90_de_grupo length) (group_by (\<lambda>x. cli_conta_adicional (fst x)) (clientes_2024 cs ts)))"

definition sql90_5_estado :: "cliente list \<Rightarrow> transacao list \<Rightarrow> texto linha_sql90 list" where
  "sql90_5_estado cs ts =
     ordena_desc taxa_churn_pct
       (filter (\<lambda>l. 10 \<le> total_90 l)
         (map (linha_sql90_de_grupo length) (group_by (\<lambda>x. cli_estado (fst x)) (clientes_2024 cs ts))))"

section \<open>The queries on cards issued in 2024\<close>

text \<open>\<^verbatim>\<open>SELECT DISTINCT t.cliente_id, cart.<attribute> FROM transacoes t JOIN cartoes cart
  ON t.id_cartao = cart.id_cartao WHERE <issued in 2024>\<close>, then \<^verbatim>\<open>LEFT JOIN
  ultima_transacao_por_cliente\<close>.\<close>

definition pares_2024 :: "(cartao \<Rightarrow> 'a) \<Rightarrow> transacao list \<Rightarrow> cartao list \<Rightarrow> (cliente_id \<times> 'a) list" where
  "pares_2024 atributo ts cards =
     remdups (map (\<lambda>(t, k). (tx_cliente t, atributo k))
       (filter (\<lambda>(t, k). periodo_2024 (car_emissao k)) (inner_join (\<lambda>t k. tx_cartao t = car_id k) ts cards)))"

definition cartoes_2024 ::
  "(cartao \<Rightarrow> 'a) \<Rightarrow> transacao list \<Rightarrow> cartao list \<Rightarrow> ((cliente_id \<times> 'a) \<times> (cliente_id \<times> texto) option) list" where
  "cartoes_2024 atributo ts cards =
     left_join_por (\<lambda>r u. fst r = fst u) (pares_2024 atributo ts cards) (ultima_transacao_por_cliente ts)"

definition clientes_distintos :: "((cliente_id \<times> 'a) \<times> 'b) list \<Rightarrow> nat" where
  "clientes_distintos xs = length (remdups (map (\<lambda>x. fst (fst x)) xs))"

definition sql90_6_tipo_cartao :: "cartao list \<Rightarrow> transacao list \<Rightarrow> texto option linha_sql90 list" where
  "sql90_6_tipo_cartao cards ts =
     ordena_desc taxa_churn_pct
       (map (linha_sql90_de_grupo clientes_distintos) (group_by (\<lambda>x. snd (fst x)) (cartoes_2024 car_tipo ts cards)))"

definition sql90_7_produto :: "cartao list \<Rightarrow> transacao list \<Rightarrow> texto option linha_sql90 list" where
  "sql90_7_produto cards ts =
     ordena_desc taxa_churn_pct
       (map (linha_sql90_de_grupo clientes_distintos) (group_by (\<lambda>x. snd (fst x)) (cartoes_2024 car_produto ts cards)))"

definition sql90_8_tempo_cartao :: "cartao list \<Rightarrow> transacao list \<Rightarrow> rotulo_periodo linha_sql90 list" where
  "sql90_8_tempo_cartao cards ts =
     map (linha_sql90_de_grupo clientes_distintos)
       (sort_key (\<lambda>g. sql_avg (map (\<lambda>x. snd (fst x)) (snd g)))
         (group_by (\<lambda>x. periodo_meses (snd (fst x)))
           (cartoes_2024 (\<lambda>k. tempo_meses data_referencia (car_emissao k)) ts cards)))"

definition sql90_9_limite :: "cartao list \<Rightarrow> transacao list \<Rightarrow> rotulo_limite_90 linha_sql90 list" where
  "sql90_9_limite cards ts =
     map (linha_sql90_de_grupo clientes_distintos)
       (sort_key (\<lambda>g. sql_avg (map (\<lambda>x. snd (fst x)) (snd g)))
         (group_by (\<lambda>x. faixa_limite_90 (snd (fst x))) (cartoes_2024 car_limite ts cards)))"

declare ultima_data_def [churn_simps] pares_2024_def [churn_simps] ultima_transacao_por_cliente_def [churn_simps] corte_90_def [churn_simps] periodo_2024_def [churn_simps]
  indicador_churn_def [churn_simps] linha_sql90_de_grupo_def [churn_simps] clientes_2024_def [churn_simps]
  faixa_etaria_90_def [churn_simps] faixa_renda_90_def [churn_simps] periodo_meses_def [churn_simps]
  faixa_limite_90_def [churn_simps] consulta_sql90_clientes_def [churn_simps] sql90_1_idade_def [churn_simps]
  sql90_2_renda_def [churn_simps] sql90_3_tempo_conta_def [churn_simps]
  sql90_4_conta_adicional_def [churn_simps] sql90_5_estado_def [churn_simps] cartoes_2024_def [churn_simps]
  clientes_distintos_def [churn_simps] sql90_6_tipo_cartao_def [churn_simps] sql90_7_produto_def [churn_simps]
  sql90_8_tempo_cartao_def [churn_simps] sql90_9_limite_def [churn_simps]


section \<open>Properties of the bands and filters\<close>

text \<open>The income \<^verbatim>\<open>CASE\<close> of query 2 leaves gaps between its \<^verbatim>\<open>BETWEEN\<close>
  ranges: an income strictly between 50000 and 50001, 75000 and 75001, or 100000 and
  100001 (the column is REAL), and a NULL income, are labelled \<^verbatim>\<open>'R$ 150k+'\<close> with
  the incomes above 150000.\<close>

theorem faixa_renda_90_150k_mais:
  "faixa_renda_90 r = Renda_150k_mais \<longleftrightarrow>
     (case r of None \<Rightarrow> True
      | Some v \<Rightarrow> 150000 < v \<or> (50000 < v \<and> v < 50001) \<or> (75000 < v \<and> v < 75001) \<or> (100000 < v \<and> v < 100001))"
  by (cases r) (auto simp: faixa_renda_90_def)

text \<open>The month \<^verbatim>\<open>CASE\<close> of queries 3 and 8 sends a month count strictly
  between 6 and 7, 12 and 13, or 18 and 19 (the stored counts have two decimals), and
  a NULL count, to \<^verbatim>\<open>'24+ meses'\<close>.\<close>

theorem periodo_meses_24_mais:
  "periodo_meses m = Periodo_24_mais \<longleftrightarrow>
     (case m of None \<Rightarrow> True
      | Some v \<Rightarrow> 24 < v \<or> (6 < v \<and> v < 7) \<or> (12 < v \<and> v < 13) \<or> (18 < v \<and> v < 19))"
  by (cases m) (auto simp: periodo_meses_def)

text \<open>C33: the text range \<^verbatim>\<open>x >= '2024-01-01' AND x <= '2024-12-31'\<close> on a
  stored timestamp keeps exactly the days from 2024-01-01 to 2024-12-30: a timestamp of
  2024-12-31 is a longer text than \<^verbatim>\<open>'2024-12-31'\<close> and compares greater, so accounts
  and cards of the last day of the year are left out.\<close>

theorem periodo_2024_iff:
  assumes "carimbo_textual c"
  shows "periodo_2024 (Some c) \<longleftrightarrow> (2024, 1, 1) \<le> fst c \<and> fst c < (2024, 12, 31)"
proof -
  have dc: "data_textual (fst c)" using assms by (cases c) (simp add: carimbo_textual_def)
  have d1: "data_textual (2024, 1, 1)" and d2: "data_textual (2024, 12, 31)"
    by (simp_all add: data_textual_def)
  have "texto_carimbo c \<le> texto_data (2024, 12, 31) \<longleftrightarrow> texto_carimbo c < texto_data (2024, 12, 31)"
    using texto_carimbo_split [of c] by (auto simp: order_le_less dest: arg_cong [where f = length])
  then show ?thesis
    using dc d1 d2 by (simp add: periodo_2024_def texto_data_le_carimbo carimbo_less_texto_data)
qed

lemma corte_90_eq: "corte_90 = Some (texto_data (2024, 10, 1))"
  by (simp add: corte_90_def churn_simps dia_anterior_def dias_no_mes_def bissexto_def)

text \<open>C34: for a customer with transactions, the churn indicator of the SQL90 queries
  (the largest \<^verbatim>\<open>Data\<close> text compared with \<^verbatim>\<open>DATE('2024-12-30', '-90 days')\<close>) is 1
  exactly when the contract classifies the customer, by the last transaction, as
  inactive for the cut-off 2024-10-01.\<close>

theorem indicador_churn_refina_status:
  assumes "\<forall>t\<in>set ts. carimbo_textual (tx_data t)"
    and "(c, u) \<in> set (ultima_transacao_por_cliente ts)"
  shows "indicador_churn (Some (c, u)) = 1 \<longleftrightarrow> status_spec (2024, 10, 1) (ultima_transacao ts c) = Inativo"
proof -
  let ?xs = "map tx_data (filter (\<lambda>t. tx_cliente t = c) ts)"
  have ne: "?xs \<noteq> []" and u: "u = the (sql_max (map data_sql (filter (\<lambda>t. tx_cliente t = c) ts)))"
    using assms(2) by (auto simp: ultima_transacao_por_cliente_def ultima_data_def filter_empty_conv)
  have tx: "\<forall>x\<in>set ?xs. carimbo_textual x" using assms(1) by auto
  have mono: "\<forall>x\<in>set ?xs. \<forall>y\<in>set ?xs. texto_carimbo x \<le> texto_carimbo y \<longleftrightarrow> x \<le> y"
    using tx by (auto simp: texto_carimbo_le_iff)
  obtain m where m: "sql_max ?xs = Some m" using ne by (cases ?xs) auto
  have e: "map data_sql (filter (\<lambda>t. tx_cliente t = c) ts) = map texto_carimbo ?xs"
    by (simp add: data_sql_def)
  have "sql_max (map texto_carimbo ?xs) = Some (texto_carimbo m)"
    using sql_max_map_mono [OF mono] m by simp
  then have um: "u = texto_carimbo m"
    unfolding u e by simp
  have mt: "carimbo_textual m" using m tx sql_max_Max [OF ne] ne by (metis Max_in finite_set option.inject set_empty)
  then have dm: "data_textual (fst m)" by (cases m) (simp add: carimbo_textual_def)
  have d0: "data_textual (2024, 10, 1)" by (simp add: data_textual_def)
  have "ultima_transacao ts c = Some m" using m by (simp add: ultima_transacao_def)
  moreover have "indicador_churn (Some (c, u)) = 1 \<longleftrightarrow> texto_carimbo m < texto_data (2024, 10, 1)"
    by (simp add: indicador_churn_def corte_90_eq um)
  ultimately show ?thesis using dm d0 by (simp add: carimbo_less_texto_data)
qed

section \<open>The card queries count pairs, not customers\<close>

lemma filter_igual_unico: "distinct xs \<Longrightarrow> x \<in> set xs \<Longrightarrow> filter (\<lambda>y. x = y) xs = [x]"
  by (induction xs) (auto simp: filter_empty_conv)

lemma ultima_transacao_de:
  "c \<in> tx_cliente ` set ts \<Longrightarrow> filter (\<lambda>u. c = fst u) (ultima_transacao_por_cliente ts) = [(c, ultima_data ts c)]"
  by (simp add: ultima_transacao_por_cliente_def filter_map comp_def filter_igual_unico)

lemma pares_2024_clientes: "p \<in> set (pares_2024 atributo ts cards) \<Longrightarrow> fst p \<in> tx_cliente ` set ts"
  by (auto simp: pares_2024_def set_inner_join)

lemma cartoes_2024_eq:
  "cartoes_2024 atributo ts cards =
     map (\<lambda>p. (p, Some (fst p, ultima_data ts (fst p)))) (pares_2024 atributo ts cards)"
proof -
  have "cartoes_2024 atributo ts cards =
          concat (map (\<lambda>p. [(p, Some (fst p, ultima_data ts (fst p)))]) (pares_2024 atributo ts cards))"
    unfolding cartoes_2024_def left_join_por_def
    by (intro arg_cong [where f = concat] map_cong refl) (simp add: ultima_transacao_de pares_2024_clientes)
  then show ?thesis
    by simp
qed

lemma indicador_churn_le_1: "indicador_churn u \<le> 1"
  by (simp add: indicador_churn_def sql_case_when_def split: option.split bool.split)

lemma sum_list_zero_um:
  fixes f :: "'a \<Rightarrow> nat"
  shows "(\<And>x. f x \<le> 1) \<Longrightarrow> sum_list (map f xs) = length (filter (\<lambda>x. f x = 1) xs)"
proof (induction xs)
  case (Cons a xs)
  then show ?case using Cons.prems [of a] by (cases "f a") auto
qed simp

text \<open>C30: in the SQL90 queries on cards issued in 2024 (here the limit bands of query
  9), \<^verbatim>\<open>COUNT(DISTINCT cliente_id)\<close> counts the customers of a band but
  \<^verbatim>\<open>SUM(CASE WHEN ... THEN 1 ELSE 0 END)\<close> counts its distinct (customer, limit) rows
  whose customer is in churn: a churned customer with two cards of different limits in one
  band is counted twice as churned and once in the total.\<close>

theorem sql90_limite_conta_pares:
  assumes "l \<in> set (sql90_9_limite cards ts)"
  shows "churn_90 l = length (filter (\<lambda>p. faixa_limite_90 (snd p) = categoria_90 l \<and>
                                          indicador_churn (Some (fst p, ultima_data ts (fst p))) = 1)
                                (pares_2024 car_limite ts cards)) \<and>
         total_90 l = length (remdups (map fst (filter (\<lambda>p. faixa_limite_90 (snd p) = categoria_90 l)
                                                   (pares_2024 car_limite ts cards))))"
proof -
  let ?ps = "pares_2024 car_limite ts cards"
  let ?g = "\<lambda>p. (p, Some (fst p, ultima_data ts (fst p)))"
  obtain k xs where kx: "(k, xs) \<in> set (group_by (\<lambda>x. faixa_limite_90 (snd (fst x))) (map ?g ?ps))"
    and l: "l = linha_sql90_de_grupo clientes_distintos (k, xs)"
    using assms by (auto simp: sql90_9_limite_def cartoes_2024_eq)
  have xs: "xs = map ?g (filter (\<lambda>p. faixa_limite_90 (snd p) = k) ?ps)"
    using kx by (auto simp: group_by_def filter_map comp_def)
  have "churn_90 l = sum_list (map (\<lambda>p. indicador_churn (Some (fst p, ultima_data ts (fst p))))
                                 (filter (\<lambda>p. faixa_limite_90 (snd p) = k) ?ps))"
    by (simp add: l xs linha_sql90_de_grupo_def comp_def)
  also have "\<dots> = length (filter (\<lambda>p. indicador_churn (Some (fst p, ultima_data ts (fst p))) = 1)
                              (filter (\<lambda>p. faixa_limite_90 (snd p) = k) ?ps))"
    by (rule sum_list_zero_um) (rule indicador_churn_le_1)
  also have "\<dots> = length (filter (\<lambda>p. faixa_limite_90 (snd p) = k \<and>
                                     indicador_churn (Some (fst p, ultima_data ts (fst p))) = 1) ?ps)"
    by (simp add: filter_filter)
  finally show ?thesis
    by (simp add: l xs linha_sql90_de_grupo_def clientes_distintos_def comp_def)
qed

end
