(* ===== verification/Visoes_Banco.thy ===== *)
theory Visoes_Banco
  imports Churn_SQL90
begin

text \<open>
  The rest of \<^verbatim>\<open>src/bd/criar_banco_sqlite.py\<close>: the columns the builder derives for
  transactions and cards before writing the tables, the four views
  \<^verbatim>\<open>vw_analise_churn\<close>, \<^verbatim>\<open>vw_analise_cartoes\<close>, \<^verbatim>\<open>vw_transacoes_completas\<close> and
  \<^verbatim>\<open>vw_resumo_cliente\<close>, and the validation queries run at the end of the script.
  A transaction row with the columns the views read extends the record \<open>transacao\<close>.
  Every view groups a \<^verbatim>\<open>LEFT JOIN\<close> by one key; \<^verbatim>\<open>MAX\<close>, \<^verbatim>\<open>SUM\<close> and \<^verbatim>\<open>AVG\<close> of a
  group without transactions are NULL and \<^verbatim>\<open>COUNT\<close> is 0.
\<close>

section \<open>Derived columns of the builder\<close>

record transacao_completa = transacao +
  tx_id :: int
  tx_valor :: "real option"
  tx_wallet :: "texto option"
  tx_input_mode :: "texto option"

text \<open>\<^verbatim>\<open>Data.dt.year\<close>, \<^verbatim>\<open>.dt.month\<close>, \<^verbatim>\<open>.dt.dayofweek\<close> (Monday is 0) and
  \<^verbatim>\<open>.dt.quarter\<close>.\<close>

definition ano_tx :: "'a transacao_scheme \<Rightarrow> nat" where
  "ano_tx t = fst (fst (tx_data t))"

definition mes_tx :: "'a transacao_scheme \<Rightarrow> nat" where
  "mes_tx t = fst (snd (fst (tx_data t)))"

definition dia_semana :: "data_civil \<Rightarrow> int" where
  "dia_semana dt = (dia_numero dt + 4) mod 7"

definition trimestre :: "nat \<Rightarrow> nat" where
  "trimestre m = (m + 2) div 3"

text \<open>\<^verbatim>\<open>pd.cut(Valor_Compra, bins=[0, 100, 500, 1000, inf], labels=[...])\<close>: intervals
  closed on the right; a value outside them, or NaN, gets no label.\<close>

datatype rotulo_valor = Valor_baixo | Valor_medio | Valor_alto | Valor_premium

definition faixa_valor :: "real option \<Rightarrow> rotulo_valor option" where
  "faixa_valor x = (case x of None \<Rightarrow> None | Some v \<Rightarrow>
     if 0 < v \<and> v \<le> 100 then Some Valor_baixo
     else if 100 < v \<and> v \<le> 500 then Some Valor_medio
     else if 500 < v \<and> v \<le> 1000 then Some Valor_alto
     else if 1000 < v then Some Valor_premium
     else None)"

definition wallets_digitais :: "texto list" where
  "wallets_digitais = [''Apple Pay'', ''Google Pay'', ''Samsung Pay'']"

text \<open>\<^verbatim>\<open>Wallet.isin(wallets_digitais).astype(int)\<close> (NaN is in no list) and
  \<^verbatim>\<open>(Input_Mode == 'PayPass').astype(int)\<close>.\<close>

definition pagamento_digital :: "transacao_completa \<Rightarrow> nat" where
  "pagamento_digital t = (case tx_wallet t of Some w \<Rightarrow> if w \<in> set wallets_digitais then 1 else 0 | None \<Rightarrow> 0)"

definition paypass :: "transacao_completa \<Rightarrow> nat" where
  "paypass t = (if tx_input_mode t = Some ''PayPass'' then 1 else 0)"

text \<open>\<^verbatim>\<open>Cartao_Recente = (Data_Emissao >= '2023-01-01').astype(int)\<close>: pandas reads the
  string as midnight of that day, and NaT compares false.\<close>

definition cartao_recente :: "cartao \<Rightarrow> nat" where
  "cartao_recente k = (case car_emissao k of None \<Rightarrow> 0 | Some e \<Rightarrow> if ((2023, 1, 1), (0, 0, 0)) \<le> e then 1 else 0)"

section \<open>Aggregates of a group\<close>

definition sql_sum :: "real option list \<Rightarrow> real option" where
  "sql_sum xs = (let vs = List.map_filter id xs in if vs = [] then None else Some (sum_list vs))"

definition ultima_texto :: "transacao_completa list \<Rightarrow> texto option" where
  "ultima_texto txs = sql_max (map (\<lambda>t. texto_carimbo (tx_data t)) txs)"

text \<open>\<^verbatim>\<open>CASE WHEN MAX(t.data) < DATE('2024-12-30', '-90 days') THEN 1 ELSE 0 END\<close>.\<close>

definition churn_visao :: "transacao_completa list \<Rightarrow> nat" where
  "churn_visao txs = sql_case_when (sql_less (ultima_texto txs) corte_90) 1 0"

datatype rotulo_tempo_visao = Visao_0_6 | Visao_6_12 | Visao_12_18 | Visao_18_24 | Visao_24_mais

definition faixa_tempo_visao :: "real option \<Rightarrow> rotulo_tempo_visao" where
  "faixa_tempo_visao m =
     sql_case_when (sql_le m (Some 6)) Visao_0_6
      (sql_case_when (sql_le m (Some 12)) Visao_6_12
       (sql_case_when (sql_le m (Some 18)) Visao_12_18
        (sql_case_when (sql_le m (Some 24)) Visao_18_24 Visao_24_mais)))"

section \<open>The view of churn per customer\<close>

record linha_vw_churn =
  vc_cliente :: cliente_id
  vc_idade :: int
  vc_renda :: "real option"
  vc_tempo_conta :: "real option"
  vc_estado :: texto
  vc_conta_adicional :: "texto option"
  vc_ultima :: "texto option"
  vc_total_transacoes :: nat
  vc_valor_total :: "real option"
  vc_ticket_medio :: "real option"
  vc_churn :: nat
  vc_faixa_tempo_conta :: rotulo_tempo_visao

definition linha_vw_churn_de :: "cliente \<Rightarrow> transacao_completa list \<Rightarrow> linha_vw_churn" where
  "linha_vw_churn_de c txs =
     \<lparr>vc_cliente = cli_id c, vc_idade = cli_idade c, vc_renda = cli_renda c,
      vc_tempo_conta = tempo_meses data_referencia (cli_criacao_conta c), vc_estado = cli_estado c,
      vc_conta_adicional = cli_conta_adicional c,
      vc_ultima = ultima_texto txs, vc_total_transacoes = length txs,
      vc_valor_total = sql_sum (map tx_valor txs), vc_ticket_medio = sql_avg (map tx_valor txs),
      vc_churn = churn_visao txs,
      vc_faixa_tempo_conta = faixa_tempo_visao (tempo_meses data_referencia (cli_criacao_conta c))\<rparr>"

text \<open>\<^verbatim>\<open>FROM clientes c LEFT JOIN transacoes t ON c.cliente_id = t.cliente_id GROUP BY
  c.cliente_id\<close>; the customer columns are read from the first row of the group.\<close>

definition agrupa_por_cliente ::
  "cliente list \<Rightarrow> transacao_completa list \<Rightarrow> (cliente \<times> transacao_completa list) list" where
  "agrupa_por_cliente cs ts =
     map (\<lambda>(k, g). (fst (hd g), List.map_filter snd g))
       (group_by (\<lambda>x. cli_id (fst x)) (left_join_por (\<lambda>c t. cli_id c = tx_cliente t) cs ts))"

definition vw_analise_churn :: "cliente list \<Rightarrow> transacao_completa list \<Rightarrow> linha_vw_churn list" where
  "vw_analise_churn cs ts = map (\<lambda>(c, txs). linha_vw_churn_de c txs) (agrupa_por_cliente cs ts)"

section \<open>The summary view per customer\<close>

datatype status_visao = Status_churn | Status_ativo

record linha_vw_resumo =
  vr_cliente :: cliente_id
  vr_idade :: int
  vr_renda :: "real option"
  vr_estado :: texto
  vr_tempo_conta :: "real option"
  vr_qtd_cartoes :: nat
  vr_total_transacoes :: nat
  vr_receita_total :: "real option"
  vr_ticket_medio :: "real option"
  vr_transacoes_digitais :: "nat option"
  vr_pct_digital :: "real option"
  vr_ultima :: "texto option"
  vr_status :: status_visao

text \<open>\<^verbatim>\<open>ROUND(SUM(t.pagamento_digital) * 100.0 / COUNT(t.id_transacao), 2)\<close>: SQLite
  returns NULL for a division by zero, and \<^verbatim>\<open>SUM\<close> of no rows is NULL.\<close>

definition linha_vw_resumo_de :: "cliente \<Rightarrow> transacao_completa list \<Rightarrow> linha_vw_resumo" where
  "linha_vw_resumo_de c txs =
     \<lparr>vr_cliente = cli_id c, vr_idade = cli_idade c, vr_renda = cli_renda c, vr_estado = cli_estado c,
      vr_tempo_conta = tempo_meses data_referencia (cli_criacao_conta c), vr_qtd_cartoes = length (remdups (map tx_cartao txs)),
      vr_total_transacoes = length txs,
      vr_receita_total = sql_sum (map tx_valor txs), vr_ticket_medio = sql_avg (map tx_valor txs),
      vr_transacoes_digitais = (if txs = [] then None else Some (sum_list (map pagamento_digital txs))),
      vr_pct_digital = (if txs = [] then None
                        else Some (sql_round2 (real (sum_list (map pagamento_digital txs)) * 100 / real (length txs)))),
      vr_ultima = ultima_texto txs,
      vr_status = sql_case_when (sql_less (ultima_texto txs) corte_90) Status_churn Status_ativo\<rparr>"

definition vw_resumo_cliente :: "cliente list \<Rightarrow> transacao_completa list \<Rightarrow> linha_vw_resumo list" where
  "vw_resumo_cliente cs ts = map (\<lambda>(c, txs). linha_vw_resumo_de c txs) (agrupa_por_cliente cs ts)"

section \<open>The card view\<close>

record linha_vw_cartao =
  vk_cartao :: cartao_id
  vk_produto :: "texto option"
  vk_tipo :: "texto option"
  vk_limite :: "real option"
  vk_tempo_cartao :: "real option"
  vk_recente :: nat
  vk_cliente :: "cliente_id option"
  vk_estado :: "texto option"
  vk_total_transacoes :: nat
  vk_valor_total :: "real option"
  vk_ultima :: "texto option"
  vk_churn :: nat
  vk_faixa_tempo_cartao :: rotulo_tempo_visao

text \<open>\<^verbatim>\<open>FROM cartoes cart LEFT JOIN transacoes t ON cart.id_cartao = t.id_cartao LEFT JOIN
  clientes c ON t.cliente_id = c.cliente_id WHERE cart.cartao_recente = 1 GROUP BY
  cart.id_cartao\<close>; the customer column comes from the first row of the group.\<close>

definition vw_analise_cartoes :: "cartao list \<Rightarrow> cliente list \<Rightarrow> transacao_completa list \<Rightarrow> linha_vw_cartao list" where
  "vw_analise_cartoes cards cs ts =
     map (\<lambda>(i, g). (let k = fst (fst (hd g)); txs = List.map_filter (\<lambda>x. snd (fst x)) g in
        \<lparr>vk_cartao = i, vk_produto = car_produto k, vk_tipo = car_tipo k, vk_limite = car_limite k,
         vk_tempo_cartao = tempo_meses data_referencia (car_emissao k), vk_recente = cartao_recente k,
         vk_cliente = map_option cli_id (snd (hd g)), vk_estado = map_option cli_estado (snd (hd g)),
         vk_total_transacoes = length txs, vk_valor_total = sql_sum (map tx_valor txs),
         vk_ultima = ultima_texto txs, vk_churn = churn_visao txs,
         vk_faixa_tempo_cartao = faixa_tempo_visao (tempo_meses data_referencia (car_emissao k))\<rparr>))
       (group_by (\<lambda>x. car_id (fst (fst x)))
         (filter (\<lambda>x. cartao_recente (fst (fst x)) = 1)
           (left_join_por (\<lambda>kt c. (case snd kt of Some t \<Rightarrow> tx_cliente t = cli_id c | None \<Rightarrow> False))
             (left_join_por (\<lambda>k t. car_id k = tx_cartao t) cards ts) cs)))"

section \<open>The enriched transactions\<close>

text \<open>\<^verbatim>\<open>SELECT t.*, c.<columns>, cart.<columns> FROM transacoes t JOIN clientes c ON
  t.cliente_id = c.cliente_id JOIN cartoes cart ON t.id_cartao = cart.id_cartao\<close>.\<close>

definition vw_transacoes_completas ::
  "transacao_completa list \<Rightarrow> cliente list \<Rightarrow> cartao list \<Rightarrow> ((transacao_completa \<times> cliente) \<times> cartao) list" where
  "vw_transacoes_completas ts cs cards =
     inner_join (\<lambda>tc k. tx_cartao (fst tc) = car_id k) (inner_join (\<lambda>t c. tx_cliente t = cli_id c) ts cs) cards"

section \<open>Validation queries of the builder\<close>

text \<open>\<^verbatim>\<open>SELECT ROUND(AVG(churn) * 100, 2) FROM vw_analise_churn\<close> (the overall churn
  rate the script prints) and \<^verbatim>\<open>SELECT ROUND(AVG(pagamento_digital) * 100, 2) FROM
  transacoes\<close>.\<close>

definition taxa_churn_geral_visao :: "cliente list \<Rightarrow> transacao_completa list \<Rightarrow> real option" where
  "taxa_churn_geral_visao cs ts =
     map_option (\<lambda>a. sql_round2 (a * 100)) (sql_avg (map (\<lambda>l. Some (real (vc_churn l))) (vw_analise_churn cs ts)))"

definition pct_digital_geral :: "transacao_completa list \<Rightarrow> real option" where
  "pct_digital_geral ts =
     map_option (\<lambda>a. sql_round2 (a * 100)) (sql_avg (map (\<lambda>t. Some (real (pagamento_digital t))) ts))"

declare ano_tx_def [churn_simps] mes_tx_def [churn_simps] dia_semana_def [churn_simps] trimestre_def [churn_simps]
  faixa_valor_def [churn_simps] wallets_digitais_def [churn_simps] pagamento_digital_def [churn_simps]
  paypass_def [churn_simps] cartao_recente_def [churn_simps] sql_sum_def [churn_simps]
  ultima_texto_def [churn_simps] churn_visao_def [churn_simps] faixa_tempo_visao_def [churn_simps]
  linha_vw_churn_de_def [churn_simps] agrupa_por_cliente_def [churn_simps] vw_analise_churn_def [churn_simps]
  linha_vw_resumo_de_def [churn_simps] vw_resumo_cliente_def [churn_simps] vw_analise_cartoes_def [churn_simps]
  taxa_churn_geral_visao_def [churn_simps] pct_digital_geral_def [churn_simps]
  vw_transacoes_completas_def [churn_simps]


section \<open>Customers without transactions in the views\<close>

text \<open>C35: in \<^verbatim>\<open>vw_analise_churn\<close> and \<^verbatim>\<open>vw_resumo_cliente\<close> a customer without any
  transaction has \<^verbatim>\<open>MAX(t.data)\<close> NULL, the \<^verbatim>\<open>CASE\<close> falls to its \<^verbatim>\<open>ELSE\<close>, and the
  customer is reported with \<^verbatim>\<open>churn = 0\<close> and status \<^verbatim>\<open>'Ativo'\<close>: a never-activated
  customer is counted as active by every query on these views.\<close>

theorem visoes_sem_transacoes_ativo:
  "(\<forall>l\<in>set (vw_analise_churn cs ts). vc_total_transacoes l = 0 \<longrightarrow> vc_churn l = 0) \<and>
   (\<forall>l\<in>set (vw_resumo_cliente cs ts). vr_total_transacoes l = 0 \<longrightarrow> vr_status l = Status_ativo)"
  by (auto simp: vw_analise_churn_def linha_vw_churn_de_def churn_visao_def ultima_texto_def
      vw_resumo_cliente_def linha_vw_resumo_de_def)

end
