(* ===== verification/Churn_Comparativo.thy ===== *)
theory Churn_Comparativo
  imports Visoes_Banco
begin

text \<open>
  The two comparative scripts, which run the churn count for the windows of 30, 60
  and 90 days.

  \<^verbatim>\<open>src/churn2024SQLCOMP/analise_comparativa_churn_2024.py\<close>: \<^verbatim>\<open>obter_dados_churn(dias)\<close>
  runs four aggregate queries without \<^verbatim>\<open>GROUP BY\<close> (one row each, even on an empty
  input, where \<^verbatim>\<open>SUM\<close> and \<^verbatim>\<open>AVG\<close> are NULL) on the rows of the 90-day script
  (\<open>clientes_2024\<close>, \<open>cartoes_2024\<close>), with the cut-off
  \<^verbatim>\<open>DATE('2024-12-30', '-{dias} days')\<close>, and tags them with the period; the script
  concatenates the rows of the three windows and prints the relative variations.

  \<^verbatim>\<open>src/analise_comparativa_churn_2024_corrigida.py\<close>: the customers with transactions
  that have none after the cut-off (\<^verbatim>\<open>NOT IN\<close> the active ones), in the old cohort
  (accounts created from 2024 on) and in the whole base, per window, per year of account
  creation, and the increments between windows that \<^verbatim>\<open>criar_grafico_evolucao_churn\<close>
  draws as bars and as a pie chart; \<^verbatim>\<open>main\<close> runs the five steps inside one
  \<^verbatim>\<open>try\<close>, so an exception ends the run.
\<close>

section \<open>The comparative queries of \<^verbatim>\<open>obter_dados_churn\<close>\<close>

text \<open>\<^verbatim>\<open>str(dias)\<close>: the decimal digits of a natural number.\<close>

fun texto_nat :: "nat \<Rightarrow> texto" where
  "texto_nat n = (if n < 10 then [digito n] else texto_nat (n div 10) @ [digito (n mod 10)])"

declare texto_nat.simps [simp del]

text \<open>Reading the digits back, most significant first: the inverse against which the
  labels \<^verbatim>\<open>f'{dias} dias'\<close> are checked.\<close>

definition valor_decimal :: "texto \<Rightarrow> nat" where
  "valor_decimal s = foldl (\<lambda>a c. 10 * a + (of_char c - 48)) 0 s"

text \<open>\<^verbatim>\<open>CASE WHEN ut.ultima_transacao < DATE('2024-12-30', '-{dias} days') THEN 1 ELSE 0 END\<close>.\<close>

definition indicador_churn_dias :: "nat \<Rightarrow> (cliente_id \<times> texto) option \<Rightarrow> nat" where
  "indicador_churn_dias dias u = sql_case_when (sql_less (map_option snd u) (data_corte data_referencia dias)) 1 0"

record linha_comparativa =
  categoria_comp :: texto
  total_comp :: nat
  churn_comp :: "nat option"
  taxa_comp :: "real option"

text \<open>The single row of an aggregate query without \<^verbatim>\<open>GROUP BY\<close>: the count given as
  \<open>contagem\<close>, \<^verbatim>\<open>SUM\<close> of the indicator (NULL on no rows) and
  \<^verbatim>\<open>ROUND(AVG(<indicator as 1.0 or 0.0>) * 100, 2)\<close>.\<close>

definition agrega_comparativo ::
  "nat \<Rightarrow> texto \<Rightarrow> nat \<Rightarrow> ('r \<times> (cliente_id \<times> texto) option) list \<Rightarrow> linha_comparativa" where
  "agrega_comparativo dias cat contagem xs =
     \<lparr>categoria_comp = cat,
      total_comp = contagem,
      churn_comp = (if xs = [] then None else Some (sum_list (map (\<lambda>x. indicador_churn_dias dias (snd x)) xs))),
      taxa_comp = map_option (\<lambda>a. sql_round2 (a * 100))
        (sql_avg (map (\<lambda>x. Some (real (indicador_churn_dias dias (snd x)))) xs))\<rparr>"

text \<open>\<^verbatim>\<open>query_idade\<close> and \<^verbatim>\<open>query_renda_baixa\<close>: the customer rows of the 90-day
  script (account created in 2024, with a last transaction) restricted by
  \<^verbatim>\<open>c.idade BETWEEN 35 AND 44\<close> or \<^verbatim>\<open>c.renda_anual < 30000\<close>, counted by
  \<^verbatim>\<open>COUNT(c.cliente_id)\<close>.\<close>

definition comp_idade :: "nat \<Rightarrow> cliente list \<Rightarrow> transacao list \<Rightarrow> linha_comparativa" where
  "comp_idade dias cs ts =
     (let xs = filter (\<lambda>x. sql_between (Some (cli_idade (fst x))) (Some 35) (Some 44) = Some True) (clientes_2024 cs ts)
      in agrega_comparativo dias ''Idade 35-44'' (length xs) xs)"

definition comp_renda_baixa :: "nat \<Rightarrow> cliente list \<Rightarrow> transacao list \<Rightarrow> linha_comparativa" where
  "comp_renda_baixa dias cs ts =
     (let xs = filter (\<lambda>x. sql_less (cli_renda (fst x)) (Some 30000) = Some True) (clientes_2024 cs ts)
      in agrega_comparativo dias ''Renda Baixa'' (length xs) xs)"

text \<open>The CTE \<^verbatim>\<open>cartoes_2024\<close> of \<^verbatim>\<open>query_standard\<close> and \<^verbatim>\<open>query_cartao_tempo\<close>:
  \<^verbatim>\<open>SELECT DISTINCT t.cliente_id, cart.<attribute>\<close> over the transactions joined with
  the cards issued in 2024 that satisfy the extra condition \<open>P\<close>, then \<^verbatim>\<open>LEFT JOIN
  ultima_transacao_por_cliente\<close>.\<close>

definition cartoes_2024_onde ::
  "(cartao \<Rightarrow> bool) \<Rightarrow> (cartao \<Rightarrow> 'a) \<Rightarrow> transacao list \<Rightarrow> cartao list
   \<Rightarrow> ((cliente_id \<times> 'a) \<times> (cliente_id \<times> texto) option) list" where
  "cartoes_2024_onde P atributo ts cards =
     left_join_por (\<lambda>r u. fst r = fst u)
       (remdups (map (\<lambda>(t, k). (tx_cliente t, atributo k))
          (filter (\<lambda>(t, k). periodo_2024 (car_emissao k) \<and> P k) (inner_join (\<lambda>t k. tx_cartao t = car_id k) ts cards))))
       (ultima_transacao_por_cliente ts)"

definition texto_cartao_7_12 :: texto where
  "texto_cartao_7_12 = ''Cart'' @ [char_of (195::nat), char_of (163::nat)] @ ''o 7-12m''"

definition comp_standard :: "nat \<Rightarrow> cartao list \<Rightarrow> transacao list \<Rightarrow> linha_comparativa" where
  "comp_standard dias cards ts =
     (let xs = cartoes_2024_onde (\<lambda>k. sql_eq (car_produto k) (Some ''Standard'') = Some True) car_produto ts cards
      in agrega_comparativo dias ''Standard'' (clientes_distintos xs) xs)"

definition comp_cartao_tempo :: "nat \<Rightarrow> cartao list \<Rightarrow> transacao list \<Rightarrow> linha_comparativa" where
  "comp_cartao_tempo dias cards ts =
     (let xs = cartoes_2024_onde
                 (\<lambda>k. sql_between (tempo_meses data_referencia (car_emissao k)) (Some 7) (Some 12) = Some True)
                 (\<lambda>k. tempo_meses data_referencia (car_emissao k)) ts cards
      in agrega_comparativo dias texto_cartao_7_12 (clientes_distintos xs) xs)"

text \<open>\<^verbatim>\<open>pd.concat([df_idade, df_standard, df_cartao, df_renda])\<close> with the column
  \<^verbatim>\<open>periodo = f'{dias} dias'\<close>.\<close>

record linha_periodo = linha_comparativa +
  periodo_comp :: texto

definition com_periodo :: "nat \<Rightarrow> linha_comparativa \<Rightarrow> linha_periodo" where
  "com_periodo dias l =
     \<lparr>categoria_comp = categoria_comp l, total_comp = total_comp l, churn_comp = churn_comp l,
      taxa_comp = taxa_comp l, periodo_comp = texto_nat dias @ '' dias''\<rparr>"

definition obter_dados_churn :: "nat \<Rightarrow> cliente list \<Rightarrow> cartao list \<Rightarrow> transacao list \<Rightarrow> linha_periodo list" where
  "obter_dados_churn dias cs cards ts =
     map (com_periodo dias)
       [comp_idade dias cs ts, comp_standard dias cards ts, comp_cartao_tempo dias cards ts, comp_renda_baixa dias cs ts]"

definition df_completo :: "cliente list \<Rightarrow> cartao list \<Rightarrow> transacao list \<Rightarrow> linha_periodo list" where
  "df_completo cs cards ts = obter_dados_churn 30 cs cards ts @ obter_dados_churn 60 cs cards ts @ obter_dados_churn 90 cs cards ts"

text \<open>\<^verbatim>\<open>dados_cat[dados_cat['periodo'] == p]['taxa_churn_pct'].iloc[0]\<close>: the rate of the
  first row of the category and period; \<^verbatim>\<open>.iloc[0]\<close> of no row raises
  \<^verbatim>\<open>IndexError\<close> (\<open>None\<close>). A NULL rate is NaN (\<open>Some None\<close>).\<close>

definition taxa_de :: "linha_periodo list \<Rightarrow> texto \<Rightarrow> texto \<Rightarrow> real option option" where
  "taxa_de df cat p =
     (case filter (\<lambda>l. categoria_comp l = cat \<and> periodo_comp l = p) df of
        [] \<Rightarrow> None
      | l # _ \<Rightarrow> Some (taxa_comp l))"

text \<open>\<^verbatim>\<open>((b - a) / a) * 100 if a > 0 else 0\<close>: NaN compares false, and NaN arithmetic
  stays NaN.\<close>

definition variacao :: "real option \<Rightarrow> real option \<Rightarrow> real option" where
  "variacao a b = (case a of Some x \<Rightarrow> if 0 < x then map_option (\<lambda>y. (y - x) / x * 100) b else Some 0 | None \<Rightarrow> Some 0)"

text \<open>The loop over \<^verbatim>\<open>df_completo['categoria'].unique()\<close>: for each category the
  variations 30 to 60, 60 to 90 and 30 to 90 days.\<close>

definition variacoes_categorias ::
  "linha_periodo list \<Rightarrow> (texto \<times> (real option \<times> real option \<times> real option)) option list" where
  "variacoes_categorias df =
     map (\<lambda>cat. case (taxa_de df cat ''30 dias'', taxa_de df cat ''60 dias'', taxa_de df cat ''90 dias'') of
                  (Some t30, Some t60, Some t90) \<Rightarrow>
                    Some (cat, variacao t30 t60, variacao t60 t90, variacao t30 t90)
                | _ \<Rightarrow> None)
       (remdups (map categoria_comp df))"

declare indicador_churn_dias_def [churn_simps] agrega_comparativo_def [churn_simps] comp_idade_def [churn_simps]
  comp_renda_baixa_def [churn_simps] cartoes_2024_onde_def [churn_simps] texto_cartao_7_12_def [churn_simps]
  comp_standard_def [churn_simps] comp_cartao_tempo_def [churn_simps] com_periodo_def [churn_simps]
  obter_dados_churn_def [churn_simps] df_completo_def [churn_simps] taxa_de_def [churn_simps]
  variacao_def [churn_simps] variacoes_categorias_def [churn_simps] texto_nat.simps [churn_simps]

section \<open>The corrected script: the old and the corrected cohort\<close>

text \<open>\<^verbatim>\<open>cliente_id NOT IN (SELECT DISTINCT Cliente_ID FROM transacoes WHERE Data >
  DATE('2024-12-30', '-{dias} days'))\<close>: the customers of a list with no transaction
  after the cut-off. The subquery has no NULL, so \<^verbatim>\<open>NOT IN\<close> is plain non-membership.\<close>

definition clientes_churn_not_in :: "nat \<Rightarrow> transacao list \<Rightarrow> cliente_id list \<Rightarrow> cliente_id list" where
  "clientes_churn_not_in dias ts xs =
     filter (\<lambda>c. c \<notin> set (clientes_ativos (data_corte data_referencia dias) ts)) xs"

text \<open>The CTE \<^verbatim>\<open>clientes_2024\<close> of \<^verbatim>\<open>query_antiga\<close>: \<^verbatim>\<open>SELECT DISTINCT c.cliente_id
  FROM clientes c WHERE c.Data_Criacao_Conta >= '2024-01-01' AND c.cliente_id IN (SELECT
  DISTINCT Cliente_ID FROM transacoes)\<close>.\<close>

definition coorte_antiga :: "cliente list \<Rightarrow> transacao list \<Rightarrow> cliente_id list" where
  "coorte_antiga cs ts =
     remdups (map cli_id (filter (\<lambda>c. sql_le (Some (texto_data (2024, 1, 1))) (map_option texto_carimbo (cli_criacao_conta c)) = Some True
                                     \<and> cli_id c \<in> set (clientes_com_transacoes ts)) cs))"

record resultado_abordagem =
  total_abordagem :: nat
  churns_abordagem :: nat
  taxa_abordagem :: "real option"

text \<open>\<^verbatim>\<open>SELECT COUNT(*), (SELECT COUNT(*) FROM <churn>), ROUND((SELECT COUNT(*) FROM
  <churn>) * 100.0 / COUNT(*), 2) FROM <base>\<close>; a division by zero is NULL.\<close>

definition resultado_de :: "cliente_id list \<Rightarrow> cliente_id list \<Rightarrow> resultado_abordagem" where
  "resultado_de base churns =
     \<lparr>total_abordagem = length base, churns_abordagem = length churns,
      taxa_abordagem = (if base = [] then None else Some (sql_round2 (real (length churns) * 100 / real (length base))))\<rparr>"

definition query_antiga :: "cliente list \<Rightarrow> transacao list \<Rightarrow> resultado_abordagem" where
  "query_antiga cs ts = (let base = coorte_antiga cs ts in resultado_de base (clientes_churn_not_in 90 ts base))"

definition query_corrigida :: "transacao list \<Rightarrow> resultado_abordagem" where
  "query_corrigida ts =
     (let base = clientes_com_transacoes ts in resultado_de base (clientes_churn_not_in 90 ts base))"

text \<open>\<^verbatim>\<open>comparar_abordagens_churn\<close>: both rows, \<^verbatim>\<open>diferenca_clientes\<close> and
  \<^verbatim>\<open>percentual_subestimado = diferenca / churns_corrigida * 100\<close>, a NumPy division that
  gives NaN (\<open>None\<close>) when the corrected count is 0.\<close>

definition comparar_abordagens_churn ::
  "cliente list \<Rightarrow> transacao list \<Rightarrow> resultado_abordagem \<times> resultado_abordagem \<times> int \<times> real option" where
  "comparar_abordagens_churn cs ts =
     (let a = query_antiga cs ts; c = query_corrigida ts;
          d = int (churns_abordagem c) - int (churns_abordagem a)
      in (a, c, d, if churns_abordagem c = 0 then None else Some (real_of_int d / real (churns_abordagem c) * 100)))"

section \<open>The corrected script: the three windows\<close>

record linha_periodo_corrigida =
  periodo_dias :: nat
  total_clientes_c :: nat
  clientes_churn_c :: nat
  clientes_ativos_c :: int
  taxa_churn_c :: "real option"

definition dados_periodo :: "nat \<Rightarrow> transacao list \<Rightarrow> linha_periodo_corrigida" where
  "dados_periodo p ts =
     (let base = clientes_com_transacoes ts; ch = clientes_churn_not_in p ts base
      in \<lparr>periodo_dias = p, total_clientes_c = length base, clientes_churn_c = length ch,
          clientes_ativos_c = int (length base) - int (length ch),
          taxa_churn_c = (if base = [] then None else Some (sql_round2 (real (length ch) * 100 / real (length base))))\<rparr>)"

text \<open>\<^verbatim>\<open>obter_dados_comparativos_periodos\<close>: the dictionary \<^verbatim>\<open>resultados\<close>, keyed by
  the window, as an association list in the order of insertion.\<close>

definition obter_dados_comparativos_periodos :: "transacao list \<Rightarrow> (nat \<times> linha_periodo_corrigida) list" where
  "obter_dados_comparativos_periodos ts = map (\<lambda>p. (p, dados_periodo p ts)) [30, 60, 90]"

datatype erro_execucao = Chave_Ausente | Fatia_Negativa

text \<open>\<^verbatim>\<open>incrementos\<close> of \<^verbatim>\<open>criar_grafico_evolucao_churn\<close>: the churn count at 30
  days, then the differences 60 minus 30 and 90 minus 60 (NumPy integers); a missing key
  of \<^verbatim>\<open>resultados_periodos[p]\<close> raises \<^verbatim>\<open>KeyError\<close>.\<close>

definition incrementos_churn :: "(nat \<times> linha_periodo_corrigida) list \<Rightarrow> erro_execucao + int list" where
  "incrementos_churn r =
     (case (map_of r 30, map_of r 60, map_of r 90) of
        (Some a, Some b, Some c) \<Rightarrow>
          Inr [int (clientes_churn_c a), int (clientes_churn_c b) - int (clientes_churn_c a),
               int (clientes_churn_c c) - int (clientes_churn_c b)]
      | _ \<Rightarrow> Inl Chave_Ausente)"

text \<open>The figure: \<^verbatim>\<open>ax4.pie(sizes)\<close> with \<^verbatim>\<open>sizes = incrementos\<close> raises
  \<^verbatim>\<open>ValueError\<close> when a wedge size is negative (Matplotlib checks
  \<^verbatim>\<open>np.any(x < 0)\<close> before drawing).\<close>

definition criar_grafico_evolucao_churn :: "(nat \<times> linha_periodo_corrigida) list \<Rightarrow> erro_execucao + int list" where
  "criar_grafico_evolucao_churn r =
     (case incrementos_churn r of
        Inl e \<Rightarrow> Inl e
      | Inr inc \<Rightarrow> if list_all (\<lambda>x. 0 \<le> x) inc then Inr inc else Inl Fatia_Negativa)"

section \<open>The corrected script: churn by year of account creation\<close>

text \<open>\<^verbatim>\<open>strftime('%Y', c.Data_Criacao_Conta)\<close>, NULL on a NULL date.\<close>

definition ano_criacao :: "carimbo option \<Rightarrow> texto option" where
  "ano_criacao x = map_option (\<lambda>c. digitos 4 (fst (fst c))) x"

text \<open>The CTE \<^verbatim>\<open>todos_clientes\<close>: \<^verbatim>\<open>SELECT DISTINCT c.cliente_id,
  c.Data_Criacao_Conta, strftime(...)\<close> of the customers with transactions.\<close>

definition todos_clientes_ano :: "cliente list \<Rightarrow> transacao list \<Rightarrow> (cliente_id \<times> carimbo option \<times> texto option) list" where
  "todos_clientes_ano cs ts =
     remdups (map (\<lambda>c. (cli_id c, cli_criacao_conta c, ano_criacao (cli_criacao_conta c)))
       (filter (\<lambda>c. cli_id c \<in> set (clientes_com_transacoes ts)) cs))"

text \<open>\<^verbatim>\<open>churns_{d}d\<close>: the ids of the rows of \<^verbatim>\<open>todos_clientes\<close> not active in the window.\<close>

definition churns_janela ::
  "nat \<Rightarrow> transacao list \<Rightarrow> (cliente_id \<times> carimbo option \<times> texto option) list \<Rightarrow> cliente_id list" where
  "churns_janela d ts tc = clientes_churn_not_in d ts (map fst tc)"

record linha_temporal =
  ano_criacao_t :: "texto option"
  total_t :: nat
  churns_30d :: nat
  churns_60d :: nat
  churns_90d :: nat
  taxa_churn_30d :: real
  taxa_churn_60d :: real
  taxa_churn_90d :: real

type_synonym linha_tc3 =
  "((((cliente_id \<times> carimbo option \<times> texto option) \<times> cliente_id option) \<times> cliente_id option) \<times> cliente_id option)"

definition linha_temporal_de :: "texto option \<times> linha_tc3 list \<Rightarrow> linha_temporal" where
  "linha_temporal_de g = (case g of (a, xs) \<Rightarrow>
     (let n30 = length (filter (\<lambda>x. snd (fst (fst x)) \<noteq> None) xs);
          n60 = length (filter (\<lambda>x. snd (fst x) \<noteq> None) xs);
          n90 = length (filter (\<lambda>x. snd x \<noteq> None) xs)
      in \<lparr>ano_criacao_t = a, total_t = length xs, churns_30d = n30, churns_60d = n60, churns_90d = n90,
          taxa_churn_30d = sql_round2 (real n30 * 100 / real (length xs)),
          taxa_churn_60d = sql_round2 (real n60 * 100 / real (length xs)),
          taxa_churn_90d = sql_round2 (real n90 * 100 / real (length xs))\<rparr>))"

text \<open>The three \<^verbatim>\<open>LEFT JOIN\<close>s on the churn lists, \<^verbatim>\<open>GROUP BY tc.ano_criacao ORDER
  BY tc.ano_criacao\<close> (NULL first).\<close>

definition analise_temporal_detalhada :: "cliente list \<Rightarrow> transacao list \<Rightarrow> linha_temporal list" where
  "analise_temporal_detalhada cs ts =
     (let tc = todos_clientes_ano cs ts
      in map linha_temporal_de
           (sort_key fst
             (group_by (\<lambda>x. snd (snd (fst (fst (fst x)))))
               (left_join_por (\<lambda>x c. fst (fst (fst x)) = c)
                 (left_join_por (\<lambda>x c. fst (fst x) = c)
                   (left_join_por (\<lambda>x c. fst x = c) tc (churns_janela 30 ts tc))
                   (churns_janela 60 ts tc))
                 (churns_janela 90 ts tc)))))"

section \<open>The corrected script: the executive summary and \<^verbatim>\<open>main\<close>\<close>

text \<open>\<^verbatim>\<open>resumo_executivo_comparativo\<close> recomputes the windows and the increments
  60 minus 30 and 90 minus 60.\<close>

definition resumo_executivo_comparativo ::
  "transacao list \<Rightarrow> erro_execucao + (nat \<times> linha_periodo_corrigida) list \<times> int \<times> int" where
  "resumo_executivo_comparativo ts =
     (let r = obter_dados_comparativos_periodos ts
      in case (map_of r 30, map_of r 60, map_of r 90) of
           (Some a, Some b, Some c) \<Rightarrow>
             Inr (r, int (clientes_churn_c b) - int (clientes_churn_c a), int (clientes_churn_c c) - int (clientes_churn_c b))
         | _ \<Rightarrow> Inl Chave_Ausente)"

record execucao_corrigida =
  exec_comparacao :: "resultado_abordagem \<times> resultado_abordagem \<times> int \<times> real option"
  exec_periodos :: "(nat \<times> linha_periodo_corrigida) list"
  exec_temporal :: "linha_temporal list option"
  exec_resumo :: "((nat \<times> linha_periodo_corrigida) list \<times> int \<times> int) option"
  exec_erro :: "erro_execucao option"

text \<open>\<^verbatim>\<open>main\<close>: the five steps in order inside \<^verbatim>\<open>try\<close>; the first exception is
  printed by the \<^verbatim>\<open>except\<close> clause and the remaining steps do not run.\<close>

definition main_corrigida :: "cliente list \<Rightarrow> transacao list \<Rightarrow> execucao_corrigida" where
  "main_corrigida cs ts =
     (let cmp = comparar_abordagens_churn cs ts; r = obter_dados_comparativos_periodos ts
      in case criar_grafico_evolucao_churn r of
           Inl e \<Rightarrow> \<lparr>exec_comparacao = cmp, exec_periodos = r, exec_temporal = None, exec_resumo = None,
                      exec_erro = Some e\<rparr>
         | Inr _ \<Rightarrow>
             (let tmp = analise_temporal_detalhada cs ts
              in case resumo_executivo_comparativo ts of
                   Inl e \<Rightarrow> \<lparr>exec_comparacao = cmp, exec_periodos = r, exec_temporal = Some tmp,
                              exec_resumo = None, exec_erro = Some e\<rparr>
                 | Inr res \<Rightarrow> \<lparr>exec_comparacao = cmp, exec_periodos = r, exec_temporal = Some tmp,
                                exec_resumo = Some res, exec_erro = None\<rparr>))"

declare clientes_churn_not_in_def [churn_simps] coorte_antiga_def [churn_simps] resultado_de_def [churn_simps]
  query_antiga_def [churn_simps] query_corrigida_def [churn_simps] comparar_abordagens_churn_def [churn_simps]
  dados_periodo_def [churn_simps] obter_dados_comparativos_periodos_def [churn_simps]
  incrementos_churn_def [churn_simps] criar_grafico_evolucao_churn_def [churn_simps] ano_criacao_def [churn_simps]
  todos_clientes_ano_def [churn_simps] churns_janela_def [churn_simps] linha_temporal_de_def [churn_simps]
  analise_temporal_detalhada_def [churn_simps] resumo_executivo_comparativo_def [churn_simps]
  main_corrigida_def [churn_simps]

section \<open>The reference date and its windows\<close>

lemma data_valida_referencia: "data_valida data_referencia"
  by (simp add: data_referencia_def data_valida_def dias_no_mes_def bissexto_def)

lemma date_menos_dias_referencia_90: "date_menos_dias data_referencia 90 = Some (2024, 10, 1)"
  by (simp add: data_referencia_def churn_simps dia_anterior_def dias_no_mes_def bissexto_def)

lemma date_menos_dias_referencia_janela:
  "dias \<le> 90 \<Longrightarrow> date_menos_dias data_referencia dias \<noteq> None"
  using date_menos_dias_defined_mono [of dias 90 data_referencia] date_menos_dias_referencia_90 by simp

lemma indicador_churn_dias_antitono:
  assumes "dias \<le> dias'" and "date_menos_dias data_referencia dias' \<noteq> None"
  shows "indicador_churn_dias dias' u \<le> indicador_churn_dias dias u"
proof (cases "sql_less (map_option snd u) (data_corte data_referencia dias') = Some True")
  case True
  then have "sql_less (map_option snd u) (data_corte data_referencia dias) = Some True"
    by (rule sql_less_data_corte_antitona(2) [OF assms(1) data_valida_referencia assms(2)])
  with True show ?thesis by (simp add: indicador_churn_dias_def)
next
  case False
  then have "indicador_churn_dias dias' u = 0"
    by (cases "sql_less (map_option snd u) (data_corte data_referencia dias')")
       (auto simp: indicador_churn_dias_def)
  then show ?thesis by simp
qed

lemma agrega_comparativo_antitono:
  assumes "dias \<le> dias'" and "date_menos_dias data_referencia dias' \<noteq> None"
  shows "categoria_comp (agrega_comparativo dias' cat n xs) = categoria_comp (agrega_comparativo dias cat n xs) \<and>
         total_comp (agrega_comparativo dias' cat n xs) = total_comp (agrega_comparativo dias cat n xs) \<and>
         churn_comp (agrega_comparativo dias' cat n xs) \<le> churn_comp (agrega_comparativo dias cat n xs)"
  using indicador_churn_dias_antitono [OF assms]
  by (simp add: agrega_comparativo_def sum_list_mono)

section \<open>Properties of the comparative queries\<close>

text \<open>C36: for a longer window (more days of inactivity) every row of
  \<^verbatim>\<open>obter_dados_churn\<close> keeps its category and its customer count and never has more
  customers in churn: the churn counts fall, or stay, from 30 to 60 to 90 days, whereas
  the script's report prints that churn of the age group grows with the period.\<close>

theorem obter_dados_churn_antitono:
  assumes "dias \<le> dias'" and "date_menos_dias data_referencia dias' \<noteq> None"
  shows "list_all2 (\<lambda>a b. categoria_comp a = categoria_comp b \<and> total_comp a = total_comp b \<and> churn_comp a \<le> churn_comp b)
           (obter_dados_churn dias' cs cards ts) (obter_dados_churn dias cs cards ts)"
  by (simp add: obter_dados_churn_def com_periodo_def comp_idade_def comp_standard_def
      comp_cartao_tempo_def comp_renda_baixa_def Let_def agrega_comparativo_antitono [OF assms])

section \<open>The labels of the windows\<close>

lemma of_char_digito: "d < 10 \<Longrightarrow> of_char (digito d) = 48 + d"
  by (simp add: digito_def)

lemma valor_decimal_snoc: "valor_decimal (xs @ [c]) = 10 * valor_decimal xs + (of_char c - 48)"
  by (simp add: valor_decimal_def)

section \<open>Properties of the corrected script\<close>

lemma clientes_churn_not_in_antitono:
  assumes "dias \<le> dias'" and "date_menos_dias data_referencia dias' \<noteq> None"
  shows "length (clientes_churn_not_in dias' ts xs) \<le> length (clientes_churn_not_in dias ts xs)"
  unfolding clientes_churn_not_in_def
  using clientes_ativos_mono_janela [OF assms(1) data_valida_referencia assms(2)]
  by (intro length_filter_mono_pred) blast

lemma churn_janelas:
  "clientes_churn_c (dados_periodo 90 ts) \<le> clientes_churn_c (dados_periodo 60 ts)"
  "clientes_churn_c (dados_periodo 60 ts) \<le> clientes_churn_c (dados_periodo 30 ts)"
  by (simp_all add: dados_periodo_def Let_def clientes_churn_not_in_antitono date_menos_dias_referencia_janela)

lemma incrementos_churn_eq:
  "incrementos_churn (obter_dados_comparativos_periodos ts) =
     Inr [int (clientes_churn_c (dados_periodo 30 ts)),
          int (clientes_churn_c (dados_periodo 60 ts)) - int (clientes_churn_c (dados_periodo 30 ts)),
          int (clientes_churn_c (dados_periodo 90 ts)) - int (clientes_churn_c (dados_periodo 60 ts))]"
  by (simp add: incrementos_churn_def obter_dados_comparativos_periodos_def)






text \<open>C38: the increments that \<^verbatim>\<open>criar_grafico_evolucao_churn\<close> labels
  \<^verbatim>\<open>'31-60 dias'\<close> and \<^verbatim>\<open>'61-90 dias'\<close> are never positive: a customer with no
  transaction in the last 60 days has none in the last 30, so the churn count of a
  longer window is at most that of a shorter one.\<close>

theorem incrementos_nao_positivos:
  "\<exists>a b c. incrementos_churn (obter_dados_comparativos_periodos ts) = Inr [a, b, c] \<and> 0 \<le> a \<and> b \<le> 0 \<and> c \<le> 0"
  using churn_janelas [of ts] by (simp add: incrementos_churn_eq)


lemma churns_resultado_de: "churns_abordagem (resultado_de base churns) = length churns"
  by (simp add: resultado_de_def)

lemma percentual_diferenca_bounds:
  assumes "x \<le> (y::nat)" and "0 < y"
  shows "0 \<le> real_of_int (int y - int x) / real y * 100 \<and> real_of_int (int y - int x) / real y * 100 \<le> 100"
proof -
  have e: "real_of_int (int y - int x) = real (y - x)" using assms(1) by (simp add: of_nat_diff)
  have "real (y - x) * 100 \<le> 100 * real y" by simp
  then show ?thesis unfolding e using assms(2) by (simp add: divide_le_eq)
qed

lemma diferenca_abordagens_bounds:
  assumes "x \<le> (y::nat)" and "churns_abordagem a = x" and "churns_abordagem c = y"
  shows "case (a, c, int y - int x, if y = 0 then None else Some (real_of_int (int y - int x) / real y * 100)) of
           (a, c, d, pct) \<Rightarrow>
             churns_abordagem a \<le> churns_abordagem c \<and> 0 \<le> d \<and> pred_option (\<lambda>v. 0 \<le> v \<and> v \<le> 100) pct"
proof -
  have p: "pred_option (\<lambda>v. 0 \<le> v \<and> v \<le> 100)
             (if y = 0 then None else Some (real_of_int (int y - int x) / real y * 100))"
  proof (cases "y = 0")
    case False
    then have "0 < y" by simp
    then show ?thesis using percentual_diferenca_bounds [OF assms(1)] by simp
  qed simp
  show ?thesis using assms p by simp
qed

text \<open>C40: \<^verbatim>\<open>comparar_abordagens_churn\<close> never reports fewer churned customers for the
  corrected approach than for the old one (the old cohort is a part of the customers
  with transactions and both are \<^verbatim>\<open>DISTINCT\<close>), so \<^verbatim>\<open>diferenca_clientes\<close> is not
  negative and \<^verbatim>\<open>percentual_subestimado\<close>, when it is a number, lies between 0 and 100.\<close>

theorem comparar_abordagens_diferenca:
  "case comparar_abordagens_churn cs ts of (a, c, d, pct) \<Rightarrow>
     churns_abordagem a \<le> churns_abordagem c \<and> 0 \<le> d \<and> pred_option (\<lambda>x. 0 \<le> x \<and> x \<le> 100) pct"
proof -
  define x where "x = length (clientes_churn_not_in 90 ts (coorte_antiga cs ts))"
  define y where "y = length (clientes_churn_not_in 90 ts (clientes_com_transacoes ts))"
  have le: "x \<le> y"
    unfolding x_def y_def clientes_churn_not_in_def
    by (rule length_filter_subset_distinct) (auto simp: coorte_antiga_def clientes_com_transacoes_def)
  have ca: "churns_abordagem (query_antiga cs ts) = x"
    by (simp only: query_antiga_def Let_def churns_resultado_de x_def)
  have cc: "churns_abordagem (query_corrigida ts) = y"
    by (simp only: query_corrigida_def Let_def churns_resultado_de y_def)
  have "comparar_abordagens_churn cs ts =
          (query_antiga cs ts, query_corrigida ts, int y - int x,
           if y = 0 then None else Some (real_of_int (int y - int x) / real y * 100))"
    by (simp only: comparar_abordagens_churn_def Let_def ca cc)
  then show ?thesis by (simp only: diferenca_abordagens_bounds [OF le ca cc])
qed

end
