(* ===== verification/Consultas_Exemplo.thy ===== *)
theory Consultas_Exemplo
  imports Churn_Comparativo
begin

text \<open>
  The sample queries that \<^verbatim>\<open>src/bd/criar_banco_sqlite.py\<close> writes to
  \<^verbatim>\<open>queries_exemplo.sql\<close> and the checks it runs at the end, over the views of
  \<open>Visoes_Banco\<close> and the transaction table. Each query is a definition over the
  rows of the view it reads; the selected columns of queries 3 and 8 are the rows of
  \<^verbatim>\<open>vw_resumo_cliente\<close> themselves (the projection is not modelled). \<^verbatim>\<open>ORDER BY x
  DESC\<close> is a stable sort on the negated key, with NULL last, as SQLite orders NULL
  below every value; rows that tie keep the order of their groups, one of the orders
  SQLite may return. \<^verbatim>\<open>JULIANDAY\<close> of a stored timestamp is read back from its text by
  \<open>ler_carimbo\<close>, which accepts the format \<^verbatim>\<open>YYYY-MM-DD HH:MM:SS\<close> the builder writes.
\<close>

section \<open>Reading a stored timestamp\<close>

definition eh_digito :: "char \<Rightarrow> bool" where
  "eh_digito c \<longleftrightarrow> CHR ''0'' \<le> c \<and> c \<le> CHR ''9''"

definition ler_digitos :: "texto \<Rightarrow> nat option" where
  "ler_digitos s = (if s \<noteq> [] \<and> list_all eh_digito s then Some (valor_decimal s) else None)"

text \<open>The fields of \<^verbatim>\<open>YYYY-MM-DD HH:MM:SS\<close> at their fixed positions; a text of another
  shape, or a date that does not exist, gives NULL.\<close>

definition ler_carimbo :: "texto \<Rightarrow> carimbo option" where
  "ler_carimbo s =
     (if length s = 19 \<and> s ! 4 = CHR ''-'' \<and> s ! 7 = CHR ''-'' \<and> s ! 10 = CHR '' '' \<and>
         s ! 13 = CHR '':'' \<and> s ! 16 = CHR '':''
      then (case (ler_digitos (take 4 s), ler_digitos (take 2 (drop 5 s)), ler_digitos (take 2 (drop 8 s)),
                  ler_digitos (take 2 (drop 11 s)), ler_digitos (take 2 (drop 14 s)), ler_digitos (drop 17 s)) of
              (Some a, Some m, Some d, Some h, Some mi, Some sec) \<Rightarrow>
                if data_valida (a, m, d) \<and> h < 24 \<and> mi < 60 \<and> sec < 60 then Some ((a, m, d), (h, mi, sec)) else None
            | _ \<Rightarrow> None)
      else None)"

text \<open>\<^verbatim>\<open>JULIANDAY('2024-12-30') - JULIANDAY(ultima_transacao)\<close>.\<close>

definition dias_sem_transacao :: "texto option \<Rightarrow> real option" where
  "dias_sem_transacao u = map_option (\<lambda>c. juliano_data data_referencia - juliano c) (Option.bind u ler_carimbo)"

section \<open>Rows of the sample queries\<close>

text \<open>\<^verbatim>\<open>ORDER BY x DESC\<close> on a column that may be NULL: values from the largest down,
  NULL last.\<close>

definition chave_desc :: "real option \<Rightarrow> nat \<times> real" where
  "chave_desc x = (case x of None \<Rightarrow> (1, 0) | Some v \<Rightarrow> (0, - v))"

record 'k linha_exemplo =
  rotulo_ex :: 'k
  total_ex :: nat
  churns_ex :: nat
  taxa_ex :: real

text \<open>\<^verbatim>\<open>COUNT(*), SUM(churn), ROUND(AVG(churn) * 100, 2)\<close> of a group.\<close>

definition linha_exemplo_de :: "('r \<Rightarrow> nat) \<Rightarrow> 'k \<times> 'r list \<Rightarrow> 'k linha_exemplo" where
  "linha_exemplo_de churn g = (case g of (k, xs) \<Rightarrow>
     \<lparr>rotulo_ex = k, total_ex = length xs, churns_ex = sum_list (map churn xs),
      taxa_ex = sql_round2 (real (sum_list (map churn xs)) / real (length xs) * 100)\<rparr>)"

section \<open>Query 1: churn by age band\<close>

datatype faixa_idade_exemplo = Ex_18_25 | Ex_26_35 | Ex_36_45 | Ex_46_55 | Ex_56_65 | Ex_65_mais

definition faixa_idade_exemplo :: "int \<Rightarrow> faixa_idade_exemplo" where
  "faixa_idade_exemplo i =
     (if i \<le> 25 then Ex_18_25 else if i \<le> 35 then Ex_26_35 else if i \<le> 45 then Ex_36_45
      else if i \<le> 55 then Ex_46_55 else if i \<le> 65 then Ex_56_65 else Ex_65_mais)"

definition consulta_exemplo_1 :: "cliente list \<Rightarrow> transacao_completa list \<Rightarrow> faixa_idade_exemplo linha_exemplo list" where
  "consulta_exemplo_1 cs ts =
     ordena_desc taxa_ex
       (map (linha_exemplo_de vc_churn) (group_by (\<lambda>l. faixa_idade_exemplo (vc_idade l)) (vw_analise_churn cs ts)))"

section \<open>Query 2: account age and card age, by \<^verbatim>\<open>UNION ALL\<close>\<close>

definition texto_tempo_conta :: texto where
  "texto_tempo_conta = ''Tempo de Conta''"

definition texto_tempo_cartao :: texto where
  "texto_tempo_cartao = ''Tempo de Cart'' @ [char_of (195::nat), char_of (163::nat)] @ ''o''"

definition consulta_exemplo_2 ::
  "cliente list \<Rightarrow> cartao list \<Rightarrow> transacao_completa list \<Rightarrow> (texto \<times> rotulo_tempo_visao linha_exemplo) list" where
  "consulta_exemplo_2 cs cards ts =
     sort_key fst
       (ordena_desc (\<lambda>x. taxa_ex (snd x))
         (map (\<lambda>g. (texto_tempo_conta, linha_exemplo_de vc_churn g))
            (group_by vc_faixa_tempo_conta (vw_analise_churn cs ts))
          @ map (\<lambda>g. (texto_tempo_cartao, linha_exemplo_de vk_churn g))
            (group_by vk_faixa_tempo_cartao (vw_analise_cartoes cards cs ts))))"

section \<open>Query 3: the ten active customers with the largest revenue\<close>

definition consulta_exemplo_3 :: "cliente list \<Rightarrow> transacao_completa list \<Rightarrow> linha_vw_resumo list" where
  "consulta_exemplo_3 cs ts =
     take 10 (sort_key (\<lambda>l. chave_desc (vr_receita_total l))
       (filter (\<lambda>l. vr_status l = Status_ativo) (vw_resumo_cliente cs ts)))"

section \<open>Query 4: digital share and churn by state\<close>

record linha_estado_exemplo =
  estado_ex :: texto
  total_estado :: nat
  media_digital_estado :: "real option"
  churns_estado :: nat
  taxa_estado :: real

definition indicador_status_churn :: "linha_vw_resumo \<Rightarrow> nat" where
  "indicador_status_churn l = (if vr_status l = Status_churn then 1 else 0)"

definition consulta_exemplo_4 :: "cliente list \<Rightarrow> transacao_completa list \<Rightarrow> linha_estado_exemplo list" where
  "consulta_exemplo_4 cs ts =
     ordena_desc taxa_estado
       (map (\<lambda>(e, g). \<lparr>estado_ex = e, total_estado = length g, media_digital_estado = sql_avg (map vr_pct_digital g),
                       churns_estado = sum_list (map indicador_status_churn g),
                       taxa_estado = sql_round2 (real (sum_list (map indicador_status_churn g)) / real (length g) * 100)\<rparr>)
         (group_by vr_estado (vw_resumo_cliente cs ts)))"

section \<open>Query 5: transactions by payment method\<close>

datatype metodo_pagamento = Digital_Wallet | Contactless | Tradicional

definition metodo_pagamento :: "transacao_completa \<Rightarrow> metodo_pagamento" where
  "metodo_pagamento t =
     (if pagamento_digital t = 1 then Digital_Wallet else if paypass t = 1 then Contactless else Tradicional)"

record linha_metodo_exemplo =
  metodo_ex :: metodo_pagamento
  total_metodo :: nat
  valor_total_metodo :: "real option"
  ticket_medio_metodo :: "real option"

definition consulta_exemplo_5 :: "transacao_completa list \<Rightarrow> linha_metodo_exemplo list" where
  "consulta_exemplo_5 ts =
     sort_key (\<lambda>l. chave_desc (valor_total_metodo l))
       (map (\<lambda>(k, g). \<lparr>metodo_ex = k, total_metodo = length g, valor_total_metodo = sql_sum (map tx_valor g),
                       ticket_medio_metodo = sql_avg (map tx_valor g)\<rparr>)
         (group_by metodo_pagamento ts))"

section \<open>Query 6: digital transactions by month\<close>

record linha_mes_exemplo =
  ano_ex :: nat
  mes_ex :: nat
  total_mes :: nat
  digitais_mes :: nat
  pct_digital_mes :: real

definition consulta_exemplo_6 :: "transacao_completa list \<Rightarrow> linha_mes_exemplo list" where
  "consulta_exemplo_6 ts =
     map (\<lambda>((a, m), g). \<lparr>ano_ex = a, mes_ex = m, total_mes = length g,
                          digitais_mes = sum_list (map pagamento_digital g),
                          pct_digital_mes = sql_round2 (real (sum_list (map pagamento_digital g)) * 100 / real (length g))\<rparr>)
       (sort_key fst (group_by (\<lambda>t. (ano_tx t, mes_tx t)) (filter (\<lambda>t. 2023 \<le> ano_tx t) ts)))"

section \<open>Query 7: churn by Mastercard product\<close>

definition consulta_exemplo_7 ::
  "cartao list \<Rightarrow> cliente list \<Rightarrow> transacao_completa list \<Rightarrow> (texto option linha_exemplo \<times> real option) list" where
  "consulta_exemplo_7 cards cs ts =
     ordena_desc (\<lambda>x. taxa_ex (fst x))
       (map (\<lambda>g. (linha_exemplo_de vk_churn g, sql_avg (map vk_limite (snd g))))
         (group_by vk_produto (vw_analise_cartoes cards cs ts)))"

section \<open>Query 8: churned customers with large revenue\<close>

definition consulta_exemplo_8 :: "cliente list \<Rightarrow> transacao_completa list \<Rightarrow> (linha_vw_resumo \<times> real option) list" where
  "consulta_exemplo_8 cs ts =
     map (\<lambda>l. (l, dias_sem_transacao (vr_ultima l)))
       (sort_key (\<lambda>l. chave_desc (vr_receita_total l))
         (filter (\<lambda>l. vr_status l = Status_churn \<and> sql_less (Some 10000) (vr_receita_total l) = Some True)
           (vw_resumo_cliente cs ts)))"

section \<open>Query 9: income, digital share and churn\<close>

datatype faixa_renda_exemplo = Renda_baixa | Renda_media | Renda_alta | Renda_premium

definition faixa_renda_exemplo :: "real option \<Rightarrow> faixa_renda_exemplo" where
  "faixa_renda_exemplo r =
     sql_case_when (sql_le r (Some 30000)) Renda_baixa
      (sql_case_when (sql_le r (Some 75000)) Renda_media
       (sql_case_when (sql_le r (Some 150000)) Renda_alta Renda_premium))"

record linha_renda_exemplo =
  faixa_renda_ex :: faixa_renda_exemplo
  total_renda :: nat
  media_digital_renda :: "real option"
  churns_renda :: nat
  taxa_renda :: real
  receita_media_renda :: "real option"

definition consulta_exemplo_9 :: "cliente list \<Rightarrow> transacao_completa list \<Rightarrow> linha_renda_exemplo list" where
  "consulta_exemplo_9 cs ts =
     sort_key (\<lambda>l. chave_desc (receita_media_renda l))
       (map (\<lambda>(k, g). \<lparr>faixa_renda_ex = k, total_renda = length g, media_digital_renda = sql_avg (map vr_pct_digital g),
                       churns_renda = sum_list (map indicador_status_churn g),
                       taxa_renda = sql_round2 (real (sum_list (map indicador_status_churn g)) / real (length g) * 100),
                       receita_media_renda = sql_avg (map vr_receita_total g)\<rparr>)
         (group_by (\<lambda>l. faixa_renda_exemplo (vr_renda l)) (vw_resumo_cliente cs ts)))"

section \<open>Query 10: recent and old cards\<close>

datatype idade_cartao_exemplo = Cartao_recente_2023 | Cartao_antigo

record linha_recente_exemplo =
  tipo_cartao_ex :: idade_cartao_exemplo
  total_cartoes_ex :: nat
  cartoes_churn_ex :: nat
  taxa_cartoes_ex :: real
  receita_media_cartoes :: "real option"

text \<open>\<^verbatim>\<open>GROUP BY cartao_recente\<close> without \<^verbatim>\<open>ORDER BY\<close>; \<^verbatim>\<open>COUNT(CASE WHEN churn = 1
  THEN 1 END)\<close> counts the churned cards.\<close>

definition consulta_exemplo_10 :: "cartao list \<Rightarrow> cliente list \<Rightarrow> transacao_completa list \<Rightarrow> linha_recente_exemplo list" where
  "consulta_exemplo_10 cards cs ts =
     map (\<lambda>(r, g). \<lparr>tipo_cartao_ex = (if r = 1 then Cartao_recente_2023 else Cartao_antigo), total_cartoes_ex = length g,
                    cartoes_churn_ex = length (filter (\<lambda>l. vk_churn l = 1) g),
                    taxa_cartoes_ex = sql_round2 (real (sum_list (map vk_churn g)) / real (length g) * 100),
                    receita_media_cartoes = sql_avg (map vk_valor_total g)\<rparr>)
       (group_by vk_recente (vw_analise_cartoes cards cs ts))"

section \<open>The checks at the end of the builder\<close>

text \<open>Test 1: \<^verbatim>\<open>SELECT COUNT(*)\<close> of the three tables.\<close>

definition teste_contagens :: "cliente list \<Rightarrow> cartao list \<Rightarrow> transacao_completa list \<Rightarrow> nat \<times> nat \<times> nat" where
  "teste_contagens cs cards ts = (length cs, length cards, length ts)"

text \<open>Test 4: churn by card-age band of \<^verbatim>\<open>vw_analise_cartoes\<close>, \<^verbatim>\<open>ORDER BY taxa_churn
  DESC\<close>; the band is never NULL, so the \<^verbatim>\<open>WHERE\<close> keeps every row.\<close>

definition teste_faixa_tempo_cartao ::
  "cartao list \<Rightarrow> cliente list \<Rightarrow> transacao_completa list \<Rightarrow> rotulo_tempo_visao linha_exemplo list" where
  "teste_faixa_tempo_cartao cards cs ts =
     ordena_desc taxa_ex (map (linha_exemplo_de vk_churn) (group_by vk_faixa_tempo_cartao (vw_analise_cartoes cards cs ts)))"

declare eh_digito_def [churn_simps] ler_digitos_def [churn_simps] ler_carimbo_def [churn_simps]
  dias_sem_transacao_def [churn_simps] chave_desc_def [churn_simps] linha_exemplo_de_def [churn_simps]
  faixa_idade_exemplo_def [churn_simps] consulta_exemplo_1_def [churn_simps] texto_tempo_conta_def [churn_simps]
  texto_tempo_cartao_def [churn_simps] consulta_exemplo_2_def [churn_simps] consulta_exemplo_3_def [churn_simps]
  indicador_status_churn_def [churn_simps] consulta_exemplo_4_def [churn_simps] metodo_pagamento_def [churn_simps]
  consulta_exemplo_5_def [churn_simps] consulta_exemplo_6_def [churn_simps] consulta_exemplo_7_def [churn_simps]
  consulta_exemplo_8_def [churn_simps] faixa_renda_exemplo_def [churn_simps] consulta_exemplo_9_def [churn_simps]
  consulta_exemplo_10_def [churn_simps] teste_contagens_def [churn_simps] teste_faixa_tempo_cartao_def [churn_simps]

section \<open>Reading back what the builder writes\<close>

lemma valor_decimal_digitos: "valor_decimal (digitos k n) = n mod 10 ^ k"
proof (induction k arbitrary: n)
  case 0
  then show ?case by (simp add: valor_decimal_def)
next
  case (Suc k)
  have "n div 10 mod 10 ^ k * 10 + n mod 10 = n mod (10 * 10 ^ k)"
    by (metis mod_mult2_eq mult.commute add.commute)
  then show ?case using Suc by (simp add: valor_decimal_snoc of_char_digito)
qed

lemma digitos_digitos: "list_all eh_digito (digitos k n)"
  by (induction k arbitrary: n) (simp_all add: eh_digito_def digito_def less_eq_char_def)

lemma ler_digitos_digitos: "n < 10 ^ Suc k \<Longrightarrow> ler_digitos (digitos (Suc k) n) = Some n"
proof -
  assume "n < 10 ^ Suc k"
  moreover have "digitos (Suc k) n \<noteq> []" by simp
  ultimately show ?thesis by (simp only: ler_digitos_def digitos_digitos valor_decimal_digitos) simp
qed

lemma ler_digitos_4: "a < 10000 \<Longrightarrow> ler_digitos (digitos 4 a) = Some a"
  using ler_digitos_digitos [of a 3] by simp

lemma ler_digitos_2:
  assumes "m < 100" shows "ler_digitos (digitos 2 m) = Some m"
proof -
  have "m < 10 ^ Suc 1" using assms by simp
  from ler_digitos_digitos [OF this] show ?thesis by (simp only: Suc_1)
qed

text \<open>Reading a stored timestamp inverts writing it: \<^verbatim>\<open>JULIANDAY\<close> of the text the
  builder stores is the Julian day of the timestamp.\<close>

theorem ler_carimbo_texto_carimbo:
  assumes "data_valida dt" and "h < 24" and "mi < 60" and "sec < 60"
  shows "ler_carimbo (texto_carimbo (dt, (h, mi, sec))) = Some (dt, (h, mi, sec))"
proof -
  obtain a m d where dt: "dt = (a, m, d)" by (cases dt) auto
  have "a < 10000" "m < 100" "d < 100"
    using assms(1) by (auto simp: dt data_valida_def dias_no_mes_def split: if_splits)
  then have r: "ler_digitos (digitos 4 a) = Some a" "ler_digitos (digitos 2 m) = Some m"
    "ler_digitos (digitos 2 d) = Some d" "ler_digitos (digitos 2 h) = Some h"
    "ler_digitos (digitos 2 mi) = Some mi" "ler_digitos (digitos 2 sec) = Some sec"
    using assms(2-4) by (simp_all add: ler_digitos_4 ler_digitos_2)
  show ?thesis
    using assms r
    by (simp add: ler_carimbo_def texto_carimbo_def texto_data_def dt nth_append take_append drop_append)
qed

section \<open>Properties of the sample queries\<close>

lemma vw_analise_cartoes_recente:
  "l \<in> set (vw_analise_cartoes cards cs ts) \<Longrightarrow> vk_recente l = 1"
proof -
  assume "l \<in> set (vw_analise_cartoes cards cs ts)"
  then obtain i g where ig: "(i, g) \<in> set (group_by (\<lambda>x. car_id (fst (fst x)))
            (filter (\<lambda>x. cartao_recente (fst (fst x)) = 1)
              (left_join_por (\<lambda>kt c. (case snd kt of Some t \<Rightarrow> tx_cliente t = cli_id c | None \<Rightarrow> False))
                (left_join_por (\<lambda>k t. car_id k = tx_cartao t) cards ts) cs)))"
    and l: "l = (let k = fst (fst (hd g)); txs = List.map_filter (\<lambda>x. snd (fst x)) g in
        \<lparr>vk_cartao = i, vk_produto = car_produto k, vk_tipo = car_tipo k, vk_limite = car_limite k,
         vk_tempo_cartao = tempo_meses data_referencia (car_emissao k), vk_recente = cartao_recente k,
         vk_cliente = map_option cli_id (snd (hd g)), vk_estado = map_option cli_estado (snd (hd g)),
         vk_total_transacoes = length txs, vk_valor_total = sql_sum (map tx_valor txs),
         vk_ultima = ultima_texto txs, vk_churn = churn_visao txs,
         vk_faixa_tempo_cartao = faixa_tempo_visao (tempo_meses data_referencia (car_emissao k))\<rparr>)"
    unfolding vw_analise_cartoes_def by auto
  have "g \<noteq> []" using group_by_nonempty [OF ig] .
  then have "hd g \<in> set g" by simp
  then have "cartao_recente (fst (fst (hd g))) = 1" using group_by_member [OF ig] by auto
  then show ?thesis by (simp add: l Let_def)
qed

theorem consulta_exemplo_10_so_recentes:
  "length (consulta_exemplo_10 cards cs ts) \<le> 1 \<and>
   list_all (\<lambda>l. tipo_cartao_ex l = Cartao_recente_2023) (consulta_exemplo_10 cards cs ts)"
proof -
  let ?G = "group_by vk_recente (vw_analise_cartoes cards cs ts)"
  have k: "fst x = 1" if "x \<in> set ?G" for x
    using that group_by_chave [of "fst x" "snd x"] vw_analise_cartoes_recente by fastforce
  have "set (map fst ?G) \<subseteq> {1}" using k by auto
  moreover have "distinct (map fst ?G)" by (rule group_by_keys_distinct)
  ultimately have "length (map fst ?G) \<le> card {1::nat}" by (metis card_mono distinct_card finite.emptyI finite_insert)
  then have "length ?G \<le> 1" by simp
  moreover have "list_all (\<lambda>l. tipo_cartao_ex l = Cartao_recente_2023) (consulta_exemplo_10 cards cs ts)"
    using k by (auto simp: consulta_exemplo_10_def list_all_iff)
  ultimately show ?thesis by (simp add: consulta_exemplo_10_def)
qed

theorem faixa_renda_exemplo_premium:
  "faixa_renda_exemplo r = Renda_premium \<longleftrightarrow> (case r of None \<Rightarrow> True | Some v \<Rightarrow> 150000 < v)"
  by (cases r) (auto simp: faixa_renda_exemplo_def)


lemma length_vw_analise_churn: "length (vw_analise_churn cs ts) = card (cli_id ` set cs)"
proof -
  have "(\<lambda>x. cli_id (fst x)) ` set (left_join_por (\<lambda>c t. cli_id c = tx_cliente t) cs ts) = cli_id ` set cs"
    using fst_left_join_por [of "\<lambda>c t. cli_id c = tx_cliente t" cs ts] by (metis image_image)
  then show ?thesis by (simp add: vw_analise_churn_def agrupa_por_cliente_def length_group_by)
qed

lemma soma_total_linha_exemplo:
  "(\<Sum>l\<leftarrow>map (linha_exemplo_de churn) (group_by key rows). total_ex l) = length rows"
  using group_by_sizes [of key rows] by (simp add: linha_exemplo_de_def comp_def split_def)

theorem consulta_exemplo_1_total:
  "(\<Sum>l\<leftarrow>consulta_exemplo_1 cs ts. total_ex l) = card (cli_id ` set cs)"
  by (simp only: consulta_exemplo_1_def soma_ordena_desc soma_total_linha_exemplo length_vw_analise_churn)

theorem consulta_exemplo_3_top10:
  "length (consulta_exemplo_3 cs ts) \<le> 10 \<and>
   list_all (\<lambda>l. vr_status l = Status_ativo) (consulta_exemplo_3 cs ts) \<and>
   sorted (map (\<lambda>l. chave_desc (vr_receita_total l)) (consulta_exemplo_3 cs ts))"
proof -
  let ?xs = "sort_key (\<lambda>l. chave_desc (vr_receita_total l)) (filter (\<lambda>l. vr_status l = Status_ativo) (vw_resumo_cliente cs ts))"
  have s: "sorted (map (\<lambda>l. chave_desc (vr_receita_total l)) ?xs)" by simp
  have "sorted (map (\<lambda>l. chave_desc (vr_receita_total l)) (take 10 ?xs))"
    using sorted_wrt_take [OF s, of 10] by (simp only: take_map)
  moreover have "list_all (\<lambda>l. vr_status l = Status_ativo) (take 10 ?xs)"
    by (auto simp: list_all_iff dest: in_set_takeD)
  ultimately show ?thesis by (simp add: consulta_exemplo_3_def)
qed

end
