(* ===== verification/Distribuicao_Cartoes.thy ===== *)
theory Distribuicao_Cartoes
  imports Consultas_Exemplo
begin

text \<open>
  The card distribution script \<^verbatim>\<open>src/analise_distribuicao_cartoes.py\<close>. Its two queries
  (\<^verbatim>\<open>obter_distribuicao_cartoes\<close>, \<^verbatim>\<open>obter_detalhes_cartoes\<close>) and the comparison query
  are functions of the tables; the summary the chart prints (\<^verbatim>\<open>criar_grafico_distribuicao_cartoes\<close>)
  and the report (\<^verbatim>\<open>gerar_relatorio_detalhado\<close>) are functions of the two data frames, the
  report returning an error where Python raises; \<^verbatim>\<open>main\<close> composes them. The lemmas show
  that the rows of the distribution add up to the cards in use plus the customers without a
  card, that the detailed query counts the same cards in use, that a card used by two
  customers is counted twice, and when the report raises.
\<close>

section \<open>Texts of the script\<close>

text \<open>UTF-8 bytes as SQLite stores them: \<open>\<acute>e\<close> is 195 169, \<open>\<tilde>a\<close> is 195 163,
  \<open>\<tilde>o\<close> is 195 181.\<close>

definition texto_credito :: texto where
  "texto_credito = ''Cr'' @ [char_of (195::nat), char_of (169::nat)] @ ''dito''"

definition texto_debito :: texto where
  "texto_debito = ''D'' @ [char_of (195::nat), char_of (169::nat)] @ ''bito''"

section \<open>The cards in use\<close>

text \<open>\<^verbatim>\<open>cartoes_em_uso\<close>: \<^verbatim>\<open>SELECT DISTINCT c.ID_Cartao, c.Tipo_Cartao, c.Limite_Cartao,
  c.Produto_Mastercard, t.Cliente_ID FROM cartoes c INNER JOIN transacoes t ON c.ID_Cartao =
  t.ID_Cartao\<close>. The customer is part of the row, so a card used by two customers is two rows.\<close>

record cartao_em_uso =
  uso_cartao :: cartao_id
  uso_tipo :: "texto option"
  uso_limite :: "real option"
  uso_produto :: "texto option"
  uso_cliente :: cliente_id

definition cartao_em_uso_de :: "cartao \<times> 'a transacao_scheme \<Rightarrow> cartao_em_uso" where
  "cartao_em_uso_de p = (case p of (k, t) \<Rightarrow>
     \<lparr>uso_cartao = car_id k, uso_tipo = car_tipo k, uso_limite = car_limite k,
      uso_produto = car_produto k, uso_cliente = tx_cliente t\<rparr>)"

definition uso_cartoes :: "cartao list \<Rightarrow> 'a transacao_scheme list \<Rightarrow> (cartao \<times> 'a transacao_scheme) list" where
  "uso_cartoes cards ts = inner_join (\<lambda>k t. car_id k = tx_cartao t) cards ts"

definition cartoes_em_uso :: "cartao list \<Rightarrow> 'a transacao_scheme list \<Rightarrow> cartao_em_uso list" where
  "cartoes_em_uso cards ts = remdups (map cartao_em_uso_de (uso_cartoes cards ts))"

text \<open>\<^verbatim>\<open>clientes_sem_cartao\<close>: \<^verbatim>\<open>SELECT COUNT(*) FROM clientes WHERE Cliente_ID NOT IN
  (SELECT DISTINCT Cliente_ID FROM transacoes)\<close>; the subquery has no NULL.\<close>

definition clientes_sem_cartao :: "cliente list \<Rightarrow> 'a transacao_scheme list \<Rightarrow> nat" where
  "clientes_sem_cartao cs ts = length (filter (\<lambda>c. cli_id c \<notin> set (map tx_cliente ts)) cs)"

text \<open>\<^verbatim>\<open>ROUND(n * 100.0 / total, 2)\<close>: a division by zero is NULL in SQLite.\<close>

definition percentual_cartoes :: "nat \<Rightarrow> nat \<Rightarrow> real option" where
  "percentual_cartoes n d = (if d = 0 then None else Some (percentual n d))"

record linha_distribuicao =
  tipo_cartao_dist :: "texto option"
  quantidade_cartoes :: nat
  percentual_dist :: "real option"

text \<open>The distribution query: one row per \<^verbatim>\<open>Tipo_Cartao\<close> of the cards in use,
  \<^verbatim>\<open>UNION ALL\<close> the row \<^verbatim>\<open>'Sem Cart\<tilde>ao Ativo'\<close>, \<^verbatim>\<open>ORDER BY quantidade_cartoes DESC\<close>
  (rows of equal count in the order the groups first appear).\<close>

definition obter_distribuicao_cartoes ::
  "cliente list \<Rightarrow> cartao list \<Rightarrow> 'a transacao_scheme list \<Rightarrow> linha_distribuicao list" where
  "obter_distribuicao_cartoes cs cards ts =
     (let uso = cartoes_em_uso cards ts;
          sem = clientes_sem_cartao cs ts;
          d = length uso + sem
      in ordena_desc (\<lambda>l. real (quantidade_cartoes l))
           (map (\<lambda>(k, g). \<lparr>tipo_cartao_dist = k, quantidade_cartoes = length g,
                            percentual_dist = percentual_cartoes (length g) d\<rparr>)
                (group_by uso_tipo uso)
            @ [\<lparr>tipo_cartao_dist = Some texto_sem_cartao_ativo, quantidade_cartoes = sem,
                percentual_dist = percentual_cartoes sem d\<rparr>]))"

text \<open>\<^verbatim>\<open>query_comparacao\<close>: four metrics in \<^verbatim>\<open>UNION ALL\<close>.\<close>

definition consulta_comparacao :: "cliente list \<Rightarrow> cartao list \<Rightarrow> 'a transacao_scheme list \<Rightarrow> (texto \<times> nat) list" where
  "consulta_comparacao cs cards ts =
     [(''Total de clientes cadastrados'', length cs),
      (''Clientes com cart'' @ [char_of (195::nat), char_of (163::nat)] @ ''o ativo'',
         length (remdups (map tx_cliente ts))),
      (''Total de cart'' @ [char_of (195::nat), char_of (181::nat)] @ ''es em uso'',
         length (remdups (map (\<lambda>(k, t). car_id k) (uso_cartoes cards ts)))),
      (''Clientes sem cart'' @ [char_of (195::nat), char_of (163::nat)] @ ''o ativo'',
         clientes_sem_cartao cs ts)]"

section \<open>The details of the cards in use\<close>

text \<open>\<^verbatim>\<open>ROUND(x, 1)\<close>, half away from zero like \<^const>\<open>sql_round2\<close>.\<close>

definition sql_round1 :: "real \<Rightarrow> real" where
  "sql_round1 x =
     (if x < 0 then - (of_int \<lfloor>- x * 10 + 1 / 2\<rfloor> / 10) else of_int \<lfloor>x * 10 + 1 / 2\<rfloor> / 10)"

text \<open>The CTE of \<^verbatim>\<open>obter_detalhes_cartoes\<close>: the same five columns, now a
  \<^verbatim>\<open>GROUP BY\<close>, with \<^verbatim>\<open>COUNT(DISTINCT t.ID_Transacao)\<close> and
  \<^verbatim>\<open>ROUND(AVG(t.Valor_Compra), 2)\<close> of each group.\<close>

record uso_detalhado = cartao_em_uso +
  total_transacoes :: nat
  ticket_medio :: "real option"

definition uso_detalhado_de ::
  "cartao_em_uso \<times> (cartao \<times> transacao_completa) list \<Rightarrow> uso_detalhado" where
  "uso_detalhado_de p = (case p of (u, g) \<Rightarrow>
     \<lparr>uso_cartao = uso_cartao u, uso_tipo = uso_tipo u, uso_limite = uso_limite u,
      uso_produto = uso_produto u, uso_cliente = uso_cliente u,
      total_transacoes = length (remdups (map (\<lambda>(k, t). tx_id t) g)),
      ticket_medio = map_option sql_round2 (sql_avg (map (\<lambda>(k, t). tx_valor t) g))\<rparr>)"

definition usos_detalhados :: "cartao list \<Rightarrow> transacao_completa list \<Rightarrow> uso_detalhado list" where
  "usos_detalhados cards ts = map uso_detalhado_de (group_by cartao_em_uso_de (uso_cartoes cards ts))"

record linha_detalhe =
  det_tipo :: "texto option"
  det_produto :: "texto option"
  quantidade_det :: nat
  limite_medio :: "real option"
  transacoes_medias :: "real option"
  ticket_medio_geral :: "real option"

definition linha_detalhe_de :: "(texto option \<times> texto option) \<times> uso_detalhado list \<Rightarrow> linha_detalhe" where
  "linha_detalhe_de p = (case p of ((tp, pr), g) \<Rightarrow>
     \<lparr>det_tipo = tp, det_produto = pr, quantidade_det = length g,
      limite_medio = map_option sql_round0 (sql_avg (map uso_limite g)),
      transacoes_medias = map_option sql_round1 (sql_avg (map (\<lambda>u. Some (real (total_transacoes u))) g)),
      ticket_medio_geral = map_option sql_round2 (sql_avg (map ticket_medio g))\<rparr>)"

text \<open>\<^verbatim>\<open>GROUP BY Tipo_Cartao, Produto_Mastercard ORDER BY Tipo_Cartao, quantidade_cartoes
  DESC\<close>: a stable sort on the type (NULL first, text by its bytes) after one on the count.\<close>

definition obter_detalhes_cartoes :: "cartao list \<Rightarrow> transacao_completa list \<Rightarrow> linha_detalhe list" where
  "obter_detalhes_cartoes cards ts =
     sort_key det_tipo
       (ordena_desc (\<lambda>l. real (quantidade_det l))
          (map linha_detalhe_de
             (group_by (\<lambda>u. (uso_tipo u, uso_produto u)) (usos_detalhados cards ts))))"

section \<open>The summary of the chart\<close>

text \<open>\<^verbatim>\<open>df[df['tipo_cartao'] == x]['quantidade_cartoes'].iloc[0] if x in
  df['tipo_cartao'].values else 0\<close>: the count of the first row with that type, or 0.\<close>

definition quantidade_de :: "texto \<Rightarrow> linha_distribuicao list \<Rightarrow> nat" where
  "quantidade_de x ls =
     (case filter (\<lambda>l. tipo_cartao_dist l = Some x) ls of [] \<Rightarrow> 0 | l # _ \<Rightarrow> quantidade_cartoes l)"

text \<open>\<^verbatim>\<open>x / total_cartoes * 100\<close> on numpy integers: \<open>0 / 0\<close> is NaN, not an exception.\<close>

definition fracao_total :: "nat \<Rightarrow> nat \<Rightarrow> real option" where
  "fracao_total x n = (if n = 0 then None else Some (real x / real n * 100))"

text \<open>\<^verbatim>\<open>df_ativos.groupby('Tipo_Cartao')['limite_medio'].mean()\<close> over the rows of
  type Cr\<acute>edito or D\<acute>ebito, when there are any: keys sorted, NaN skipped, NaN for a
  type whose limits are all missing.\<close>

definition limite_por_tipo :: "linha_detalhe list \<Rightarrow> (texto option \<times> real option) list option" where
  "limite_por_tipo ds =
     (let ativos = filter (\<lambda>l. det_tipo l = Some texto_credito \<or> det_tipo l = Some texto_debito) ds
      in if ativos = [] then None
         else Some (map (\<lambda>(k, g). (k, sql_avg (map limite_medio g))) (sort_key fst (group_by det_tipo ativos))))"

text \<open>\<^verbatim>\<open>df_detalhes.pivot_table(values='quantidade_cartoes', index='Produto_Mastercard',
  columns='Tipo_Cartao', fill_value=0)\<close>: rows and columns are the sorted non-NULL keys
  (\<^verbatim>\<open>dropna=True\<close>), a cell is the mean of the counts with that pair, or 0.\<close>

definition pivo_produto_tipo ::
  "linha_detalhe list \<Rightarrow> (texto option \<times> (texto option \<times> real) list) list" where
  "pivo_produto_tipo ds =
     (let vs = filter (\<lambda>l. det_tipo l \<noteq> None \<and> det_produto l \<noteq> None) ds
      in map (\<lambda>p. (p, map (\<lambda>tp. (tp,
                   case filter (\<lambda>l. det_produto l = p \<and> det_tipo l = tp) vs of
                     [] \<Rightarrow> 0
                   | g \<Rightarrow> (\<Sum>l\<leftarrow>g. real (quantidade_det l)) / real (length g)))
               (sort (remdups (map det_tipo vs)))))
           (sort (remdups (map det_produto vs))))"

record resumo_grafico =
  total_resumo :: nat
  credito_resumo :: nat
  debito_resumo :: nat
  sem_cartao_resumo :: nat
  perc_credito :: "real option"
  perc_debito :: "real option"
  perc_sem_cartao :: "real option"
  limites_resumo :: "(texto option \<times> real option) list option"
  pivo_resumo :: "(texto option \<times> (texto option \<times> real) list) list option"

text \<open>The errors of the script: \<^verbatim>\<open>'Sem Cart\<tilde>ao' in x\<close> of the chart's pie raises
  \<^verbatim>\<open>TypeError\<close> on a NULL type, \<^verbatim>\<open>tipo.upper()\<close> of the report raises
  \<^verbatim>\<open>AttributeError\<close>.\<close>

datatype erro_distribuicao = Tipo_Sem_Texto | Tipo_Nulo_Grafico

text \<open>The values \<^verbatim>\<open>criar_grafico_distribuicao_cartoes\<close> computes from the two frames; the
  drawing itself is not modelled. Its first plot evaluates
  \<^verbatim>\<open>[0.1 if 'Sem Cart\<tilde>ao' in x else 0 for x in df_distribuicao['tipo_cartao']]\<close>,
  which raises on a NULL type of the distribution.\<close>

definition criar_grafico_distribuicao_cartoes ::
  "linha_distribuicao list \<Rightarrow> linha_detalhe list \<Rightarrow> erro_distribuicao + resumo_grafico" where
  "criar_grafico_distribuicao_cartoes dl ds =
     (if None \<in> set (map tipo_cartao_dist dl) then Inl Tipo_Nulo_Grafico
      else
        (let total = sum_list (map quantidade_cartoes dl);
             sem = quantidade_de texto_sem_cartao_ativo dl;
             cred = quantidade_de texto_credito dl;
             deb = quantidade_de texto_debito dl
         in Inr \<lparr>total_resumo = total, credito_resumo = cred, debito_resumo = deb, sem_cartao_resumo = sem,
                 perc_credito = fracao_total cred total, perc_debito = fracao_total deb total,
                 perc_sem_cartao = fracao_total sem total,
                 limites_resumo = limite_por_tipo ds,
                 pivo_resumo = (if ds = [] then None else Some (pivo_produto_tipo ds))\<rparr>))"

section \<open>The detailed report\<close>

text \<open>The loop over \<^verbatim>\<open>df_detalhes['Tipo_Cartao'].unique()\<close> prints \<^verbatim>\<open>tipo.upper()\<close>: a
  NULL type is \<^verbatim>\<open>None\<close> and raises \<^verbatim>\<open>AttributeError\<close>, which ends the report.\<close>

record resumo_tipo =
  nome_tipo :: texto
  total_tipo :: nat
  limite_medio_tipo :: "real option"
  top_produtos :: "(texto option \<times> nat) list"

text \<open>One type: \<^verbatim>\<open>quantidade_cartoes.sum()\<close>, \<^verbatim>\<open>limite_medio.mean()\<close> and
  \<^verbatim>\<open>nlargest(3, 'quantidade_cartoes')\<close> (ties in frame order).\<close>

definition resumo_tipo_de :: "linha_detalhe list \<Rightarrow> texto \<Rightarrow> resumo_tipo" where
  "resumo_tipo_de ds tp =
     (let dt = filter (\<lambda>l. det_tipo l = Some tp) ds
      in \<lparr>nome_tipo = tp, total_tipo = sum_list (map quantidade_det dt),
          limite_medio_tipo = sql_avg (map limite_medio dt),
          top_produtos = map (\<lambda>l. (det_produto l, quantidade_det l))
                           (take 3 (ordena_desc (\<lambda>l. real (quantidade_det l)) dt))\<rparr>)"

fun resumos_tipos :: "linha_detalhe list \<Rightarrow> texto option list \<Rightarrow> erro_distribuicao + resumo_tipo list" where
  "resumos_tipos ds [] = Inr []"
| "resumos_tipos ds (None # tps) = Inl Tipo_Sem_Texto"
| "resumos_tipos ds (Some tp # tps) =
     (case resumos_tipos ds tps of Inl e \<Rightarrow> Inl e | Inr rs \<Rightarrow> Inr (resumo_tipo_de ds tp # rs))"

record relatorio_distribuicao =
  total_geral :: nat
  resumos :: "resumo_tipo list"
  sem_cartao_rel :: nat
  ativos_rel :: nat

definition gerar_relatorio_detalhado ::
  "linha_distribuicao list \<Rightarrow> linha_detalhe list \<Rightarrow> erro_distribuicao + relatorio_distribuicao" where
  "gerar_relatorio_detalhado dl ds =
     (case (if ds = [] then Inr [] else resumos_tipos ds (remdups (map det_tipo ds))) of
        Inl e \<Rightarrow> Inl e
      | Inr rs \<Rightarrow> Inr \<lparr>total_geral = sum_list (map quantidade_cartoes dl), resumos = rs,
                       sem_cartao_rel = quantidade_de texto_sem_cartao_ativo dl,
                       ativos_rel = sum_list (map quantidade_cartoes
                                      (filter (\<lambda>l. tipo_cartao_dist l \<noteq> Some texto_sem_cartao_ativo) dl))\<rparr>)"

text \<open>\<^verbatim>\<open>main\<close>: both queries, the chart, then the report, inside one \<^verbatim>\<open>try\<close>: an
  exception of the chart is printed and the report is not run.\<close>

record execucao_distribuicao =
  distribuicao :: "linha_distribuicao list"
  detalhes :: "linha_detalhe list"
  grafico :: "erro_distribuicao + resumo_grafico"
  relatorio :: "(erro_distribuicao + relatorio_distribuicao) option"

definition main_distribuicao :: "cliente list \<Rightarrow> cartao list \<Rightarrow> transacao_completa list \<Rightarrow> execucao_distribuicao" where
  "main_distribuicao cs cards ts =
     (let dl = obter_distribuicao_cartoes cs cards ts;
          ds = obter_detalhes_cartoes cards ts;
          g = criar_grafico_distribuicao_cartoes dl ds
      in \<lparr>distribuicao = dl, detalhes = ds, grafico = g,
          relatorio = (case g of Inl _ \<Rightarrow> None | Inr _ \<Rightarrow> Some (gerar_relatorio_detalhado dl ds))\<rparr>)"

section \<open>Sample tables\<close>

text \<open>One credit card used by two customers, and the same card with no type.\<close>

definition cartoes_ex :: "cartao list" where
  "cartoes_ex = [\<lparr>car_id = 1, car_produto = Some ''Gold'', car_tipo = Some texto_credito,
                  car_emissao = None, car_limite = Some 5000\<rparr>]"

definition cartoes_sem_tipo_ex :: "cartao list" where
  "cartoes_sem_tipo_ex = [\<lparr>car_id = 1, car_produto = Some ''Gold'', car_tipo = None,
                           car_emissao = None, car_limite = Some 5000\<rparr>]"

definition transacoes_ex :: "transacao_completa list" where
  "transacoes_ex =
     [\<lparr>tx_cliente = 1, tx_cartao = 1, tx_data = ((2024, 5, 1), (10, 0, 0)),
       tx_id = 1, tx_valor = Some 100, tx_wallet = None, tx_input_mode = None\<rparr>,
      \<lparr>tx_cliente = 2, tx_cartao = 1, tx_data = ((2024, 6, 1), (10, 0, 0)),
       tx_id = 2, tx_valor = Some 50, tx_wallet = None, tx_input_mode = None\<rparr>]"

section \<open>The distribution adds up\<close>

lemma soma_distribuicao:
  "(\<Sum>l\<leftarrow>obter_distribuicao_cartoes cs cards ts. quantidade_cartoes l)
     = length (cartoes_em_uso cards ts) + clientes_sem_cartao cs ts"
proof -
  let ?uso = "cartoes_em_uso cards ts"
  let ?rows = "map (\<lambda>(k, g). \<lparr>tipo_cartao_dist = k, quantidade_cartoes = length g,
                    percentual_dist = percentual_cartoes (length g) (length ?uso + clientes_sem_cartao cs ts)\<rparr>)
                (group_by uso_tipo ?uso)"
  have "(\<Sum>l\<leftarrow>?rows. quantidade_cartoes l) = length ?uso"
    using sum_list_group_lengths [of uso_tipo ?uso] by (simp add: split_def o_def)
  then show ?thesis
    unfolding obter_distribuicao_cartoes_def Let_def by simp
qed

lemma linhas_distribuicao:
  assumes "l \<in> set (obter_distribuicao_cartoes cs cards ts)"
  shows "percentual_dist l = percentual_cartoes (quantidade_cartoes l) (length (cartoes_em_uso cards ts) + clientes_sem_cartao cs ts)
         \<and> quantidade_cartoes l \<le> length (cartoes_em_uso cards ts) + clientes_sem_cartao cs ts"
  using assms
  by (auto simp: obter_distribuicao_cartoes_def Let_def group_by_def
           intro: le_add1 [THEN le_trans [OF length_filter_le]])

lemma percentual_cartoes_bounds:
  "n \<le> d \<Longrightarrow> percentual_cartoes n d = Some p \<Longrightarrow> 0 \<le> p \<and> p \<le> 100"
  by (auto simp: percentual_cartoes_def percentual_bounds split: if_splits)

lemma percentuais_distribuicao:
  assumes "l \<in> set (obter_distribuicao_cartoes cs cards ts)"
  shows "(percentual_dist l = None \<longleftrightarrow> length (cartoes_em_uso cards ts) + clientes_sem_cartao cs ts = 0)
         \<and> (\<forall>p. percentual_dist l = Some p \<longrightarrow> 0 \<le> p \<and> p \<le> 100)"
  using linhas_distribuicao [OF assms] percentual_cartoes_bounds
  by (auto simp: percentual_cartoes_def)

lemma comparacao_cartoes_em_uso:
  "snd (consulta_comparacao cs cards ts ! 2) = length (remdups (map uso_cartao (cartoes_em_uso cards ts)))"
proof -
  have "map (\<lambda>(k, t). car_id k) (uso_cartoes cards ts)
        = map uso_cartao (map cartao_em_uso_de (uso_cartoes cards ts))"
    by (simp add: cartao_em_uso_de_def split_def)
  then show ?thesis
    by (simp add: consulta_comparacao_def cartoes_em_uso_def length_remdups_card_conv image_image)
qed

lemma comparacao_le_cartoes_em_uso:
  "snd (consulta_comparacao cs cards ts ! 2) \<le> length (cartoes_em_uso cards ts)"
  using length_remdups_map_le [of uso_cartao "cartoes_em_uso cards ts"]
  by (simp only: comparacao_cartoes_em_uso cartoes_em_uso_def remdups_remdups)

lemma cartao_compartilhado_duas_vezes:
  "snd (consulta_comparacao [] cartoes_ex transacoes_ex ! 2) = 1
   \<and> quantidade_de texto_credito (obter_distribuicao_cartoes [] cartoes_ex transacoes_ex) = 2"
  by (simp add: consulta_comparacao_def uso_cartoes_def cartoes_ex_def transacoes_ex_def inner_join_def
      obter_distribuicao_cartoes_def cartoes_em_uso_def cartao_em_uso_de_def clientes_sem_cartao_def
      group_by_def ordena_desc_def quantidade_de_def texto_credito_def texto_sem_cartao_ativo_def)

section \<open>The detailed query counts the same cards\<close>

lemma length_usos_detalhados: "length (usos_detalhados cards ts) = length (cartoes_em_uso cards ts)"
  by (simp add: usos_detalhados_def cartoes_em_uso_def group_by_def)

lemma soma_detalhes:
  "(\<Sum>l\<leftarrow>obter_detalhes_cartoes cards ts. quantidade_det l) = length (cartoes_em_uso cards ts)"
proof -
  let ?us = "usos_detalhados cards ts"
  have "(\<Sum>l\<leftarrow>map linha_detalhe_de (group_by (\<lambda>u. (uso_tipo u, uso_produto u)) ?us). quantidade_det l)
        = length ?us"
    using sum_list_group_lengths [of "\<lambda>u. (uso_tipo u, uso_produto u)" ?us]
    by (simp add: linha_detalhe_de_def split_def o_def)
  then show ?thesis
    unfolding obter_detalhes_cartoes_def length_usos_detalhados [symmetric]
    by (simp add: o_def)
qed

lemma det_tipo_detalhes:
  "det_tipo ` set (obter_detalhes_cartoes cards ts) = (\<lambda>(k, t). car_tipo k) ` set (uso_cartoes cards ts)"
proof -
  have "det_tipo ` set (obter_detalhes_cartoes cards ts)
        = fst ` fst ` set (group_by (\<lambda>u. (uso_tipo u, uso_produto u)) (usos_detalhados cards ts))"
    by (force simp: obter_detalhes_cartoes_def linha_detalhe_de_def split: prod.splits)
  also have "\<dots> = uso_tipo ` set (usos_detalhados cards ts)"
    by (simp only: fst_set_group_by image_image) simp
  also have "\<dots> = uso_tipo ` fst ` set (group_by cartao_em_uso_de (uso_cartoes cards ts))"
    by (force simp: usos_detalhados_def uso_detalhado_de_def split: prod.splits)
  also have "\<dots> = (\<lambda>(k, t). car_tipo k) ` set (uso_cartoes cards ts)"
    by (simp only: fst_set_group_by image_image) (simp add: cartao_em_uso_de_def split_def)
  finally show ?thesis .
qed

lemma tipo_uso_cartoes:
  "uso_tipo ` set (cartoes_em_uso cards ts) = (\<lambda>(k, t). car_tipo k) ` set (uso_cartoes cards ts)"
  by (force simp: cartoes_em_uso_def cartao_em_uso_de_def split: prod.splits)

section \<open>The report\<close>

lemma resumos_tipos_eq:
  "resumos_tipos ds tps =
     (if None \<in> set tps then Inl Tipo_Sem_Texto else Inr (map (\<lambda>tp. resumo_tipo_de ds (the tp)) tps))"
  by (induction ds tps rule: resumos_tipos.induct) auto

text \<open>C31: the report of the card distribution, \<^verbatim>\<open>gerar_relatorio_detalhado\<close>, raises
  (\<^verbatim>\<open>None.upper()\<close>) exactly when a card whose \<^verbatim>\<open>Tipo_Cartao\<close> is NULL has a
  transaction. In \<^verbatim>\<open>main\<close> the chart, which runs first, raises on the same cards
  (\<open>main_distribuicao_tipo_nulo\<close> below), so the report is not reached there.\<close>

theorem relatorio_erro_iff:
  "(\<exists>e. gerar_relatorio_detalhado dl (obter_detalhes_cartoes cards ts) = Inl e)
     \<longleftrightarrow> (\<exists>k\<in>set cards. car_tipo k = None \<and> (\<exists>t\<in>set ts. tx_cartao t = car_id k))"
proof -
  have "None \<in> det_tipo ` set (obter_detalhes_cartoes cards ts)
        \<longleftrightarrow> (\<exists>k\<in>set cards. car_tipo k = None \<and> (\<exists>t\<in>set ts. tx_cartao t = car_id k))"
    unfolding det_tipo_detalhes by (force simp: uso_cartoes_def set_inner_join)
  then show ?thesis
    by (auto simp: gerar_relatorio_detalhado_def resumos_tipos_eq split: sum.splits if_splits)
qed

theorem relatorio_erro_iff_witness:
  "\<exists>e. gerar_relatorio_detalhado [] (obter_detalhes_cartoes cartoes_sem_tipo_ex transacoes_ex) = Inl e"
  using relatorio_erro_iff [of "[]" cartoes_sem_tipo_ex transacoes_ex]
  by (simp add: cartoes_sem_tipo_ex_def transacoes_ex_def)

text \<open>C32: when every card has a type other than the sentinel text, the report of two
  queries over the same tables succeeds, its count of active cards is the number of cards
  in use the detailed query counts, its count of customers without a card is the
  \<^verbatim>\<open>clientes_sem_cartao\<close> of the distribution query, and its total is their sum.\<close>

theorem relatorio_consistente:
  assumes tipos: "\<forall>k\<in>set cards. car_tipo k \<noteq> None \<and> car_tipo k \<noteq> Some texto_sem_cartao_ativo"
  shows "\<exists>r. gerar_relatorio_detalhado (obter_distribuicao_cartoes cs cards ts) (obter_detalhes_cartoes cards ts) = Inr r
           \<and> ativos_rel r = (\<Sum>l\<leftarrow>obter_detalhes_cartoes cards ts. quantidade_det l)
           \<and> sem_cartao_rel r = clientes_sem_cartao cs ts
           \<and> total_geral r = ativos_rel r + sem_cartao_rel r"
proof -
  let ?uso = "cartoes_em_uso cards ts"
  let ?sem = "clientes_sem_cartao cs ts"
  let ?d = "length ?uso + ?sem"
  let ?rows = "map (\<lambda>(k, g). \<lparr>tipo_cartao_dist = k, quantidade_cartoes = length g,
                    percentual_dist = percentual_cartoes (length g) ?d\<rparr>) (group_by uso_tipo ?uso)"
  let ?s = "\<lparr>tipo_cartao_dist = Some texto_sem_cartao_ativo, quantidade_cartoes = ?sem,
             percentual_dist = percentual_cartoes ?sem ?d\<rparr>"
  let ?P = "\<lambda>l. tipo_cartao_dist l \<noteq> Some texto_sem_cartao_ativo"
  have dl: "obter_distribuicao_cartoes cs cards ts = ordena_desc (\<lambda>l. real (quantidade_cartoes l)) (?rows @ [?s])"
    by (simp add: obter_distribuicao_cartoes_def Let_def)
  have "Some texto_sem_cartao_ativo \<notin> uso_tipo ` set ?uso"
    using tipos unfolding tipo_uso_cartoes by (force simp: uso_cartoes_def set_inner_join)
  then have rows: "filter ?P ?rows = ?rows"
    by (force simp: filter_id_conv group_by_def)
  have "(\<Sum>l\<leftarrow>?rows. quantidade_cartoes l) = length ?uso"
    using sum_list_group_lengths [of uso_tipo ?uso] by (simp add: split_def o_def)
  then have ativos: "(\<Sum>l\<leftarrow>filter ?P (obter_distribuicao_cartoes cs cards ts). quantidade_cartoes l) = length ?uso"
    unfolding dl sum_list_filter_ordena_desc by (simp add: rows)
  have "filter (\<lambda>l. tipo_cartao_dist l = Some texto_sem_cartao_ativo) (?rows @ [?s]) = [?s]"
    using rows by (simp add: filter_empty_conv filter_id_conv)
  then have sem: "quantidade_de texto_sem_cartao_ativo (obter_distribuicao_cartoes cs cards ts) = ?sem"
    unfolding dl quantidade_de_def by (simp only: filter_ordena_desc_single) simp
  have nn: "None \<notin> det_tipo ` set (obter_detalhes_cartoes cards ts)"
    using tipos unfolding det_tipo_detalhes by (force simp: uso_cartoes_def set_inner_join)
  show ?thesis
    using ativos sem nn soma_distribuicao [of cs cards ts]
    by (auto simp: gerar_relatorio_detalhado_def resumos_tipos_eq soma_detalhes)
qed

theorem relatorio_consistente_witness:
  "\<exists>r. gerar_relatorio_detalhado (obter_distribuicao_cartoes [] cartoes_ex transacoes_ex)
                                    (obter_detalhes_cartoes cartoes_ex transacoes_ex) = Inr r
          \<and> ativos_rel r = (\<Sum>l\<leftarrow>obter_detalhes_cartoes cartoes_ex transacoes_ex. quantidade_det l)
          \<and> sem_cartao_rel r = clientes_sem_cartao [] transacoes_ex
          \<and> total_geral r = ativos_rel r + sem_cartao_rel r"
proof -
  have h: "\<forall>k\<in>set cartoes_ex. car_tipo k \<noteq> None \<and> car_tipo k \<noteq> Some texto_sem_cartao_ativo"
    by (simp add: cartoes_ex_def texto_credito_def texto_sem_cartao_ativo_def)
  show ?thesis
    using relatorio_consistente [OF h, of "[]" transacoes_ex] .
qed

section \<open>The main function\<close>

lemma tipos_distribuicao:
  "tipo_cartao_dist ` set (obter_distribuicao_cartoes cs cards ts)
     = insert (Some texto_sem_cartao_ativo) (uso_tipo ` set (cartoes_em_uso cards ts))"
proof -
  have "tipo_cartao_dist ` (\<lambda>(k, g). \<lparr>tipo_cartao_dist = k, quantidade_cartoes = length g,
          percentual_dist = percentual_cartoes (length g) (length (cartoes_em_uso cards ts) + clientes_sem_cartao cs ts)\<rparr>)
          ` set (group_by uso_tipo (cartoes_em_uso cards ts))
        = fst ` set (group_by uso_tipo (cartoes_em_uso cards ts))"
    by (force simp: image_iff)
  then show ?thesis
    by (simp add: obter_distribuicao_cartoes_def Let_def image_Un fst_set_group_by)
qed

lemma tipo_nulo_em_uso:
  "None \<in> uso_tipo ` set (cartoes_em_uso cards ts) \<longleftrightarrow>
     (\<exists>k\<in>set cards. car_tipo k = None \<and> (\<exists>t\<in>set ts. tx_cartao t = car_id k))"
  by (force simp: cartoes_em_uso_def uso_cartoes_def set_inner_join cartao_em_uso_de_def)

text \<open>The chart of \<^verbatim>\<open>main\<close> raises exactly when a card with a NULL type has a
  transaction, and the report is then not run.\<close>

lemma main_distribuicao_tipo_nulo:
  "grafico (main_distribuicao cs cards ts) = Inl Tipo_Nulo_Grafico \<longleftrightarrow>
     (\<exists>k\<in>set cards. car_tipo k = None \<and> (\<exists>t\<in>set ts. tx_cartao t = car_id k))"
  "(\<exists>k\<in>set cards. car_tipo k = None \<and> (\<exists>t\<in>set ts. tx_cartao t = car_id k)) \<Longrightarrow>
     relatorio (main_distribuicao cs cards ts) = None"
proof -
  have n: "None \<in> set (map tipo_cartao_dist (obter_distribuicao_cartoes cs cards ts)) \<longleftrightarrow>
           (\<exists>k\<in>set cards. car_tipo k = None \<and> (\<exists>t\<in>set ts. tx_cartao t = car_id k))"
    unfolding set_map tipos_distribuicao tipo_nulo_em_uso [symmetric] by simp
  show "grafico (main_distribuicao cs cards ts) = Inl Tipo_Nulo_Grafico \<longleftrightarrow>
     (\<exists>k\<in>set cards. car_tipo k = None \<and> (\<exists>t\<in>set ts. tx_cartao t = car_id k))"
    using n by (simp add: main_distribuicao_def Let_def criar_grafico_distribuicao_cartoes_def)
  show "(\<exists>k\<in>set cards. car_tipo k = None \<and> (\<exists>t\<in>set ts. tx_cartao t = car_id k)) \<Longrightarrow>
     relatorio (main_distribuicao cs cards ts) = None"
    using n by (simp add: main_distribuicao_def Let_def criar_grafico_distribuicao_cartoes_def)
qed

end
