(* ===== verification/Limites_Cartao.thy ===== *)
theory Limites_Cartao
  imports Distribuicao_Cartoes
begin

text \<open>
  The corrected limits-versus-spending script \<^verbatim>\<open>src/analiseCartoes1/analise_limites_corrigida.py\<close>,
  a pandas pipeline over the three CSV files. The investigation of zero limits, the
  credit-card links and limits per customer, the monthly spending per customer, their
  merge with the income, the utilisation and the sequence of masks that writes the
  situation of each row, and the summary the script prints, which divides by the number of
  rows. Float division is modelled with its infinities and NaN, because the utilisation
  divides by a rounded sum of limits.
\<close>

section \<open>Float division\<close>

text \<open>A float of pandas after a division: \<open>x / 0\<close> is \<open>\<plusminus>inf\<close>, \<open>0 / 0\<close> is NaN.\<close>

datatype flutuante = Finito real | Mais_Infinito | Menos_Infinito | Nao_Numero

definition divide_pd :: "real \<Rightarrow> real \<Rightarrow> flutuante" where
  "divide_pd x y =
     (if y \<noteq> 0 then Finito (x / y)
      else if 0 < x then Mais_Infinito else if x < 0 then Menos_Infinito else Nao_Numero)"

fun vezes_100 :: "flutuante \<Rightarrow> flutuante" where
  "vezes_100 (Finito v) = Finito (v * 100)"
| "vezes_100 f = f"

text \<open>Comparisons with a constant: NaN compares false, the infinities as the extremes.\<close>

fun maior_pd :: "flutuante \<Rightarrow> real \<Rightarrow> bool" where
  "maior_pd (Finito v) c = (c < v)"
| "maior_pd Mais_Infinito c = True"
| "maior_pd Menos_Infinito c = False"
| "maior_pd Nao_Numero c = False"

fun menor_pd :: "flutuante \<Rightarrow> real \<Rightarrow> bool" where
  "menor_pd (Finito v) c = (v < c)"
| "menor_pd Mais_Infinito c = False"
| "menor_pd Menos_Infinito c = True"
| "menor_pd Nao_Numero c = False"

fun menor_igual_pd :: "flutuante \<Rightarrow> real \<Rightarrow> bool" where
  "menor_igual_pd (Finito v) c = (v \<le> c)"
| "menor_igual_pd Mais_Infinito c = False"
| "menor_igual_pd Menos_Infinito c = True"
| "menor_igual_pd Nao_Numero c = False"

section \<open>Cards with a zero limit\<close>

text \<open>\<^verbatim>\<open>Series.sum()\<close> skips NaN (and is 0 on nothing); \<^verbatim>\<open>nunique()\<close> counts distinct values.\<close>

definition soma_pd :: "real option list \<Rightarrow> real" where
  "soma_pd xs = sum_list (List.map_filter id xs)"

definition nunique :: "'a list \<Rightarrow> nat" where
  "nunique xs = length (remdups xs)"

definition cartoes_credito :: "cartao list \<Rightarrow> cartao list" where
  "cartoes_credito cards = filter (\<lambda>k. car_tipo k = Some texto_credito) cards"

record investigacao_zero =
  cartoes_limite_zero :: nat
  transacoes_debito :: nat
  credito_total :: nat
  credito_limite_positivo :: nat
  credito_limite_nulo :: nat
  transacoes_credito_zero :: nat
  volume_impossivel :: real
  clientes_afetados :: nat

text \<open>Lines 26 to 63: \<^verbatim>\<open>isin\<close> on the card ids of a filtered frame, the counts printed.\<close>

definition investiga_limite_zero :: "cartao list \<Rightarrow> transacao_completa list \<Rightarrow> investigacao_zero" where
  "investiga_limite_zero cards ts =
     (let debito = remdups (map car_id (filter (\<lambda>k. car_tipo k = Some texto_debito) cards));
          cred = cartoes_credito cards;
          cred_zero = filter (\<lambda>k. car_limite k = Some 0) cred;
          tz = filter (\<lambda>t. tx_cartao t \<in> set (map car_id cred_zero)) ts
      in \<lparr>cartoes_limite_zero = length (filter (\<lambda>k. car_limite k = Some 0) cards),
          transacoes_debito = length (filter (\<lambda>t. tx_cartao t \<in> set debito) ts),
          credito_total = length cred,
          credito_limite_positivo = length (filter (\<lambda>k. sql_less (Some 0) (car_limite k) = Some True) cred),
          credito_limite_nulo = length cred_zero,
          transacoes_credito_zero = length tz,
          volume_impossivel = soma_pd (map tx_valor tz),
          clientes_afetados = nunique (map tx_cliente tz)\<rparr>)"

section \<open>Limits per customer\<close>

text \<open>\<^verbatim>\<open>cartoes_credito[cartoes_credito['Limite_Cartao'] > 0]\<close>, with the limit it has.\<close>

definition credito_validos :: "cartao list \<Rightarrow> (cartao \<times> real) list" where
  "credito_validos cards =
     List.map_filter (\<lambda>k. case car_limite k of None \<Rightarrow> None | Some l \<Rightarrow> if 0 < l then Some (k, l) else None)
       (cartoes_credito cards)"

text \<open>\<^verbatim>\<open>transacoes[['Cliente_ID', 'ID_Cartao']].drop_duplicates()\<close>, first occurrences in order.\<close>

definition cliente_cartao :: "transacao_completa list \<Rightarrow> (cliente_id \<times> cartao_id) list" where
  "cliente_cartao ts = remdups (map (\<lambda>t. (tx_cliente t, tx_cartao t)) ts)"

record vinculo_credito =
  vc_cliente :: cliente_id
  vc_cartao :: cartao_id
  vc_limite :: real
  vc_produto :: "texto option"

text \<open>\<^verbatim>\<open>cliente_cartao.merge(cartoes_credito_validos[...], on='ID_Cartao', how='inner')\<close>:
  the order of the left frame, every matching right row.\<close>

definition cliente_cartao_credito :: "cartao list \<Rightarrow> transacao_completa list \<Rightarrow> vinculo_credito list" where
  "cliente_cartao_credito cards ts =
     map (\<lambda>((c, k), (kk, l)). \<lparr>vc_cliente = c, vc_cartao = k, vc_limite = l, vc_produto = car_produto kk\<rparr>)
       (inner_join (\<lambda>(c, k) (kk, l). car_id kk = k) (cliente_cartao ts) (credito_validos cards))"

record limite_cliente =
  lc_cliente :: cliente_id
  limite_total :: real
  limite_maximo :: real
  qtd_cartoes_credito :: nat

text \<open>\<^verbatim>\<open>groupby('Cliente_ID').agg({'Limite_Cartao': ['sum', 'max', 'count']}).round(2)\<close>:
  groups in key order, each nonempty.\<close>

definition limite_por_cliente :: "vinculo_credito list \<Rightarrow> limite_cliente list" where
  "limite_por_cliente vs =
     map (\<lambda>(c, g). \<lparr>lc_cliente = c, limite_total = pd_round2 (sum_list (map vc_limite g)),
                    limite_maximo = pd_round2 (Max (set (map vc_limite g))), qtd_cartoes_credito = length g\<rparr>)
       (sort_key fst (group_by vc_cliente vs))"

section \<open>Monthly spending\<close>

text \<open>\<^verbatim>\<open>Data.dt.to_period('M')\<close>: year and month.\<close>

definition ano_mes :: "transacao_completa \<Rightarrow> nat \<times> nat" where
  "ano_mes t = (case tx_data t of ((a, m, d), h) \<Rightarrow> (a, m))"

record gasto_mes =
  gm_cliente :: cliente_id
  gm_mes :: "nat \<times> nat"
  gasto_mensal :: real
  qtd_transacoes :: nat
  ticket_medio_mes :: "real option"

text \<open>\<^verbatim>\<open>groupby(['Cliente_ID', 'Ano_Mes']).agg({'Valor_Compra': ['sum', 'count', 'mean']}).round(2)\<close>:
  \<^verbatim>\<open>count\<close> and \<^verbatim>\<open>mean\<close> skip NaN, \<^verbatim>\<open>mean\<close> of no value is NaN.\<close>

definition gastos_mensais :: "transacao_completa list \<Rightarrow> gasto_mes list" where
  "gastos_mensais ts =
     map (\<lambda>((c, m), g). let vs = List.map_filter tx_valor g in
            \<lparr>gm_cliente = c, gm_mes = m, gasto_mensal = pd_round2 (sum_list vs), qtd_transacoes = length vs,
             ticket_medio_mes = (if vs = [] then None else Some (pd_round2 (sum_list vs / real (length vs))))\<rparr>)
       (sort_key fst (group_by (\<lambda>t. (tx_cliente t, ano_mes t)) ts))"

section \<open>The situation of a customer-month\<close>

datatype situacao_limite =
  Situacao_Normal | Critico_90 | Alto_Risco_70_90 | Limite_Muito_Baixo | Limite_Muito_Alto

record linha_limite =
  ll_gasto :: gasto_mes
  ll_limite :: limite_cliente
  renda_anual :: "real option"
  utilizacao :: flutuante
  renda_mensal :: "real option"
  situacao :: situacao_limite

text \<open>The two merges (\<^verbatim>\<open>how='inner'\<close> with the limits, \<^verbatim>\<open>how='left'\<close> with the income),
  \<^verbatim>\<open>Utilizacao_Limite = Gasto_Mensal / Limite_Total * 100\<close>, \<^verbatim>\<open>Renda_Mensal = Renda_Anual / 12\<close>
  and \<^verbatim>\<open>Situacao = 'Normal'\<close>.\<close>

definition linhas_iniciais :: "cliente list \<Rightarrow> cartao list \<Rightarrow> transacao_completa list \<Rightarrow> linha_limite list" where
  "linhas_iniciais cs cards ts =
     map (\<lambda>((g, l), c). let r = Option.bind c cli_renda in
            \<lparr>ll_gasto = g, ll_limite = l, renda_anual = r,
             utilizacao = vezes_100 (divide_pd (gasto_mensal g) (limite_total l)),
             renda_mensal = map_option (\<lambda>x. x / 12) r, situacao = Situacao_Normal\<rparr>)
       (left_join_por (\<lambda>(g, l) c. cli_id c = gm_cliente g)
          (inner_join (\<lambda>g l. lc_cliente l = gm_cliente g) (gastos_mensais ts)
             (limite_por_cliente (cliente_cartao_credito cards ts)))
          cs)"

text \<open>\<^verbatim>\<open>df.loc[mask, 'Situacao'] = label\<close>: the rows of the mask get the label, the others keep theirs.\<close>

definition marca_linha :: "(linha_limite \<Rightarrow> bool) \<Rightarrow> situacao_limite \<Rightarrow> linha_limite \<Rightarrow> linha_limite" where
  "marca_linha msk s r = (if msk r then r\<lparr>situacao := s\<rparr> else r)"

definition marca :: "(linha_limite \<Rightarrow> bool) \<Rightarrow> situacao_limite \<Rightarrow> linha_limite list \<Rightarrow> linha_limite list" where
  "marca msk s rows = map (marca_linha msk s) rows"

text \<open>The masks of lines 114 to 131, on the rows with an income for the last two.\<close>

definition limite_baixo :: "linha_limite \<Rightarrow> bool" where
  "limite_baixo r = (case renda_mensal r of None \<Rightarrow> False | Some m \<Rightarrow> limite_total (ll_limite r) < m * 0.3)"

definition limite_alto :: "linha_limite \<Rightarrow> bool" where
  "limite_alto r = (case renda_mensal r of None \<Rightarrow> False | Some m \<Rightarrow> m * 2 < limite_total (ll_limite r))"

definition classifica_situacao :: "linha_limite list \<Rightarrow> linha_limite list" where
  "classifica_situacao rows =
     (let r1 = marca (\<lambda>r. maior_pd (utilizacao r) 90) Critico_90 rows;
          r2 = marca (\<lambda>r. maior_pd (utilizacao r) 70 \<and> menor_igual_pd (utilizacao r) 90) Alto_Risco_70_90 r1
      in if filter (\<lambda>r. renda_anual r \<noteq> None) r2 = [] then r2
         else marca limite_alto Limite_Muito_Alto (marca limite_baixo Limite_Muito_Baixo r2))"

definition analise_corrigida :: "cliente list \<Rightarrow> cartao list \<Rightarrow> transacao_completa list \<Rightarrow> linha_limite list" where
  "analise_corrigida cs cards ts = classifica_situacao (linhas_iniciais cs cards ts)"

section \<open>The summary\<close>

datatype faixa_utilizacao = U_0_10 | U_10_30 | U_30_50 | U_50_70 | U_70_90 | U_90_100 | U_acima_100

text \<open>\<^verbatim>\<open>pd.cut(..., bins=[0, 10, 30, 50, 70, 90, 100, inf])\<close>: intervals closed on the right,
  NaN for 0, a negative value or NaN.\<close>

definition faixa_de_utilizacao :: "flutuante \<Rightarrow> faixa_utilizacao option" where
  "faixa_de_utilizacao u =
     (if \<not> maior_pd u 0 then None
      else if menor_igual_pd u 10 then Some U_0_10
      else if menor_igual_pd u 30 then Some U_10_30
      else if menor_igual_pd u 50 then Some U_30_50
      else if menor_igual_pd u 70 then Some U_50_70
      else if menor_igual_pd u 90 then Some U_70_90
      else if menor_igual_pd u 100 then Some U_90_100
      else Some U_acima_100)"

record resumo_limites =
  registros :: nat
  problematicos :: nat
  perc_problematicos :: real
  faixas :: "faixa_utilizacao option list"
  acima_limite :: nat
  clientes_aumento :: nat
  volume_aumento :: real
  clientes_baixa :: nat
  limite_subutilizado :: real
  clientes_analisados :: nat
  volume_alto_risco :: real
  volume_total :: real

datatype erro_limites = Divisao_Por_Zero

text \<open>Lines 135 to 281. \<^verbatim>\<open>problematicos/len(analise_corrigida)\<close> divides two Python
  integers: an empty analysis raises \<^verbatim>\<open>ZeroDivisionError\<close> and ends the script.\<close>

definition resumo_analise :: "linha_limite list \<Rightarrow> erro_limites + resumo_limites" where
  "resumo_analise rows =
     (let prob = length (filter (\<lambda>r. situacao r \<noteq> Situacao_Normal) rows);
          alta = filter (\<lambda>r. maior_pd (utilizacao r) 70) rows;
          baixa = filter (\<lambda>r. menor_pd (utilizacao r) 10) rows
      in if rows = [] then Inl Divisao_Por_Zero
         else Inr \<lparr>registros = length rows, problematicos = prob,
                   perc_problematicos = real prob / real (length rows) * 100,
                   faixas = map (\<lambda>r. faixa_de_utilizacao (utilizacao r)) rows,
                   acima_limite = length (filter (\<lambda>r. maior_pd (utilizacao r) 100) rows),
                   clientes_aumento = nunique (map (\<lambda>r. gm_cliente (ll_gasto r)) alta),
                   volume_aumento = sum_list (map (\<lambda>r. gasto_mensal (ll_gasto r)) alta),
                   clientes_baixa = nunique (map (\<lambda>r. gm_cliente (ll_gasto r)) baixa),
                   limite_subutilizado = sum_list (map (\<lambda>r. limite_total (ll_limite r)) baixa),
                   clientes_analisados = nunique (map (\<lambda>r. gm_cliente (ll_gasto r)) rows),
                   volume_alto_risco = sum_list (map (\<lambda>r. gasto_mensal (ll_gasto r)) alta),
                   volume_total = sum_list (map (\<lambda>r. gasto_mensal (ll_gasto r)) rows)\<rparr>)"

section \<open>The order of the masks as a decision\<close>

text \<open>What the masks decide for one row, read as one decision: a limit above twice the
  monthly income first, then a limit below 30\% of it, then the utilisation above 90, then
  above 70; otherwise normal.\<close>

definition situacao_spec :: "flutuante \<Rightarrow> real option \<Rightarrow> real \<Rightarrow> situacao_limite" where
  "situacao_spec u rm lt =
     (if (case rm of Some m \<Rightarrow> m * 2 < lt | None \<Rightarrow> False) then Limite_Muito_Alto
      else if (case rm of Some m \<Rightarrow> lt < m * 0.3 | None \<Rightarrow> False) then Limite_Muito_Baixo
      else if maior_pd u 90 then Critico_90
      else if maior_pd u 70 then Alto_Risco_70_90
      else Situacao_Normal)"

section \<open>Sample tables\<close>

text \<open>The credit card of \<^const>\<open>cartoes_ex\<close> with a limit of a tenth of a cent.\<close>

definition cartoes_milesimo_ex :: "cartao list" where
  "cartoes_milesimo_ex = [\<lparr>car_id = 1, car_produto = Some ''Gold'', car_tipo = Some texto_credito,
                           car_emissao = None, car_limite = Some (1 / 1000)\<rparr>]"

section \<open>The masks\<close>

lemma marca_nenhuma: "\<forall>r\<in>set rows. \<not> msk r \<Longrightarrow> marca msk s rows = rows"
  by (simp add: marca_def marca_linha_def map_idI)

lemma situacao_atualiza_mesma: "situacao r = s \<Longrightarrow> r\<lparr>situacao := s\<rparr> = r"
  by (cases r) simp

lemma limites_atualiza [simp]:
  "limite_baixo (r\<lparr>situacao := s\<rparr>) = limite_baixo r"
  "limite_alto (r\<lparr>situacao := s\<rparr>) = limite_alto r"
  by (simp_all add: limite_baixo_def limite_alto_def split: option.split)

lemma marca_linha_atualiza:
  assumes "\<And>a. msk (r\<lparr>situacao := a\<rparr>) = msk r"
  shows "marca_linha msk s (r\<lparr>situacao := a\<rparr>) = r\<lparr>situacao := (if msk r then s else a)\<rparr>"
  using assms by (simp add: marca_linha_def)

lemma situacao_spec_passos:
  "(if limite_alto r then Limite_Muito_Alto else if limite_baixo r then Limite_Muito_Baixo
    else if maior_pd (utilizacao r) 70 \<and> menor_igual_pd (utilizacao r) 90 then Alto_Risco_70_90
    else if maior_pd (utilizacao r) 90 then Critico_90 else Situacao_Normal)
   = situacao_spec (utilizacao r) (renda_mensal r) (limite_total (ll_limite r))"
  unfolding situacao_spec_def limite_alto_def limite_baixo_def
  by (cases "utilizacao r"; cases "renda_mensal r") auto

lemma situacao_pontual:
  assumes "situacao r = Situacao_Normal"
  shows "marca_linha limite_alto Limite_Muito_Alto (marca_linha limite_baixo Limite_Muito_Baixo
           (marca_linha (\<lambda>r. maior_pd (utilizacao r) 70 \<and> menor_igual_pd (utilizacao r) 90) Alto_Risco_70_90
             (marca_linha (\<lambda>r. maior_pd (utilizacao r) 90) Critico_90 r)))
         = r\<lparr>situacao := situacao_spec (utilizacao r) (renda_mensal r) (limite_total (ll_limite r))\<rparr>"
proof -
  have "marca_linha (\<lambda>r. maior_pd (utilizacao r) 90) Critico_90 r
        = r\<lparr>situacao := (if maior_pd (utilizacao r) 90 then Critico_90 else Situacao_Normal)\<rparr>"
    using assms by (simp add: marca_linha_def situacao_atualiza_mesma)
  moreover have "\<And>a. utilizacao (r\<lparr>situacao := a\<rparr>) = utilizacao r"
    and "\<And>a b. r\<lparr>situacao := a, situacao := b\<rparr> = r\<lparr>situacao := b\<rparr>"
    by simp_all
  ultimately show ?thesis
    by (simp only: marca_linha_atualiza limites_atualiza situacao_spec_passos [symmetric])
qed

lemma marca_linha_campos [simp]:
  "renda_anual (marca_linha msk s r) = renda_anual r"
  "renda_mensal (marca_linha msk s r) = renda_mensal r"
  "limite_baixo (marca_linha msk s r) = limite_baixo r"
  "limite_alto (marca_linha msk s r) = limite_alto r"
  by (simp_all add: marca_linha_def)

lemma classifica_situacao_spec:
  assumes "\<forall>r\<in>set rows. situacao r = Situacao_Normal \<and> (renda_mensal r = None \<longleftrightarrow> renda_anual r = None)"
  shows "classifica_situacao rows =
           map (\<lambda>r. r\<lparr>situacao := situacao_spec (utilizacao r) (renda_mensal r) (limite_total (ll_limite r))\<rparr>) rows"
proof -
  let ?r2 = "marca (\<lambda>r. maior_pd (utilizacao r) 70 \<and> menor_igual_pd (utilizacao r) 90) Alto_Risco_70_90
               (marca (\<lambda>r. maior_pd (utilizacao r) 90) Critico_90 rows)"
  have todos: "marca limite_alto Limite_Muito_Alto (marca limite_baixo Limite_Muito_Baixo ?r2)
      = map (\<lambda>r. r\<lparr>situacao := situacao_spec (utilizacao r) (renda_mensal r) (limite_total (ll_limite r))\<rparr>) rows"
    unfolding marca_def map_map using assms situacao_pontual by (simp add: o_def)
  have "marca limite_alto Limite_Muito_Alto (marca limite_baixo Limite_Muito_Baixo ?r2) = ?r2"
    if vazio: "filter (\<lambda>r. renda_anual r \<noteq> None) ?r2 = []"
  proof -
    have "\<forall>r\<in>set ?r2. renda_mensal r = None"
      using vazio assms by (auto simp: marca_def filter_empty_conv)
    then have nenhum: "\<forall>r\<in>set ?r2. \<not> limite_baixo r \<and> \<not> limite_alto r"
      by (simp add: limite_baixo_def limite_alto_def)
    then have b: "marca limite_baixo Limite_Muito_Baixo ?r2 = ?r2"
      by (intro marca_nenhuma) blast
    from nenhum have a: "marca limite_alto Limite_Muito_Alto ?r2 = ?r2"
      by (intro marca_nenhuma) blast
    show ?thesis
      by (simp only: b a)
  qed
  then show ?thesis
    using todos by (auto simp: classifica_situacao_def Let_def)
qed

lemma linhas_iniciais_normais:
  "\<forall>r\<in>set (linhas_iniciais cs cards ts).
     situacao r = Situacao_Normal \<and> (renda_mensal r = None \<longleftrightarrow> renda_anual r = None)"
  by (auto simp: linhas_iniciais_def split_def Let_def)

lemma analise_corrigida_eq:
  "analise_corrigida cs cards ts =
     map (\<lambda>r. r\<lparr>situacao := situacao_spec (utilizacao r) (renda_mensal r) (limite_total (ll_limite r))\<rparr>)
       (linhas_iniciais cs cards ts)"
  by (simp add: analise_corrigida_def classifica_situacao_spec [OF linhas_iniciais_normais])

lemma arredonda_par_ge_floor: "of_int \<lfloor>y\<rfloor> \<le> arredonda_par y"
  by (simp add: arredonda_par_def Let_def)

lemma pd_round2_centavo: "1 / 100 \<le> x \<Longrightarrow> 1 / 100 \<le> pd_round2 x"
proof -
  assume "1 / 100 \<le> x"
  then have "1 \<le> \<lfloor>x * 100\<rfloor>" by (simp add: le_floor_iff)
  then have "1 \<le> arredonda_par (x * 100)"
    using arredonda_par_ge_floor [of "x * 100"] by linarith
  then show ?thesis by (simp add: pd_round2_def)
qed

lemma set_credito_validos:
  "(k, l) \<in> set (credito_validos cards) \<longleftrightarrow>
     k \<in> set cards \<and> car_tipo k = Some texto_credito \<and> car_limite k = Some l \<and> 0 < l"
  by (induction cards) (auto simp: credito_validos_def cartoes_credito_def map_filter_simps split: option.splits)

lemma vinculo_credito_limite:
  "v \<in> set (cliente_cartao_credito cards ts) \<Longrightarrow>
     \<exists>k\<in>set cards. car_limite k = Some (vc_limite v) \<and> 0 < vc_limite v"
  by (auto simp: cliente_cartao_credito_def set_inner_join set_credito_validos)

lemma limite_por_cliente_total:
  assumes "l \<in> set (limite_por_cliente vs)"
  shows "\<exists>g. g \<noteq> [] \<and> set g \<subseteq> set vs \<and> limite_total l = pd_round2 (sum_list (map vc_limite g))"
proof -
  obtain v where v: "v \<in> set vs"
    and l: "limite_total l = pd_round2 (sum_list (map vc_limite (filter (\<lambda>r. vc_cliente r = vc_cliente v) vs)))"
    using assms by (auto simp: limite_por_cliente_def group_by_def)
  have "filter (\<lambda>r. vc_cliente r = vc_cliente v) vs \<noteq> []"
    using v by (auto simp: filter_empty_conv)
  then show ?thesis
    using l by (intro exI [of _ "filter (\<lambda>r. vc_cliente r = vc_cliente v) vs"]) auto
qed

lemma linhas_iniciais_utilizacao:
  "r \<in> set (linhas_iniciais cs cards ts) \<Longrightarrow>
     \<exists>l\<in>set (limite_por_cliente (cliente_cartao_credito cards ts)).
        utilizacao r = vezes_100 (divide_pd (gasto_mensal (ll_gasto r)) (limite_total l)) \<and> ll_limite r = l"
proof -
  let ?j = "inner_join (\<lambda>g l. lc_cliente l = gm_cliente g) (gastos_mensais ts)
             (limite_por_cliente (cliente_cartao_credito cards ts))"
  assume "r \<in> set (linhas_iniciais cs cards ts)"
  then obtain x where x: "x \<in> set (left_join_por (\<lambda>(g, l) c. cli_id c = gm_cliente g) ?j cs)"
    and r: "r = (\<lambda>((g, l), c). let rd = Option.bind c cli_renda in
            \<lparr>ll_gasto = g, ll_limite = l, renda_anual = rd,
             utilizacao = vezes_100 (divide_pd (gasto_mensal g) (limite_total l)),
             renda_mensal = map_option (\<lambda>x. x / 12) rd, situacao = Situacao_Normal\<rparr>) x"
    unfolding linhas_iniciais_def set_map by blast
  obtain g l c where gl: "x = ((g, l), c)"
    by (cases x) auto
  have "fst x \<in> fst ` set (left_join_por (\<lambda>(g, l) c. cli_id c = gm_cliente g) ?j cs)"
    using x by (rule imageI)
  then have "fst x \<in> set ?j"
    by (simp only: fst_left_join_por)
  then have "l \<in> set (limite_por_cliente (cliente_cartao_credito cards ts))"
    by (simp add: gl set_inner_join)
  then show ?thesis
    by (intro bexI [of _ l]) (simp_all add: r gl Let_def)
qed

lemma gm_cliente_gastos: "gm_cliente ` set (gastos_mensais ts) = tx_cliente ` set ts"
proof -
  have "gm_cliente ` set (gastos_mensais ts) = fst ` fst ` set (group_by (\<lambda>t. (tx_cliente t, ano_mes t)) ts)"
    by (force simp: gastos_mensais_def Let_def split: prod.splits)
  also have "\<dots> = tx_cliente ` set ts"
    by (simp only: fst_set_group_by image_image) simp
  finally show ?thesis .
qed

lemma lc_cliente_limites: "lc_cliente ` set (limite_por_cliente vs) = vc_cliente ` set vs"
proof -
  have "lc_cliente ` set (limite_por_cliente vs) = fst ` set (group_by vc_cliente vs)"
    by (force simp: limite_por_cliente_def split: prod.splits)
  then show ?thesis
    by (simp only: fst_set_group_by)
qed

lemma vc_cliente_vinculos: "vc_cliente ` set (cliente_cartao_credito cards ts) \<subseteq> tx_cliente ` set ts"
  by (auto simp: cliente_cartao_credito_def set_inner_join cliente_cartao_def)

lemma limite_por_cliente_vazio: "limite_por_cliente vs = [] \<longleftrightarrow> vs = []"
  by (simp add: limite_por_cliente_def group_by_def flip: set_empty)

lemma juncao_limites_vazia:
  "inner_join (\<lambda>g l. lc_cliente l = gm_cliente g) (gastos_mensais ts) (limite_por_cliente (cliente_cartao_credito cards ts)) = []
   \<longleftrightarrow> cliente_cartao_credito cards ts = []"
proof
  let ?vs = "cliente_cartao_credito cards ts"
  assume vazio: "inner_join (\<lambda>g l. lc_cliente l = gm_cliente g) (gastos_mensais ts) (limite_por_cliente ?vs) = []"
  show "?vs = []"
  proof (rule ccontr)
    assume "?vs \<noteq> []"
    then obtain l where l: "l \<in> set (limite_por_cliente ?vs)"
      by (metis limite_por_cliente_vazio list.set_intros(1) neq_Nil_conv)
    then have "lc_cliente l \<in> vc_cliente ` set ?vs"
      using lc_cliente_limites by blast
    then have "lc_cliente l \<in> gm_cliente ` set (gastos_mensais ts)"
      using vc_cliente_vinculos gm_cliente_gastos by blast
    then obtain g where "g \<in> set (gastos_mensais ts)" "gm_cliente g = lc_cliente l"
      by (metis imageE)
    then have "(g, l) \<in> set (inner_join (\<lambda>g l. lc_cliente l = gm_cliente g) (gastos_mensais ts) (limite_por_cliente ?vs))"
      using l by (simp add: set_inner_join)
    then show False
      using vazio by simp
  qed
next
  assume "cliente_cartao_credito cards ts = []"
  then show "inner_join (\<lambda>g l. lc_cliente l = gm_cliente g) (gastos_mensais ts) (limite_por_cliente (cliente_cartao_credito cards ts)) = []"
    by (simp add: limite_por_cliente_def group_by_def inner_join_def)
qed

lemma left_join_por_vazio: "left_join_por p xs ys = [] \<longleftrightarrow> xs = []"
  using fst_left_join_por [of p xs ys] by (metis image_is_empty set_empty)

lemma analise_corrigida_vazia:
  "analise_corrigida cs cards ts = [] \<longleftrightarrow> cliente_cartao_credito cards ts = []"
  by (simp add: analise_corrigida_eq linhas_iniciais_def left_join_por_vazio juncao_limites_vazia)

lemma cliente_cartao_credito_vazio:
  "cliente_cartao_credito cards ts = [] \<longleftrightarrow>
     \<not> (\<exists>t\<in>set ts. \<exists>k\<in>set cards. tx_cartao t = car_id k \<and> car_tipo k = Some texto_credito
            \<and> (\<exists>l. car_limite k = Some l \<and> 0 < l))"
proof -
  let ?p = "\<lambda>(c, k) (kk, l). car_id kk = k"
  have "inner_join ?p (cliente_cartao ts) (credito_validos cards) \<noteq> [] \<longleftrightarrow>
        (\<exists>t\<in>set ts. \<exists>k\<in>set cards. tx_cartao t = car_id k \<and> car_tipo k = Some texto_credito
            \<and> (\<exists>l. car_limite k = Some l \<and> 0 < l))" (is "?a \<longleftrightarrow> ?b")
  proof
    assume ?a
    then obtain c k kk l where "((c, k), (kk, l)) \<in> set (inner_join ?p (cliente_cartao ts) (credito_validos cards))"
      by (metis list.set_intros(1) neq_Nil_conv prod.collapse)
    then have cc: "(c, k) \<in> set (cliente_cartao ts)" and kv: "(kk, l) \<in> set (credito_validos cards)"
      and id: "car_id kk = k"
      by (simp_all add: set_inner_join)
    from cc obtain t where t: "t \<in> set ts" "k = tx_cartao t"
      by (auto simp: cliente_cartao_def)
    from kv have "kk \<in> set cards" "car_tipo kk = Some texto_credito" "car_limite kk = Some l" "0 < l"
      by (simp_all add: set_credito_validos)
    then show ?b
      using t id by (intro bexI [of _ t] bexI [of _ kk]) auto
  next
    assume ?b
    then obtain t k l where "t \<in> set ts" "k \<in> set cards" "tx_cartao t = car_id k"
      "car_tipo k = Some texto_credito" "car_limite k = Some l" "0 < l"
      by blast
    moreover have "(tx_cliente t, tx_cartao t) \<in> set (cliente_cartao ts)"
      using \<open>t \<in> set ts\<close> by (simp add: cliente_cartao_def)
    ultimately have "((tx_cliente t, tx_cartao t), (k, l)) \<in> set (inner_join ?p (cliente_cartao ts) (credito_validos cards))"
      by (simp add: set_inner_join set_credito_validos)
    then show ?a by auto
  qed
  then show ?thesis
    unfolding cliente_cartao_credito_def map_is_Nil_conv by blast
qed

section \<open>Properties of the script\<close>

text \<open>C6: after the four \<^verbatim>\<open>df.loc[mask, 'Situacao'] = ...\<close> assignments of the limits
  script, the situation of every customer-month is the decision \<^const>\<open>situacao_spec\<close> of its own
  utilisation, monthly income and total limit: a later mask overrides an earlier one, so a
  limit out of proportion to the income hides a utilisation above 90\%.\<close>

theorem situacao_por_prioridade:
  "map situacao (analise_corrigida cs cards ts)
     = map (\<lambda>r. situacao_spec (utilizacao r) (renda_mensal r) (limite_total (ll_limite r))) (analise_corrigida cs cards ts)"
  by (simp add: analise_corrigida_eq)

text \<open>C23: the summary of the limits script divides by the number of customer-months and
  raises \<^verbatim>\<open>ZeroDivisionError\<close> exactly when no transaction is on a credit card with a
  positive limit.\<close>

theorem resumo_divisao_por_zero_iff:
  "resumo_analise (analise_corrigida cs cards ts) = Inl Divisao_Por_Zero \<longleftrightarrow>
     \<not> (\<exists>t\<in>set ts. \<exists>k\<in>set cards. tx_cartao t = car_id k \<and> car_tipo k = Some texto_credito
            \<and> (\<exists>l. car_limite k = Some l \<and> 0 < l))"
  by (simp add: resumo_analise_def Let_def analise_corrigida_vazia cliente_cartao_credito_vazio)

theorem resumo_divisao_por_zero_iff_witness:
  "resumo_analise (analise_corrigida [] cartoes_ex []) = Inl Divisao_Por_Zero"
  using resumo_divisao_por_zero_iff [of "[]" cartoes_ex "[]"] by simp

text \<open>The comment ``sem valores infinitos'': when every positive limit is at least a cent the
  utilisation of every row is a finite number; a limit of a tenth of a cent is rounded to a
  total of 0 and gives an infinite utilisation, classified as critical.\<close>

lemma utilizacao_finita:
  assumes lim: "\<forall>k\<in>set cards. \<forall>l. car_limite k = Some l \<longrightarrow> 0 < l \<longrightarrow> 1 / 100 \<le> l"
    and r: "r \<in> set (analise_corrigida cs cards ts)"
  shows "\<exists>v. utilizacao r = Finito v"
proof -
  obtain r0 where r0: "r0 \<in> set (linhas_iniciais cs cards ts)" and u: "utilizacao r = utilizacao r0"
    using r by (auto simp: analise_corrigida_eq)
  obtain l where l: "l \<in> set (limite_por_cliente (cliente_cartao_credito cards ts))"
    and u0: "utilizacao r0 = vezes_100 (divide_pd (gasto_mensal (ll_gasto r0)) (limite_total l))"
    using linhas_iniciais_utilizacao [OF r0] by blast
  obtain g where g: "g \<noteq> []" "set g \<subseteq> set (cliente_cartao_credito cards ts)"
    and lt: "limite_total l = pd_round2 (sum_list (map vc_limite g))"
    using limite_por_cliente_total [OF l] by blast
  have pos: "\<forall>w\<in>set g. 0 < vc_limite w \<and> 1 / 100 \<le> vc_limite w"
    using g(2) lim vinculo_credito_limite by blast
  obtain w where w: "w \<in> set g"
    using g(1) by (metis list.set_intros(1) neq_Nil_conv)
  have "1 / 100 \<le> vc_limite w"
    using pos w by blast
  also have "vc_limite w \<le> sum_list (map vc_limite g)"
    using w pos by (intro member_le_sum_list) auto
  finally have "1 / 100 \<le> limite_total l"
    unfolding lt by (rule pd_round2_centavo)
  then show ?thesis
    by (simp add: u u0 divide_pd_def)
qed

theorem utilizacao_finita_witness:
  "\<exists>v. utilizacao (hd (analise_corrigida [] cartoes_ex transacoes_ex)) = Finito v"
proof -
  have lim: "\<forall>k\<in>set cartoes_ex. \<forall>l. car_limite k = Some l \<longrightarrow> 0 < l \<longrightarrow> 1 / 100 \<le> l"
    by (simp add: cartoes_ex_def)
  have "analise_corrigida [] cartoes_ex transacoes_ex \<noteq> []"
    by (simp add: analise_corrigida_vazia cliente_cartao_credito_vazio cartoes_ex_def transacoes_ex_def)
  then show ?thesis
    using utilizacao_finita [OF lim hd_in_set] by blast
qed

lemma limite_milesimo_infinito:
  "utilizacao (hd (analise_corrigida [] cartoes_milesimo_ex transacoes_ex)) = Mais_Infinito
   \<and> situacao (hd (analise_corrigida [] cartoes_milesimo_ex transacoes_ex)) = Critico_90"
  by (simp add: analise_corrigida_eq linhas_iniciais_def gastos_mensais_def limite_por_cliente_def
      cliente_cartao_credito_def credito_validos_def cartoes_credito_def cliente_cartao_def inner_join_def
      left_join_por_def group_by_def ano_mes_def pd_round2_def arredonda_par_def divide_pd_def
      situacao_spec_def cartoes_milesimo_ex_def transacoes_ex_def)

end
