(* ===== verification/Persona_Clientes.thy ===== *)
theory Persona_Clientes
  imports Limites_Cartao
begin

text \<open>
  The persona script \<^verbatim>\<open>src/analise_persona_clientes.py\<close>: the query of
  \<^verbatim>\<open>obter_dados_personas\<close> (customers with transactions, left-joined to their transactions
  and cards, grouped by customer and card attributes), the bands of
  \<^verbatim>\<open>criar_faixas_categoricas\<close> (\<^verbatim>\<open>pd.cut\<close>, intervals closed on the right) and the figures
  of \<^verbatim>\<open>gerar_relatorio_personas\<close>. The lemmas show that the filter
  \<^verbatim>\<open>total_transacoes > 0\<close> never removes a row, that the rows are one per customer and
  card-attribute combination rather than one per customer, and bound the ``top 20\%''.
\<close>

section \<open>The query\<close>

text \<open>\<^verbatim>\<open>MIN\<close> of a column, NULL on no value.\<close>

fun sql_min :: "'a::linorder list \<Rightarrow> 'a option" where
  "sql_min [] = None"
| "sql_min (x # xs) = Some (fold min xs x)"

text \<open>\<^verbatim>\<open>clientes_ativos\<close>: \<^verbatim>\<open>SELECT DISTINCT Cliente_ID FROM transacoes\<close>.\<close>

definition clientes_ativos_persona :: "'a transacao_scheme list \<Rightarrow> cliente_id list" where
  "clientes_ativos_persona ts = remdups (map tx_cliente ts)"

type_synonym linha_juncao_persona = "(cliente \<times> transacao_completa option) \<times> cartao option"

text \<open>\<^verbatim>\<open>FROM clientes c INNER JOIN clientes_ativos ca ON c.Cliente_ID = ca.Cliente_ID
  LEFT JOIN transacoes t ON c.Cliente_ID = t.Cliente_ID LEFT JOIN cartoes cart ON
  t.ID_Cartao = cart.ID_Cartao\<close>; with \<^verbatim>\<open>t\<close> NULL the last condition is NULL.\<close>

definition juncao_persona ::
  "cliente list \<Rightarrow> cartao list \<Rightarrow> transacao_completa list \<Rightarrow> linha_juncao_persona list" where
  "juncao_persona cs cards ts =
     left_join_por (\<lambda>(c, t) k. case t of None \<Rightarrow> False | Some t \<Rightarrow> tx_cartao t = car_id k)
       (left_join_por (\<lambda>c t. cli_id c = tx_cliente t)
          (map fst (inner_join (\<lambda>c a. cli_id c = a) cs (clientes_ativos_persona ts))) ts)
       cards"

type_synonym chave_persona =
  "cliente_id \<times> int \<times> real option \<times> texto option \<times> real option \<times> texto option"

text \<open>\<^verbatim>\<open>GROUP BY c.Cliente_ID, c.Idade, c.Renda_Anual, cart.Tipo_Cartao, cart.Limite_Cartao,
  cart.Produto_Mastercard\<close>.\<close>

definition chave_persona :: "linha_juncao_persona \<Rightarrow> chave_persona" where
  "chave_persona r = (case r of ((c, t), k) \<Rightarrow>
     (cli_id c, cli_idade c, cli_renda c, Option.bind k car_tipo, Option.bind k car_limite, Option.bind k car_produto))"

record linha_persona =
  pe_cliente :: cliente_id
  pe_idade :: int
  pe_renda :: "real option"
  pe_tipo :: "texto option"
  pe_limite :: "real option"
  pe_produto :: "texto option"
  total_transacoes_pe :: nat
  ticket_medio_pe :: "real option"
  valor_total_gasto :: "real option"
  pe_primeira :: "texto option"
  pe_ultima :: "texto option"

text \<open>The aggregates of a group: \<^verbatim>\<open>COUNT(DISTINCT t.ID_Transacao)\<close>,
  \<^verbatim>\<open>ROUND(AVG(t.Valor_Compra), 2)\<close>, \<^verbatim>\<open>ROUND(SUM(t.Valor_Compra), 2)\<close>,
  \<^verbatim>\<open>MIN(t.Data)\<close>, \<^verbatim>\<open>MAX(t.Data)\<close>, over the non-NULL values.\<close>

definition linha_persona_de :: "chave_persona \<times> linha_juncao_persona list \<Rightarrow> linha_persona" where
  "linha_persona_de p = (case p of ((i, a, r, tp, l, pr), g) \<Rightarrow>
     (let txs = List.map_filter (\<lambda>x. snd (fst x)) g
      in \<lparr>pe_cliente = i, pe_idade = a, pe_renda = r, pe_tipo = tp, pe_limite = l, pe_produto = pr,
          total_transacoes_pe = length (remdups (map tx_id txs)),
          ticket_medio_pe = map_option sql_round2 (sql_avg (map tx_valor txs)),
          valor_total_gasto = map_option sql_round2 (sql_sum (map tx_valor txs)),
          pe_primeira = sql_min (map (\<lambda>t. texto_carimbo (tx_data t)) txs),
          pe_ultima = sql_max (map (\<lambda>t. texto_carimbo (tx_data t)) txs)\<rparr>))"

text \<open>\<^verbatim>\<open>SELECT DISTINCT ... GROUP BY ...\<close>, then \<^verbatim>\<open>WHERE total_transacoes > 0 ORDER BY
  valor_total_gasto DESC\<close> (NULL last, ties in group order).\<close>

definition obter_dados_personas :: "cliente list \<Rightarrow> cartao list \<Rightarrow> transacao_completa list \<Rightarrow> linha_persona list" where
  "obter_dados_personas cs cards ts =
     sort_key (\<lambda>l. chave_desc (valor_total_gasto l))
       (filter (\<lambda>l. 0 < total_transacoes_pe l)
          (remdups (map linha_persona_de (group_by chave_persona (juncao_persona cs cards ts)))))"

section \<open>The bands\<close>

text \<open>\<^verbatim>\<open>pd.cut(x, bins=[b0, b1, ..., bn], labels=...)\<close>: the label of the interval
  \<open>(b\<^sub>i, b\<^sub>i\<^sub>+\<^sub>1]\<close> holding \<open>x\<close>, NaN outside \<open>(b0, bn]\<close> or for NaN.\<close>

fun corta :: "real list \<Rightarrow> 'l list \<Rightarrow> real \<Rightarrow> 'l option" where
  "corta (b0 # b1 # bs) (l # ls) x = (if b0 < x \<and> x \<le> b1 then Some l else corta (b1 # bs) ls x)"
| "corta bs ls x = None"

datatype faixa_etaria_pe = Pe_18_25 | Pe_26_35 | Pe_36_45 | Pe_46_55 | Pe_55_mais
datatype faixa_renda_pe = Pe_ate_50k | Pe_50k_80k | Pe_80k_120k | Pe_acima_120k
datatype faixa_limite_pe = Pe_ate_1k | Pe_1k_5k | Pe_5k_10k | Pe_acima_10k
datatype perfil_gasto = Gasto_baixo | Gasto_medio | Gasto_alto | Gasto_premium

text \<open>\<open>\<infinity>\<close> as the last bin edge: a finite value is always below it.\<close>

definition corta_inf :: "real list \<Rightarrow> 'l list \<Rightarrow> real \<Rightarrow> 'l option" where
  "corta_inf bs ls x = (if last bs < x then Some (last ls) else corta bs (butlast ls) x)"

record linha_persona_faixas = linha_persona +
  faixa_etaria_p :: "faixa_etaria_pe option"
  faixa_renda_p :: "faixa_renda_pe option"
  faixa_limite_p :: "faixa_limite_pe option"
  perfil_gasto_p :: "perfil_gasto option"

definition criar_faixas_categoricas :: "linha_persona \<Rightarrow> linha_persona_faixas" where
  "criar_faixas_categoricas l =
     linha_persona.extend l
       (linha_persona_faixas.fields
          (corta [0, 25, 35, 45, 55, 100] [Pe_18_25, Pe_26_35, Pe_36_45, Pe_46_55, Pe_55_mais] (real_of_int (pe_idade l)))
          (Option.bind (pe_renda l)
             (corta_inf [0, 50000, 80000, 120000] [Pe_ate_50k, Pe_50k_80k, Pe_80k_120k, Pe_acima_120k]))
          (Option.bind (pe_limite l)
             (corta_inf [0, 1000, 5000, 10000] [Pe_ate_1k, Pe_1k_5k, Pe_5k_10k, Pe_acima_10k]))
          (Option.bind (valor_total_gasto l)
             (corta_inf [0, 10000, 50000, 100000] [Gasto_baixo, Gasto_medio, Gasto_alto, Gasto_premium])))"

section \<open>The report\<close>

text \<open>\<^verbatim>\<open>Series.mode().iloc[0]\<close>: NaN dropped, the smallest of the most frequent values (in
  the order of the categories for a categorical column), none on no value.\<close>

definition moda :: "('a \<Rightarrow> 'k::linorder) \<Rightarrow> 'a option list \<Rightarrow> 'a option" where
  "moda ordem xs =
     (let vs = List.map_filter id xs
      in if vs = [] then None
         else let m = Max (set (map (count_list vs) vs))
              in Some (hd (sort_key ordem (filter (\<lambda>v. count_list vs v = m) vs))))"

text \<open>\<^verbatim>\<open>Series.quantile(q)\<close>: linear interpolation between the sorted non-NaN values at
  position \<open>q (n - 1)\<close>; NaN on no value.\<close>

definition quantil :: "real \<Rightarrow> real option list \<Rightarrow> real option" where
  "quantil q xs =
     (let vs = sort (List.map_filter id xs); n = length vs
      in if n = 0 then None
         else let h = q * real (n - 1); i = nat \<lfloor>h\<rfloor>
              in Some (if i + 1 < n then vs ! i + (h - real i) * (vs ! (i + 1) - vs ! i) else vs ! i))"

definition ordem_faixa_etaria :: "faixa_etaria_pe \<Rightarrow> nat" where
  "ordem_faixa_etaria f = (case f of Pe_18_25 \<Rightarrow> 0 | Pe_26_35 \<Rightarrow> 1 | Pe_36_45 \<Rightarrow> 2 | Pe_46_55 \<Rightarrow> 3 | Pe_55_mais \<Rightarrow> 4)"

record persona_faixa =
  pf_faixa :: faixa_etaria_pe
  pf_clientes :: nat
  pf_percentual :: real
  pf_renda :: "real option"
  pf_limite :: "real option"
  pf_ticket :: "real option"
  pf_produto :: "texto option"
  pf_tipo :: "texto option"

text \<open>One age band with rows: \<^verbatim>\<open>len(subset)\<close>, its share of \<^verbatim>\<open>len(df)\<close>, the means (NaN
  skipped) and the preferred product and card type.\<close>

definition persona_de_faixa :: "linha_persona_faixas list \<Rightarrow> faixa_etaria_pe \<Rightarrow> persona_faixa option" where
  "persona_de_faixa df f =
     (let sub = filter (\<lambda>l. faixa_etaria_p l = Some f) df
      in if sub = [] then None
         else Some \<lparr>pf_faixa = f, pf_clientes = length sub,
                    pf_percentual = real (length sub) / real (length df) * 100,
                    pf_renda = sql_avg (map pe_renda sub), pf_limite = sql_avg (map pe_limite sub),
                    pf_ticket = sql_avg (map ticket_medio_pe sub),
                    pf_produto = moda id (map pe_produto sub), pf_tipo = moda id (map pe_tipo sub)\<rparr>)"

record relatorio_personas =
  rp_total :: nat
  rp_idade_media :: "real option"
  rp_renda_media :: "real option"
  rp_limite_medio :: "real option"
  rp_ticket_medio :: "real option"
  rp_personas :: "persona_faixa list"
  rp_alto_valor :: nat
  rp_alto_valor_idade :: "real option"
  rp_alto_valor_renda :: "real option"
  rp_alto_valor_gasto :: "real option"
  rp_alto_valor_faixa :: "faixa_etaria_pe option"

text \<open>\<^verbatim>\<open>gerar_relatorio_personas\<close>, without the correlations and the product ranking:
  \<^verbatim>\<open>high_value = df[df['valor_total_gasto'] > df['valor_total_gasto'].quantile(0.8)]\<close>.\<close>

definition gerar_relatorio_personas :: "linha_persona_faixas list \<Rightarrow> relatorio_personas" where
  "gerar_relatorio_personas df =
     (let q = quantil 0.8 (map valor_total_gasto df);
          alto = filter (\<lambda>l. sql_less q (valor_total_gasto l) = Some True) df
      in \<lparr>rp_total = length df,
          rp_idade_media = sql_avg (map (\<lambda>l. Some (real_of_int (pe_idade l))) df),
          rp_renda_media = sql_avg (map pe_renda df), rp_limite_medio = sql_avg (map pe_limite df),
          rp_ticket_medio = sql_avg (map ticket_medio_pe df),
          rp_personas = List.map_filter (persona_de_faixa df) [Pe_18_25, Pe_26_35, Pe_36_45, Pe_46_55, Pe_55_mais],
          rp_alto_valor = length alto,
          rp_alto_valor_idade = sql_avg (map (\<lambda>l. Some (real_of_int (pe_idade l))) alto),
          rp_alto_valor_renda = sql_avg (map pe_renda alto),
          rp_alto_valor_gasto = sql_avg (map valor_total_gasto alto),
          rp_alto_valor_faixa = moda ordem_faixa_etaria (map faixa_etaria_p alto)\<rparr>)"

text \<open>\<^verbatim>\<open>main\<close>: the query, the bands and the report; the charts are not modelled.\<close>

definition main_personas :: "cliente list \<Rightarrow> cartao list \<Rightarrow> transacao_completa list \<Rightarrow> relatorio_personas" where
  "main_personas cs cards ts =
     gerar_relatorio_personas (map criar_faixas_categoricas (obter_dados_personas cs cards ts))"

section \<open>Sample tables\<close>

text \<open>One customer who uses a credit card and a debit card.\<close>

definition clientes_persona_ex :: "cliente list" where
  "clientes_persona_ex = [\<lparr>cli_id = 1, cli_idade = 30, cli_renda = Some 60000, cli_criacao_conta = None,
                           cli_estado = ''SP'', cli_conta_adicional = None\<rparr>]"

definition cartoes_persona_ex :: "cartao list" where
  "cartoes_persona_ex =
     [\<lparr>car_id = 1, car_produto = Some ''Gold'', car_tipo = Some texto_credito, car_emissao = None, car_limite = Some 5000\<rparr>,
      \<lparr>car_id = 2, car_produto = Some ''Gold'', car_tipo = Some texto_debito, car_emissao = None, car_limite = None\<rparr>]"

definition transacoes_persona_ex :: "transacao_completa list" where
  "transacoes_persona_ex =
     [\<lparr>tx_cliente = 1, tx_cartao = 1, tx_data = ((2024, 5, 1), (10, 0, 0)),
       tx_id = 1, tx_valor = Some 100, tx_wallet = None, tx_input_mode = None\<rparr>,
      \<lparr>tx_cliente = 1, tx_cartao = 2, tx_data = ((2024, 6, 1), (10, 0, 0)),
       tx_id = 2, tx_valor = Some 50, tx_wallet = None, tx_input_mode = None\<rparr>]"

section \<open>Properties\<close>

lemma set_left_join_por_um:
  "set (case filter (p x) ys of [] \<Rightarrow> [(x, None)] | ms \<Rightarrow> map (\<lambda>m. (x, Some m)) ms) =
     (if filter (p x) ys = [] then {(x, None)} else (\<lambda>m. (x, Some m)) ` {y \<in> set ys. p x y})"
  by (cases "filter (p x) ys") (auto simp flip: set_filter)

lemma set_left_join_por:
  "set (left_join_por p xs ys) =
     {(x, None) | x. x \<in> set xs \<and> filter (p x) ys = []} \<union> {(x, Some y) | x y. x \<in> set xs \<and> y \<in> set ys \<and> p x y}"
  unfolding left_join_por_def set_concat set_map image_image set_left_join_por_um
  by (auto simp: filter_empty_conv split: if_splits)

lemma base_persona:
  "set (map fst (inner_join (\<lambda>c a. cli_id c = a) cs (clientes_ativos_persona ts))) =
     {c \<in> set cs. \<exists>t\<in>set ts. tx_cliente t = cli_id c}"
  by (force simp: set_inner_join clientes_ativos_persona_def)

lemma juncao_persona_transacao:
  assumes "((c, t), k) \<in> set (juncao_persona cs cards ts)"
  shows "c \<in> set cs \<and> (\<exists>t'. t = Some t' \<and> t' \<in> set ts \<and> tx_cliente t' = cli_id c)"
proof -
  have j1: "(c, t) \<in> set (left_join_por (\<lambda>c t. cli_id c = tx_cliente t)
                (map fst (inner_join (\<lambda>c a. cli_id c = a) cs (clientes_ativos_persona ts))) ts)"
    using assms by (auto simp: juncao_persona_def set_left_join_por)
  then have c: "c \<in> set (map fst (inner_join (\<lambda>c a. cli_id c = a) cs (clientes_ativos_persona ts)))"
    and tc: "(t = None \<and> filter (\<lambda>t. cli_id c = tx_cliente t) ts = []) \<or>
             (\<exists>y. t = Some y \<and> y \<in> set ts \<and> cli_id c = tx_cliente y)"
    unfolding set_left_join_por by blast+
  from c have "c \<in> set cs" "\<exists>t\<in>set ts. tx_cliente t = cli_id c"
    unfolding base_persona by blast+
  with tc show ?thesis
    by (auto simp: filter_empty_conv)
qed

lemma total_transacoes_linha_persona:
  "total_transacoes_pe (linha_persona_de (k, g)) = length (remdups (map tx_id (List.map_filter (\<lambda>x. snd (fst x)) g)))"
  by (cases k) (simp add: linha_persona_de_def Let_def)

lemma grupo_persona_com_transacao:
  assumes "(k, g) \<in> set (group_by chave_persona (juncao_persona cs cards ts))"
  shows "0 < total_transacoes_pe (linha_persona_de (k, g))"
proof -
  obtain x where x: "x \<in> set g"
    using group_by_nonempty [OF assms] by (metis list.set_intros(1) neq_Nil_conv)
  have "x \<in> set (juncao_persona cs cards ts)"
    using assms x by (auto simp: group_by_def)
  then have "((fst (fst x), snd (fst x)), snd x) \<in> set (juncao_persona cs cards ts)"
    by simp
  then obtain t where "snd (fst x) = Some t"
    using juncao_persona_transacao by blast
  then have "List.map_filter (\<lambda>x. snd (fst x)) g \<noteq> []"
    using x by (auto simp: map_filter_def filter_empty_conv)
  then show ?thesis
    by (simp add: total_transacoes_linha_persona)
qed

text \<open>The filter \<^verbatim>\<open>WHERE total_transacoes > 0\<close> of \<^verbatim>\<open>obter_dados_personas\<close> never
  removes a row: every customer kept by the inner join with \<^verbatim>\<open>clientes_ativos\<close> has a
  transaction in each of its groups.\<close>

lemma filtro_total_redundante:
  "obter_dados_personas cs cards ts =
     sort_key (\<lambda>l. chave_desc (valor_total_gasto l))
       (remdups (map linha_persona_de (group_by chave_persona (juncao_persona cs cards ts))))"
proof -
  have "\<forall>l\<in>set (remdups (map linha_persona_de (group_by chave_persona (juncao_persona cs cards ts)))).
          0 < total_transacoes_pe l"
    using grupo_persona_com_transacao by auto
  then show ?thesis
    by (simp add: obter_dados_personas_def filter_True)
qed

lemma set_obter_dados_personas:
  "set (obter_dados_personas cs cards ts) =
     linha_persona_de ` set (group_by chave_persona (juncao_persona cs cards ts))"
  using grupo_persona_com_transacao by (force simp: obter_dados_personas_def)

lemma clientes_juncao_persona:
  "(\<lambda>x. fst (fst x)) ` set (juncao_persona cs cards ts) = {c \<in> set cs. \<exists>t\<in>set ts. tx_cliente t = cli_id c}"
proof
  show "(\<lambda>x. fst (fst x)) ` set (juncao_persona cs cards ts) \<subseteq> {c \<in> set cs. \<exists>t\<in>set ts. tx_cliente t = cli_id c}"
    using juncao_persona_transacao by fastforce
next
  let ?base = "map fst (inner_join (\<lambda>c a. cli_id c = a) cs (clientes_ativos_persona ts))"
  let ?j1 = "left_join_por (\<lambda>c t. cli_id c = tx_cliente t) ?base ts"
  have "fst ` set (juncao_persona cs cards ts) = set ?j1"
    unfolding juncao_persona_def by (rule fst_left_join_por)
  moreover have "fst ` set ?j1 = set ?base"
    by (rule fst_left_join_por)
  ultimately have "(\<lambda>x. fst (fst x)) ` set (juncao_persona cs cards ts) = set ?base"
    by (simp only: image_image [symmetric])
  then have "(\<lambda>x. fst (fst x)) ` set (juncao_persona cs cards ts) = {c \<in> set cs. \<exists>t\<in>set ts. tx_cliente t = cli_id c}"
    using base_persona by (rule trans)
  then show "{c \<in> set cs. \<exists>t\<in>set ts. tx_cliente t = cli_id c} \<subseteq> (\<lambda>x. fst (fst x)) ` set (juncao_persona cs cards ts)"
    by (rule equalityD2)
qed

lemma pe_cliente_linha_persona: "pe_cliente (linha_persona_de (k, g)) = fst k"
  by (cases k) (simp add: linha_persona_de_def Let_def)

lemma clientes_personas:
  "pe_cliente ` set (obter_dados_personas cs cards ts) = cli_id ` set cs \<inter> tx_cliente ` set ts"
proof -
  have f1: "(\<lambda>p. pe_cliente (linha_persona_de p)) = (\<lambda>p. fst (fst p))"
    by (rule ext) (metis pe_cliente_linha_persona prod.collapse)
  have f2: "(\<lambda>x. fst (chave_persona x)) = (\<lambda>x. cli_id (fst (fst x)))"
    by (rule ext) (simp add: chave_persona_def split: prod.splits)
  have "pe_cliente ` set (obter_dados_personas cs cards ts)
        = fst ` fst ` set (group_by chave_persona (juncao_persona cs cards ts))"
    by (simp only: set_obter_dados_personas image_image f1)
  also have "\<dots> = cli_id ` (\<lambda>x. fst (fst x)) ` set (juncao_persona cs cards ts)"
    by (simp only: fst_set_group_by image_image f2)
  also have "\<dots> = cli_id ` set cs \<inter> tx_cliente ` set ts"
    unfolding clientes_juncao_persona by force
  finally show ?thesis .
qed

lemma card_le_length_image: "card (f ` set xs) \<le> length xs"
  using card_image_le [of "set xs" f] card_length [of xs] by simp

text \<open>The script prints \<^verbatim>\<open>len(df)\<close> as the number of active customers; the rows are
  one per customer and card-attribute combination, so there are at least as many rows
  as registered customers with a transaction, and more when a customer uses two kinds of card.\<close>

lemma linhas_personas_clientes:
  "card (cli_id ` set cs \<inter> tx_cliente ` set ts) \<le> length (obter_dados_personas cs cards ts)"
  using card_le_length_image [of pe_cliente "obter_dados_personas cs cards ts"]
  by (simp only: clientes_personas)

lemma filter_sql_less_map_filter:
  "length (filter (\<lambda>x. sql_less (Some v) x = Some True) xs) = length (filter (\<lambda>y. v < y) (List.map_filter id xs))"
  by (induction xs) (auto simp: map_filter_simps sql_less_def split: option.splits)

lemma sort_key_Nil_iff: "sort_key f xs = [] \<longleftrightarrow> xs = []"
  by (metis length_0_conv length_sort)

lemma filter_acima_ordenada:
  fixes vs :: "real list"
  assumes s: "sorted vs" and i: "i < length vs" and v: "vs ! i \<le> v"
  shows "length (filter (\<lambda>y. v < y) vs) \<le> length vs - Suc i"
proof -
  have "\<forall>y\<in>set (take (Suc i) vs). y \<le> v"
  proof
    fix y assume "y \<in> set (take (Suc i) vs)"
    then obtain j where j: "j < length (take (Suc i) vs)" "y = take (Suc i) vs ! j"
      by (metis in_set_conv_nth)
    then have "j \<le> i" "y = vs ! j" by auto
    then have "y \<le> vs ! i" using s i by (simp add: sorted_nth_mono)
    then show "y \<le> v" using v by simp
  qed
  then have "filter (\<lambda>y. v < y) (take (Suc i) vs) = []"
    by (auto simp: filter_empty_conv)
  then have "length (filter (\<lambda>y. v < y) vs) = length (filter (\<lambda>y. v < y) (drop (Suc i) vs))"
    by (metis append_take_drop_id filter_append append.left_neutral)
  also have "\<dots> \<le> length vs - Suc i"
    using length_filter_le [of "\<lambda>y. v < y" "drop (Suc i) vs"] by simp
  finally show ?thesis .
qed

lemma quantil_ge_posicao:
  assumes q: "0 \<le> q" "q \<le> 1" and r: "quantil q xs = Some v"
  defines "vs \<equiv> sort (List.map_filter id xs)"
  shows "nat \<lfloor>q * real (length vs - 1)\<rfloor> < length vs \<and> vs ! nat \<lfloor>q * real (length vs - 1)\<rfloor> \<le> v"
proof -
  let ?n = "length vs"
  let ?h = "q * real (?n - 1)"
  let ?i = "nat \<lfloor>?h\<rfloor>"
  have n: "0 < ?n" using r by (auto simp: quantil_def vs_def Let_def split: if_splits)
  have "?h \<le> real (?n - 1)" using q by (simp add: mult_left_le_one_le)
  then have "real_of_int \<lfloor>?h\<rfloor> \<le> real (?n - 1)"
    using of_int_floor_le [of ?h] by linarith
  then have "\<lfloor>?h\<rfloor> \<le> int (?n - 1)"
    by (metis of_int_le_iff of_int_of_nat_eq)
  then have i: "?i < ?n" using n by linarith
  have hi: "real ?i \<le> ?h" using q by (simp add: of_nat_nat)
  have "quantil q xs = Some (if ?i + 1 < ?n then vs ! ?i + (?h - real ?i) * (vs ! (?i + 1) - vs ! ?i) else vs ! ?i)"
    unfolding quantil_def Let_def vs_def [symmetric] using n by simp
  then have v: "v = (if ?i + 1 < ?n then vs ! ?i + (?h - real ?i) * (vs ! (?i + 1) - vs ! ?i) else vs ! ?i)"
    using r by simp
  have "vs ! ?i \<le> v"
  proof (cases "?i + 1 < ?n")
    case True
    have s: "sorted vs" by (simp add: vs_def)
    have "vs ! ?i \<le> vs ! (?i + 1)"
      by (rule sorted_nth_mono [OF s]) (use True n in \<open>simp_all add: of_nat_diff\<close>)
    then have "0 \<le> (?h - real ?i) * (vs ! (?i + 1) - vs ! ?i)" using hi by simp
    then show ?thesis using v True by simp
  qed (use v in simp)
  then show ?thesis using i by blast
qed

text \<open>The ``top 20\%'' of the report (\<^verbatim>\<open>valor_total_gasto > quantile(0.8)\<close>) has at most
  \<open>n - 1 - \<lfloor>0.8 (n - 1)\<rfloor>\<close> rows, \<open>n\<close> the number of rows with a value.\<close>

lemma alto_valor_limite:
  "rp_alto_valor (gerar_relatorio_personas df)
     \<le> length (List.map_filter id (map valor_total_gasto df)) - 1
        - nat \<lfloor>0.8 * real (length (List.map_filter id (map valor_total_gasto df)) - 1)\<rfloor>"
proof (cases "quantil 0.8 (map valor_total_gasto df)")
  case None
  then show ?thesis by (simp add: gerar_relatorio_personas_def Let_def sql_less_def)
next
  case (Some v)
  let ?vs = "sort (List.map_filter id (map valor_total_gasto df))"
  have q: "0 \<le> (0.8::real)" "(0.8::real) \<le> 1" by simp_all
  have p: "nat \<lfloor>0.8 * real (length ?vs - 1)\<rfloor> < length ?vs \<and> ?vs ! nat \<lfloor>0.8 * real (length ?vs - 1)\<rfloor> \<le> v"
    using quantil_ge_posicao [OF q Some] .
  have "rp_alto_valor (gerar_relatorio_personas df) = length (filter (\<lambda>y. v < y) ?vs)"
    using Some filter_sql_less_map_filter [of v "map valor_total_gasto df"]
    by (simp add: gerar_relatorio_personas_def Let_def filter_sort comp_def)
  also have "\<dots> \<le> length ?vs - Suc (nat \<lfloor>0.8 * real (length ?vs - 1)\<rfloor>)"
    by (rule filter_acima_ordenada [OF sorted_sort conjunct1 [OF p] conjunct2 [OF p]])
  finally show ?thesis by (simp only: length_sort diff_Suc_eq_diff_pred)
qed

lemma personas_duas_linhas_um_cliente:
  "card (cli_id ` set clientes_persona_ex \<inter> tx_cliente ` set transacoes_persona_ex) = 1
   \<and> length (obter_dados_personas clientes_persona_ex cartoes_persona_ex transacoes_persona_ex) = 2"
  by (simp add: obter_dados_personas_def juncao_persona_def clientes_persona_ex_def cartoes_persona_ex_def
      transacoes_persona_ex_def left_join_por_def inner_join_def clientes_ativos_persona_def group_by_def
      chave_persona_def texto_credito_def texto_debito_def linha_persona_de_def Let_def)

end
