(* ===== verification/Renda_Idade.thy ===== *)
theory Renda_Idade
  imports Persona_Clientes
begin

text \<open>
  The income-by-age script \<^verbatim>\<open>src/analise_renda_idade.py\<close>, a pandas pipeline over
  \<^verbatim>\<open>Base_clientes.csv\<close>: the age from the birth date, the ten age bands of \<^verbatim>\<open>pd.cut\<close>,
  \<^verbatim>\<open>dropna\<close>, the Pearson correlation and its reading, the income statistics per band
  with the richest and poorest band, the income per exact age, the top 10\% by income
  and the figures per state. The grouping on the categorical band keeps the empty bands
  (\<^verbatim>\<open>observed=False\<close>, the default of pandas before 3.0). The charts are not modelled.
\<close>

section \<open>The rows\<close>

text \<open>The columns of \<^verbatim>\<open>Base_clientes.csv\<close> the script reads; a cell pandas reads as NaN or
  a date \<^verbatim>\<open>to_datetime(..., errors='coerce')\<close> turns into NaT is \<open>None\<close>.\<close>

record cliente_csv =
  cc_id :: cliente_id
  cc_nascimento :: "data_civil option"
  cc_renda :: "real option"
  cc_estado :: "texto option"
  cc_cidade :: "texto option"
  cc_numero_cartoes :: "real option"

definition data_referencia_renda :: data_civil where
  "data_referencia_renda = (2025, 10, 3)"

text \<open>\<^verbatim>\<open>((data_referencia - Data_Nascimento).dt.days / 365.25).round(0)\<close>: whole days,
  rounded half to even.\<close>

definition idade_anos :: "data_civil \<Rightarrow> real" where
  "idade_anos n = arredonda_par (real_of_int (dia_numero data_referencia_renda - dia_numero n) / 365.25)"

datatype faixa_ri =
  Ri_18_25 | Ri_26_30 | Ri_31_35 | Ri_36_40 | Ri_41_45 | Ri_46_50 | Ri_51_55 | Ri_56_60 | Ri_61_65 | Ri_65_mais

definition faixas_ri :: "faixa_ri list" where
  "faixas_ri = [Ri_18_25, Ri_26_30, Ri_31_35, Ri_36_40, Ri_41_45, Ri_46_50, Ri_51_55, Ri_56_60, Ri_61_65, Ri_65_mais]"

definition faixa_etaria_ri :: "real \<Rightarrow> faixa_ri option" where
  "faixa_etaria_ri i = corta [0, 25, 30, 35, 40, 45, 50, 55, 60, 65, 100] faixas_ri i"

record linha_ri =
  ri_id :: cliente_id
  ri_idade :: real
  ri_renda :: real
  ri_faixa :: faixa_ri
  ri_estado :: texto
  ri_cidade :: texto
  ri_cartoes :: real

text \<open>\<^verbatim>\<open>df[['Cliente_ID', 'Idade', 'Renda_Anual', 'Faixa_Etaria', 'Estado', 'Cidade',
  'Numero_Cartoes']].dropna()\<close>: the rows with all seven values.\<close>

definition linha_completa :: "cliente_csv \<Rightarrow> linha_ri option" where
  "linha_completa c =
     (case (cc_nascimento c, cc_renda c, cc_estado c, cc_cidade c, cc_numero_cartoes c) of
        (Some n, Some r, Some e, Some ci, Some k) \<Rightarrow>
          (case faixa_etaria_ri (idade_anos n) of
             None \<Rightarrow> None
           | Some f \<Rightarrow> Some \<lparr>ri_id = cc_id c, ri_idade = idade_anos n, ri_renda = r, ri_faixa = f,
                              ri_estado = e, ri_cidade = ci, ri_cartoes = k\<rparr>)
      | _ \<Rightarrow> None)"

definition df_analise :: "cliente_csv list \<Rightarrow> linha_ri list" where
  "df_analise cs = List.map_filter linha_completa cs"

section \<open>Statistics of a column\<close>

definition media :: "real list \<Rightarrow> real option" where
  "media xs = (if xs = [] then None else Some (sum_list xs / real (length xs)))"

definition mediana :: "real list \<Rightarrow> real option" where
  "mediana xs =
     (let s = sort xs; n = length s
      in if n = 0 then None
         else Some (if odd n then s ! (n div 2) else (s ! (n div 2 - 1) + s ! (n div 2)) / 2))"

text \<open>\<^verbatim>\<open>std\<close> with \<^verbatim>\<open>ddof=1\<close>: NaN below two values.\<close>

definition desvio_padrao :: "real list \<Rightarrow> real option" where
  "desvio_padrao xs =
     (case media xs of
        None \<Rightarrow> None
      | Some m \<Rightarrow> if length xs < 2 then None
                 else Some (sqrt ((\<Sum>x\<leftarrow>xs. (x - m)\<^sup>2) / real (length xs - 1))))"

text \<open>\<^verbatim>\<open>Series.corr\<close> (Pearson): NaN below two pairs or when a column is constant.\<close>

definition pearson :: "(real \<times> real) list \<Rightarrow> real option" where
  "pearson ps =
     (case (media (map fst ps), media (map snd ps)) of
        (Some mx, Some my) \<Rightarrow>
          (let sxy = (\<Sum>(x, y)\<leftarrow>ps. (x - mx) * (y - my));
               sxx = (\<Sum>(x, y)\<leftarrow>ps. (x - mx)\<^sup>2);
               syy = (\<Sum>(x, y)\<leftarrow>ps. (y - my)\<^sup>2)
           in if length ps < 2 \<or> sxx * syy = 0 then None else Some (sxy / sqrt (sxx * syy)))
      | _ \<Rightarrow> None)"

section \<open>The correlation\<close>

datatype interpretacao = Muito_Fraca | Fraca | Moderada | Forte | Muito_Forte

datatype tendencia = Tendencia_Positiva | Tendencia_Negativa | Sem_Relacao_Linear

text \<open>Lines 54 to 72: every comparison with NaN is false, so NaN reaches the \<^verbatim>\<open>else\<close>
  branches.\<close>

definition interpreta :: "real option \<Rightarrow> interpretacao" where
  "interpreta r =
     (case r of
        None \<Rightarrow> Muito_Forte
      | Some v \<Rightarrow> if \<bar>v\<bar> < 0.1 then Muito_Fraca else if \<bar>v\<bar> < 0.3 then Fraca
                 else if \<bar>v\<bar> < 0.5 then Moderada else if \<bar>v\<bar> < 0.7 then Forte else Muito_Forte)"

definition tendencia_de :: "real option \<Rightarrow> tendencia" where
  "tendencia_de r =
     (case r of
        None \<Rightarrow> Sem_Relacao_Linear
      | Some v \<Rightarrow> if 0 < v then Tendencia_Positiva else if v < 0 then Tendencia_Negativa else Sem_Relacao_Linear)"

section \<open>Income per age band\<close>

record renda_faixa =
  rf_faixa :: faixa_ri
  rf_media :: "real option"
  rf_mediana :: "real option"
  rf_desvio :: "real option"
  rf_clientes :: nat

text \<open>\<^verbatim>\<open>groupby('Faixa_Etaria').agg({'Renda_Anual': ['mean', 'median', 'std',
  'count']}).round(2)\<close>: one row per band, empty bands included, then
  \<^verbatim>\<open>sort_values('Renda_Media', ascending=False)\<close> with NaN last.\<close>

definition renda_por_faixa :: "linha_ri list \<Rightarrow> renda_faixa list" where
  "renda_por_faixa rows =
     sort_key (\<lambda>l. chave_desc (rf_media l))
       (map (\<lambda>f. let rs = map ri_renda (filter (\<lambda>r. ri_faixa r = f) rows) in
                   \<lparr>rf_faixa = f, rf_media = map_option pd_round2 (media rs),
                    rf_mediana = map_option pd_round2 (mediana rs),
                    rf_desvio = map_option pd_round2 (desvio_padrao rs), rf_clientes = length rs\<rparr>)
            faixas_ri)"

text \<open>Lines 92 to 107: the first and the last band, and
  \<^verbatim>\<open>(renda_mais_alta - renda_mais_baixa) / renda_mais_baixa * 100\<close> on floats.\<close>

definition diferenca_percentual :: "renda_faixa list \<Rightarrow> flutuante" where
  "diferenca_percentual rf =
     (case (rf_media (hd rf), rf_media (last rf)) of
        (Some a, Some b) \<Rightarrow> vezes_100 (divide_pd (a - b) b)
      | _ \<Rightarrow> Nao_Numero)"

section \<open>Income per exact age\<close>

record renda_idade_linha =
  ril_idade :: real
  ril_media :: real
  ril_clientes :: nat

text \<open>\<^verbatim>\<open>groupby('Idade')\<close> (ages in order), \<^verbatim>\<open>mean\<close> and \<^verbatim>\<open>count\<close>, the ages with at least
  five customers, by mean income from the largest, the first ten.\<close>

definition renda_por_idade :: "linha_ri list \<Rightarrow> renda_idade_linha list" where
  "renda_por_idade rows =
     take 10
       (sort_key (\<lambda>l. - ril_media l)
          (filter (\<lambda>l. 5 \<le> ril_clientes l)
             (map (\<lambda>(i, g). \<lparr>ril_idade = i, ril_media = pd_round2 (sum_list (map ri_renda g) / real (length g)),
                             ril_clientes = length g\<rparr>)
                (sort_key fst (group_by ri_idade rows)))))"

section \<open>The top 10\% by income\<close>

record perfil_ricos =
  pr_percentil :: "real option"
  pr_clientes :: nat
  pr_idade_media :: "real option"
  pr_idade_mediana :: "real option"
  pr_renda_media :: "real option"
  pr_cartoes_medio :: "real option"
  pr_distribuicao :: "(faixa_ri \<times> nat \<times> flutuante) list"

text \<open>\<^verbatim>\<open>clientes_ricos = df_analise[df_analise['Renda_Anual'] >= quantile(0.90)]\<close> and
  \<^verbatim>\<open>value_counts().sort_index()\<close> of their bands (every band, zero counts included), with
  \<^verbatim>\<open>count / len(clientes_ricos) * 100\<close>.\<close>

definition perfil_alta_renda :: "linha_ri list \<Rightarrow> perfil_ricos" where
  "perfil_alta_renda rows =
     (let p = quantil 0.9 (map (\<lambda>r. Some (ri_renda r)) rows);
          ricos = filter (\<lambda>r. case p of None \<Rightarrow> False | Some v \<Rightarrow> v \<le> ri_renda r) rows
      in \<lparr>pr_percentil = p, pr_clientes = length ricos,
          pr_idade_media = media (map ri_idade ricos), pr_idade_mediana = mediana (map ri_idade ricos),
          pr_renda_media = media (map ri_renda ricos), pr_cartoes_medio = media (map ri_cartoes ricos),
          pr_distribuicao =
            map (\<lambda>f. let n = length (filter (\<lambda>r. ri_faixa r = f) ricos)
                      in (f, n, vezes_100 (divide_pd (real n) (real (length ricos)))))
              faixas_ri\<rparr>)"

section \<open>Per state\<close>

record linha_estado_ri =
  er_estado :: texto
  er_renda :: real
  er_idade :: real
  er_clientes :: nat

definition por_estado :: "linha_ri list \<Rightarrow> linha_estado_ri list" where
  "por_estado rows =
     sort_key (\<lambda>l. - er_renda l)
       (map (\<lambda>(e, g). \<lparr>er_estado = e, er_renda = pd_round2 (sum_list (map ri_renda g) / real (length g)),
                       er_idade = pd_round2 (sum_list (map ri_idade g) / real (length g)), er_clientes = length g\<rparr>)
          (sort_key fst (group_by ri_estado rows)))"

section \<open>The script\<close>

record analise_renda_idade =
  ar_linhas :: nat
  ar_correlacao :: "real option"
  ar_interpretacao :: interpretacao
  ar_tendencia :: tendencia
  ar_por_faixa :: "renda_faixa list"
  ar_diferenca :: flutuante
  ar_por_idade :: "renda_idade_linha list"
  ar_ricos :: perfil_ricos
  ar_estados :: "linha_estado_ri list"

definition analise_renda_idade :: "cliente_csv list \<Rightarrow> analise_renda_idade" where
  "analise_renda_idade cs =
     (let rows = df_analise cs; r = pearson (map (\<lambda>l. (ri_renda l, ri_idade l)) rows);
          rf = renda_por_faixa rows
      in \<lparr>ar_linhas = length rows, ar_correlacao = r, ar_interpretacao = interpreta r,
          ar_tendencia = tendencia_de r, ar_por_faixa = rf, ar_diferenca = diferenca_percentual rf,
          ar_por_idade = renda_por_idade rows, ar_ricos = perfil_alta_renda rows,
          ar_estados = por_estado rows\<rparr>)"

section \<open>Properties\<close>

text \<open>The band labelled 18-25 holds every age in \<open>(0, 25]\<close>, and ages above 100 have no
  band, so \<^verbatim>\<open>dropna\<close> removes those customers.\<close>

lemma faixa_etaria_ri_None:
  "faixa_etaria_ri i = None \<longleftrightarrow> i \<le> 0 \<or> 100 < i"
  by (simp add: faixa_etaria_ri_def faixas_ri_def) linarith

lemma faixa_etaria_ri_18_25:
  "faixa_etaria_ri i = Some Ri_18_25 \<longleftrightarrow> 0 < i \<and> i \<le> 25"
  by (simp add: faixa_etaria_ri_def faixas_ri_def)

lemma chave_desc_max: "chave_desc x \<le> (1, 0)"
  by (cases x) (auto simp: chave_desc_def)

lemma chave_desc_um: "chave_desc x = (1, 0) \<longleftrightarrow> x = None"
  by (cases x) (auto simp: chave_desc_def)

lemma last_sort_key_max:
  fixes key :: "'a \<Rightarrow> 'k::linorder"
  assumes "x \<in> set xs"
  shows "key x \<le> key (last (sort_key key xs))"
proof -
  let ?ys = "sort_key key xs"
  have ne: "?ys \<noteq> []" using assms by (metis empty_iff list.set(1) set_sort)
  have s: "sorted (map key ?ys)" by simp
  have "?ys = butlast ?ys @ [last ?ys]" using ne by simp
  then have "sorted (map key (butlast ?ys) @ [key (last ?ys)])"
    using s by (metis map_append list.simps(8) list.simps(9))
  then have "\<forall>y\<in>set (butlast ?ys). key y \<le> key (last ?ys)"
    by (simp add: sorted_append)
  moreover have "x \<in> set (butlast ?ys @ [last ?ys])"
    using assms by (simp only: \<open>?ys = butlast ?ys @ [last ?ys]\<close> [symmetric] set_sort)
  then have "x \<in> set (butlast ?ys) \<or> x = last ?ys"
    by auto
  ultimately show ?thesis by auto
qed

lemma faixa_em_faixas_ri: "f \<in> set faixas_ri"
  by (cases f) (simp_all add: faixas_ri_def)

text \<open>C13: \<^verbatim>\<open>groupby('Faixa_Etaria')\<close> on the categorical band keeps every band
  (\<^verbatim>\<open>observed=False\<close>); a band without customers has a NaN mean, which
  \<^verbatim>\<open>sort_values\<close> puts last. Whenever some band is empty, the ``poorest band''
  \<^verbatim>\<open>index[-1]\<close> is an empty one and the printed difference is NaN.\<close>

theorem diferenca_faixa_vazia:
  assumes "\<exists>f. \<forall>r\<in>set rows. ri_faixa r \<noteq> f"
  shows "diferenca_percentual (renda_por_faixa rows) = Nao_Numero"
proof -
  obtain f where f: "\<forall>r\<in>set rows. ri_faixa r \<noteq> f" using assms by blast
  let ?mk = "\<lambda>f. let rs = map ri_renda (filter (\<lambda>r. ri_faixa r = f) rows) in
                   \<lparr>rf_faixa = f, rf_media = map_option pd_round2 (media rs),
                    rf_mediana = map_option pd_round2 (mediana rs),
                    rf_desvio = map_option pd_round2 (desvio_padrao rs), rf_clientes = length rs\<rparr>"
  have "filter (\<lambda>r. ri_faixa r = f) rows = []"
    using f by (auto simp: filter_empty_conv)
  then have vazio: "rf_media (?mk f) = None"
    by (simp add: media_def)
  have "?mk f \<in> set (map ?mk faixas_ri)"
    using faixa_em_faixas_ri by simp
  then have "chave_desc (rf_media (?mk f)) \<le> chave_desc (rf_media (last (renda_por_faixa rows)))"
    unfolding renda_por_faixa_def by (rule last_sort_key_max)
  then have "chave_desc (rf_media (last (renda_por_faixa rows))) = (1, 0)"
    using vazio chave_desc_max by (metis chave_desc_um order_antisym)
  then have "rf_media (last (renda_por_faixa rows)) = None"
    by (simp only: chave_desc_um)
  then show ?thesis
    by (simp add: diferenca_percentual_def split: option.split)
qed

theorem diferenca_faixa_vazia_witness:
  "diferenca_percentual (renda_por_faixa [\<lparr>ri_id = 1, ri_idade = 30, ri_renda = 5000, ri_faixa = Ri_26_30,
      ri_estado = ''SP'', ri_cidade = ''Campinas'', ri_cartoes = 1\<rparr>]) = Nao_Numero"
proof -
  have "\<exists>f. \<forall>r\<in>set [\<lparr>ri_id = 1, ri_idade = 30, ri_renda = 5000, ri_faixa = Ri_26_30,
      ri_estado = ''SP'', ri_cidade = ''Campinas'', ri_cartoes = 1\<rparr>]. ri_faixa r \<noteq> f"
    by (rule exI [of _ Ri_18_25]) simp
  then show ?thesis
    by (rule diferenca_faixa_vazia)
qed

lemma pearson_poucas_linhas: "length ps < 2 \<Longrightarrow> pearson ps = None"
  by (simp add: pearson_def split: option.split)

text \<open>With fewer than two complete rows the correlation is NaN, every comparison fails,
  and the script reads it as a very strong correlation with no linear trend.\<close>

theorem interpretacao_sem_dados:
  assumes "length (df_analise cs) < 2"
  shows "ar_interpretacao (analise_renda_idade cs) = Muito_Forte
         \<and> ar_tendencia (analise_renda_idade cs) = Sem_Relacao_Linear"
  using assms by (simp add: analise_renda_idade_def Let_def pearson_poucas_linhas interpreta_def tendencia_de_def)

end
