(* ===== verification/Limites_Gastos.thy ===== *)
theory Limites_Gastos
  imports Renda_Idade
begin

text \<open>
  The first, uncorrected limits-versus-spending script
  \<^verbatim>\<open>src/analiseCartoes1/analise_limites_vs_gastos_completa.py\<close>. Unlike the corrected script
  of \<open>Limites_Cartao\<close> it joins every card a customer used, debit cards and cards without a
  limit included, so a customer's total limit can be 0 and the utilisation infinite. It
  joins the card types of a customer into one text, which raises on a missing type; it
  classifies each customer-month by four masks with other thresholds, marks a customer as
  evaded from the last active month, and prints an evasion rate per situation, income bands,
  the business impact and the adjustment opportunities.
\<close>

section \<open>Customers, cards and limits\<close>

record vinculo_cartao =
  vk_cliente :: cliente_id
  vk_cartao :: cartao_id
  vk_limite :: "real option"
  vk_tipo :: "texto option"
  vk_produto :: "texto option"

text \<open>\<^verbatim>\<open>cliente_cartao.merge(cartoes[...], on='ID_Cartao', how='left')\<close>: a pair whose card
  is not in the card table keeps NaN in the three card columns.\<close>

definition cliente_cartao_limite :: "cartao list \<Rightarrow> transacao_completa list \<Rightarrow> vinculo_cartao list" where
  "cliente_cartao_limite cards ts =
     map (\<lambda>((c, k), m). \<lparr>vk_cliente = c, vk_cartao = k, vk_limite = Option.bind m car_limite,
                          vk_tipo = Option.bind m car_tipo, vk_produto = Option.bind m car_produto\<rparr>)
       (left_join_por (\<lambda>(c, k) kk. car_id kk = k) (cliente_cartao ts) cards)"

datatype erro_gastos = Tipo_Nao_Texto | Divisao_Inteira_Zero

text \<open>\<^verbatim>\<open>sep.join(xs)\<close>.\<close>

fun junta_texto :: "texto \<Rightarrow> texto list \<Rightarrow> texto" where
  "junta_texto sep [] = []"
| "junta_texto sep [s] = s"
| "junta_texto sep (s # ss) = s @ sep @ junta_texto sep ss"

text \<open>\<^verbatim>\<open>lambda x: ', '.join(x.unique())\<close>: the distinct types in order of appearance;
  \<^verbatim>\<open>str.join\<close> raises \<^verbatim>\<open>TypeError\<close> on a NaN among them.\<close>

definition tipos_unicos :: "texto option list \<Rightarrow> erro_gastos + texto" where
  "tipos_unicos tps =
     (case those (remdups tps) of
        None \<Rightarrow> Inl Tipo_Nao_Texto
      | Some ss \<Rightarrow> Inr (junta_texto '', '' ss))"

text \<open>The first error of a list of results, as a loop over the groups stops at it.\<close>

fun sequencia :: "('e + 'a) list \<Rightarrow> 'e + 'a list" where
  "sequencia [] = Inr []"
| "sequencia (Inl e # rs) = Inl e"
| "sequencia (Inr x # rs) = (case sequencia rs of Inl e \<Rightarrow> Inl e | Inr xs \<Rightarrow> Inr (x # xs))"

record limite_cliente_completo =
  lcc_cliente :: cliente_id
  lcc_total :: real
  lcc_maximo :: "real option"
  lcc_qtd :: nat
  lcc_tipos :: texto

text \<open>\<^verbatim>\<open>groupby('Cliente_ID').agg({'Limite_Cartao': ['sum', 'max', 'count'], 'Tipo_Cartao':
  lambda ...}).round(2)\<close>: the sum skips NaN (0 when every limit is NaN), the maximum is
  NaN then, the count counts the limits present.\<close>

definition limite_de_grupo :: "cliente_id \<times> vinculo_cartao list \<Rightarrow> erro_gastos + limite_cliente_completo" where
  "limite_de_grupo cg =
     (case cg of (c, g) \<Rightarrow>
        let ls = List.map_filter vk_limite g in
        map_sum id (\<lambda>tp. \<lparr>lcc_cliente = c, lcc_total = pd_round2 (sum_list ls),
                           lcc_maximo = (if ls = [] then None else Some (pd_round2 (Max (set ls)))),
                           lcc_qtd = length ls, lcc_tipos = tp\<rparr>)
          (tipos_unicos (map vk_tipo g)))"

definition limite_por_cliente_completo :: "vinculo_cartao list \<Rightarrow> erro_gastos + limite_cliente_completo list" where
  "limite_por_cliente_completo vs = sequencia (map limite_de_grupo (sort_key fst (group_by vk_cliente vs)))"

section \<open>Monthly spending\<close>

record gasto_mes_completo = gasto_mes +
  cartoes_usados :: nat

text \<open>Lines 49 to 55: the aggregation of \<open>Limites_Cartao.gastos_mensais\<close> and
  \<^verbatim>\<open>'ID_Cartao': 'nunique'\<close>.\<close>

definition gastos_mensais_completos :: "transacao_completa list \<Rightarrow> gasto_mes_completo list" where
  "gastos_mensais_completos ts =
     map (\<lambda>((c, m), g). let vs = List.map_filter tx_valor g in
            \<lparr>gm_cliente = c, gm_mes = m, gasto_mensal = pd_round2 (sum_list vs), qtd_transacoes = length vs,
             ticket_medio_mes = (if vs = [] then None else Some (pd_round2 (sum_list vs / real (length vs)))),
             cartoes_usados = nunique (map tx_cartao g)\<rparr>)
       (sort_key fst (group_by (\<lambda>t. (tx_cliente t, ano_mes t)) ts))"

record estatistica_mes =
  em_mes :: "nat \<times> nat"
  em_media :: real
  em_mediana :: real
  em_maximo :: real
  em_clientes :: nat

text \<open>\<^verbatim>\<open>gastos_mensais.groupby('Ano_Mes').agg({'Gasto_Mensal': ['mean', 'median', 'max'],
  'Cliente_ID': 'nunique'}).round(2)\<close>: every group is nonempty.\<close>

definition gastos_por_mes :: "gasto_mes_completo list \<Rightarrow> estatistica_mes list" where
  "gastos_por_mes gs =
     map (\<lambda>(m, g). let xs = map gasto_mensal g in
            \<lparr>em_mes = m, em_media = pd_round2 (the (media xs)), em_mediana = pd_round2 (the (mediana xs)),
             em_maximo = pd_round2 (Max (set xs)), em_clientes = nunique (map gm_cliente g)\<rparr>)
       (sort_key fst (group_by gm_mes gs))"

section \<open>The situation of a customer-month\<close>

text \<open>The labels, declared in the order of their text, the order of \<^verbatim>\<open>groupby('Situacao')\<close>.\<close>

datatype situacao_gasto =
  Alto_Risco_90 | Critico_Acima_Limite | Inconsistente_Alto | Inconsistente_Baixo | Normal_Gasto

record linha_gasto =
  lg_gasto :: gasto_mes_completo
  lg_limite :: limite_cliente_completo
  lg_renda :: "real option"
  lg_criacao :: "carimbo option"
  lg_utilizacao :: flutuante
  lg_renda_mensal :: "real option"
  lg_gasto_renda :: flutuante
  lg_situacao :: situacao_gasto

text \<open>Lines 74 to 88: the merges, \<^verbatim>\<open>Utilizacao_Limite\<close>, \<^verbatim>\<open>Renda_Mensal\<close>,
  \<^verbatim>\<open>Gasto_vs_Renda\<close> (NaN without an income) and \<^verbatim>\<open>Situacao = 'Normal'\<close>.\<close>

definition linhas_gasto :: "cliente list \<Rightarrow> limite_cliente_completo list \<Rightarrow> transacao_completa list \<Rightarrow> linha_gasto list" where
  "linhas_gasto cs lims ts =
     map (\<lambda>((g, l), c). let r = Option.bind c cli_renda; rm = map_option (\<lambda>x. x / 12) r in
            \<lparr>lg_gasto = g, lg_limite = l, lg_renda = r, lg_criacao = Option.bind c cli_criacao_conta,
             lg_utilizacao = vezes_100 (divide_pd (gasto_mensal g) (lcc_total l)), lg_renda_mensal = rm,
             lg_gasto_renda = (case rm of None \<Rightarrow> Nao_Numero | Some m \<Rightarrow> vezes_100 (divide_pd (gasto_mensal g) m)),
             lg_situacao = Normal_Gasto\<rparr>)
       (left_join_por (\<lambda>(g, l) c. cli_id c = gm_cliente g)
          (inner_join (\<lambda>g l. lcc_cliente l = gm_cliente g) (gastos_mensais_completos ts) lims) cs)"

text \<open>\<^verbatim>\<open>df.loc[mask, 'Situacao'] = label\<close> on one row and on the frame.\<close>

definition marca_linha_gasto :: "(linha_gasto \<Rightarrow> bool) \<Rightarrow> situacao_gasto \<Rightarrow> linha_gasto \<Rightarrow> linha_gasto" where
  "marca_linha_gasto msk s r = (if msk r then r\<lparr>lg_situacao := s\<rparr> else r)"

definition marca_gasto :: "(linha_gasto \<Rightarrow> bool) \<Rightarrow> situacao_gasto \<Rightarrow> linha_gasto list \<Rightarrow> linha_gasto list" where
  "marca_gasto msk s rows = map (marca_linha_gasto msk s) rows"

text \<open>The masks of lines 91 to 103; \<^verbatim>\<open>Renda_Anual.notna()\<close> is the income being present.\<close>

definition acima_limite_g :: "linha_gasto \<Rightarrow> bool" where
  "acima_limite_g r = maior_pd (lg_utilizacao r) 100"

definition utilizacao_alta_g :: "linha_gasto \<Rightarrow> bool" where
  "utilizacao_alta_g r = (maior_pd (lg_utilizacao r) 90 \<and> menor_igual_pd (lg_utilizacao r) 100)"

definition limite_baixo_g :: "linha_gasto \<Rightarrow> bool" where
  "limite_baixo_g r = (case lg_renda_mensal r of None \<Rightarrow> False | Some m \<Rightarrow> lcc_total (lg_limite r) < m * 0.2)"

definition limite_alto_g :: "linha_gasto \<Rightarrow> bool" where
  "limite_alto_g r = (case lg_renda_mensal r of None \<Rightarrow> False | Some m \<Rightarrow> m * 3 < lcc_total (lg_limite r))"

definition classifica_gasto :: "linha_gasto list \<Rightarrow> linha_gasto list" where
  "classifica_gasto rows =
     marca_gasto limite_alto_g Inconsistente_Alto
       (marca_gasto limite_baixo_g Inconsistente_Baixo
         (marca_gasto utilizacao_alta_g Alto_Risco_90
           (marca_gasto acima_limite_g Critico_Acima_Limite rows)))"

text \<open>Lines 28 to 104: the limits (which may raise), then the rows and their situation.\<close>

definition analise_limite_gasto :: "cliente list \<Rightarrow> cartao list \<Rightarrow> transacao_completa list \<Rightarrow> erro_gastos + linha_gasto list" where
  "analise_limite_gasto cs cards ts =
     map_sum id (\<lambda>lims. classifica_gasto (linhas_gasto cs lims ts))
       (limite_por_cliente_completo (cliente_cartao_limite cards ts))"

section \<open>Evasion per situation\<close>

text \<open>Lines 119 to 126: the last active month of each customer (periods compare as year and
  month), the months from it to \<^verbatim>\<open>Period('2024-08')\<close>, evaded at three or more.\<close>

definition ultimo_mes_atividade :: "gasto_mes_completo list \<Rightarrow> (cliente_id \<times> (nat \<times> nat)) list" where
  "ultimo_mes_atividade gs = map (\<lambda>(c, g). (c, Max (set (map gm_mes g)))) (sort_key fst (group_by gm_cliente gs))"

definition meses_inativo :: "nat \<times> nat \<Rightarrow> int" where
  "meses_inativo p = (case p of (a, m) \<Rightarrow> (2024 * 12 + 8) - (int a * 12 + int m))"

definition evadido :: "nat \<times> nat \<Rightarrow> bool" where
  "evadido p = (3 \<le> meses_inativo p)"

text \<open>\<^verbatim>\<open>merge(ultimo_mes_atividade, on='Cliente_ID', how='left')\<close>: each row with the
  \<^verbatim>\<open>Evadido\<close> of its customer, NaN without one.\<close>

definition junta_evasao :: "linha_gasto list \<Rightarrow> (cliente_id \<times> (nat \<times> nat)) list \<Rightarrow> (linha_gasto \<times> bool option) list" where
  "junta_evasao rows ults =
     map (\<lambda>(r, u). (r, map_option (evadido \<circ> snd) u))
       (left_join_por (\<lambda>r u. fst u = gm_cliente (lg_gasto r)) rows ults)"

definition pd_round3 :: "real \<Rightarrow> real" where
  "pd_round3 x = arredonda_par (x * 1000) / 1000"

text \<open>The order of the labels' text: \<^verbatim>\<open>'ALTO RISCO...' < 'CR\<acute>ITICO...' <
  'INCONSISTENTE: Limite muito alto' < 'INCONSISTENTE: Limite muito baixo' < 'Normal'\<close>.\<close>

fun ordem_situacao :: "situacao_gasto \<Rightarrow> nat" where
  "ordem_situacao Alto_Risco_90 = 0"
| "ordem_situacao Critico_Acima_Limite = 1"
| "ordem_situacao Inconsistente_Alto = 2"
| "ordem_situacao Inconsistente_Baixo = 3"
| "ordem_situacao Normal_Gasto = 4"

record taxa_situacao =
  tx_situacao :: situacao_gasto
  total_clientes_sit :: nat
  clientes_evadidos :: nat
  taxa_evasao :: "real option"
  taxa_evasao_pct :: "real option"

text \<open>Lines 132 to 138: per situation the distinct customers, the sum and the mean of the
  \<^verbatim>\<open>Evadido\<close> column over the rows (customer-months), rounded to three places.\<close>

definition taxa_evasao_por_situacao :: "(linha_gasto \<times> bool option) list \<Rightarrow> taxa_situacao list" where
  "taxa_evasao_por_situacao ev =
     map (\<lambda>(s, g). let bs = List.map_filter snd g; n = length (filter id bs);
                     tx = (if bs = [] then None else Some (pd_round3 (real n / real (length bs))))
                  in \<lparr>tx_situacao = s, total_clientes_sit = nunique (map (\<lambda>x. gm_cliente (lg_gasto (fst x))) g),
                      clientes_evadidos = n, taxa_evasao = tx, taxa_evasao_pct = map_option (\<lambda>t. t * 100) tx\<rparr>)
       (sort_key (\<lambda>(s, g). ordem_situacao s) (group_by (\<lambda>x. lg_situacao (fst x)) ev))"

section \<open>Critical cases\<close>

text \<open>\<^verbatim>\<open>str.contains('CR\<acute>ITICO|ALTO RISCO')\<close> or a utilisation above 80.\<close>

definition caso_critico :: "linha_gasto \<Rightarrow> bool" where
  "caso_critico r = (lg_situacao r \<in> {Critico_Acima_Limite, Alto_Risco_90} \<or> maior_pd (lg_utilizacao r) 80)"

text \<open>\<^verbatim>\<open>nlargest\<close> orders from the largest, \<open>inf\<close> first; NaN is dropped.\<close>

fun chave_nlargest :: "flutuante \<Rightarrow> nat \<times> real" where
  "chave_nlargest Mais_Infinito = (0, 0)"
| "chave_nlargest (Finito v) = (1, - v)"
| "chave_nlargest Menos_Infinito = (2, 0)"
| "chave_nlargest Nao_Numero = (3, 0)"

text \<open>Lines 147 to 161: the critical rows with \<^verbatim>\<open>Evadido\<close>, the ten of largest utilisation.\<close>

definition amostra_criticos :: "(linha_gasto \<times> bool option) list \<Rightarrow> (linha_gasto \<times> bool option) list" where
  "amostra_criticos cc =
     take 10 (sort_key (\<lambda>x. chave_nlargest (lg_utilizacao (fst x)))
                (filter (\<lambda>x. lg_utilizacao (fst x) \<noteq> Nao_Numero) cc))"

section \<open>Float statistics\<close>

text \<open>Addition of floats: NaN absorbs, \<open>inf + -inf\<close> is NaN.\<close>

fun soma_fl :: "flutuante \<Rightarrow> flutuante \<Rightarrow> flutuante" where
  "soma_fl (Finito a) (Finito b) = Finito (a + b)"
| "soma_fl Nao_Numero y = Nao_Numero"
| "soma_fl x Nao_Numero = Nao_Numero"
| "soma_fl Mais_Infinito Menos_Infinito = Nao_Numero"
| "soma_fl Menos_Infinito Mais_Infinito = Nao_Numero"
| "soma_fl Mais_Infinito y = Mais_Infinito"
| "soma_fl x Mais_Infinito = Mais_Infinito"
| "soma_fl Menos_Infinito y = Menos_Infinito"
| "soma_fl x Menos_Infinito = Menos_Infinito"

fun divide_fl :: "flutuante \<Rightarrow> real \<Rightarrow> flutuante" where
  "divide_fl (Finito v) n = Finito (v / n)"
| "divide_fl f n = f"

fun arredonda_fl :: "flutuante \<Rightarrow> flutuante" where
  "arredonda_fl (Finito v) = Finito (pd_round2 v)"
| "arredonda_fl f = f"

text \<open>\<^verbatim>\<open>mean\<close> and \<^verbatim>\<open>median\<close> of a float column skip NaN and are NaN on nothing.\<close>

definition media_fl :: "flutuante list \<Rightarrow> flutuante" where
  "media_fl xs =
     (let vs = filter (\<lambda>x. x \<noteq> Nao_Numero) xs
      in if vs = [] then Nao_Numero else divide_fl (foldr soma_fl vs (Finito 0)) (real (length vs)))"

definition mediana_fl :: "flutuante list \<Rightarrow> flutuante" where
  "mediana_fl xs =
     (let s = rev (sort_key chave_nlargest (filter (\<lambda>x. x \<noteq> Nao_Numero) xs)); n = length s
      in if n = 0 then Nao_Numero
         else if odd n then s ! (n div 2) else divide_fl (soma_fl (s ! (n div 2 - 1)) (s ! (n div 2))) 2)"

section \<open>Limit and income\<close>

datatype faixa_renda_g = Ate_50k | De_50k_100k | De_100k_150k | Acima_150k

record linha_renda_limite =
  rl_linha :: linha_gasto
  rl_renda :: real
  rl_faixa :: "faixa_renda_g option"
  rl_ratio :: flutuante

text \<open>Lines 168 to 176: the rows with an income, \<^verbatim>\<open>pd.cut\<close> with an infinite last edge,
  \<^verbatim>\<open>Ratio_Limite_Renda = Limite_Total / Renda_Anual\<close>.\<close>

definition renda_limite :: "linha_gasto list \<Rightarrow> linha_renda_limite list" where
  "renda_limite rows =
     List.map_filter (\<lambda>r. map_option (\<lambda>x. \<lparr>rl_linha = r, rl_renda = x,
                              rl_faixa = corta_inf [0, 50000, 100000, 150000] [Ate_50k, De_50k_100k, De_100k_150k, Acima_150k] x,
                              rl_ratio = divide_pd (lcc_total (lg_limite r)) x\<rparr>) (lg_renda r)) rows"

record faixa_renda_resumo =
  fr_faixa :: faixa_renda_g
  fr_clientes :: nat
  fr_limite_media :: "real option"
  fr_limite_mediana :: "real option"
  fr_renda_media :: "real option"
  fr_renda_mediana :: "real option"
  fr_ratio_media :: flutuante
  fr_ratio_mediana :: flutuante
  fr_utilizacao_media :: flutuante
  fr_utilizacao_mediana :: flutuante

text \<open>Lines 179 to 185: one row per band of the categorical, empty bands included; rows
  whose income is not positive have no band and are dropped by the grouping.\<close>

definition analise_faixa :: "linha_renda_limite list \<Rightarrow> faixa_renda_resumo list" where
  "analise_faixa rl =
     map (\<lambda>f. let g = filter (\<lambda>x. rl_faixa x = Some f) rl; ls = map (\<lambda>x. lcc_total (lg_limite (rl_linha x))) g;
                  rs = map rl_renda g; us = map (\<lambda>x. lg_utilizacao (rl_linha x)) g in
            \<lparr>fr_faixa = f, fr_clientes = nunique (map (\<lambda>x. gm_cliente (lg_gasto (rl_linha x))) g),
             fr_limite_media = map_option pd_round2 (media ls), fr_limite_mediana = map_option pd_round2 (mediana ls),
             fr_renda_media = map_option pd_round2 (media rs), fr_renda_mediana = map_option pd_round2 (mediana rs),
             fr_ratio_media = arredonda_fl (media_fl (map rl_ratio g)),
             fr_ratio_mediana = arredonda_fl (mediana_fl (map rl_ratio g)),
             fr_utilizacao_media = arredonda_fl (media_fl us), fr_utilizacao_mediana = arredonda_fl (mediana_fl us)\<rparr>)
       [Ate_50k, De_50k_100k, De_100k_150k, Acima_150k]"

section \<open>The report\<close>

record impacto_negocio =
  clientes_problema :: nat
  clientes_analisados_g :: nat
  perc_clientes :: real
  volume_risco :: real
  volume_total_g :: real
  perc_volume :: flutuante
  perda_anual :: real
  oport_clientes :: nat
  oport_volume :: real
  por_tipo :: "(situacao_gasto \<times> nat \<times> real) list"
  utilizacao_media :: flutuante
  acima_50 :: nat
  acima_80 :: nat
  ticket_problematicos :: "real option"

text \<open>Lines 198 to 241 on the classified rows: impact, opportunities (an
  \<^verbatim>\<open>INCONSISTENTE\<close> label or a utilisation above 70), the figures of each non-normal label
  in order of first appearance, and the dashboard. \<^verbatim>\<open>volume_em_risco/volume_total\<close>
  divides floats.\<close>

definition impacto_gastos :: "linha_gasto list \<Rightarrow> impacto_negocio" where
  "impacto_gastos rows =
     (let prob = filter (\<lambda>r. lg_situacao r \<noteq> Normal_Gasto) rows;
          cli = \<lambda>r. gm_cliente (lg_gasto r); gasto = \<lambda>r. gasto_mensal (lg_gasto r);
          risco = sum_list (map gasto prob); tot = sum_list (map gasto rows);
          op = filter (\<lambda>r. lg_situacao r \<in> {Inconsistente_Alto, Inconsistente_Baixo} \<or> maior_pd (lg_utilizacao r) 70) rows
      in \<lparr>clientes_problema = nunique (map cli prob), clientes_analisados_g = nunique (map cli rows),
          perc_clientes = real (nunique (map cli prob)) / real (nunique (map cli rows)) * 100,
          volume_risco = risco, volume_total_g = tot, perc_volume = vezes_100 (divide_pd risco tot),
          perda_anual = risco * 12, oport_clientes = nunique (map cli op),
          oport_volume = sum_list (map gasto op),
          por_tipo = map (\<lambda>s. (s, length (filter (\<lambda>r. lg_situacao r = s) rows),
                                 sum_list (map gasto (filter (\<lambda>r. lg_situacao r = s) rows))))
                       (filter (\<lambda>s. s \<noteq> Normal_Gasto) (remdups (map lg_situacao rows))),
          utilizacao_media = media_fl (map lg_utilizacao rows),
          acima_50 = length (filter (\<lambda>r. maior_pd (lg_utilizacao r) 50) rows),
          acima_80 = length (filter (\<lambda>r. maior_pd (lg_utilizacao r) 80) rows),
          ticket_problematicos = media (List.map_filter (\<lambda>r. ticket_medio_mes (lg_gasto r)) prob)\<rparr>)"

record relatorio_gastos =
  rg_problematicos :: nat
  rg_registros :: nat
  rg_perc_problematicos :: real
  rg_por_mes :: "estatistica_mes list"
  rg_evasao :: "taxa_situacao list"
  rg_criticos :: nat
  rg_amostra :: "(linha_gasto \<times> bool option) list"
  rg_faixas :: "faixa_renda_resumo list"
  rg_ratio_acima :: nat
  rg_ratio_abaixo :: nat
  rg_impacto :: impacto_negocio

text \<open>The script from line 28: the limits may raise \<^verbatim>\<open>TypeError\<close>;
  \<^verbatim>\<open>problematicos/total\<close> (line 113) divides Python integers and raises
  \<^verbatim>\<open>ZeroDivisionError\<close> on an empty analysis; the rest follows in the order of the script.\<close>

definition analise_limites_vs_gastos :: "cliente list \<Rightarrow> cartao list \<Rightarrow> transacao_completa list \<Rightarrow> erro_gastos + relatorio_gastos" where
  "analise_limites_vs_gastos cs cards ts =
     (case analise_limite_gasto cs cards ts of
        Inl e \<Rightarrow> Inl e
      | Inr rows \<Rightarrow>
          (let prob = length (filter (\<lambda>r. lg_situacao r \<noteq> Normal_Gasto) rows);
               gs = gastos_mensais_completos ts;
               ev = junta_evasao rows (ultimo_mes_atividade gs);
               cc = junta_evasao (filter caso_critico rows) (ultimo_mes_atividade gs);
               rl = renda_limite rows
           in if rows = [] then Inl Divisao_Inteira_Zero
              else Inr \<lparr>rg_problematicos = prob, rg_registros = length rows,
                        rg_perc_problematicos = real prob / real (length rows) * 100,
                        rg_por_mes = gastos_por_mes gs, rg_evasao = taxa_evasao_por_situacao ev,
                        rg_criticos = length cc, rg_amostra = amostra_criticos cc,
                        rg_faixas = analise_faixa rl,
                        rg_ratio_acima = length (filter (\<lambda>x. maior_pd (rl_ratio x) 1.5) rl),
                        rg_ratio_abaixo = length (filter (\<lambda>x. menor_pd (rl_ratio x) 0.1) rl),
                        rg_impacto = impacto_gastos rows\<rparr>))"

section \<open>The masks as one decision\<close>

text \<open>What the four masks decide for a row, read as one decision: a limit above three
  monthly incomes first, then below a fifth of one, then a utilisation above 100, then
  above 90; otherwise normal.\<close>

definition situacao_gasto_spec :: "flutuante \<Rightarrow> real option \<Rightarrow> real \<Rightarrow> situacao_gasto" where
  "situacao_gasto_spec u rm lt =
     (if (case rm of Some m \<Rightarrow> m * 3 < lt | None \<Rightarrow> False) then Inconsistente_Alto
      else if (case rm of Some m \<Rightarrow> lt < m * 0.2 | None \<Rightarrow> False) then Inconsistente_Baixo
      else if maior_pd u 100 then Critico_Acima_Limite
      else if maior_pd u 90 then Alto_Risco_90
      else Normal_Gasto)"

section \<open>Properties of the masks\<close>

lemma mascaras_gasto_atualiza [simp]:
  "acima_limite_g (r\<lparr>lg_situacao := s\<rparr>) = acima_limite_g r"
  "utilizacao_alta_g (r\<lparr>lg_situacao := s\<rparr>) = utilizacao_alta_g r"
  "limite_baixo_g (r\<lparr>lg_situacao := s\<rparr>) = limite_baixo_g r"
  "limite_alto_g (r\<lparr>lg_situacao := s\<rparr>) = limite_alto_g r"
  by (simp_all add: acima_limite_g_def utilizacao_alta_g_def limite_baixo_g_def limite_alto_g_def
      split: option.split)

lemma marca_linha_gasto_atualiza:
  assumes "\<And>a. msk (r\<lparr>lg_situacao := a\<rparr>) = msk r"
  shows "marca_linha_gasto msk s (r\<lparr>lg_situacao := a\<rparr>) = r\<lparr>lg_situacao := (if msk r then s else a)\<rparr>"
  using assms by (simp add: marca_linha_gasto_def)

lemma situacao_gasto_passos:
  "(if limite_alto_g r then Inconsistente_Alto else if limite_baixo_g r then Inconsistente_Baixo
    else if utilizacao_alta_g r then Alto_Risco_90 else if acima_limite_g r then Critico_Acima_Limite
    else Normal_Gasto)
   = situacao_gasto_spec (lg_utilizacao r) (lg_renda_mensal r) (lcc_total (lg_limite r))"
  unfolding situacao_gasto_spec_def limite_alto_g_def limite_baixo_g_def utilizacao_alta_g_def acima_limite_g_def
  by (cases "lg_utilizacao r"; cases "lg_renda_mensal r") auto

lemma classifica_gasto_linha:
  assumes "lg_situacao r = Normal_Gasto"
  shows "marca_linha_gasto limite_alto_g Inconsistente_Alto (marca_linha_gasto limite_baixo_g Inconsistente_Baixo
           (marca_linha_gasto utilizacao_alta_g Alto_Risco_90 (marca_linha_gasto acima_limite_g Critico_Acima_Limite r)))
         = r\<lparr>lg_situacao := situacao_gasto_spec (lg_utilizacao r) (lg_renda_mensal r) (lcc_total (lg_limite r))\<rparr>"
proof -
  have "marca_linha_gasto acima_limite_g Critico_Acima_Limite r
        = r\<lparr>lg_situacao := (if acima_limite_g r then Critico_Acima_Limite else Normal_Gasto)\<rparr>"
    using assms by (cases r) (simp add: marca_linha_gasto_def)
  moreover have "\<And>a b. r\<lparr>lg_situacao := a, lg_situacao := b\<rparr> = r\<lparr>lg_situacao := b\<rparr>"
    by simp
  ultimately show ?thesis
    by (simp only: marca_linha_gasto_atualiza mascaras_gasto_atualiza situacao_gasto_passos [symmetric])
qed

lemma classifica_gasto_spec:
  assumes "\<forall>r\<in>set rows. lg_situacao r = Normal_Gasto"
  shows "classifica_gasto rows =
           map (\<lambda>r. r\<lparr>lg_situacao := situacao_gasto_spec (lg_utilizacao r) (lg_renda_mensal r) (lcc_total (lg_limite r))\<rparr>) rows"
  unfolding classifica_gasto_def marca_gasto_def map_map comp_def
  using assms by (intro map_cong refl) (simp only: classifica_gasto_linha)

lemma linhas_gasto_normais: "\<forall>r\<in>set (linhas_gasto cs lims ts). lg_situacao r = Normal_Gasto"
  by (auto simp: linhas_gasto_def Let_def)

text \<open>C26: after the four \<^verbatim>\<open>analise_limite_gasto.loc[mask, 'Situacao'] = ...\<close>
  assignments of the uncorrected limits script, the situation of every customer-month is
  the decision \<^const>\<open>situacao_gasto_spec\<close> of its own utilisation, monthly income and
  total limit: the income masks come last and override the utilisation labels, and a
  utilisation above 100 (infinite for a total limit of 0) is critical only when the income
  does not relabel it.\<close>

theorem situacao_gasto_por_prioridade:
  "map_sum id (map lg_situacao) (analise_limite_gasto cs cards ts) =
   map_sum id (map (\<lambda>r. situacao_gasto_spec (lg_utilizacao r) (lg_renda_mensal r) (lcc_total (lg_limite r))))
     (analise_limite_gasto cs cards ts)"
proof (cases "limite_por_cliente_completo (cliente_cartao_limite cards ts)")
  case (Inr lims)
  then show ?thesis
    using classifica_gasto_spec [OF linhas_gasto_normais, of cs lims ts]
    by (simp add: analise_limite_gasto_def comp_def)
qed (simp add: analise_limite_gasto_def)

lemma gastos_mensais_completos_truncate:
  "map gasto_mes.truncate (gastos_mensais_completos ts) = gastos_mensais ts"
  unfolding gastos_mensais_completos_def gastos_mensais_def map_map comp_def
  by (intro map_cong refl) (auto simp: gasto_mes.truncate_def Let_def split: prod.split)

lemma foldr_soma_fl_finito: "foldr soma_fl (map Finito xs) (Finito a) = Finito (sum_list xs + a)"
  by (induction xs) (simp_all add: algebra_simps)

theorem media_fl_finito:
  "media_fl (map Finito xs) = (case media xs of None \<Rightarrow> Nao_Numero | Some m \<Rightarrow> Finito m)"
proof -
  have "filter (\<lambda>x. x \<noteq> Nao_Numero) (map Finito xs) = map Finito xs"
    by (induction xs) simp_all
  then show ?thesis
    by (simp add: media_fl_def media_def foldr_soma_fl_finito)
qed

section \<open>The type of a card and the error of the join\<close>

lemma those_None_iff: "those xs = None \<longleftrightarrow> None \<in> set xs"
  by (induction xs) (auto split: option.split)

lemma tipos_unicos_Inl: "tipos_unicos tps = Inl e \<longleftrightarrow> e = Tipo_Nao_Texto \<and> None \<in> set tps"
  using those_None_iff [of "remdups tps"] by (auto simp: tipos_unicos_def split: option.split)

lemma sequencia_map_Inr [simp]: "sequencia (map Inr xs) = Inr xs"
  by (induction xs) simp_all

lemma sequencia_Inr_iff: "sequencia rs = Inr xs \<longleftrightarrow> rs = map Inr xs"
  by (induction rs arbitrary: xs rule: sequencia.induct) (auto split: sum.split)

lemma map_sum_Inl_iff: "map_sum id f x = Inl e \<longleftrightarrow> x = Inl e"
  by (cases x) simp_all

lemma None_em_tipos: "None \<in> vk_tipo ` A \<longleftrightarrow> (\<exists>v\<in>A. vk_tipo v = None)"
  by (metis (mono_tags, lifting) image_iff)

lemma sequencia_Cons:
  "sequencia (r # rs) = (case r of Inl e \<Rightarrow> Inl e | Inr x \<Rightarrow> (case sequencia rs of Inl e \<Rightarrow> Inl e | Inr xs \<Rightarrow> Inr (x # xs)))"
  by (cases r) simp_all

lemma sequencia_map_Inl:
  "sequencia (map f xs) = Inl e \<Longrightarrow> \<exists>x\<in>set xs. f x = Inl e"
  by (induction xs) (auto simp: sequencia_Cons split: sum.splits)

lemma sequencia_map_Inl_se:
  "x \<in> set xs \<Longrightarrow> f x = Inl e \<Longrightarrow> \<exists>e'. sequencia (map f xs) = Inl e'"
  by (induction xs) (auto simp: sequencia_Cons split: sum.splits)

lemma limite_de_grupo_Inl:
  "limite_de_grupo cg = Inl e \<longleftrightarrow> e = Tipo_Nao_Texto \<and> (\<exists>v\<in>set (snd cg). vk_tipo v = None)"
  by (cases cg) (simp add: limite_de_grupo_def Let_def map_sum_Inl_iff tipos_unicos_Inl None_em_tipos)

lemma group_by_de_membro:
  "v \<in> set rows \<Longrightarrow> (key v, filter (\<lambda>r. key r = key v) rows) \<in> set (group_by key rows)"
  by (simp add: group_by_def)

lemma limite_por_cliente_completo_Inl:
  "limite_por_cliente_completo vs = Inl e \<longleftrightarrow> e = Tipo_Nao_Texto \<and> (\<exists>v\<in>set vs. vk_tipo v = None)"
proof
  assume "limite_por_cliente_completo vs = Inl e"
  then obtain cg where cg: "cg \<in> set (group_by vk_cliente vs)" "limite_de_grupo cg = Inl e"
    unfolding limite_por_cliente_completo_def using sequencia_map_Inl by fastforce
  then obtain v where "e = Tipo_Nao_Texto" "v \<in> set (snd cg)" "vk_tipo v = None"
    by (auto simp only: limite_de_grupo_Inl)
  moreover have "v \<in> set vs"
    using group_by_member [of "fst cg" "snd cg"] cg(1) calculation(2) by simp
  ultimately show "e = Tipo_Nao_Texto \<and> (\<exists>v\<in>set vs. vk_tipo v = None)"
    by blast
next
  assume "e = Tipo_Nao_Texto \<and> (\<exists>v\<in>set vs. vk_tipo v = None)"
  then obtain v where e: "e = Tipo_Nao_Texto" and v: "v \<in> set vs" "vk_tipo v = None"
    by blast
  let ?cg = "(vk_cliente v, filter (\<lambda>r. vk_cliente r = vk_cliente v) vs)"
  have "?cg \<in> set (sort_key fst (group_by vk_cliente vs))"
    using group_by_de_membro [OF v(1)] by simp
  moreover have "limite_de_grupo ?cg = Inl Tipo_Nao_Texto"
    using v by (auto simp only: limite_de_grupo_Inl snd_conv set_filter mem_Collect_eq)
  ultimately obtain e' where s: "limite_por_cliente_completo vs = Inl e'"
    unfolding limite_por_cliente_completo_def by (blast dest: sequencia_map_Inl_se)
  then obtain cg where "limite_de_grupo cg = Inl e'"
    using sequencia_map_Inl [OF s [unfolded limite_por_cliente_completo_def]] by blast
  then have "e' = Tipo_Nao_Texto"
    by (simp only: limite_de_grupo_Inl)
  then show "limite_por_cliente_completo vs = Inl e"
    using s e by simp
qed

lemma vinculo_tipo_nulo:
  "(\<exists>v\<in>set (cliente_cartao_limite cards ts). vk_tipo v = None) \<longleftrightarrow>
   (\<exists>(x, m)\<in>set (left_join_por (\<lambda>(c, k) kk. car_id kk = k) (cliente_cartao ts) cards). Option.bind m car_tipo = None)"
  unfolding cliente_cartao_limite_def by (auto split: prod.splits)

lemma juncao_tipo_nulo:
  "(\<exists>(x, m)\<in>set (left_join_por p xs ys). Option.bind m car_tipo = None) \<longleftrightarrow>
   (\<exists>x\<in>set xs. (\<forall>y\<in>set ys. \<not> p x y) \<or> (\<exists>y\<in>set ys. p x y \<and> car_tipo y = None))"
    (is "?l \<longleftrightarrow> ?r")
proof
  assume ?l
  then obtain x m where xm: "(x, m) \<in> set (left_join_por p xs ys)" "Option.bind m car_tipo = None"
    by blast
  show ?r
  proof (cases m)
    case None
    then have "x \<in> set xs" "\<forall>y\<in>set ys. \<not> p x y"
      using xm(1) by (auto simp: set_left_join_por filter_empty_conv)
    then show ?thesis
      by blast
  next
    case (Some y)
    then have "x \<in> set xs" "y \<in> set ys" "p x y" "car_tipo y = None"
      using xm by (auto simp: set_left_join_por)
    then show ?thesis
      by blast
  qed
next
  assume ?r
  then obtain x where x: "x \<in> set xs" and "(\<forall>y\<in>set ys. \<not> p x y) \<or> (\<exists>y\<in>set ys. p x y \<and> car_tipo y = None)"
    by blast
  then consider "\<forall>y\<in>set ys. \<not> p x y" | y where "y \<in> set ys" "p x y" "car_tipo y = None"
    by blast
  then show ?l
  proof cases
    case 1
    then have "(x, None) \<in> set (left_join_por p xs ys)"
      using x by (simp add: set_left_join_por filter_empty_conv)
    then show ?thesis
      by (rule bexI [rotated]) simp
  next
    case 2
    then have "(x, Some y) \<in> set (left_join_por p xs ys)"
      using x by (simp add: set_left_join_por)
    then show ?thesis
      by (rule bexI [rotated]) (simp add: 2(3))
  qed
qed

lemma tipo_nulo_vinculo_iff:
  "(\<exists>v\<in>set (cliente_cartao_limite cards ts). vk_tipo v = None) \<longleftrightarrow>
   (\<exists>t\<in>set ts. (\<forall>k\<in>set cards. car_id k \<noteq> tx_cartao t) \<or> (\<exists>k\<in>set cards. car_id k = tx_cartao t \<and> car_tipo k = None))"
  unfolding vinculo_tipo_nulo juncao_tipo_nulo cliente_cartao_def set_remdups set_map by auto

text \<open>C10: the uncorrected limits script stops with \<^verbatim>\<open>TypeError\<close> in
  \<^verbatim>\<open>', '.join(x.unique())\<close> exactly when some transaction uses a card that is missing from
  the card table or has no \<^verbatim>\<open>Tipo_Cartao\<close>: the left merge gives NaN there.\<close>

theorem tipo_nulo_iff:
  "analise_limites_vs_gastos cs cards ts = Inl Tipo_Nao_Texto \<longleftrightarrow>
   (\<exists>t\<in>set ts. (\<forall>k\<in>set cards. car_id k \<noteq> tx_cartao t) \<or> (\<exists>k\<in>set cards. car_id k = tx_cartao t \<and> car_tipo k = None))"
proof -
  have "analise_limites_vs_gastos cs cards ts = Inl Tipo_Nao_Texto \<longleftrightarrow>
        limite_por_cliente_completo (cliente_cartao_limite cards ts) = Inl Tipo_Nao_Texto"
    by (cases "limite_por_cliente_completo (cliente_cartao_limite cards ts)")
       (simp_all add: analise_limites_vs_gastos_def analise_limite_gasto_def Let_def)
  then show ?thesis
    by (simp only: limite_por_cliente_completo_Inl tipo_nulo_vinculo_iff simp_thms)
qed

theorem tipo_nulo_iff_witness: "analise_limites_vs_gastos [] cartoes_sem_tipo_ex transacoes_ex = Inl Tipo_Nao_Texto"
  by (rule tipo_nulo_iff [of "[]" cartoes_sem_tipo_ex transacoes_ex, THEN iffD2])
     (auto simp: cartoes_sem_tipo_ex_def transacoes_ex_def)

end
