(* ===== verification/Spec2Isabelle.thy ===== *)
theory Spec2Isabelle
  imports Limites_Gastos Banco_Esquema
begin

text \<open>
  \<^bold>\<open>Churn analysis scripts of the Priceless Bank: the models and what they prove.\<close>

  \<^medskip>
  \<^bold>\<open>The program.\<close> The repository is a set of analysis scripts over three tables
  (customers, cards, transactions). \<^verbatim>\<open>src/bd/criar_banco_sqlite.py\<close> loads the CSV
  files into a SQLite database with views and indices; most scripts run SQL queries on it,
  some run pandas pipelines on the CSV files directly. The recurring computation
  (spec.md, section 4.1) is the activity classification of customers: \<^emph>\<open>never
  activated\<close> without any transaction, \<^emph>\<open>inactive\<close> (churn) when the last transaction is
  older than a window of \<open>N\<close> days before the reference date, \<^emph>\<open>active\<close> otherwise, with
  the counts aggregated per category. The scripts differ in the window (30, 60, 90 days),
  in the categories and in how they join the tables.

  \<^medskip>
  \<^bold>\<open>Theories\<close>, in import order.
  \<^item> \<open>Churn_Prelude\<close>: shared types, named collections, list lemmas (counting,
    partitioning by a key, sums over permutations and sorted lists, text order).
  \<^item> \<open>Sql_Semantics\<close>: the SQLite operators (joins, \<^verbatim>\<open>GROUP BY\<close>, \<^verbatim>\<open>MAX\<close>,
    \<^verbatim>\<open>AVG\<close>, three-valued comparison, \<^verbatim>\<open>CASE\<close> on NULL, \<^verbatim>\<open>ROUND\<close>) and their laws.
  \<^item> \<open>Datas_Texto\<close>: timestamps as the texts \<^verbatim>\<open>to_sql\<close> stores and \<^verbatim>\<open>DATE(d, '-N days')\<close>;
    byte order of the texts is calendar order, and day subtraction (structural recursion
    on the number of days, no fuel) matches the day numbers (C14) and is defined for
    every window below the reference day number (C15).
  \<^item> \<open>Tabelas\<close>: the three tables as records, with pandas rounding.
  \<^item> \<open>Churn_Classificacao\<close> and \<open>Agregacao_Coorte\<close>: the query of
    \<^verbatim>\<open>src/novaAbordagem/analise_churn_completa_2024.py\<close> (CTEs, double LEFT JOIN, counts,
    percentages, \<^verbatim>\<open>ORDER BY 8 DESC\<close>, \<^verbatim>\<open>analise_base_completa\<close>): refinement of the
    last-transaction contract (C2), the inclusive cut-off (C5), customers without or with
    future transactions (C7, C8), partitions (C1, C3, C11), window monotonicity (C4),
    percentage bounds (C9); the population summary counts its inactive and active
    customers from the transactions alone, so unregistered customer ids add to its states
    (C12).
  \<^item> \<open>Faixas\<close>: the seven dimension queries of that script with their bands and card
    filters (C16, C18 to C22, C24).
  \<^item> \<open>Churn_60_Dias\<close>: \<^verbatim>\<open>src/analise_churn_2024_60dias_corrigida.py\<close> (C25, C27 to
    C29), with \<^verbatim>\<open>main\<close> on the builder's database: queries 2 and 4 read columns the
    \<^verbatim>\<open>clientes\<close> table does not have, and the first failure ends the run (C37).
  \<^item> \<open>Churn_SQL90\<close>: \<^verbatim>\<open>src/churn2024SQL90/analise_churn_2024_completa.py\<close> (C33, C34);
    its card queries count churn over (customer, attribute) pairs and the total over
    customers (C30).
  \<^item> \<open>Visoes_Banco\<close>: the derived columns and the views of the builder (C35).
  \<^item> \<open>Churn_Comparativo\<close>: \<^verbatim>\<open>src/churn2024SQLCOMP/analise_comparativa_churn_2024.py\<close> and
    \<^verbatim>\<open>src/analise_comparativa_churn_2024_corrigida.py\<close>, including \<^verbatim>\<open>main\<close> with its
    \<^verbatim>\<open>try\<close>/\<^verbatim>\<open>except\<close> as an execution record (C36 to C40).
  \<^item> \<open>Consultas_Exemplo\<close>: the sample queries and checks the builder prints, and the
    \<^verbatim>\<open>JULIANDAY\<close> reading of a timestamp text (round trip with the writer).
  \<^item> \<open>Banco_Esquema\<close>: the schema the builder creates, as a state machine of
    \<^verbatim>\<open>CREATE\<close>/\<^verbatim>\<open>to_sql\<close> steps over one case-insensitive namespace, with the invariant
    that every index names existing columns; the tables end up without keys (C17).
  \<^item> \<open>Distribuicao_Cartoes\<close>: \<^verbatim>\<open>src/analise_distribuicao_cartoes.py\<close>: two queries, the
    comparison query, the chart summary, the report and \<^verbatim>\<open>main\<close>; the report raises on a
    NULL card type (C31) and is consistent with both queries otherwise (C32); in
    \<^verbatim>\<open>main\<close> the chart raises first on the same cards.
  \<^item> \<open>Limites_Cartao\<close>: \<^verbatim>\<open>src/analiseCartoes1/analise_limites_corrigida.py\<close>, a pandas
    pipeline with float division (infinities, NaN) and four sequential
    \<^verbatim>\<open>df.loc[mask]\<close> assignments, proved equal to one decision (C6); its summary
    raises \<^verbatim>\<open>ZeroDivisionError\<close> exactly when no credit card of positive limit is used (C23).
  \<^item> \<open>Persona_Clientes\<close>: \<^verbatim>\<open>src/analise_persona_clientes.py\<close>: the query (its filter
    \<^verbatim>\<open>total_transacoes > 0\<close> is redundant; rows are customer and card-attribute pairs), the
    \<^verbatim>\<open>pd.cut\<close> bands, the report with mode and linear-interpolation quantile, and a bound
    on the size of its ``top 20\%''.
  \<^item> \<open>Renda_Idade\<close>: \<^verbatim>\<open>src/analise_renda_idade.py\<close>: age, bands and
    \<^verbatim>\<open>dropna\<close>, the Pearson correlation read through NaN (a NaN correlation is read as
    very strong), income per band with empty bands kept (the difference to the poorest band is
    then NaN, C13), income per exact age, the top-10\% profile and the figures per state.
  \<^item> \<open>Limites_Gastos\<close>: \<^verbatim>\<open>src/analiseCartoes1/analise_limites_vs_gastos_completa.py\<close>,
    the uncorrected limits script: it joins every card used (debit cards and missing cards
    included), its \<^verbatim>\<open>', '.join\<close> of card types raises exactly when a used card is missing or
    has no type (C10), its four masks equal one decision in which the income labels win (C26), the
    monthly spending agrees with \<open>Limites_Cartao\<close>, and the float mean refines the mean of
    the reals; evasion, critical cases, income bands and impact are modelled as printed.
  \<^item> this theory: example tables, the example query of
    \<^verbatim>\<open>src/relatorio_correcoes_implementadas.py\<close>, and the witnesses of the claims.

  \<^medskip>
  \<^bold>\<open>Modelling choices.\<close> A table is a list of records, \<^verbatim>\<open>SELECT DISTINCT\<close> is
  \<open>remdups\<close>, a NULL is \<open>None\<close>. Where SQL leaves the row order open, results are stated up
  to permutation or the model fixes the order of first appearance. REAL and pandas floats
  are exact reals with the decimal rounding of \<^verbatim>\<open>ROUND\<close> and \<^verbatim>\<open>Series.round\<close>; float
  infinities and NaN are modelled where a script divides by a value that can be zero.
  Python exceptions are values of a sum type; a script's \<^verbatim>\<open>main\<close> is a record of what
  each step produced. All functions are total by structural recursion; no fuel is needed.

  \<^medskip>
  \<^bold>\<open>Not modelled.\<close> Chart rendering, printing, file and database I/O; the
  market-share and benchmarking scripts (hard-coded figures); the hypothesis, recovery and
  statistics scripts (scipy tests and correlations); the correlations and product ranking of
  the persona report; the segmentation and factor scripts, the charts of the income-age script, the rigorous
  time comparison, pandas repetitions of computations
  modelled here, left for later work.
\<close>

section \<open>Example data\<close>

definition exemplo_linhas :: "(cliente_id \<times> unit) list" where
  "exemplo_linhas = [(1, ()), (2, ()), (3, ())]"

definition exemplo_transacoes :: "transacao list" where
  "exemplo_transacoes =
     [\<lparr>tx_cliente = 2, tx_cartao = 20, tx_data = ((2024, 9, 26), (14, 30, 0))\<rparr>,
      \<lparr>tx_cliente = 3, tx_cartao = 30, tx_data = ((2024, 12, 20), (9, 15, 0))\<rparr>]"

definition exemplo_resultado :: "unit linha_churn" where
  "exemplo_resultado =
     \<lparr>categoria = (), nunca_ativaram = 1, inativos = 1, ativos = 1, total = 3,
      perc_nunca_ativaram = 3333 / 100, perc_inativos = 3333 / 100, impacto_total = 6667 / 100\<rparr>"

definition exemplo_cliente :: "cliente_id \<Rightarrow> cliente" where
  "exemplo_cliente i =
     \<lparr>cli_id = i, cli_idade = 30, cli_renda = Some 60000, cli_criacao_conta = Some ((2023, 5, 10), (0, 0, 0)),
      cli_estado = ''SP'', cli_conta_adicional = Some ''Sim''\<rparr>"

text \<open>Customers, cards and transactions for the card-based queries: customer 1 never
  transacts; customer 2 uses a credit card and a debit card; customer 3 only the debit
  card, which has no limit and was issued on 2025-01-30, a month after the reference
  date.\<close>

definition exemplo_cartao :: "cartao_id \<Rightarrow> texto option \<Rightarrow> real option \<Rightarrow> carimbo option \<Rightarrow> cartao" where
  "exemplo_cartao i tipo limite emissao =
     \<lparr>car_id = i, car_produto = Some ''Black'', car_tipo = tipo, car_emissao = emissao, car_limite = limite\<rparr>"

definition exemplo_tx :: "cliente_id \<Rightarrow> cartao_id \<Rightarrow> transacao" where
  "exemplo_tx c k = \<lparr>tx_cliente = c, tx_cartao = k, tx_data = ((2024, 12, 20), (10, 0, 0))\<rparr>"

definition cartoes_exemplo :: "cartao list" where
  "cartoes_exemplo =
     [exemplo_cartao 10 (Some ''Credito'') (Some 5000) (Some ((2022, 3, 1), (0, 0, 0))),
      exemplo_cartao 11 (Some ''Debito'') None (Some ((2025, 1, 30), (0, 0, 0)))]"

definition transacoes_cartoes_exemplo :: "transacao list" where
  "transacoes_cartoes_exemplo = [exemplo_tx 2 10, exemplo_tx 2 11, exemplo_tx 3 11]"

definition clientes_exemplo :: "cliente list" where
  "clientes_exemplo = [exemplo_cliente 1, exemplo_cliente 2, exemplo_cliente 3]"

definition linha_sem_cartao :: "texto option linha_churn" where
  "linha_sem_cartao =
     \<lparr>categoria = Some texto_sem_cartao_ativo, nunca_ativaram = 1, inativos = 0, ativos = 0, total = 1,
      perc_nunca_ativaram = 100, perc_inativos = 0, impacto_total = 100\<rparr>"

definition linha_limite_2500_5000 :: "rotulo_limite linha_churn" where
  "linha_limite_2500_5000 =
     \<lparr>categoria = Limite_2500_5000, nunca_ativaram = 0, inativos = 0, ativos = 1, total = 1,
      perc_nunca_ativaram = 0, perc_inativos = 0, impacto_total = 0\<rparr>"

text \<open>Cards and transactions for the 60-day queries: customer 1 uses a credit and a
  debit card, last on 2024-08-02, and is in churn; customer 2 uses the credit card on
  2024-12-01; customer 3 uses a card issued on 2023-02-01, before the account was
  created on 2023-05-10.\<close>

definition exemplo_tx_em :: "cliente_id \<Rightarrow> cartao_id \<Rightarrow> data_civil \<Rightarrow> transacao" where
  "exemplo_tx_em c k d = \<lparr>tx_cliente = c, tx_cartao = k, tx_data = (d, (12, 0, 0))\<rparr>"

definition cartoes_60 :: "cartao list" where
  "cartoes_60 =
     [exemplo_cartao 20 (Some ''Credito'') (Some 3000) (Some ((2024, 1, 1), (0, 0, 0))),
      exemplo_cartao 21 (Some ''Debito'') (Some 0) (Some ((2024, 1, 1), (0, 0, 0))),
      exemplo_cartao 22 (Some ''Pre-pago'') None (Some ((2023, 2, 1), (0, 0, 0)))]"

definition transacoes_60 :: "transacao list" where
  "transacoes_60 =
     [exemplo_tx_em 1 20 (2024, 8, 1), exemplo_tx_em 1 21 (2024, 8, 2),
      exemplo_tx_em 2 20 (2024, 12, 1), exemplo_tx_em 3 22 (2024, 12, 2)]"

text \<open>Two cards issued in 2024 with limits 500 and 1000, both used by customer 1 before
  the 90-day cut-off.\<close>

definition cartoes_sql90 :: "cartao list" where
  "cartoes_sql90 =
     [exemplo_cartao 40 (Some ''Credito'') (Some 500) (Some ((2024, 3, 1), (0, 0, 0))),
      exemplo_cartao 41 (Some ''Credito'') (Some 1000) (Some ((2024, 4, 1), (0, 0, 0)))]"

definition transacoes_sql90 :: "transacao list" where
  "transacoes_sql90 = [exemplo_tx_em 1 40 (2024, 5, 1), exemplo_tx_em 1 41 (2024, 6, 1)]"

text \<open>A full transaction row of customer 2, paid with a digital wallet.\<close>

definition exemplo_tx_completa :: "transacao_completa" where
  "exemplo_tx_completa =
     \<lparr>tx_cliente = 2, tx_cartao = 10, tx_data = ((2024, 5, 1), (12, 0, 0)), tx_id = 1, tx_valor = Some 50,
      tx_wallet = Some ''Apple Pay'', tx_input_mode = None\<rparr>"

text \<open>Headers of the three CSV files with the column names the scripts read.\<close>

definition cabecalho_clientes :: "texto list" where
  "cabecalho_clientes = [''Cliente_ID'', ''Data_Nascimento'', ''Renda_Anual'', ''Data_Criacao_Conta'',
     ''Numero_Cartoes'', ''Cidade'', ''Estado'', ''Possui_Conta_Adicional'']"

definition cabecalho_cartoes :: "texto list" where
  "cabecalho_cartoes = [''ID_Cartao'', ''Produto_Mastercard'', ''Tipo_Cartao'', ''Data_Emissao'', ''Data_Ativacao'',
     ''Data_Validade'', ''Limite_Cartao'']"

definition cabecalho_transacoes :: "texto list" where
  "cabecalho_transacoes = [''ID_Transacao'', ''Data'', ''Valor_Compra'', ''Industria'', ''Tipo_Compra'',
     ''Qtd_Parcelas'', ''Wallet'', ''Cliente_ID'', ''ID_Cartao'', ''Input_Mode'']"

text \<open>The query \<^verbatim>\<open>CONSULTA_EXEMPLO\<close> of \<^verbatim>\<open>src/relatorio_correcoes_implementadas.py\<close>:
  the card-type query of the 60-day script with the 90-day cut-off.\<close>

definition consulta_exemplo_correcoes ::
  "cliente list \<Rightarrow> cartao list \<Rightarrow> transacao list \<Rightarrow> texto option linha_taxa list" where
  "consulta_exemplo_correcoes cs cards ts =
     ordena_desc taxa_churn
       (consulta_taxa fst snd corte_90 ts (associacao_valida (\<lambda>k. True) car_tipo ts cards cs))"

section \<open>Witnesses of the aggregation claims\<close>

lemma exemplo_consulta_membro:
  "exemplo_resultado \<in> set (consulta_churn fst (\<lambda>_. ()) (2024, 12, 30) 90 exemplo_transacoes exemplo_linhas)"
  by (simp add: churn_simps exemplo_linhas_def exemplo_transacoes_def exemplo_resultado_def)

lemma exemplo_hipoteses:
  "data_valida (2024, 12, 30)" "date_menos_dias (2024, 12, 30) 90 = Some (2024, 10, 1)"
  "carimbos_textuais exemplo_transacoes"
  by (simp_all add: churn_simps exemplo_transacoes_def)

theorem consulta_churn_particao_witness:
  "exemplo_resultado \<in> set (consulta_churn fst (\<lambda>_. ()) (2024, 12, 30) 90 exemplo_transacoes exemplo_linhas) \<and>
   nunca_ativaram exemplo_resultado + inativos exemplo_resultado + ativos exemplo_resultado = total exemplo_resultado"
  using exemplo_consulta_membro
    consulta_churn_particao [where key = fst and rotulo = "\<lambda>_. ()" and ref = "(2024, 12, 30)" and dias = 90
      and ts = exemplo_transacoes and rows = exemplo_linhas]
  by blast

theorem consulta_churn_percentuais_witness:
  "exemplo_resultado \<in> set (consulta_churn fst (\<lambda>_. ()) (2024, 12, 30) 90 exemplo_transacoes exemplo_linhas) \<and>
   0 \<le> perc_nunca_ativaram exemplo_resultado \<and> perc_nunca_ativaram exemplo_resultado \<le> 100 \<and>
   0 \<le> perc_inativos exemplo_resultado \<and> perc_inativos exemplo_resultado \<le> 100 \<and>
   0 \<le> impacto_total exemplo_resultado \<and> impacto_total exemplo_resultado \<le> 100 \<and>
   \<bar>impacto_total exemplo_resultado - (perc_nunca_ativaram exemplo_resultado + perc_inativos exemplo_resultado)\<bar> \<le> 1 / 100"
  using exemplo_consulta_membro
    consulta_churn_percentuais [where key = fst and rotulo = "\<lambda>_. ()" and ref = "(2024, 12, 30)" and dias = 90
      and ts = exemplo_transacoes and rows = exemplo_linhas]
  by blast

theorem juntar_churn_refina_status_spec_witness:
  "data_valida (2024, 12, 30) \<and> date_menos_dias (2024, 12, 30) 90 = Some (2024, 10, 1) \<and>
   carimbos_textuais exemplo_transacoes \<and>
   (((2, ()), Some 2), None) \<in> set (juntar_churn fst (2024, 12, 30) 90 exemplo_transacoes exemplo_linhas) \<and>
   (conta_nunca (((2::int, ()), Some (2::int)), None::int option) \<longleftrightarrow>
      status_spec (2024, 10, 1) (ultima_transacao exemplo_transacoes 2) = Nunca_Ativou) \<and>
   (conta_inativo (((2::int, ()), Some (2::int)), None::int option) \<longleftrightarrow>
      status_spec (2024, 10, 1) (ultima_transacao exemplo_transacoes 2) = Inativo) \<and>
   (conta_ativo (((2::int, ()), Some (2::int)), None::int option) \<longleftrightarrow>
      status_spec (2024, 10, 1) (ultima_transacao exemplo_transacoes 2) = Ativo)"
proof -
  have m: "(((2::int, ()), Some (2::int)), None::int option) \<in> set (juntar_churn fst (2024, 12, 30) 90 exemplo_transacoes exemplo_linhas)"
    by (simp add: churn_simps exemplo_linhas_def exemplo_transacoes_def)
  show ?thesis
    using juntar_churn_refina_status_spec [OF exemplo_hipoteses m] exemplo_hipoteses m by simp
qed

theorem consulta_churn_mono_janela_witness:
  "(30::nat) \<le> 90 \<and> data_valida (2024, 12, 30) \<and> date_menos_dias (2024, 12, 30) 90 \<noteq> None \<and>
   (\<Sum>l\<leftarrow>consulta_churn fst (\<lambda>_. ()) (2024, 12, 30) 30 exemplo_transacoes exemplo_linhas. ativos l)
     \<le> (\<Sum>l\<leftarrow>consulta_churn fst (\<lambda>_. ()) (2024, 12, 30) 90 exemplo_transacoes exemplo_linhas. ativos l) \<and>
   (\<Sum>l\<leftarrow>consulta_churn fst (\<lambda>_. ()) (2024, 12, 30) 90 exemplo_transacoes exemplo_linhas. inativos l)
     \<le> (\<Sum>l\<leftarrow>consulta_churn fst (\<lambda>_. ()) (2024, 12, 30) 30 exemplo_transacoes exemplo_linhas. inativos l) \<and>
   (\<Sum>l\<leftarrow>consulta_churn fst (\<lambda>_. ()) (2024, 12, 30) 90 exemplo_transacoes exemplo_linhas. nunca_ativaram l)
     = (\<Sum>l\<leftarrow>consulta_churn fst (\<lambda>_. ()) (2024, 12, 30) 30 exemplo_transacoes exemplo_linhas. nunca_ativaram l)"
proof -
  have h: "(30::nat) \<le> 90" "date_menos_dias (2024, 12, 30) 90 \<noteq> None"
    using exemplo_hipoteses(2) by simp_all
  show ?thesis
    using consulta_churn_mono_janela [OF h(1) exemplo_hipoteses(1) h(2), where key = fst
        and rotulo = "\<lambda>_. ()" and ts = exemplo_transacoes and rows = exemplo_linhas]
      h exemplo_hipoteses(1) by blast
qed

theorem resumo_base_particao_witness:
  "distinct (map cli_id [exemplo_cliente 1, exemplo_cliente 2, exemplo_cliente 3]) \<and>
   set (map tx_cliente exemplo_transacoes) \<subseteq> set (map cli_id [exemplo_cliente 1, exemplo_cliente 2, exemplo_cliente 3]) \<and>
   resumo_nunca (resumo_base (2024, 12, 30) 90 [exemplo_cliente 1, exemplo_cliente 2, exemplo_cliente 3] exemplo_transacoes)
   + resumo_inativos (resumo_base (2024, 12, 30) 90 [exemplo_cliente 1, exemplo_cliente 2, exemplo_cliente 3] exemplo_transacoes)
   + resumo_ativos (resumo_base (2024, 12, 30) 90 [exemplo_cliente 1, exemplo_cliente 2, exemplo_cliente 3] exemplo_transacoes)
   = total_clientes (resumo_base (2024, 12, 30) 90 [exemplo_cliente 1, exemplo_cliente 2, exemplo_cliente 3] exemplo_transacoes) \<and>
   total_com_problemas (resumo_base (2024, 12, 30) 90 [exemplo_cliente 1, exemplo_cliente 2, exemplo_cliente 3] exemplo_transacoes)
   = resumo_nunca (resumo_base (2024, 12, 30) 90 [exemplo_cliente 1, exemplo_cliente 2, exemplo_cliente 3] exemplo_transacoes)
   + resumo_inativos (resumo_base (2024, 12, 30) 90 [exemplo_cliente 1, exemplo_cliente 2, exemplo_cliente 3] exemplo_transacoes)"
proof -
  have d: "distinct (map cli_id [exemplo_cliente 1, exemplo_cliente 2, exemplo_cliente 3])"
    and s: "set (map tx_cliente exemplo_transacoes) \<subseteq> set (map cli_id [exemplo_cliente 1, exemplo_cliente 2, exemplo_cliente 3])"
    by (simp_all add: exemplo_cliente_def exemplo_transacoes_def)
  show ?thesis
    using resumo_base_particao [OF d s, where ref = "(2024, 12, 30)" and dias = 90] d s by blast
qed

section \<open>Witnesses of the band and card claims\<close>

lemmas exemplo_cartoes_defs = clientes_exemplo_def cartoes_exemplo_def transacoes_cartoes_exemplo_def
  exemplo_cliente_def exemplo_cartao_def exemplo_tx_def

theorem tempo_cartao_sentinela_witness:
  "juliano_data data_referencia - juliano ((2025, 1, 30), (0, 0, 0)) = - 31 \<and>
   tempo_cartao (meses_desde data_referencia (Some ((2025, 1, 30), (0, 0, 0)))) = Sem_cartao_ativo"
proof -
  have d: "juliano_data data_referencia - juliano ((2025, 1, 30), (0, 0, 0)) = - 31"
    by (simp add: churn_simps bissexto_def dias_no_mes_def upt_rec)
  show ?thesis
    using d tempo_cartao_sentinela [of data_referencia "((2025, 1, 30), (0, 0, 0))"] by simp
qed

theorem clientes_por_cartao_cobertura_witness:
  "2 \<in> fst ` set (clientes_por_cartao (\<lambda>k. car_limite k \<noteq> None) car_limite (Some (- 1))
                    transacoes_cartoes_exemplo cartoes_exemplo clientes_exemplo) \<and>
   3 \<notin> fst ` set (clientes_por_cartao (\<lambda>k. car_limite k \<noteq> None) car_limite (Some (- 1))
                    transacoes_cartoes_exemplo cartoes_exemplo clientes_exemplo)"
  using clientes_por_cartao_cobertura [of 2 "\<lambda>k. car_limite k \<noteq> None" car_limite "Some (- 1)"
          transacoes_cartoes_exemplo cartoes_exemplo clientes_exemplo]
        clientes_por_cartao_cobertura [of 3 "\<lambda>k. car_limite k \<noteq> None" car_limite "Some (- 1)"
          transacoes_cartoes_exemplo cartoes_exemplo clientes_exemplo]
  by (simp add: exemplo_cartoes_defs)

theorem analise_4_nunca_so_sem_cartao_witness:
  "linha_sem_cartao \<in> set (analise_4_tipo_cartao clientes_exemplo cartoes_exemplo transacoes_cartoes_exemplo) \<and>
   nunca_ativaram linha_sem_cartao = total linha_sem_cartao \<and> inativos linha_sem_cartao = 0 \<and>
   ativos linha_sem_cartao = 0"
proof -
  have l: "linha_sem_cartao \<in> set (analise_4_tipo_cartao clientes_exemplo cartoes_exemplo transacoes_cartoes_exemplo)"
    by (simp add: churn_simps exemplo_cartoes_defs linha_sem_cartao_def)
  have t: "\<forall>k\<in>set cartoes_exemplo. car_tipo k \<noteq> Some texto_sem_cartao_ativo"
    by (simp add: churn_simps exemplo_cartoes_defs)
  show ?thesis
    using l t analise_4_nunca_so_sem_cartao [OF l] by (simp add: linha_sem_cartao_def)
qed

theorem analise_4_dupla_contagem_witness:
  "card (fst ` set (clientes_por_cartao (\<lambda>k. True) car_tipo (Some texto_sem_cartao_ativo)
                      transacoes_cartoes_exemplo cartoes_exemplo clientes_exemplo))
     < (\<Sum>l\<leftarrow>analise_4_tipo_cartao clientes_exemplo cartoes_exemplo transacoes_cartoes_exemplo. total l)"
proof -
  let ?rows = "clientes_por_cartao (\<lambda>k. True) car_tipo (Some texto_sem_cartao_ativo)
                 transacoes_cartoes_exemplo cartoes_exemplo clientes_exemplo"
  have "(2, Some ''Credito'') \<in> set ?rows" and "(2, Some ''Debito'') \<in> set ?rows"
    by (simp_all add: churn_simps exemplo_cartoes_defs)
  then show ?thesis by (rule analise_4_dupla_contagem) simp
qed

theorem analise_7_sem_outros_witness:
  "linha_limite_2500_5000 \<in> set (analise_7_limite clientes_exemplo cartoes_exemplo transacoes_cartoes_exemplo) \<and>
   categoria linha_limite_2500_5000 \<noteq> Limite_outros"
proof -
  have l: "linha_limite_2500_5000 \<in> set (analise_7_limite clientes_exemplo cartoes_exemplo transacoes_cartoes_exemplo)"
    by (simp add: churn_simps exemplo_cartoes_defs linha_limite_2500_5000_def)
  show ?thesis using l analise_7_sem_outros [OF l] by simp
qed

theorem analises_clientes_soma_total_witness:
  "(\<Sum>l\<leftarrow>analise_1_idade clientes_exemplo transacoes_cartoes_exemplo. total l) = 3 \<and>
   (\<Sum>l\<leftarrow>analise_2_renda clientes_exemplo transacoes_cartoes_exemplo. total l) = 3 \<and>
   (\<Sum>l\<leftarrow>analise_3_tempo_conta clientes_exemplo transacoes_cartoes_exemplo. total l) = 3"
proof -
  have d: "distinct (map cli_id clientes_exemplo)" by (simp add: exemplo_cartoes_defs)
  have n: "length clientes_exemplo = 3" by (simp add: clientes_exemplo_def)
  show ?thesis using analises_clientes_soma_total [OF d] n by simp
qed

section \<open>Witnesses of the 60-day claims\<close>

lemmas exemplo_60_defs = cartoes_60_def transacoes_60_def exemplo_tx_em_def exemplo_cartao_def
  clientes_exemplo_def exemplo_cliente_def

theorem consulta_taxa_churn_multiplicado_witness:
  "(\<Sum>l\<leftarrow>consulta_taxa fst snd corte_60 transacoes_60
            (associacao_valida (\<lambda>k. True) car_tipo transacoes_60 cartoes_60 clientes_exemplo). n_churn l) = 4 \<and>
   length (filter (\<lambda>c. c \<notin> set (clientes_ativos corte_60 transacoes_60)) (clientes_com_transacoes transacoes_60)) = 1"
  using consulta_taxa_churn_multiplicado [of fst snd corte_60 transacoes_60
          "associacao_valida (\<lambda>k. True) car_tipo transacoes_60 cartoes_60 clientes_exemplo"]
  by (simp add: churn_simps exemplo_60_defs)

theorem consulta_taxa_clientes_distintos_witness:
  "(\<Sum>l\<leftarrow>consulta_taxa fst (\<lambda>r. faixa_etaria (snd r)) corte_60 transacoes_60
            (clientes_transacionaram cli_idade clientes_exemplo transacoes_60). n_churn l) = 1"
proof -
  have d: "distinct (map cli_id clientes_exemplo)" by (simp add: exemplo_60_defs)
  show ?thesis
    using consulta_taxa_clientes_distintos [OF d, of "\<lambda>r. faixa_etaria (snd r)" corte_60 transacoes_60 cli_idade]
    by (simp add: churn_simps exemplo_60_defs)
qed

theorem associacao_valida_filtro_witness:
  "(1, Some ''Credito'') \<in> set (associacao_valida (\<lambda>k. True) car_tipo transacoes_60 cartoes_60 clientes_exemplo) \<and>
   (3, Some ''Pre-pago'') \<notin> set (associacao_valida (\<lambda>k. True) car_tipo transacoes_60 cartoes_60 clientes_exemplo)"
proof -
  have k: "\<forall>k\<in>set cartoes_60. \<forall>e. car_emissao k = Some e \<longrightarrow> carimbo_textual e"
    and c: "\<forall>c\<in>set clientes_exemplo. \<forall>e. cli_criacao_conta c = Some e \<longrightarrow> carimbo_textual e"
    by (simp_all add: churn_simps exemplo_60_defs data_textual_def)
  show ?thesis
    using associacao_valida_filtro [OF k c, of 1 "Some ''Credito''" "\<lambda>k. True" car_tipo transacoes_60]
          associacao_valida_filtro [OF k c, of 3 "Some ''Pre-pago''" "\<lambda>k. True" car_tipo transacoes_60]
    by (simp add: exemplo_60_defs)
qed

section \<open>Witnesses of the SQL90 claims\<close>

theorem periodo_2024_iff_witness:
  "\<not> periodo_2024 (Some ((2024, 12, 31), (0, 0, 0)))"
proof -
  have t: "carimbo_textual ((2024, 12, 31), (0, 0, 0))" by (simp add: churn_simps data_textual_def)
  show ?thesis using periodo_2024_iff [OF t] by simp
qed

theorem indicador_churn_refina_status_witness:
  "indicador_churn (Some (2, texto_carimbo ((2024, 9, 26), (14, 30, 0)))) = 1 \<and>
   status_spec (2024, 10, 1) (ultima_transacao exemplo_transacoes 2) = Inativo"
proof -
  have t: "\<forall>t\<in>set exemplo_transacoes. carimbo_textual (tx_data t)"
    by (simp add: churn_simps exemplo_transacoes_def data_textual_def)
  have m: "(2, texto_carimbo ((2024, 9, 26), (14, 30, 0))) \<in> set (ultima_transacao_por_cliente exemplo_transacoes)"
    by (simp add: churn_simps exemplo_transacoes_def)
  have s: "status_spec (2024, 10, 1) (ultima_transacao exemplo_transacoes 2) = Inativo"
    by (simp add: churn_simps exemplo_transacoes_def)
  show ?thesis using indicador_churn_refina_status [OF t m] s by simp
qed

section \<open>Witness of the view claim\<close>

theorem visoes_sem_transacoes_ativo_witness:
  "vr_total_transacoes (hd (vw_resumo_cliente [exemplo_cliente 1, exemplo_cliente 2] [exemplo_tx_completa])) = 0 \<and>
   vr_status (hd (vw_resumo_cliente [exemplo_cliente 1, exemplo_cliente 2] [exemplo_tx_completa])) = Status_ativo"
proof -
  have m: "hd (vw_resumo_cliente [exemplo_cliente 1, exemplo_cliente 2] [exemplo_tx_completa])
      \<in> set (vw_resumo_cliente [exemplo_cliente 1, exemplo_cliente 2] [exemplo_tx_completa])"
    and z: "vr_total_transacoes (hd (vw_resumo_cliente [exemplo_cliente 1, exemplo_cliente 2] [exemplo_tx_completa])) = 0"
    by (simp_all add: churn_simps exemplo_cliente_def exemplo_tx_completa_def)
  show ?thesis using visoes_sem_transacoes_ativo [of "[exemplo_cliente 1, exemplo_cliente 2]" "[exemplo_tx_completa]"] m z
    by blast
qed

section \<open>Witnesses of the comparative claims\<close>

theorem obter_dados_churn_antitono_witness:
  "(60::nat) \<le> 90 \<and> date_menos_dias data_referencia 90 \<noteq> None \<and>
   list_all2 (\<lambda>a b. categoria_comp a = categoria_comp b \<and> total_comp a = total_comp b \<and> churn_comp a \<le> churn_comp b)
     (obter_dados_churn 90 clientes_exemplo cartoes_sql90 transacoes_sql90)
     (obter_dados_churn 60 clientes_exemplo cartoes_sql90 transacoes_sql90)"
proof -
  have d: "date_menos_dias data_referencia 90 \<noteq> None" by (simp add: date_menos_dias_referencia_90)
  show ?thesis using obter_dados_churn_antitono [of 60 90, OF _ d] d by simp
qed

section \<open>Witnesses of the builder claims\<close>

theorem criar_banco_sem_chaves_witness:
  "\<exists>db. criar_banco cabecalho_clientes cabecalho_cartoes cabecalho_transacoes = Inr db \<and>
        tabelas db ''clientes'' = Some (tabela_de_dataframe (colunas_clientes_df cabecalho_clientes)) \<and>
        list_all (\<lambda>n. case tabelas db n of None \<Rightarrow> False
                       | Some t \<Rightarrow> \<not> list_ex col_chave_primaria (tab_colunas t) \<and> tab_chaves_estrangeiras t = [])
          [''clientes'', ''cartoes'', ''transacoes'']"
proof -
  have "\<exists>db. criar_banco cabecalho_clientes cabecalho_cartoes cabecalho_transacoes = Inr db"
    using criar_banco_Inr_iff [of cabecalho_clientes cabecalho_cartoes cabecalho_transacoes]
    by (simp add: cabecalho_clientes_def cabecalho_cartoes_def cabecalho_transacoes_def chave_nome_def
        minuscula_def less_eq_char_def char_of_def bit_0)
  then obtain db where d: "criar_banco cabecalho_clientes cabecalho_cartoes cabecalho_transacoes = Inr db" ..
  show ?thesis using criar_banco_sem_chaves [OF d] d by blast
qed

section \<open>Witnesses of the claims on unregistered customers, SQL90 cards and the 60-day main\<close>

theorem resumo_base_transacoes_orfas_witness:
  "resumo_nunca (resumo_base (2024, 12, 30) 90 [exemplo_cliente 1] [exemplo_tx_em 2 20 (2024, 12, 1)])
     + resumo_inativos (resumo_base (2024, 12, 30) 90 [exemplo_cliente 1] [exemplo_tx_em 2 20 (2024, 12, 1)])
     + resumo_ativos (resumo_base (2024, 12, 30) 90 [exemplo_cliente 1] [exemplo_tx_em 2 20 (2024, 12, 1)])
   = total_clientes (resumo_base (2024, 12, 30) 90 [exemplo_cliente 1] [exemplo_tx_em 2 20 (2024, 12, 1)])
     + length (filter (\<lambda>c. c \<notin> set (map cli_id [exemplo_cliente 1]))
                 (clientes_com_transacoes [exemplo_tx_em 2 20 (2024, 12, 1)]))"
proof -
  have d: "distinct (map cli_id [exemplo_cliente 1])" by simp
  show ?thesis by (rule resumo_base_transacoes_orfas [OF d])
qed

theorem sql90_limite_conta_pares_witness:
  "churn_90 (hd (sql90_9_limite cartoes_sql90 transacoes_sql90)) =
     length (filter (\<lambda>p. faixa_limite_90 (snd p) = categoria_90 (hd (sql90_9_limite cartoes_sql90 transacoes_sql90)) \<and>
                         indicador_churn (Some (fst p, ultima_data transacoes_sql90 (fst p))) = 1)
               (pares_2024 car_limite transacoes_sql90 cartoes_sql90)) \<and>
   total_90 (hd (sql90_9_limite cartoes_sql90 transacoes_sql90)) =
     length (remdups (map fst (filter (\<lambda>p. faixa_limite_90 (snd p) = categoria_90 (hd (sql90_9_limite cartoes_sql90 transacoes_sql90)))
                                 (pares_2024 car_limite transacoes_sql90 cartoes_sql90))))"
proof -
  have m: "hd (sql90_9_limite cartoes_sql90 transacoes_sql90) \<in> set (sql90_9_limite cartoes_sql90 transacoes_sql90)"
    by (simp add: churn_simps cartoes_sql90_def transacoes_sql90_def exemplo_cartao_def exemplo_tx_em_def
      dia_anterior_def dias_no_mes_def bissexto_def)
  show ?thesis by (rule sql90_limite_conta_pares [OF m])
qed

theorem main_60_para_sem_renda_witness:
  "ex60_erro (main_60 (banco_carregado cabecalho_clientes [] []) [] [] []) = Some (Coluna_Inexistente ''clientes'' ''Renda'') \<and>
   ex60_resumo (main_60 (banco_carregado cabecalho_clientes [] []) [] [] []) = None"
  using main_60_para_sem_renda [of "banco_carregado cabecalho_clientes [] []" cabecalho_clientes "[]" "[]" "[]"]
  by (simp add: banco_carregado_def cabecalho_clientes_def chave_nome_def minuscula_def less_eq_char_def
      char_of_def bit_0)

end
